(* ===== verification/Prelude.thy ===== *)
theory Prelude
  imports Main "HOL-Library.Word"
begin

text \<open>
  Shared vocabulary of the development: the machine integers of the Rust code, the
  \<open>Result\<close> type as a sum with \<open>Inl\<close> for the error, the \<open>?\<close> operator as \<open>rbind\<close>, the loops
  that stop at the first error (\<open>try_each\<close>, \<open>try_map\<close>, \<open>try_fold\<close>), the checked and
  saturating arithmetic of \<open>u32\<close> and \<open>u64\<close>, and the interface \<open>gate\<close> that every validation
  stage of the policy satisfies: it accepts exactly the inputs of a predicate and rejects
  all others with an error out of a known set.
\<close>

section \<open>Types and lemma collections\<close>

type_synonym u8 = "8 word"
type_synonym u16 = "16 word"
type_synonym u32 = "32 word"
type_synonym u64 = "64 word"
type_synonym bytes = "u8 list"

named_theorems res_simps \<open>inversion of the error monad\<close>
named_theorems word_simps \<open>checked machine arithmetic read as natural numbers\<close>

section \<open>Results\<close>

definition rbind :: "'e + 'a \<Rightarrow> ('a \<Rightarrow> 'e + 'b) \<Rightarrow> 'e + 'b" where
  "rbind m f = (case m of Inl e \<Rightarrow> Inl e | Inr x \<Rightarrow> f x)"

definition ok_or :: "'e \<Rightarrow> 'a option \<Rightarrow> 'e + 'a" where
  "ok_or e m = (case m of None \<Rightarrow> Inl e | Some x \<Rightarrow> Inr x)"

definition ensure :: "bool \<Rightarrow> 'e \<Rightarrow> 'e + unit" where
  "ensure b e = (if b then Inr () else Inl e)"

lemma rbind_simps [simp]:
  "rbind (Inl e) f = Inl e"
  "rbind (Inr x) f = f x"
  by (simp_all add: rbind_def)

lemma rbind_Inr_iff [res_simps]: "rbind m f = Inr y \<longleftrightarrow> (\<exists>x. m = Inr x \<and> f x = Inr y)"
  by (cases m) auto

lemma rbind_Inl_iff [res_simps]:
  "rbind m f = Inl e \<longleftrightarrow> m = Inl e \<or> (\<exists>x. m = Inr x \<and> f x = Inl e)"
  by (cases m) auto

lemma rbind_Inr_right [simp]: "rbind m Inr = m"
  by (cases m) auto

lemma ok_or_simps [simp]:
  "ok_or e None = Inl e"
  "ok_or e (Some x) = Inr x"
  by (simp_all add: ok_or_def)

lemma ok_or_Inr_iff [res_simps]: "ok_or e m = Inr x \<longleftrightarrow> m = Some x"
  by (cases m) auto

lemma ok_or_Inl_iff [res_simps]: "ok_or e m = Inl e' \<longleftrightarrow> m = None \<and> e' = e"
  by (cases m) auto

lemma ensure_Inr_iff [res_simps]: "ensure b e = Inr u \<longleftrightarrow> b"
  by (simp add: ensure_def)

lemma ensure_Inl_iff [res_simps]: "ensure b e = Inl e' \<longleftrightarrow> \<not> b \<and> e' = e"
  by (auto simp: ensure_def)

lemma ensure_simps [simp]:
  "ensure True e = Inr ()"
  "ensure False e = Inl e"
  by (simp_all add: ensure_def)

lemma if_Inl_eq_Inr [res_simps]:
  "(if b then Inl e else m) = Inr x \<longleftrightarrow> \<not> b \<and> m = Inr x"
  "(if b then m else Inl e) = Inr x \<longleftrightarrow> b \<and> m = Inr x"
  by auto

text \<open>The errors of a chain of stages: each stage is analysed under the success of those before it.\<close>

definition errs_in :: "'e set \<Rightarrow> 'e + 'a \<Rightarrow> bool" where
  "errs_in S m \<longleftrightarrow> (\<forall>e. m = Inl e \<longrightarrow> e \<in> S)"

lemma errs_inI: "(\<And>e. m = Inl e \<Longrightarrow> e \<in> S) \<Longrightarrow> errs_in S m"
  by (simp add: errs_in_def)

lemma errs_inD: "errs_in S m \<Longrightarrow> m = Inl e \<Longrightarrow> e \<in> S"
  by (simp add: errs_in_def)

lemma errs_in_bind:
  "errs_in S m \<Longrightarrow> (\<And>x. m = Inr x \<Longrightarrow> errs_in S (f x)) \<Longrightarrow> errs_in S (rbind m f)"
  by (cases m) (auto simp: errs_in_def)

lemma errs_in_if:
  "(b \<Longrightarrow> errs_in S m) \<Longrightarrow> (\<not> b \<Longrightarrow> errs_in S n) \<Longrightarrow> errs_in S (if b then m else n)"
  by simp

lemma errs_in_simps [simp]: "errs_in S (Inr x)" "errs_in S (Inl e) \<longleftrightarrow> e \<in> S"
  by (auto simp: errs_in_def)

section \<open>Loops that stop at the first error\<close>

fun try_each :: "('a \<Rightarrow> 'e + unit) \<Rightarrow> 'a list \<Rightarrow> 'e + unit" where
  "try_each f [] = Inr ()"
| "try_each f (x # xs) = rbind (f x) (\<lambda>_. try_each f xs)"

fun try_map :: "('a \<Rightarrow> 'e + 'b) \<Rightarrow> 'a list \<Rightarrow> 'e + 'b list" where
  "try_map f [] = Inr []"
| "try_map f (x # xs) = rbind (f x) (\<lambda>y. rbind (try_map f xs) (\<lambda>ys. Inr (y # ys)))"

fun try_fold :: "('b \<Rightarrow> 'a \<Rightarrow> 'e + 'b) \<Rightarrow> 'b \<Rightarrow> 'a list \<Rightarrow> 'e + 'b" where
  "try_fold f s [] = Inr s"
| "try_fold f s (x # xs) = rbind (f s x) (\<lambda>s'. try_fold f s' xs)"

fun nth_opt :: "'a list \<Rightarrow> nat \<Rightarrow> 'a option" where
  "nth_opt [] n = None"
| "nth_opt (x # xs) 0 = Some x"
| "nth_opt (x # xs) (Suc n) = nth_opt xs n"

lemma try_each_Inr_iff [res_simps]: "try_each f xs = Inr u \<longleftrightarrow> (\<forall>x\<in>set xs. f x = Inr ())"
  by (induction xs) (auto simp: res_simps)

lemma try_each_InlD: "try_each f xs = Inl e \<Longrightarrow> \<exists>x\<in>set xs. f x = Inl e"
  by (induction xs) (auto simp: res_simps)

lemma try_map_Inr_iff [res_simps]:
  "try_map f xs = Inr ys \<longleftrightarrow> list_all2 (\<lambda>x y. f x = Inr y) xs ys"
proof (induction xs arbitrary: ys)
  case Nil
  then show ?case by (cases ys) auto
next
  case (Cons x xs)
  then show ?case by (cases ys) (auto simp: res_simps)
qed

lemma try_map_InlD: "try_map f xs = Inl e \<Longrightarrow> \<exists>x\<in>set xs. f x = Inl e"
  by (induction xs) (auto simp: res_simps)

lemma try_fold_append: "try_fold f s (xs @ ys) = rbind (try_fold f s xs) (\<lambda>s'. try_fold f s' ys)"
proof (induction xs arbitrary: s)
  case (Cons x xs)
  then show ?case by (cases "f s x") auto
qed simp

text \<open>Two loops whose bodies agree element by element, such as an indexed loop and a zipped one.\<close>

lemma try_each_cong2: "list_all2 (\<lambda>x y. f x = g y) xs ys \<Longrightarrow> try_each f xs = try_each g ys"
  by (induction rule: list_all2_induct) auto

lemma try_map_cong2: "list_all2 (\<lambda>x y. f x = g y) xs ys \<Longrightarrow> try_map f xs = try_map g ys"
  by (induction rule: list_all2_induct) auto

lemma enumerate_zip:
  "length ys = length xs \<Longrightarrow> (\<And>i. i < length xs \<Longrightarrow> P (i, xs ! i) (ys ! i, xs ! i)) \<Longrightarrow>
   list_all2 P (enumerate 0 xs) (zip ys xs)"
  by (simp add: list_all2_conv_all_nth nth_enumerate_eq)

lemma try_each_panic_free:
  "(\<And>x. x \<in> set xs \<Longrightarrow> f x \<noteq> Inl e) \<Longrightarrow> try_each f xs \<noteq> Inl e"
  by (auto dest: try_each_InlD)

lemma nth_opt_Some_iff [simp]: "nth_opt xs n = Some x \<longleftrightarrow> n < length xs \<and> xs ! n = x"
  by (induction xs n rule: nth_opt.induct) auto

lemma nth_opt_None_iff [simp]: "nth_opt xs n = None \<longleftrightarrow> length xs \<le> n"
  by (induction xs n rule: nth_opt.induct) auto

lemma find_SomeD: "find P xs = Some x \<Longrightarrow> x \<in> set xs \<and> P x"
  by (auto simp: find_Some_iff)

lemma find_None_iff_set: "find P xs = None \<longleftrightarrow> (\<forall>x\<in>set xs. \<not> P x)"
  by (auto simp: find_None_iff)

lemma find_filter: "find P xs = (case filter P xs of [] \<Rightarrow> None | x # _ \<Rightarrow> Some x)"
  by (induction xs) auto

lemma sum_list_partition:
  "(\<Sum>x\<leftarrow>xs. f x) = (\<Sum>x\<leftarrow>filter P xs. f x) + (\<Sum>x\<leftarrow>filter (\<lambda>x. \<not> P x) xs. f x)"
  for f :: "'a \<Rightarrow> nat"
  by (induction xs) auto

lemma find_append_None: "\<forall>x\<in>set xs. \<not> P x \<Longrightarrow> find P (xs @ ys) = find P ys"
  by (induction xs) auto

lemma zip_list_all2_set:
  "length xs = length ys \<Longrightarrow> (\<forall>p\<in>set (zip xs ys). P (fst p) (snd p)) \<longleftrightarrow> list_all2 P xs ys"
  by (auto simp: list_all2_iff)

section \<open>Checked machine arithmetic\<close>

definition checked_add :: "'l::len word \<Rightarrow> 'l word \<Rightarrow> 'l word option" where
  "checked_add a b = (if unat a + unat b < 2 ^ LENGTH('l) then Some (a + b) else None)"

definition checked_sub :: "'l::len word \<Rightarrow> 'l word \<Rightarrow> 'l word option" where
  "checked_sub a b = (if b \<le> a then Some (a - b) else None)"

definition checked_mul :: "'l::len word \<Rightarrow> 'l word \<Rightarrow> 'l word option" where
  "checked_mul a b = (if unat a * unat b < 2 ^ LENGTH('l) then Some (a * b) else None)"

definition saturating_sub :: "'l::len word \<Rightarrow> 'l word \<Rightarrow> 'l word" where
  "saturating_sub a b = (if b \<le> a then a - b else 0)"

lemma unat_add_lt: "unat a + unat b < 2 ^ LENGTH('l) \<Longrightarrow> unat (a + b) = unat a + unat b"
  for a b :: "'l::len word"
  by (simp add: unat_word_ariths)

lemma unat_mult_lt: "unat a * unat b < 2 ^ LENGTH('l) \<Longrightarrow> unat (a * b) = unat a * unat b"
  for a b :: "'l::len word"
  by (simp add: unat_word_ariths)

lemma word_eq_unat_iff: "a = b \<longleftrightarrow> unat a = unat b" for a b :: "'l::len word"
  by (auto simp: word_unat_eq_iff)

lemma unat_lt: "unat a < 2 ^ LENGTH('l)" for a :: "'l::len word"
  by (rule unsigned_less)

lemma checked_add_Some_iff [word_simps]:
  "checked_add a b = Some c \<longleftrightarrow> unat c = unat a + unat b"
  for a b c :: "'l::len word"
  using unat_add_lt [of a b]
  by (auto simp: checked_add_def word_eq_unat_iff) (metis unat_lt)

lemma checked_add_None_iff [word_simps]:
  "checked_add a b = None \<longleftrightarrow> 2 ^ LENGTH('l) \<le> unat a + unat b"
  for a b :: "'l::len word"
  by (auto simp: checked_add_def)

lemma checked_sub_Some_iff [word_simps]:
  "checked_sub a b = Some c \<longleftrightarrow> unat a = unat b + unat c"
  for a b c :: "'l::len word"
  by (auto simp: checked_sub_def word_le_nat_alt unat_sub word_eq_unat_iff)

lemma checked_sub_None_iff [word_simps]: "checked_sub a b = None \<longleftrightarrow> unat a < unat b"
  by (auto simp: checked_sub_def word_le_nat_alt)

lemma checked_mul_Some_iff [word_simps]:
  "checked_mul a b = Some c \<longleftrightarrow> unat c = unat a * unat b"
  for a b c :: "'l::len word"
  using unat_mult_lt [of a b]
  by (auto simp: checked_mul_def word_eq_unat_iff) (metis unat_lt)

lemma checked_mul_None_iff [word_simps]:
  "checked_mul a b = None \<longleftrightarrow> 2 ^ LENGTH('l) \<le> unat a * unat b"
  for a b :: "'l::len word"
  by (auto simp: checked_mul_def)

lemma unat_saturating_sub [word_simps]: "unat (saturating_sub a b) = unat a - unat b"
  by (auto simp: saturating_sub_def word_le_nat_alt unat_sub)

lemma unat_ucast_widen [word_simps]:
  "LENGTH('k) \<le> LENGTH('l) \<Longrightarrow> unat (ucast w :: 'l::len word) = unat w" for w :: "'k::len word"
proof -
  assume le: "LENGTH('k) \<le> LENGTH('l)"
  have "unat w < 2 ^ LENGTH('l)"
    using unat_lt [of w] power_increasing [OF le, of "2::nat"] by linarith
  then have "unat (of_nat (unat w) :: 'l word) = unat w"
    by (simp only: unat_of_nat mod_less)
  then show ?thesis by (simp only: of_nat_unat)
qed

text \<open>
  The accumulation loop \<open>total = total.checked_add(x)?\<close> that the code runs over inputs,
  outputs, coins and velocity samples.
\<close>

definition checked_sum :: "'e \<Rightarrow> ('a \<Rightarrow> 'l::len word) \<Rightarrow> 'l word \<Rightarrow> 'a list \<Rightarrow> 'e + 'l word" where
  "checked_sum e f = try_fold (\<lambda>total x. ok_or e (checked_add total (f x)))"

lemma checked_sum_simps [simp]:
  "checked_sum e f t [] = Inr t"
  "checked_sum e f t (x # xs) =
     rbind (ok_or e (checked_add t (f x))) (\<lambda>t'. checked_sum e f t' xs)"
  by (simp_all add: checked_sum_def)

lemma checked_sum_Inr_iff [res_simps]:
  fixes t s :: "'l::len word"
  shows "checked_sum e f t xs = Inr s \<longleftrightarrow> unat s = unat t + (\<Sum>x\<leftarrow>xs. unat (f x))"
proof (induction xs arbitrary: t)
  case Nil
  then show ?case by (auto simp: word_eq_unat_iff)
next
  case (Cons x xs)
  show ?case
  proof (cases "checked_add t (f x)")
    case None
    then have "2 ^ LENGTH('l) \<le> unat t + unat (f x)" by (simp add: word_simps)
    moreover have "unat s < unat t + unat (f x) + n" if "2 ^ LENGTH('l) \<le> unat t + unat (f x)" for n
      using that by (metis add_lessD1 le_add1 less_le_trans order.trans unat_lt)
    ultimately show ?thesis using None by (fastforce simp: add.assoc)
  next
    case (Some t')
    then have "unat t' = unat t + unat (f x)" by (simp add: word_simps)
    with Some Cons.IH [of t'] show ?thesis by (simp add: add.assoc)
  qed
qed

lemma checked_sum_cases:
  fixes t :: "'l::len word"
  obtains (fits) s where "checked_sum e f t xs = Inr s"
      "unat s = unat t + (\<Sum>x\<leftarrow>xs. unat (f x))"
  | (overflows) "checked_sum e f t xs = Inl e"
      "2 ^ LENGTH('l) \<le> unat t + (\<Sum>x\<leftarrow>xs. unat (f x))"
proof (induction xs arbitrary: t thesis)
  case Nil
  then show ?case by simp
next
  case (Cons x xs)
  show ?case
  proof (cases "checked_add t (f x)")
    case None
    then have "2 ^ LENGTH('l) \<le> unat t + unat (f x)" by (simp add: word_simps)
    with None show ?thesis using Cons.prems(2) by simp
  next
    case (Some t')
    then have "unat t' = unat t + unat (f x)" by (simp add: word_simps)
    with Some show ?thesis
      using Cons.IH [of t'] Cons.prems by (simp add: add.assoc) blast
  qed
qed

lemma checked_sum_Inl_iff [res_simps]:
  fixes t :: "'l::len word"
  shows "checked_sum e f t xs = Inl e' \<longleftrightarrow>
    e' = e \<and> 2 ^ LENGTH('l) \<le> unat t + (\<Sum>x\<leftarrow>xs. unat (f x))"
proof (cases rule: checked_sum_cases [of e f t xs])
  case (fits s)
  with unat_lt [of s] show ?thesis by auto
next
  case overflows
  then show ?thesis by auto
qed

section \<open>Text\<close>

text \<open>Rust's \<open>Display\<close> of an unsigned integer: decimal, no leading zeros.\<close>

fun show_nat :: "nat \<Rightarrow> string" where
  "show_nat n =
     (if n < 10 then [char_of (48 + n)] else show_nat (n div 10) @ [char_of (48 + n mod 10)])"

declare show_nat.simps [simp del]

definition ascii :: "string \<Rightarrow> bytes" where
  "ascii s = map (\<lambda>c. word_of_nat (of_char c)) s"

lemma byte_mod [simp]: "(of_nat (unat b mod 256) :: u8) = b" for b :: u8
proof -
  have "unat b mod 256 = unat b" using unat_lt [of b] by simp
  then show ?thesis by simp
qed

section \<open>The contract of a validation stage\<close>

locale gate =
  fixes check :: "'a \<Rightarrow> 'e + unit"
    and holds :: "'a \<Rightarrow> bool"
    and errs :: "'e set"
  assumes accepts: "check x = Inr () \<longleftrightarrow> holds x"
    and rejects: "check x = Inl e \<Longrightarrow> e \<in> errs"
begin

lemma rejects_iff: "(\<exists>e\<in>errs. check x = Inl e) \<longleftrightarrow> \<not> holds x"
  by (metis (full_types) Inl_Inr_False accepts old.unit.exhaust rejects sum.exhaust)

lemma each_accepts: "try_each check xs = Inr () \<longleftrightarrow> (\<forall>x\<in>set xs. holds x)"
  by (simp add: res_simps accepts)

lemma each_rejects: "try_each check xs = Inl e \<Longrightarrow> e \<in> errs"
  by (auto dest!: try_each_InlD rejects)

lemma each_first_failure:
  assumes "\<forall>x\<in>set xs. holds x" and "\<not> holds y"
  shows "try_each check (xs @ y # ys) = check y"
  using assms
proof (induction xs)
  case Nil
  then show ?case using accepts [of y] by (cases "check y") auto
next
  case (Cons x xs)
  then show ?case using accepts [of x] by auto
qed

end

end
