(* ===== verification/Errors.thy ===== *)
theory Errors
  imports Prelude
begin

text \<open>
  The stable, enumerable reject codes of the policy crate (\<open>tesaurus-policy/src/error.rs\<close>), the
  locked constants (\<open>constants.rs\<close>) and the result type of every policy function. A
  \<open>PolicyError\<close> is its code: the diagnostic text beside it is not modelled. A panic
  (\<open>expect\<close>, an index out of range) is the separate value \<open>Panic\<close>, so that its absence is a
  theorem about the code.
\<close>

section \<open>Reject codes\<close>

datatype policy_error_code =
    PsbtParse | UnknownField | Sighash | DescriptorMismatch | KeySubstitution
  | WrongNetwork | WrongGenesis | InputScript | ForeignInput | NotRecoveryPath
  | PrevoutMissing | PrevoutMismatch | CsvImmatureDepth | CsvImmatureWallclock | Sequence
  | Change | Fee | Dust | Locktime | Velocity
  | Replay | ReplayConflict | ConfirmRequired | ConfirmInvalid | Auth
  | Internal | FeeBumpInvalid

definition ALL_codes :: "policy_error_code list" where
  "ALL_codes =
  [PsbtParse, UnknownField, Sighash, DescriptorMismatch, KeySubstitution,
   WrongNetwork, WrongGenesis, InputScript, ForeignInput, NotRecoveryPath,
   PrevoutMissing, PrevoutMismatch, CsvImmatureDepth, CsvImmatureWallclock, Sequence,
   Change, Fee, Dust, Locktime, Velocity,
   Replay, ReplayConflict, ConfirmRequired, ConfirmInvalid, Auth,
   Internal, FeeBumpInvalid]"

fun as_str :: "policy_error_code \<Rightarrow> string" where
  "as_str PsbtParse = ''PSBT_PARSE''"
| "as_str UnknownField = ''UNKNOWN_FIELD''"
| "as_str Sighash = ''SIGHASH''"
| "as_str DescriptorMismatch = ''DESCRIPTOR_MISMATCH''"
| "as_str KeySubstitution = ''KEY_SUBSTITUTION''"
| "as_str WrongNetwork = ''WRONG_NETWORK''"
| "as_str WrongGenesis = ''WRONG_GENESIS''"
| "as_str InputScript = ''INPUT_SCRIPT''"
| "as_str ForeignInput = ''FOREIGN_INPUT''"
| "as_str NotRecoveryPath = ''NOT_RECOVERY_PATH''"
| "as_str PrevoutMissing = ''PREVOUT_MISSING''"
| "as_str PrevoutMismatch = ''PREVOUT_MISMATCH''"
| "as_str CsvImmatureDepth = ''CSV_IMMATURE_DEPTH''"
| "as_str CsvImmatureWallclock = ''CSV_IMMATURE_WALLCLOCK''"
| "as_str Sequence = ''SEQUENCE''"
| "as_str Change = ''CHANGE''"
| "as_str Fee = ''FEE''"
| "as_str Dust = ''DUST''"
| "as_str Locktime = ''LOCKTIME''"
| "as_str Velocity = ''VELOCITY''"
| "as_str Replay = ''REPLAY''"
| "as_str ReplayConflict = ''REPLAY_CONFLICT''"
| "as_str ConfirmRequired = ''CONFIRM_REQUIRED''"
| "as_str ConfirmInvalid = ''CONFIRM_INVALID''"
| "as_str Auth = ''AUTH''"
| "as_str Internal = ''INTERNAL''"
| "as_str FeeBumpInvalid = ''FEE_BUMP_INVALID''"

datatype fault = Reject policy_error_code | Panic

type_synonym 'a policy_result = "fault + 'a"

abbreviation reject :: "policy_error_code \<Rightarrow> 'a policy_result" where
  "reject c \<equiv> Inl (Reject c)"

text \<open>\<open>FromStr\<close>: the loop over \<open>ALL_codes\<close> returns the first code of that name.\<close>

definition from_str :: "string \<Rightarrow> policy_error_code policy_result" where
  "from_str s =
     (case find (\<lambda>code. as_str code = s) ALL_codes of
        Some code \<Rightarrow> Inr code
      | None \<Rightarrow> reject Internal)"

section \<open>Locked constants\<close>

definition CSV_BLOCKS_DEFAULT :: u32 where "CSV_BLOCKS_DEFAULT = 4320"

definition SAFETY_MARGIN_BLOCKS :: u32 where "SAFETY_MARGIN_BLOCKS = 1008"

definition WALL_CLOCK_SECONDS_PER_BLOCK :: u64 where "WALL_CLOCK_SECONDS_PER_BLOCK = 600"

definition VELOCITY_PER_SIG_SATS :: u64 where "VELOCITY_PER_SIG_SATS = 10000000"

definition VELOCITY_PER_144_SATS :: u64 where "VELOCITY_PER_144_SATS = 50000000"

definition VELOCITY_WINDOW_BLOCKS :: u32 where "VELOCITY_WINDOW_BLOCKS = 144"

definition MAX_POLICY_FEE_SATS :: u64 where "MAX_POLICY_FEE_SATS = 1000000"

definition MAX_POLICY_INPUTS :: nat where "MAX_POLICY_INPUTS = 100"

lemmas policy_constants =
  CSV_BLOCKS_DEFAULT_def SAFETY_MARGIN_BLOCKS_def WALL_CLOCK_SECONDS_PER_BLOCK_def
  VELOCITY_PER_SIG_SATS_def VELOCITY_PER_144_SATS_def VELOCITY_WINDOW_BLOCKS_def
  MAX_POLICY_FEE_SATS_def MAX_POLICY_INPUTS_def

section \<open>The enumerable surface\<close>

lemma ALL_codes_complete: "c \<in> set ALL_codes"
  by (cases c) (simp_all add: ALL_codes_def)

lemma ALL_codes_distinct: "distinct ALL_codes"
  by (simp add: ALL_codes_def)

lemma find_as_str: "find (\<lambda>code. as_str code = as_str c) ALL_codes = Some c"
  by (cases c) (simp_all add: ALL_codes_def)

lemma as_str_inj: "as_str a = as_str b \<Longrightarrow> a = b"
  by (metis find_as_str option.inject)

lemma from_str_as_str: "from_str (as_str c) = Inr c"
  by (simp add: from_str_def find_as_str)

lemma from_str_Inr_iff: "from_str s = Inr c \<longleftrightarrow> s = as_str c"
  by (auto simp: from_str_def find_as_str split: option.splits dest: find_SomeD)

text \<open>
  The wire names of the reject codes are a stable enumeration. \<open>ALL_codes\<close> lists each of the 27
  codes exactly once, \<open>from_str\<close> inverts \<open>as_str\<close> on every code, and every string that is no
  code's name is refused with \<open>INTERNAL\<close>.\<close>

theorem codes_enumerable:
  "distinct ALL_codes \<and> set ALL_codes = UNIV \<and> length ALL_codes = 27 \<and>
   from_str (as_str c) = Inr c \<and>
   from_str s = (if s \<in> range as_str then Inr (inv as_str s) else reject Internal)"
proof -
  have "from_str s = (if s \<in> range as_str then Inr (inv as_str s) else reject Internal)"
  proof (cases "s \<in> range as_str")
    case True
    then obtain d where d: "s = as_str d" by blast
    have "inv as_str s = d"
      unfolding d by (rule inv_f_f) (auto intro: injI as_str_inj)
    with True d show ?thesis by (simp add: from_str_as_str)
  next
    case False
    then have "find (\<lambda>code. as_str code = s) ALL_codes = None"
      by (auto simp: find_None_iff_set)
    with False show ?thesis by (simp add: from_str_def)
  qed
  moreover have "set ALL_codes = UNIV" by (auto intro: ALL_codes_complete)
  ultimately show ?thesis
    by (simp add: ALL_codes_distinct from_str_as_str) (simp add: ALL_codes_def)
qed

text \<open>The order of \<open>ALL_codes\<close> is part of the surface: it is the linear order of the codes.\<close>

definition code_index :: "policy_error_code \<Rightarrow> nat" where
  "code_index c = length (takeWhile (\<lambda>d. d \<noteq> c) ALL_codes)"

lemma ALL_codes_code_index: "ALL_codes ! code_index c = c"
  by (cases c) (simp_all add: code_index_def ALL_codes_def)

lemma code_index_inj: "code_index a = code_index b \<Longrightarrow> a = b"
  by (metis ALL_codes_code_index)

instantiation policy_error_code :: linorder
begin

definition less_eq_policy_error_code :: "policy_error_code \<Rightarrow> policy_error_code \<Rightarrow> bool" where
  "less_eq_policy_error_code a b \<longleftrightarrow> code_index a \<le> code_index b"

definition less_policy_error_code :: "policy_error_code \<Rightarrow> policy_error_code \<Rightarrow> bool" where
  "less_policy_error_code a b \<longleftrightarrow> code_index a < code_index b"

instance
  by standard
    (auto simp: less_eq_policy_error_code_def less_policy_error_code_def intro: code_index_inj)

end

end
