(* ===== verification/Csv.thy ===== *)
theory Csv
  imports Errors
begin

text \<open>
  CSV depth and wall-clock maturity (\<open>tesaurus-policy/src/csv.rs\<close>): the checked \<open>u32\<close> and \<open>u64\<close>
  arithmetic of the code, its exact acceptance condition over the natural numbers and the
  independence of the two bounds.
\<close>

section \<open>The code\<close>

definition csv_depth :: "u32 \<Rightarrow> u32 \<Rightarrow> u32 policy_result" where
  "csv_depth tip_height confirm_height =
     ok_or (Reject CsvImmatureDepth)
       (Option.bind (checked_sub tip_height confirm_height) (\<lambda>delta. checked_add delta 1))"

definition csv_depth_is_mature :: "u32 \<Rightarrow> u32 \<Rightarrow> u32 \<Rightarrow> bool" where
  "csv_depth_is_mature depth csv_blocks safety_margin =
     (case checked_add csv_blocks safety_margin of
        Some need \<Rightarrow> need \<le> depth
      | None \<Rightarrow> False)"

definition wall_clock_deadline_unix :: "u64 \<Rightarrow> u32 \<Rightarrow> u32 \<Rightarrow> u64 policy_result" where
  "wall_clock_deadline_unix t_confirm_unix csv_blocks safety_margin =
     rbind (ok_or (Reject CsvImmatureWallclock) (checked_add csv_blocks safety_margin)) (\<lambda>blocks.
     rbind (ok_or (Reject CsvImmatureWallclock)
              (checked_mul (ucast blocks) WALL_CLOCK_SECONDS_PER_BLOCK)) (\<lambda>delta.
     ok_or (Reject CsvImmatureWallclock) (checked_add t_confirm_unix delta)))"

definition wall_clock_is_mature :: "u64 \<Rightarrow> u64 \<Rightarrow> u32 \<Rightarrow> u32 \<Rightarrow> bool policy_result" where
  "wall_clock_is_mature now_unix t_confirm_unix csv_blocks safety_margin =
     rbind (wall_clock_deadline_unix t_confirm_unix csv_blocks safety_margin)
       (\<lambda>deadline. Inr (deadline \<le> now_unix))"

definition check_csv_maturity ::
    "u32 \<Rightarrow> u32 \<Rightarrow> u64 \<Rightarrow> u64 \<Rightarrow> u32 \<Rightarrow> u32 \<Rightarrow> unit policy_result" where
  "check_csv_maturity tip_height confirm_height now_unix t_confirm_unix csv_blocks safety_margin =
     rbind (csv_depth tip_height confirm_height) (\<lambda>depth.
     if \<not> csv_depth_is_mature depth csv_blocks safety_margin then reject CsvImmatureDepth
     else rbind (wall_clock_is_mature now_unix t_confirm_unix csv_blocks safety_margin) (\<lambda>mature.
       if \<not> mature then reject CsvImmatureWallclock else Inr ()))"

section \<open>Reading the arithmetic\<close>

lemma csv_depth_Inr_iff:
  "csv_depth tip h = Inr d \<longleftrightarrow> unat h \<le> unat tip \<and> unat d = unat tip - unat h + 1"
proof (cases "checked_sub tip h")
  case None
  then have "unat tip < unat h" by (simp add: word_simps)
  with None show ?thesis by (simp add: csv_depth_def)
next
  case (Some delta)
  then have "unat tip = unat h + unat delta" by (simp add: word_simps)
  with Some show ?thesis by (simp add: csv_depth_def res_simps) (simp add: word_simps)
qed

lemma csv_depth_Inl: "csv_depth tip h = Inl e \<Longrightarrow> e = Reject CsvImmatureDepth"
  by (simp add: csv_depth_def res_simps)

lemma csv_depth_is_mature_iff:
  "csv_depth_is_mature d csv m \<longleftrightarrow> unat csv + unat m \<le> unat d"
proof (cases "checked_add csv m")
  case None
  then have "2 ^ 32 \<le> unat csv + unat m" by (simp add: word_simps)
  with None unat_lt [of d] show ?thesis by (simp add: csv_depth_is_mature_def)
next
  case (Some need)
  then have "unat need = unat csv + unat m" by (simp add: word_simps)
  with Some show ?thesis by (simp add: csv_depth_is_mature_def word_le_nat_alt)
qed

text \<open>
  The duration product cannot overflow: 32-bit blocks times 600 stay below \<open>2 ^ 42\<close>, so the
  code's \<open>wall-clock duration overflow\<close> branch is never taken.
\<close>

lemma wall_clock_product_fits:
  "checked_mul (ucast blocks :: u64) WALL_CLOCK_SECONDS_PER_BLOCK \<noteq> None"
  for blocks :: u32
proof -
  have "unat blocks < 2 ^ 32" using unat_lt [of blocks] by simp
  then show ?thesis
    by (simp add: word_simps policy_constants)
qed

lemma wall_clock_deadline_Inr_iff:
  "wall_clock_deadline_unix t csv m = Inr d \<longleftrightarrow>
   unat csv + unat m < 2 ^ 32 \<and> unat d = unat t + (unat csv + unat m) * 600"
proof (cases "checked_add csv m")
  case None
  then have "2 ^ 32 \<le> unat csv + unat m" by (simp add: word_simps)
  with None show ?thesis by (simp add: wall_clock_deadline_unix_def)
next
  case (Some blocks)
  then have b: "unat blocks = unat csv + unat m" by (simp add: word_simps)
  have "unat blocks < 2 ^ 32" using unat_lt [of blocks] by simp
  then have "unat (ucast blocks * 600 :: u64) = (unat csv + unat m) * 600"
    unfolding b [symmetric] by (subst unat_mult_lt) (simp_all add: word_simps)
  moreover have "checked_mul (ucast blocks) WALL_CLOCK_SECONDS_PER_BLOCK = Some (ucast blocks * 600)"
    using calculation b by (simp add: word_simps policy_constants)
  ultimately show ?thesis
    using Some b \<open>unat blocks < 2 ^ 32\<close>
    by (simp add: wall_clock_deadline_unix_def res_simps) (simp add: word_simps)
qed

lemma wall_clock_deadline_Inl:
  "wall_clock_deadline_unix t csv m = Inl e \<Longrightarrow> e = Reject CsvImmatureWallclock"
  by (auto simp: wall_clock_deadline_unix_def res_simps)

lemma csv_depth_Inl_iff:
  "csv_depth tip h = Inl e \<longleftrightarrow>
   e = Reject CsvImmatureDepth \<and> (unat tip < unat h \<or> 2 ^ 32 \<le> unat tip - unat h + 1)"
proof (cases "checked_sub tip h")
  case None
  then have "unat tip < unat h" by (simp add: word_simps)
  with None show ?thesis by (auto simp: csv_depth_def)
next
  case (Some delta)
  then have "unat tip = unat h + unat delta" by (simp add: word_simps)
  with Some show ?thesis by (simp add: csv_depth_def res_simps) (auto simp: word_simps)
qed

lemma wall_clock_is_mature_cases:
  assumes "unat csv + unat m < 2 ^ 32"
  shows "wall_clock_is_mature now t csv m =
     (if unat t + (unat csv + unat m) * 600 < 2 ^ 64
      then Inr (unat t + (unat csv + unat m) * 600 \<le> unat now)
      else reject CsvImmatureWallclock)"
proof (cases "wall_clock_deadline_unix t csv m")
  case (Inl e)
  then have e: "e = Reject CsvImmatureWallclock" by (rule wall_clock_deadline_Inl)
  have "2 ^ 64 \<le> unat t + (unat csv + unat m) * 600"
  proof (rule ccontr)
    assume "\<not> 2 ^ 64 \<le> unat t + (unat csv + unat m) * 600"
    then have "unat (word_of_nat (unat t + (unat csv + unat m) * 600) :: u64) =
        unat t + (unat csv + unat m) * 600"
      by (simp only: unat_of_nat) simp
    with assms have "wall_clock_deadline_unix t csv m =
        Inr (word_of_nat (unat t + (unat csv + unat m) * 600))"
      by (simp add: wall_clock_deadline_Inr_iff)
    with Inl show False by simp
  qed
  with Inl e show ?thesis by (simp add: wall_clock_is_mature_def)
next
  case (Inr d)
  then have d: "unat d = unat t + (unat csv + unat m) * 600"
    by (simp add: wall_clock_deadline_Inr_iff)
  moreover have "unat d < 2 ^ 64" using unat_lt [of d] by simp
  ultimately show ?thesis
    using Inr by (simp add: wall_clock_is_mature_def word_le_nat_alt)
qed

definition csv_mature :: "u32 \<Rightarrow> u32 \<Rightarrow> u64 \<Rightarrow> u64 \<Rightarrow> u32 \<Rightarrow> u32 \<Rightarrow> bool" where
  "csv_mature tip h now t csv m \<longleftrightarrow>
     unat h \<le> unat tip \<and> unat tip - unat h + 1 < 2 ^ 32 \<and>
     unat csv + unat m \<le> unat tip - unat h + 1 \<and>
     unat t + (unat csv + unat m) * 600 \<le> unat now"

lemma check_csv_maturity_cases:
  "check_csv_maturity tip h now t csv m =
     (if unat tip < unat h \<or> unat tip - unat h + 1 < unat csv + unat m
         \<or> 2 ^ 32 \<le> unat tip - unat h + 1
      then reject CsvImmatureDepth
      else if unat now < unat t + (unat csv + unat m) * 600
      then reject CsvImmatureWallclock
      else Inr ())"
proof (cases "csv_depth tip h")
  case (Inl e)
  then have "check_csv_maturity tip h now t csv m = Inl e"
    by (simp add: check_csv_maturity_def)
  moreover from Inl have "e = Reject CsvImmatureDepth"
    "unat tip < unat h \<or> 2 ^ 32 \<le> unat tip - unat h + 1"
    by (simp_all only: csv_depth_Inl_iff)
  ultimately show ?thesis by auto
next
  case (Inr d)
  then have d: "unat h \<le> unat tip" "unat d = unat tip - unat h + 1"
    by (simp_all add: csv_depth_Inr_iff)
  have fits: "unat d < 2 ^ 32" using unat_lt [of d] by simp
  show ?thesis
  proof (cases "unat csv + unat m \<le> unat d")
    case False
    with Inr d show ?thesis by (simp add: check_csv_maturity_def csv_depth_is_mature_iff)
  next
    case True
    with fits have "unat csv + unat m < 2 ^ 32" by simp
    with Inr d True fits unat_lt [of now] show ?thesis
      by (auto simp: check_csv_maturity_def csv_depth_is_mature_iff wall_clock_is_mature_cases)
  qed
qed

lemma check_csv_maturity_Inr_iff:
  "check_csv_maturity tip h now t csv m = Inr u \<longleftrightarrow> csv_mature tip h now t csv m"
  by (auto simp: check_csv_maturity_cases csv_mature_def)

interpretation csv_gate: gate
  "\<lambda>(tip, h, now, t, csv, m). check_csv_maturity tip h now t csv m"
  "\<lambda>(tip, h, now, t, csv, m). csv_mature tip h now t csv m"
  "{Reject CsvImmatureDepth, Reject CsvImmatureWallclock}"
proof (unfold_locales, goal_cases)
  case (1 x)
  then show ?case by (cases x) (simp add: check_csv_maturity_Inr_iff)
next
  case (2 x e)
  then show ?case by (cases x) (simp add: check_csv_maturity_cases split: if_splits)
qed

section \<open>Exact acceptance\<close>

text \<open>
  C27: the maturity check decides exactly the two documented bounds over the unbounded natural
  numbers: the depth bound first (a confirmation above the tip, a depth below
  \<open>csv + margin\<close> or a depth that does not fit 32 bits is \<open>CSV_IMMATURE_DEPTH\<close>), then the
  wall-clock bound of 600 seconds per block; no wrap-around of the machine arithmetic can
  make an immature coin pass.
\<close>

theorem check_csv_maturity_exact:
  "check_csv_maturity tip h now t csv m =
     (if unat tip < unat h \<or> unat tip - unat h + 1 < unat csv + unat m
         \<or> 2 ^ 32 \<le> unat tip - unat h + 1
      then reject CsvImmatureDepth
      else if unat now < unat t + (unat csv + unat m) * 600
      then reject CsvImmatureWallclock
      else Inr ())"
  by (rule check_csv_maturity_cases)

text \<open>
  Maturity is never lost. A coin that passes both bounds still passes them at any later tip
  (whose depth still fits 32 bits) and any later clock reading.\<close>

theorem csv_maturity_persists:
  assumes "check_csv_maturity tip h now t csv m = Inr ()"
    and "tip \<le> tip'" and "now \<le> now'" and "unat tip' - unat h + 1 < 2 ^ 32"
  shows "check_csv_maturity tip' h now' t csv m = Inr ()"
  using assms by (auto simp: check_csv_maturity_Inr_iff csv_mature_def word_le_nat_alt)

theorem csv_maturity_persists_witness:
  "check_csv_maturity 5377 50 1803196800 1800000000 4320 1008 = Inr () \<and>
   check_csv_maturity 9000 50 1900000000 1800000000 4320 1008 = Inr ()"
proof -
  have now: "check_csv_maturity 5377 50 1803196800 1800000000 4320 1008 = Inr ()"
    by (simp add: check_csv_maturity_Inr_iff csv_mature_def)
  then have "check_csv_maturity 9000 50 1900000000 1800000000 4320 1008 = Inr ()"
    by (rule csv_maturity_persists) simp_all
  with now show ?thesis by blast
qed

text \<open>
  With the locked constants no agent-path spend is mature before 5328 confirmations and
  before 37 days (3196800 seconds) after its confirming header, whatever the node reports for
  the other bound.
\<close>

theorem locked_bound_is_37_days:
  assumes "check_csv_maturity tip h now t CSV_BLOCKS_DEFAULT SAFETY_MARGIN_BLOCKS = Inr ()"
  shows "unat h + 5327 \<le> unat tip \<and> unat t + 37 * 24 * 60 * 60 \<le> unat now"
  using assms by (auto simp: check_csv_maturity_Inr_iff csv_mature_def policy_constants)

theorem locked_bound_is_37_days_witness:
  "unat (50 :: u32) + 5327 \<le> unat (5377 :: u32) \<and>
   unat (1800000000 :: u64) + 37 * 24 * 60 * 60 \<le> unat (1803196800 :: u64)"
  by (rule locked_bound_is_37_days)
    (simp add: check_csv_maturity_Inr_iff csv_mature_def policy_constants)

end
