(* ===== verification/Velocity.thy ===== *)
theory Velocity
  imports Errors
begin

text \<open>
  Velocity caps on the external value (\<open>tesaurus-policy/src/velocity.rs\<close>): the per-signature cap,
  the trailing window of 144 heights with its checked accumulation, their exact acceptance
  condition, and the sliding-window bound on whole signing histories.
\<close>

section \<open>The code\<close>

record velocity_sample =
  sample_tip_height :: u32
  sample_external_sats :: u64

definition check_velocity_cap :: "u64 \<Rightarrow> u64 \<Rightarrow> unit policy_result" where
  "check_velocity_cap external_sats cap =
     (if cap < external_sats then reject Velocity else Inr ())"

definition check_velocity_per_signature :: "u64 \<Rightarrow> unit policy_result" where
  "check_velocity_per_signature external_sats =
     check_velocity_cap external_sats VELOCITY_PER_SIG_SATS"

definition window_start :: "u32 \<Rightarrow> u32" where
  "window_start tip_height = saturating_sub tip_height (saturating_sub VELOCITY_WINDOW_BLOCKS 1)"

definition check_velocity_window_capped ::
    "velocity_sample list \<Rightarrow> u32 \<Rightarrow> u64 \<Rightarrow> u64 \<Rightarrow> u64 \<Rightarrow> unit policy_result" where
  "check_velocity_window_capped samples tip_height this_external per_sig_sats per_window_sats =
     rbind (check_velocity_cap this_external per_sig_sats) (\<lambda>_.
     rbind (try_fold
              (\<lambda>total sample.
                 if window_start tip_height \<le> sample_tip_height sample
                    \<and> sample_tip_height sample \<le> tip_height
                 then ok_or (Reject Velocity) (checked_add total (sample_external_sats sample))
                 else Inr total)
              this_external samples) (\<lambda>total.
     if per_window_sats < total then reject Velocity else Inr ()))"

definition check_velocity_window ::
    "velocity_sample list \<Rightarrow> u32 \<Rightarrow> u64 \<Rightarrow> unit policy_result" where
  "check_velocity_window samples tip_height this_external =
     check_velocity_window_capped samples tip_height this_external
       VELOCITY_PER_SIG_SATS VELOCITY_PER_144_SATS"

section \<open>Exact acceptance\<close>

definition in_window :: "nat \<Rightarrow> velocity_sample \<Rightarrow> bool" where
  "in_window w s \<longleftrightarrow> unat (sample_tip_height s) \<le> w \<and> w < unat (sample_tip_height s) + 144"

definition window_sum :: "velocity_sample list \<Rightarrow> nat \<Rightarrow> nat" where
  "window_sum samples w =
     (\<Sum>s\<leftarrow>filter (in_window w) samples. unat (sample_external_sats s))"

lemma in_window_fun:
  "in_window w = (\<lambda>s. unat (sample_tip_height s) \<le> w \<and> w < unat (sample_tip_height s) + 144)"
  by (rule ext) (simp add: in_window_def)

lemma window_sum_simps [simp]:
  "window_sum [] w = 0"
  "window_sum (s # ss) w =
     (if in_window w s then unat (sample_external_sats s) else 0) + window_sum ss w"
  "window_sum (ss @ ss') w = window_sum ss w + window_sum ss' w"
  by (simp_all add: window_sum_def)

lemma in_window_code:
  "window_start tip \<le> sample_tip_height s \<and> sample_tip_height s \<le> tip \<longleftrightarrow>
   in_window (unat tip) s"
proof -
  have "unat (window_start tip) = unat tip - 143"
    by (simp add: window_start_def word_simps policy_constants)
  then show ?thesis by (auto simp: in_window_def word_le_nat_alt)
qed

lemma window_fold:
  "try_fold
     (\<lambda>total sample. if window_start tip \<le> sample_tip_height sample \<and> sample_tip_height sample \<le> tip
        then ok_or e (checked_add total (sample_external_sats sample)) else Inr total) t samples =
   checked_sum e sample_external_sats t (filter (in_window (unat tip)) samples)"
  unfolding in_window_code by (induction samples arbitrary: t) auto

lemma check_velocity_window_capped_cases:
  "check_velocity_window_capped samples tip E per_sig cap =
     (if unat per_sig < unat E \<or> unat cap < unat E + window_sum samples (unat tip)
      then reject Velocity else Inr ())"
proof (cases "unat per_sig < unat E")
  case True
  then show ?thesis
    by (simp add: check_velocity_window_capped_def check_velocity_cap_def word_less_nat_alt)
next
  case False
  show ?thesis
  proof (cases rule: checked_sum_cases [of "Reject Velocity" sample_external_sats E
        "filter (in_window (unat tip)) samples"])
    case (fits s)
    then have "unat s = unat E + window_sum samples (unat tip)"
      by (simp add: window_sum_def)
    with False fits(1) show ?thesis
      by (simp add: check_velocity_window_capped_def check_velocity_cap_def window_fold
          word_less_nat_alt)
  next
    case overflows
    then have "2 ^ 64 \<le> unat E + window_sum samples (unat tip)"
      by (simp add: window_sum_def)
    moreover have "unat cap < 2 ^ 64" using unat_lt [of cap] by simp
    ultimately have "unat cap < unat E + window_sum samples (unat tip)" by simp
    with False overflows(1) show ?thesis
      by (simp add: check_velocity_window_capped_def check_velocity_cap_def window_fold
          word_less_nat_alt)
  qed
qed

interpretation window_gate: gate
  "\<lambda>(samples, tip, E, per_sig, cap). check_velocity_window_capped samples tip E per_sig cap"
  "\<lambda>(samples, tip, E, per_sig, cap).
     unat E \<le> unat per_sig \<and> unat E + window_sum samples (unat tip) \<le> unat cap"
  "{Reject Velocity}"
proof (unfold_locales, goal_cases)
  case (1 x)
  then show ?case by (cases x) (auto simp: check_velocity_window_capped_cases)
next
  case (2 x e)
  then show ?case
    by (cases x) (simp add: check_velocity_window_capped_cases split: if_splits)
qed

text \<open>
  The velocity window check is exact over the natural numbers: a spend of \<open>E\<close> passes iff
  \<open>E\<close> is at most the per-signature cap and \<open>E\<close> plus the externals of all samples at the 144
  heights \<open>tip - 143 .. tip\<close> is at most the window cap. An accumulation that leaves 64 bits is
  refused like one that exceeds the cap, and samples above the tip are not counted.
\<close>

theorem check_velocity_window_exact:
  "check_velocity_window_capped samples tip E per_sig cap =
     (if unat per_sig < unat E \<or>
         unat cap < unat E + (\<Sum>s\<leftarrow>filter (\<lambda>s. unat (sample_tip_height s) \<le> unat tip \<and>
             unat tip < unat (sample_tip_height s) + 144) samples. unat (sample_external_sats s))
      then reject Velocity else Inr ())"
  by (rule check_velocity_window_capped_cases [unfolded window_sum_def in_window_fun])

section \<open>Signing histories\<close>

text \<open>
  The samples an agent has recorded: every entry was accepted by the check against the entries
  before it (protocol section 6.6). Histories grow at the right end.
\<close>

inductive velocity_history :: "u64 \<Rightarrow> u64 \<Rightarrow> velocity_sample list \<Rightarrow> bool"
  for per_sig cap where
  empty: "velocity_history per_sig cap []"
| sign: "velocity_history per_sig cap samples \<Longrightarrow>
    check_velocity_window_capped samples tip E per_sig cap = Inr () \<Longrightarrow>
    velocity_history per_sig cap
      (samples @ [\<lparr>sample_tip_height = tip, sample_external_sats = E\<rparr>])"

lemma window_sum_mono_window:
  assumes "\<forall>s\<in>set samples. unat (sample_tip_height s) \<le> t" and "t \<le> w"
  shows "window_sum samples w \<le> window_sum samples t"
  using assms by (induction samples) (auto simp: in_window_def)

lemma velocity_history_bound:
  assumes "velocity_history per_sig cap samples"
    and "sorted (map (\<lambda>s. unat (sample_tip_height s)) samples)"
  shows "window_sum samples w \<le> unat cap"
  using assms
proof (induction rule: velocity_history.induct)
  case empty
  then show ?case by simp
next
  case (sign samples tip E)
  then have old: "window_sum samples w \<le> unat cap"
    and before: "\<forall>s\<in>set samples. unat (sample_tip_height s) \<le> unat tip"
    by (auto simp: sorted_append)
  from sign.hyps(2) have new: "unat E + window_sum samples (unat tip) \<le> unat cap"
    by (simp add: check_velocity_window_capped_cases split: if_splits)
  show ?case
  proof (cases "in_window w \<lparr>sample_tip_height = tip, sample_external_sats = E\<rparr>")
    case True
    then have "window_sum samples w \<le> window_sum samples (unat tip)"
      using before by (intro window_sum_mono_window) (simp_all add: in_window_def)
    with new True show ?thesis by simp
  qed (use old in simp)
qed

text \<open>
  C26: the sliding bound of threat-model invariant 10. In every signing history whose tips never
  go down, the externals signed within any 144 consecutive heights add up to at most the
  window cap, at every height \<open>w\<close> and not only at the heights where a signature was checked.
\<close>

theorem velocity_sliding_bound:
  assumes "velocity_history per_sig cap samples"
    and "sorted (map (\<lambda>s. unat (sample_tip_height s)) samples)"
  shows "(\<Sum>s\<leftarrow>filter (\<lambda>s. unat (sample_tip_height s) \<le> w \<and>
            w < unat (sample_tip_height s) + 144) samples. unat (sample_external_sats s)) \<le> unat cap"
  by (rule velocity_history_bound [OF assms, unfolded window_sum_def in_window_fun])

lemma history_two:
  "velocity_history 10 15
     [\<lparr>sample_tip_height = 200, sample_external_sats = 9\<rparr>,
      \<lparr>sample_tip_height = 300, sample_external_sats = 6\<rparr>]"
proof -
  let ?a = "\<lparr>sample_tip_height = 200, sample_external_sats = 9\<rparr>"
  have "velocity_history 10 15 ([] @ [?a])"
    by (intro velocity_history.intros) (simp add: check_velocity_window_capped_cases)
  then have "velocity_history 10 15 ([?a] @ [\<lparr>sample_tip_height = 300, sample_external_sats = 6\<rparr>])"
    by (intro velocity_history.sign)
      (simp_all add: check_velocity_window_capped_cases in_window_def)
  then show ?thesis by simp
qed

theorem velocity_sliding_bound_witness:
  "(\<Sum>s\<leftarrow>filter (\<lambda>s. unat (sample_tip_height s) \<le> 310 \<and> 310 < unat (sample_tip_height s) + 144)
      [\<lparr>sample_tip_height = 200, sample_external_sats = 9\<rparr>,
       \<lparr>sample_tip_height = 300, sample_external_sats = 6\<rparr>]. unat (sample_external_sats s))
    \<le> unat (15 :: u64)"
  by (rule velocity_sliding_bound [OF history_two]) simp

lemma window_sum_same:
  "window_sum (replicate n \<lparr>sample_tip_height = t, sample_external_sats = e\<rparr>) w =
     (if unat t \<le> w \<and> w < unat t + 144 then n * unat e else 0)"
  by (induction n) (simp_all add: in_window_def)

lemma five_full_history:
  "velocity_history VELOCITY_PER_SIG_SATS VELOCITY_PER_144_SATS
     (replicate n \<lparr>sample_tip_height = t, sample_external_sats = 10000000\<rparr>)" if "n \<le> 5"
  using that
proof (induction n)
  case 0
  then show ?case by (simp add: velocity_history.empty)
next
  case (Suc n)
  let ?s = "\<lparr>sample_tip_height = t, sample_external_sats = 10000000\<rparr>"
  from Suc have "velocity_history VELOCITY_PER_SIG_SATS VELOCITY_PER_144_SATS (replicate n ?s @ [?s])"
    by (intro velocity_history.sign)
      (simp_all add: check_velocity_window_capped_cases policy_constants window_sum_same)
  then show ?case by (simp add: replicate_append_same)
qed

text \<open>
  C40: the bound needs tips that never go down. Take any height \<open>t\<close> and five spends of 10,000,000
  satoshis at it, each accepted with the locked caps. A sixth one is refused at every tip from
  \<open>t\<close> to \<open>t + 143\<close>; but if the chain view goes back to any tip less than 144 below \<open>t\<close> (the node
  switched to a shorter branch), samples above the tip are not counted, the sixth is accepted,
  and the window of 144 heights that ends at \<open>t\<close> holds 60,000,000 satoshis of a cap of 50,000,000.
\<close>

theorem velocity_bound_needs_monotone_tips:
  assumes "unat tip < unat t" and "unat t < unat tip + 144"
    and "full = (\<lambda>h. \<lparr>sample_tip_height = h, sample_external_sats = 10000000\<rparr>)"
  shows "velocity_history VELOCITY_PER_SIG_SATS VELOCITY_PER_144_SATS (replicate 5 (full t)) \<and>
    (\<forall>tip'. unat t \<le> unat tip' \<and> unat tip' < unat t + 144 \<longrightarrow>
       check_velocity_window (replicate 5 (full t)) tip' 10000000 = reject Velocity) \<and>
    check_velocity_window (replicate 5 (full t)) tip 10000000 = Inr () \<and>
    velocity_history VELOCITY_PER_SIG_SATS VELOCITY_PER_144_SATS
      (replicate 5 (full t) @ [full tip]) \<and>
    (\<Sum>s\<leftarrow>filter (\<lambda>s. unat (sample_tip_height s) \<le> unat t \<and>
         unat t < unat (sample_tip_height s) + 144) (replicate 5 (full t) @ [full tip]).
       unat (sample_external_sats s)) = 60000000 \<and>
    unat VELOCITY_PER_144_SATS = 50000000"
proof -
  have history: "velocity_history VELOCITY_PER_SIG_SATS VELOCITY_PER_144_SATS (replicate 5 (full t))"
    using five_full_history [of 5 t] by (simp add: assms(3))
  have check: "check_velocity_window (replicate 5 (full t)) h 10000000 =
      (if unat t \<le> unat h \<and> unat h < unat t + 144 then reject Velocity else Inr ())" for h
    by (simp add: check_velocity_window_def check_velocity_window_capped_cases assms(3)
        window_sum_same policy_constants)
  then have accepted: "check_velocity_window (replicate 5 (full t)) tip 10000000 = Inr ()"
    using assms(1) by simp
  then have "velocity_history VELOCITY_PER_SIG_SATS VELOCITY_PER_144_SATS
      (replicate 5 (full t) @ [full tip])"
    using history unfolding assms(3) by (intro velocity_history.sign)
      (simp_all add: check_velocity_window_def)
  moreover have "window_sum (replicate 5 (full t) @ [full tip]) (unat t) = 60000000"
    using assms(1,2) by (simp add: assms(3) window_sum_same) (simp add: in_window_def)
  ultimately show ?thesis
    using history check accepted unfolding window_sum_def in_window_fun
    by (simp add: policy_constants)
qed

theorem velocity_bound_needs_monotone_tips_witness:
  "\<exists>samples. velocity_history VELOCITY_PER_SIG_SATS VELOCITY_PER_144_SATS samples \<and>
     (\<Sum>s\<leftarrow>filter (\<lambda>s. unat (sample_tip_height s) \<le> unat (1000 :: u32) \<and>
         unat (1000 :: u32) < unat (sample_tip_height s) + 144) samples.
       unat (sample_external_sats s)) = 60000000"
proof -
  have "unat (999 :: u32) < unat (1000 :: u32)" "unat (1000 :: u32) < unat (999 :: u32) + 144"
    by simp_all
  from velocity_bound_needs_monotone_tips [OF this refl] show ?thesis by blast
qed

end
