(* ===== verification/Bitcoin_Types.thy ===== *)
theory Bitcoin_Types
  imports Prelude
begin

text \<open>
  The data of the \<open>bitcoin\<close> and \<open>miniscript\<close> crates as far as the repository reads it, and the
  functions of those crates as parameters. Scripts, hashes, txids and keys are byte strings (a
  txid in its internal order, as \<open>to_byte_array\<close> returns it), an \<open>Amount\<close> is its satoshi count
  and a \<open>BTreeMap\<close> is the list of its entries. No function of the crates is defined here:
  \<open>bitcoin_lib\<close> and \<open>miniscript_lib\<close> hold them as arguments of the model, and the predicates
  below state the documented behaviour some theorems rely on.
\<close>

section \<open>Data\<close>

type_synonym script = bytes
type_synonym key_values = "(bytes \<times> bytes) list"

text \<open>\<open>Network\<close> is non-exhaustive; \<open>Testnet4\<close> is a variant the repository never enables.\<close>

datatype network = Bitcoin | Testnet | Testnet4 | Signet | Regtest

datatype lock_time = Blocks u32 | Seconds u32

datatype relative_lock_time = RelBlocks u16 | RelTime u16

datatype ecdsa_sighash_type =
    SighashAll | SighashNone | SighashSingle
  | AllPlusAnyoneCanPay | NonePlusAnyoneCanPay | SinglePlusAnyoneCanPay

record out_point =
  op_txid :: bytes
  op_vout :: u32

record tx_out =
  txo_value :: u64
  txo_script_pubkey :: script

record tx_in =
  previous_output :: out_point
  script_sig :: script
  tx_sequence :: u32
  tx_witness :: "bytes list"

record transaction =
  tx_version :: u32
  tx_lock_time :: lock_time
  tx_input :: "tx_in list"
  tx_output :: "tx_out list"

record public_key =
  pk_compressed :: bool
  pk_inner :: bytes

record ecdsa_signature =
  ecdsa_bytes :: bytes
  ecdsa_sighash :: ecdsa_sighash_type

record psbt_input =
  non_witness_utxo :: "transaction option"
  witness_utxo :: "tx_out option"
  partial_sigs :: "(public_key \<times> ecdsa_signature) list"
  psbt_sighash_type :: "u32 option"
  redeem_script :: "script option"
  witness_script :: "script option"
  bip32_derivation :: key_values
  final_script_sig :: "script option"
  final_script_witness :: "bytes list option"
  ripemd160_preimages :: key_values
  sha256_preimages :: key_values
  hash160_preimages :: key_values
  hash256_preimages :: key_values
  tap_key_sig :: "bytes option"
  tap_script_sigs :: key_values
  tap_scripts :: key_values
  tap_key_origins :: key_values
  tap_internal_key :: "bytes option"
  tap_merkle_root :: "bytes option"
  in_proprietary :: key_values
  in_unknown :: key_values

record psbt_output =
  out_tap_internal_key :: "bytes option"
  out_tap_tree :: "bytes option"
  out_tap_key_origins :: key_values
  out_proprietary :: key_values
  out_unknown :: key_values

record psbt =
  psbt_version :: u32
  unsigned_tx :: transaction
  psbt_inputs :: "psbt_input list"
  psbt_outputs :: "psbt_output list"
  psbt_xpub :: key_values
  psbt_proprietary :: key_values
  psbt_unknown :: key_values

section \<open>Functions of the crates\<close>

record bitcoin_lib =
  sha256 :: "bytes \<Rightarrow> bytes"
  psbt_deserialize :: "bytes \<Rightarrow> psbt option"
  compute_txid :: "transaction \<Rightarrow> bytes"
  consensus_encode :: "tx_out \<Rightarrow> bytes option"
  minimal_non_dust :: "script \<Rightarrow> u64"
  to_relative_lock_time :: "u32 \<Rightarrow> relative_lock_time option"
  sequence_from_height :: "u16 \<Rightarrow> u32"
  psbt_sighash_from :: "ecdsa_sighash_type \<Rightarrow> u32"
  ecdsa_from_compact :: "bytes \<Rightarrow> bytes option"
  verify_ecdsa :: "bytes \<Rightarrow> bytes \<Rightarrow> bytes \<Rightarrow> bool"
  genesis_block_hash :: "network \<Rightarrow> bytes"

record ('pol, 'ms, 'desc) miniscript_lib =
  policy_from_str :: "string \<Rightarrow> 'pol option"
  policy_compile :: "'pol \<Rightarrow> 'ms option"
  descriptor_new_wsh :: "'ms \<Rightarrow> 'desc option"
  descriptor_sanity_check :: "'desc \<Rightarrow> bool"
  descriptor_script_pubkey :: "'desc \<Rightarrow> script"
  descriptor_explicit_script :: "'desc \<Rightarrow> script option"
  descriptor_to_string :: "'desc \<Rightarrow> string"
  public_key_to_string :: "public_key \<Rightarrow> string"

text \<open>
  BIP68 as \<open>Sequence::to_relative_lock_time\<close> documents it: bit 31 disables the relative lock, bit
  22 selects 512-second units, the low 16 bits are the value.
\<close>

definition bip68_lock :: "u32 \<Rightarrow> relative_lock_time option" where
  "bip68_lock s =
     (if bit s 31 then None
      else if bit s 22 then Some (RelTime (ucast s))
      else Some (RelBlocks (ucast s)))"

definition bip68_documented :: "bitcoin_lib \<Rightarrow> bool" where
  "bip68_documented L \<longleftrightarrow>
     (\<forall>s. to_relative_lock_time L s = bip68_lock s) \<and>
     (\<forall>h. sequence_from_height L h = ucast h)"

text \<open>
  The fixed lengths of the hash types: a SHA-256 digest and a transaction id have 32 bytes, and so
  do the transaction ids in the outpoints of a parsed PSBT.
\<close>

definition lengths_documented :: "bitcoin_lib \<Rightarrow> bool" where
  "lengths_documented L \<longleftrightarrow>
     (\<forall>b. length (sha256 L b) = 32) \<and> (\<forall>tx. length (compute_txid L tx) = 32) \<and>
     (\<forall>raw p. psbt_deserialize L raw = Some p \<longrightarrow>
        (\<forall>txin\<in>set (tx_input (unsigned_tx p)). length (op_txid (previous_output txin)) = 32))"

lemma bip68_lock_ucast: "bip68_lock (ucast (h :: u16)) = Some (RelBlocks h)"
proof -
  have "\<not> bit (ucast h :: u32) 31" "\<not> bit (ucast h :: u32) 22"
    by (auto simp: bit_ucast_iff dest: bit_imp_le_length)
  moreover have "(ucast (ucast h :: u32) :: u16) = h"
    by (rule bit_word_eqI) (simp add: bit_ucast_iff)
  ultimately show ?thesis by (simp add: bip68_lock_def)
qed

lemma bip68_lock_blocks_iff:
  "bip68_lock s = Some (RelBlocks h) \<longleftrightarrow> \<not> bit s 31 \<and> \<not> bit s 22 \<and> h = ucast s"
  by (auto simp: bip68_lock_def)

lemma unat_ucast_low16: "unat (ucast s :: u16) = unat s mod 2 ^ 16" for s :: u32
proof -
  have "(ucast s :: u16) = word_of_nat (unat s)" by simp
  then show ?thesis by (simp only: unat_of_nat) simp
qed

end
