(* ===== verification/Structure.thy ===== *)
theory Structure
  imports Errors Bitcoin_Types
begin

text \<open>
  Structural checks on the PSBT (\<open>tesaurus-policy/src/structure.rs\<close>): version-0 parsing, refusal
  of every map the policy does not understand, lock time, sighash type, vault scripts and the
  BIP68 sequence of the recovery path.
\<close>

section \<open>The code\<close>

definition parse_psbt_v0 :: "bitcoin_lib \<Rightarrow> bytes \<Rightarrow> psbt policy_result" where
  "parse_psbt_v0 L raw =
     rbind (ok_or (Reject PsbtParse) (psbt_deserialize L raw)) (\<lambda>psbt.
     if psbt_version psbt \<noteq> 0 then reject PsbtParse
     else if length (psbt_inputs psbt) \<noteq> length (tx_input (unsigned_tx psbt))
             \<or> length (psbt_outputs psbt) \<noteq> length (tx_output (unsigned_tx psbt))
     then reject PsbtParse
     else if tx_input (unsigned_tx psbt) = [] then reject PsbtParse
     else if tx_output (unsigned_tx psbt) = [] then reject PsbtParse
     else Inr psbt)"

definition input_has_unknown_fields :: "psbt_input \<Rightarrow> bool" where
  "input_has_unknown_fields input \<longleftrightarrow>
     in_unknown input \<noteq> [] \<or> in_proprietary input \<noteq> [] \<or>
     ripemd160_preimages input \<noteq> [] \<or> sha256_preimages input \<noteq> [] \<or>
     hash160_preimages input \<noteq> [] \<or> hash256_preimages input \<noteq> [] \<or>
     tap_key_sig input \<noteq> None \<or> tap_script_sigs input \<noteq> [] \<or>
     tap_scripts input \<noteq> [] \<or> tap_key_origins input \<noteq> [] \<or>
     tap_internal_key input \<noteq> None \<or> tap_merkle_root input \<noteq> None"

definition output_has_unknown_fields :: "psbt_output \<Rightarrow> bool" where
  "output_has_unknown_fields output \<longleftrightarrow>
     out_unknown output \<noteq> [] \<or> out_proprietary output \<noteq> [] \<or>
     out_tap_internal_key output \<noteq> None \<or> out_tap_tree output \<noteq> None \<or>
     out_tap_key_origins output \<noteq> []"

definition require_no_unknown_psbt_fields :: "psbt \<Rightarrow> unit policy_result" where
  "require_no_unknown_psbt_fields psbt =
     (if psbt_unknown psbt \<noteq> [] \<or> psbt_proprietary psbt \<noteq> [] \<or> psbt_xpub psbt \<noteq> []
      then reject UnknownField
      else rbind (try_each (\<lambda>input. if input_has_unknown_fields input then reject UnknownField
                                     else Inr ()) (psbt_inputs psbt)) (\<lambda>_.
           try_each (\<lambda>output. if output_has_unknown_fields output then reject UnknownField
                               else Inr ()) (psbt_outputs psbt)))"

definition LOCK_TIME_ZERO :: lock_time where
  "LOCK_TIME_ZERO = Blocks 0"

definition require_locktime_zero :: "lock_time \<Rightarrow> unit policy_result" where
  "require_locktime_zero locktime =
     (if locktime \<noteq> LOCK_TIME_ZERO then reject Locktime else Inr ())"

definition require_sighash_all :: "ecdsa_sighash_type \<Rightarrow> unit policy_result" where
  "require_sighash_all sighash =
     (if sighash \<noteq> SighashAll then reject Sighash else Inr ())"

definition input_sighash_all :: "bitcoin_lib \<Rightarrow> psbt_input \<Rightarrow> unit policy_result" where
  "input_sighash_all L input =
     rbind (case psbt_sighash_type input of
              Some ty \<Rightarrow> if ty = psbt_sighash_from L SighashAll then Inr () else reject Sighash
            | None \<Rightarrow> reject Sighash) (\<lambda>_.
     try_each (\<lambda>(pk, sig). require_sighash_all (ecdsa_sighash sig)) (partial_sigs input))"

definition require_sighash_all_on_psbt :: "bitcoin_lib \<Rightarrow> psbt \<Rightarrow> unit policy_result" where
  "require_sighash_all_on_psbt L psbt = try_each (input_sighash_all L) (psbt_inputs psbt)"

definition require_all_vault_input_scripts :: "script list \<Rightarrow> script \<Rightarrow> unit policy_result" where
  "require_all_vault_input_scripts input_scripts vault_script =
     try_each (\<lambda>script. if script \<noteq> vault_script then reject ForeignInput else Inr ())
       input_scripts"

definition sequence_satisfies_older_csv :: "bitcoin_lib \<Rightarrow> u32 \<Rightarrow> u32 \<Rightarrow> bool" where
  "sequence_satisfies_older_csv L sequence csv_blocks =
     (if csv_blocks = 0 \<or> 65535 < csv_blocks then False
      else case to_relative_lock_time L sequence of
             Some (RelBlocks height) \<Rightarrow> csv_blocks \<le> ucast height
           | Some (RelTime _) \<Rightarrow> False
           | None \<Rightarrow> False)"

definition require_recovery_sequence :: "bitcoin_lib \<Rightarrow> u32 \<Rightarrow> u32 \<Rightarrow> unit policy_result" where
  "require_recovery_sequence L sequence csv_blocks =
     (if sequence_satisfies_older_csv L sequence csv_blocks then Inr ()
      else reject NotRecoveryPath)"

section \<open>What each check accepts\<close>

lemma parse_psbt_v0_Inr_iff:
  "parse_psbt_v0 L raw = Inr p \<longleftrightarrow>
     psbt_deserialize L raw = Some p \<and> psbt_version p = 0 \<and>
     length (psbt_inputs p) = length (tx_input (unsigned_tx p)) \<and>
     length (psbt_outputs p) = length (tx_output (unsigned_tx p)) \<and>
     tx_input (unsigned_tx p) \<noteq> [] \<and> tx_output (unsigned_tx p) \<noteq> []"
  by (auto simp: parse_psbt_v0_def res_simps)

lemma parse_psbt_v0_Inl: "parse_psbt_v0 L raw = Inl e \<Longrightarrow> e = Reject PsbtParse"
  by (auto simp: parse_psbt_v0_def res_simps split: if_splits)

definition no_unknown_fields :: "psbt \<Rightarrow> bool" where
  "no_unknown_fields psbt \<longleftrightarrow>
     psbt_unknown psbt = [] \<and> psbt_proprietary psbt = [] \<and> psbt_xpub psbt = [] \<and>
     (\<forall>i\<in>set (psbt_inputs psbt). \<not> input_has_unknown_fields i) \<and>
     (\<forall>out\<in>set (psbt_outputs psbt). \<not> output_has_unknown_fields out)"

definition input_is_sighash_all :: "bitcoin_lib \<Rightarrow> psbt_input \<Rightarrow> bool" where
  "input_is_sighash_all L input \<longleftrightarrow>
     psbt_sighash_type input = Some (psbt_sighash_from L SighashAll) \<and>
     (\<forall>(pk, sig)\<in>set (partial_sigs input). ecdsa_sighash sig = SighashAll)"

interpretation unknown_gate: gate require_no_unknown_psbt_fields no_unknown_fields
  "{Reject UnknownField}"
proof (unfold_locales, goal_cases)
  case (1 p)
  then show ?case
    by (auto simp: require_no_unknown_psbt_fields_def no_unknown_fields_def res_simps)
next
  case (2 p e)
  then show ?case
    by (auto simp: require_no_unknown_psbt_fields_def res_simps split: if_splits
        dest!: try_each_InlD)
qed

interpretation locktime_gate: gate require_locktime_zero "\<lambda>t. t = Blocks 0" "{Reject Locktime}"
  by unfold_locales (auto simp: require_locktime_zero_def LOCK_TIME_ZERO_def split: if_splits)

interpretation sighash_gate: gate "input_sighash_all L" "input_is_sighash_all L" "{Reject Sighash}"
  for L
proof (unfold_locales, goal_cases)
  case (1 i)
  then show ?case
    by (auto simp: input_sighash_all_def input_is_sighash_all_def require_sighash_all_def res_simps
        split: option.splits prod.splits)
next
  case (2 i e)
  then show ?case
    by (auto simp: input_sighash_all_def require_sighash_all_def res_simps
        split: option.splits if_splits dest!: try_each_InlD)
qed

interpretation sequence_gate: gate "\<lambda>(s, csv). require_recovery_sequence L s csv"
  "\<lambda>(s, csv). sequence_satisfies_older_csv L s csv" "{Reject NotRecoveryPath}" for L
  by unfold_locales (auto simp: require_recovery_sequence_def split: if_splits)

lemma require_sighash_all_on_psbt_Inr_iff:
  "require_sighash_all_on_psbt L p = Inr () \<longleftrightarrow> (\<forall>i\<in>set (psbt_inputs p). input_is_sighash_all L i)"
  unfolding require_sighash_all_on_psbt_def by (rule sighash_gate.each_accepts)

lemma require_sighash_all_on_psbt_Inl:
  "require_sighash_all_on_psbt L p = Inl e \<Longrightarrow> e = Reject Sighash"
  unfolding require_sighash_all_on_psbt_def using sighash_gate.each_rejects by blast

lemma require_recovery_sequence_Inr_iff:
  "require_recovery_sequence L s csv = Inr u \<longleftrightarrow> sequence_satisfies_older_csv L s csv"
  by (simp add: require_recovery_sequence_def)

lemma require_recovery_sequence_Inl:
  "require_recovery_sequence L s csv = Inl e \<Longrightarrow> e = Reject NotRecoveryPath"
  by (simp add: require_recovery_sequence_def split: if_splits)

section \<open>The recovery sequence\<close>

lemma sequence_satisfies_older_csv_iff:
  assumes "bip68_documented L"
  shows "sequence_satisfies_older_csv L s csv \<longleftrightarrow>
    1 \<le> unat csv \<and> unat csv \<le> 65535 \<and> \<not> bit s 31 \<and> \<not> bit s 22 \<and> unat csv \<le> unat s mod 2 ^ 16"
proof -
  have lock: "to_relative_lock_time L s = bip68_lock s"
    using assms by (simp add: bip68_documented_def)
  have height: "csv \<le> ucast (ucast s :: u16) \<longleftrightarrow> unat csv \<le> unat s mod 2 ^ 16"
    by (simp only: word_le_nat_alt) (simp add: unat_ucast_widen unat_ucast_low16)
  have csv: "csv = 0 \<or> 65535 < csv \<longleftrightarrow> \<not> (1 \<le> unat csv \<and> unat csv \<le> 65535)"
    by (auto simp: word_less_nat_alt unat_eq_0 Suc_le_eq)
  show ?thesis
    unfolding sequence_satisfies_older_csv_def lock csv bip68_lock_def
    using height by auto
qed

text \<open>
  The recovery-path check accepts exactly the sequences that BIP68 makes consensus read as a
  block-height lock of at least \<open>csv_blocks\<close>: disable bit clear, type bit clear, low 16 bits at
  least \<open>csv_blocks\<close>, and a \<open>csv_blocks\<close> in \<open>1..=65535\<close>; everything else is
  \<open>NOT_RECOVERY_PATH\<close>.
\<close>

theorem recovery_sequence_exact:
  assumes "bip68_documented L"
  shows "require_recovery_sequence L s csv =
    (if 1 \<le> unat csv \<and> unat csv \<le> 65535 \<and> \<not> bit s 31 \<and> \<not> bit s 22 \<and>
        unat csv \<le> unat s mod 2 ^ 16
     then Inr () else reject NotRecoveryPath)"
  by (simp add: require_recovery_sequence_def sequence_satisfies_older_csv_iff [OF assms])

definition bip68_lib :: bitcoin_lib where
  "bip68_lib =
     \<lparr>sha256 = (\<lambda>b. b), psbt_deserialize = (\<lambda>_. None), compute_txid = (\<lambda>_. []),
      consensus_encode = (\<lambda>_. None), minimal_non_dust = (\<lambda>_. 330),
      to_relative_lock_time = bip68_lock, sequence_from_height = (\<lambda>h. ucast h),
      psbt_sighash_from = (\<lambda>_. 1), ecdsa_from_compact = (\<lambda>_. None),
      verify_ecdsa = (\<lambda>_ _ _. False), genesis_block_hash = (\<lambda>_. [])\<rparr>"

lemma bip68_lib_documented: "bip68_documented bip68_lib"
  by (simp add: bip68_documented_def bip68_lib_def)

theorem recovery_sequence_exact_witness:
  "require_recovery_sequence bip68_lib 4321 4320 = Inr () \<and>
   require_recovery_sequence bip68_lib 4319 4320 = reject NotRecoveryPath \<and>
   require_recovery_sequence bip68_lib 0x004010E0 4320 = reject NotRecoveryPath"
  by (simp add: recovery_sequence_exact [OF bip68_lib_documented] bit_numeral_rec)

end
