(* ===== verification/Facts.thy ===== *)
theory Facts
  imports Bitcoin_Types
begin

text \<open>
  Caller-supplied Core B facts and the agent-local auth mark (\<open>tesaurus-policy/src/facts.rs\<close>). The
  fields are private in the code and read through accessors, which the record selectors are.
\<close>

record agent_auth =
  auth_ok :: bool

definition is_ok :: "agent_auth \<Rightarrow> bool" where
  "is_ok self = auth_ok self"

record prevout_fact =
  fact_outpoint :: out_point
  fact_value :: u64
  fact_script_pubkey :: script
  confirm_height :: u32
  header_time_unix :: u64
  visible_unspent :: bool

record chain_view =
  chain_genesis_hash :: bytes
  chain_tip_height :: u32
  chain_now_unix :: u64
  chain_prevouts :: "prevout_fact list"

section \<open>Test constructors\<close>

text \<open>
  The only public constructors, compiled for tests alone: production code cannot build these facts
  yet. \<open>with_test_prevout_script\<close> indexes, so it panics out of range.
\<close>

definition for_test_verified :: agent_auth where
  "for_test_verified = \<lparr>auth_ok = True\<rparr>"

definition for_test_rejected :: agent_auth where
  "for_test_rejected = \<lparr>auth_ok = False\<rparr>"

definition view_from_test_facts ::
    "bytes \<Rightarrow> u32 \<Rightarrow> u64 \<Rightarrow> prevout_fact list \<Rightarrow> chain_view" where
  "view_from_test_facts genesis_hash tip_height now_unix prevouts =
     \<lparr>chain_genesis_hash = genesis_hash, chain_tip_height = tip_height,
      chain_now_unix = now_unix, chain_prevouts = prevouts\<rparr>"

definition with_test_tip_height :: "chain_view \<Rightarrow> u32 \<Rightarrow> chain_view" where
  "with_test_tip_height self tip_height = self\<lparr>chain_tip_height := tip_height\<rparr>"

definition with_test_prevout_script :: "chain_view \<Rightarrow> nat \<Rightarrow> script \<Rightarrow> chain_view option" where
  "with_test_prevout_script self index script =
     map_option (\<lambda>fact. self\<lparr>chain_prevouts :=
         (chain_prevouts self)[index := fact\<lparr>fact_script_pubkey := script\<rparr>]\<rparr>)
       (nth_opt (chain_prevouts self) index)"

definition fact_from_test_facts ::
    "out_point \<Rightarrow> u64 \<Rightarrow> script \<Rightarrow> u32 \<Rightarrow> u64 \<Rightarrow> bool \<Rightarrow> prevout_fact" where
  "fact_from_test_facts outpoint value script height header_time unspent =
     \<lparr>fact_outpoint = outpoint, fact_value = value, fact_script_pubkey = script,
      confirm_height = height, header_time_unix = header_time, visible_unspent = unspent\<rparr>"

lemmas test_facts =
  for_test_verified_def for_test_rejected_def view_from_test_facts_def
  with_test_tip_height_def with_test_prevout_script_def fact_from_test_facts_def

end
