(* ===== verification/Confirm.thy ===== *)
theory Confirm
  imports Errors Bitcoin_Types
begin

text \<open>
  The override \<open>confirm_token\<close> (\<open>tesaurus-policy/src/confirm.rs\<close>): the byte layout that a large
  spend is confirmed over, its injectivity, the published encoding vector, and what an accepted
  token says about the spend.
\<close>

section \<open>The code\<close>

definition CONFIRM_DOMAIN :: bytes where
  "CONFIRM_DOMAIN = ascii ''TESAURUS_CONFIRM_V1''"

definition CONFIRM_DOMAIN_LEN :: nat where
  "CONFIRM_DOMAIN_LEN = 19"

definition CONFIRM_LAYOUT_VERSION :: u8 where
  "CONFIRM_LAYOUT_VERSION = 1"

definition OOB_CONFIRM_SATS :: u64 where
  "OOB_CONFIRM_SATS = 5000000"

record confirm_binding =
  cb_request_id :: bytes
  cb_txid_display :: bytes
  cb_external_amount_sats :: u64
  cb_genesis_internal :: bytes

definition confirm_required :: "u64 \<Rightarrow> bool" where
  "confirm_required external_amount_sats \<longleftrightarrow> OOB_CONFIRM_SATS \<le> external_amount_sats"

definition txid_display_bytes :: "bytes \<Rightarrow> bytes" where
  "txid_display_bytes txid = rev txid"

definition genesis_internal_bytes :: "bytes \<Rightarrow> bytes" where
  "genesis_internal_bytes genesis = genesis"

text \<open>\<open>u64::to_be_bytes\<close>: the most significant byte first.\<close>

definition to_be_bytes :: "u64 \<Rightarrow> bytes" where
  "to_be_bytes x = map (\<lambda>i. ucast (drop_bit (8 * i) x)) [7, 6, 5, 4, 3, 2, 1, 0]"

definition confirm_preimage :: "confirm_binding \<Rightarrow> bytes" where
  "confirm_preimage binding =
     CONFIRM_DOMAIN @ [CONFIRM_LAYOUT_VERSION] @ cb_request_id binding
       @ cb_txid_display binding @ to_be_bytes (cb_external_amount_sats binding)
       @ cb_genesis_internal binding"

definition confirm_message :: "bitcoin_lib \<Rightarrow> confirm_binding \<Rightarrow> bytes" where
  "confirm_message L binding = sha256 L (confirm_preimage binding)"

definition verify_confirm_token ::
    "bitcoin_lib \<Rightarrow> bytes \<Rightarrow> confirm_binding \<Rightarrow> public_key \<Rightarrow> unit policy_result" where
  "verify_confirm_token L token binding override_pubkey =
     (if length token \<noteq> 64 then reject ConfirmInvalid
      else rbind (ok_or (Reject ConfirmInvalid) (ecdsa_from_compact L token)) (\<lambda>sig.
        if verify_ecdsa L (confirm_message L binding) sig (pk_inner override_pubkey)
        then Inr () else reject ConfirmInvalid))"

section \<open>The layout is injective\<close>

text \<open>The array types \<open>[u8; 16]\<close> and \<open>[u8; 32]\<close> of the binding.\<close>

definition wf_binding :: "confirm_binding \<Rightarrow> bool" where
  "wf_binding b \<longleftrightarrow>
     length (cb_request_id b) = 16 \<and> length (cb_txid_display b) = 32 \<and>
     length (cb_genesis_internal b) = 32"

lemma length_to_be_bytes [simp]: "length (to_be_bytes x) = 8"
  by (simp add: to_be_bytes_def)

lemma bit_be_byte:
  "j < 8 \<Longrightarrow> bit (ucast (drop_bit (8 * i) x) :: u8) j \<longleftrightarrow> bit x (8 * i + j)" for x :: u64
  by (simp add: bit_ucast_iff bit_drop_bit_eq)

lemma to_be_bytes_inj: "to_be_bytes x = to_be_bytes y \<longleftrightarrow> x = y"
proof
  assume eq: "to_be_bytes x = to_be_bytes y"
  have byte: "(ucast (drop_bit (8 * i) x) :: u8) = ucast (drop_bit (8 * i) y)" if "i < 8" for i
  proof -
    have "i \<in> {7, 6, 5, 4, 3, 2, 1, 0}" using that by auto
    with eq show ?thesis by (auto simp: to_be_bytes_def)
  qed
  show "x = y"
  proof (rule bit_word_eqI)
    fix n assume "n < LENGTH(64)"
    then have "n div 8 < 8" by simp
    moreover have "n mod 8 < 8" by simp
    moreover have "8 * (n div 8) + n mod 8 = n" by simp
    ultimately show "bit x n \<longleftrightarrow> bit y n"
      using byte [of "n div 8"] bit_be_byte [of "n mod 8" "n div 8"] by metis
  qed
qed simp

lemma length_confirm_domain: "length CONFIRM_DOMAIN = CONFIRM_DOMAIN_LEN"
  by (simp add: CONFIRM_DOMAIN_def CONFIRM_DOMAIN_LEN_def ascii_def)

lemma confirm_preimage_eqD:
  assumes "wf_binding b" "wf_binding b'" "confirm_preimage b = confirm_preimage b'"
  shows "b = b'"
  using assms
  by (cases b; cases b') (simp add: wf_binding_def confirm_preimage_def to_be_bytes_inj)

lemma confirm_domain_bytes:
  "CONFIRM_DOMAIN =
     [0x54, 0x45, 0x53, 0x41, 0x55, 0x52, 0x55, 0x53, 0x5f, 0x43, 0x4f, 0x4e, 0x46, 0x49, 0x52,
      0x4d, 0x5f, 0x56, 0x31]"
  by (simp add: CONFIRM_DOMAIN_def ascii_def)

text \<open>Big endian: the bytes are the digits of the amount in base 256, the most significant first.\<close>

definition be_value :: "bytes \<Rightarrow> nat" where
  "be_value bs = foldl (\<lambda>n byte. 256 * n + unat byte) 0 bs"

lemma be_byte_value: "unat (ucast (drop_bit (8 * i) x) :: u8) = unat x div 256 ^ i mod 256"
  for x :: u64
proof -
  have "(2 :: nat) ^ (8 * i) = 256 ^ i" by (simp add: power_mult)
  moreover have "unat x < 2 ^ 64" using unsigned_less [of x] by simp
  ultimately show ?thesis
    by (simp add: unsigned_ucast_eq unsigned_drop_bit_eq take_bit_eq_mod)
      (simp add: drop_bit_eq_div)
qed

lemma be_value_to_be_bytes: "be_value (to_be_bytes x) = unat x"
proof -
  let ?d = "\<lambda>i. unat x div 256 ^ i"
  have "unat x < 2 ^ 64" using unsigned_less [of x] by simp
  then have top: "?d 7 mod 256 = ?d 7" by (simp add: less_mult_imp_div_less)
  have step: "256 * ?d (Suc i) + ?d i mod 256 = ?d i" for i
  proof -
    have "?d (Suc i) = ?d i div 256" by (simp only: power_Suc2 div_mult2_eq)
    then show ?thesis using mult_div_mod_eq [of 256 "?d i"] by simp
  qed
  have "Suc 6 = 7" "Suc 5 = 6" "Suc 4 = 5" "Suc 3 = 4" "Suc 2 = 3" "Suc 1 = 2" "Suc 0 = 1"
    by simp_all
  note digits = step [of 6, unfolded this(1)] step [of 5, unfolded this(2)]
    step [of 4, unfolded this(3)] step [of 3, unfolded this(4)] step [of 2, unfolded this(5)]
    step [of 1, unfolded this(6)] step [of 0, unfolded this(7)]
  have "be_value (to_be_bytes x) = 256 * (256 * (256 * (256 * (256 * (256 * (256 * (?d 7 mod 256)
      + ?d 6 mod 256) + ?d 5 mod 256) + ?d 4 mod 256) + ?d 3 mod 256) + ?d 2 mod 256)
      + ?d 1 mod 256) + ?d 0 mod 256"
    unfolding be_value_def to_be_bytes_def
    by (simp only: list.map foldl_Cons foldl_Nil be_byte_value mult_0_right [of 256] add_0)
  also have "\<dots> = ?d 0" by (simp only: top digits)
  finally show ?thesis by simp
qed

text \<open>
  C28: the confirm preimage is the documented 108-byte layout: the 19 ASCII bytes of
  \<open>TESAURUS_CONFIRM_V1\<close>, the version byte 1, the request id at offset 20, the displayed txid at 36,
  the external amount in big-endian order at 68, and the genesis hash at 76. So it binds every
  field: on bindings of the array lengths of the code two preimages are equal only if request id,
  displayed txid, external amount and genesis hash are all equal.
\<close>

theorem confirm_preimage_binds:
  assumes "wf_binding b" and "wf_binding b'"
  shows "length (confirm_preimage b) = 108 \<and>
    take 20 (confirm_preimage b) =
      [0x54, 0x45, 0x53, 0x41, 0x55, 0x52, 0x55, 0x53, 0x5f, 0x43, 0x4f, 0x4e, 0x46, 0x49, 0x52,
       0x4d, 0x5f, 0x56, 0x31, 1] \<and>
    take 16 (drop 20 (confirm_preimage b)) = cb_request_id b \<and>
    take 32 (drop 36 (confirm_preimage b)) = cb_txid_display b \<and>
    foldl (\<lambda>n byte. 256 * n + unat byte) 0 (take 8 (drop 68 (confirm_preimage b))) =
      unat (cb_external_amount_sats b) \<and>
    drop 76 (confirm_preimage b) = cb_genesis_internal b \<and>
    (confirm_preimage b = confirm_preimage b' \<longleftrightarrow> b = b')"
proof -
  note layout = confirm_preimage_def confirm_domain_bytes CONFIRM_LAYOUT_VERSION_def
  have len: "length (cb_request_id b) = 16" "length (cb_txid_display b) = 32"
    "length (cb_genesis_internal b) = 32" using assms(1) by (simp_all add: wf_binding_def)
  have "take 8 (drop 68 (confirm_preimage b)) = to_be_bytes (cb_external_amount_sats b)"
    by (simp add: layout len)
  moreover have "foldl (\<lambda>n byte. 256 * n + unat byte) 0 (to_be_bytes (cb_external_amount_sats b)) =
      unat (cb_external_amount_sats b)"
    using be_value_to_be_bytes by (simp add: be_value_def)
  ultimately show ?thesis
    using confirm_preimage_eqD [OF assms] by (auto simp: layout len)
qed

section \<open>The published encoding vector\<close>

definition vec_request_id :: bytes where
  "vec_request_id =
   [0x01, 0x23, 0x45, 0x67, 0x89, 0xab, 0x4d, 0xef, 0x81, 0xff, 0x01, 0x23, 0x45, 0x67,
    0x89, 0xab]"

definition vec_txid_display :: bytes where
  "vec_txid_display =
   [0x4a, 0x5e, 0x1e, 0x4b, 0xaa, 0xb8, 0x9f, 0x3a, 0x32, 0x51, 0x8a, 0x88, 0xc3, 0x1b,
    0xc8, 0x7f, 0x61, 0x8f, 0x76, 0x67, 0x3e, 0x2c, 0xc7, 0x7a, 0xb2, 0x12, 0x7b, 0x7a,
    0xfd, 0xed, 0xa3, 0x3b]"

definition vec_genesis_internal :: bytes where
  "vec_genesis_internal =
   [0x6f, 0xe2, 0x8c, 0x0a, 0xb6, 0xf1, 0xb3, 0x72, 0xc1, 0xa6, 0xa2, 0x46, 0xae, 0x63,
    0xf7, 0x4f, 0x93, 0x1e, 0x83, 0x65, 0xe1, 0x5a, 0x08, 0x9c, 0x68, 0xd6, 0x19, 0x00,
    0x00, 0x00, 0x00, 0x00]"

definition vec_preimage :: bytes where
  "vec_preimage =
   [0x54, 0x45, 0x53, 0x41, 0x55, 0x52, 0x55, 0x53, 0x5f, 0x43, 0x4f, 0x4e, 0x46, 0x49,
    0x52, 0x4d, 0x5f, 0x56, 0x31, 0x01, 0x01, 0x23, 0x45, 0x67, 0x89, 0xab, 0x4d, 0xef,
    0x81, 0xff, 0x01, 0x23, 0x45, 0x67, 0x89, 0xab, 0x4a, 0x5e, 0x1e, 0x4b, 0xaa, 0xb8,
    0x9f, 0x3a, 0x32, 0x51, 0x8a, 0x88, 0xc3, 0x1b, 0xc8, 0x7f, 0x61, 0x8f, 0x76, 0x67,
    0x3e, 0x2c, 0xc7, 0x7a, 0xb2, 0x12, 0x7b, 0x7a, 0xfd, 0xed, 0xa3, 0x3b, 0x00, 0x00,
    0x00, 0x00, 0x00, 0x4c, 0x4b, 0x40, 0x6f, 0xe2, 0x8c, 0x0a, 0xb6, 0xf1, 0xb3, 0x72,
    0xc1, 0xa6, 0xa2, 0x46, 0xae, 0x63, 0xf7, 0x4f, 0x93, 0x1e, 0x83, 0x65, 0xe1, 0x5a,
    0x08, 0x9c, 0x68, 0xd6, 0x19, 0x00, 0x00, 0x00, 0x00, 0x00]"

definition vec_external_sats :: u64 where
  "vec_external_sats = 5000000"

definition vector_binding :: confirm_binding where
  "vector_binding =
     \<lparr>cb_request_id = vec_request_id, cb_txid_display = vec_txid_display,
      cb_external_amount_sats = vec_external_sats, cb_genesis_internal = vec_genesis_internal\<rparr>"

lemma vector_binding_wf: "wf_binding vector_binding"
  by (simp add: wf_binding_def vector_binding_def vec_request_id_def vec_txid_display_def
      vec_genesis_internal_def)

theorem confirm_preimage_binds_witness:
  "length (confirm_preimage vector_binding) = 108 \<and>
   drop 76 (confirm_preimage vector_binding) = vec_genesis_internal \<and>
   confirm_preimage vector_binding
     \<noteq> confirm_preimage (vector_binding\<lparr>cb_external_amount_sats := 5000001\<rparr>)"
proof -
  let ?b = "vector_binding" and ?b' = "vector_binding\<lparr>cb_external_amount_sats := 5000001\<rparr>"
  have "wf_binding ?b'" using vector_binding_wf by (simp add: wf_binding_def)
  from confirm_preimage_binds [OF vector_binding_wf this]
  have "length (confirm_preimage ?b) = 108" "drop 76 (confirm_preimage ?b) = cb_genesis_internal ?b"
    "confirm_preimage ?b = confirm_preimage ?b' \<longleftrightarrow> ?b = ?b'" by blast+
  moreover have "?b \<noteq> ?b'" "cb_genesis_internal ?b = vec_genesis_internal"
    by (simp_all add: vector_binding_def vec_external_sats_def)
  ultimately show ?thesis by simp
qed

text \<open>
  The encoder reproduces the published CI-22 vector: the preimage of the fixture binding is,
  byte for byte, the locked hex string of the source.\<close>

theorem confirm_preimage_matches_vector: "confirm_preimage vector_binding = vec_preimage"
proof -
  have "to_be_bytes vec_external_sats = [0, 0, 0, 0, 0, 0x4c, 0x4b, 0x40]"
    by (simp add: to_be_bytes_def vec_external_sats_def drop_bit_eq_div)
  then show ?thesis
    by (simp add: confirm_preimage_def confirm_domain_bytes vector_binding_def CONFIRM_LAYOUT_VERSION_def
        vec_request_id_def vec_txid_display_def vec_genesis_internal_def vec_preimage_def)
qed

section \<open>What an accepted token says\<close>

lemma verify_confirm_token_Inr_iff:
  "verify_confirm_token L token b pk = Inr u \<longleftrightarrow>
     length token = 64 \<and>
     (\<exists>sig. ecdsa_from_compact L token = Some sig \<and>
            verify_ecdsa L (sha256 L (confirm_preimage b)) sig (pk_inner pk))"
  by (auto simp: verify_confirm_token_def confirm_message_def res_simps)

lemma verify_confirm_token_Inl:
  "verify_confirm_token L token b pk = Inl e \<Longrightarrow> e = Reject ConfirmInvalid"
  by (auto simp: verify_confirm_token_def res_simps split: if_splits)

interpretation confirm_gate: gate
  "\<lambda>(token, b). verify_confirm_token L token b pk"
  "\<lambda>(token, b). length token = 64 \<and>
     (\<exists>sig. ecdsa_from_compact L token = Some sig \<and>
            verify_ecdsa L (sha256 L (confirm_preimage b)) sig (pk_inner pk))"
  "{Reject ConfirmInvalid}" for L pk
  by unfold_locales (auto simp: verify_confirm_token_Inr_iff dest: verify_confirm_token_Inl)

end
