(* ===== verification/Pin.thy ===== *)
theory Pin
  imports Errors Bitcoin_Types Confirm
begin

text \<open>
  The pinned vault identity (\<open>tesaurus-policy/src/pin.rs\<close>). The private fields are read through
  accessors in the code, which the record selectors are. \<open>provision\<close> compiles the policy string
  with the \<open>miniscript\<close> crate (a parameter) and fills every policy constant itself.
\<close>

section \<open>The code\<close>

record agent_pin =
  pin_network :: network
  pin_genesis_hash :: bytes
  pin_descriptor :: string
  pin_csv_blocks :: u32
  pin_primary_pubkey :: public_key
  pin_override_pubkey :: public_key
  pin_agent_pubkey :: public_key
  pin_safety_margin :: u32
  pin_velocity_per_sig_sats :: u64
  pin_velocity_per_144_sats :: u64
  pin_confirm_threshold_sats :: u64
  pin_wall_clock_seconds_per_block :: u64
  pin_script_pubkey :: script
  pin_witness_script :: script

definition vault_policy_str ::
    "('pol, 'ms, 'desc) miniscript_lib \<Rightarrow> public_key \<Rightarrow> public_key \<Rightarrow> public_key \<Rightarrow> u32 \<Rightarrow> string" where
  "vault_policy_str M primary override_key agent csv_blocks =
     ''thresh(2,pk('' @ public_key_to_string M primary @ ''),pk('' @
     public_key_to_string M override_key @ ''),and(pk('' @ public_key_to_string M agent @
     ''),older('' @ show_nat (unat csv_blocks) @ '')))''"

definition compile_vault_descriptor ::
    "('pol, 'ms, 'desc) miniscript_lib \<Rightarrow> public_key \<Rightarrow> public_key \<Rightarrow> public_key \<Rightarrow> u32 \<Rightarrow>
     'desc policy_result" where
  "compile_vault_descriptor M primary override_key agent csv_blocks =
     rbind (ok_or (Reject DescriptorMismatch)
       (policy_from_str M (vault_policy_str M primary override_key agent csv_blocks))) (\<lambda>policy.
     rbind (ok_or (Reject DescriptorMismatch) (policy_compile M policy)) (\<lambda>ms.
     rbind (ok_or (Reject DescriptorMismatch) (descriptor_new_wsh M ms)) (\<lambda>desc.
     if \<not> descriptor_sanity_check M desc then reject DescriptorMismatch else Inr desc)))"

definition provision ::
    "bitcoin_lib \<Rightarrow> ('pol, 'ms, 'desc) miniscript_lib \<Rightarrow> network \<Rightarrow>
     public_key \<Rightarrow> public_key \<Rightarrow> public_key \<Rightarrow> u32 \<Rightarrow> agent_pin policy_result" where
  "provision L M network primary override_key agent csv_blocks =
     (if network = Bitcoin then reject WrongNetwork
      else if network \<notin> {Regtest, Testnet, Signet} then reject WrongNetwork
      else if csv_blocks = 0 \<or> 65535 < csv_blocks then reject DescriptorMismatch
      else rbind (compile_vault_descriptor M primary override_key agent csv_blocks) (\<lambda>descriptor.
           rbind (ok_or (Reject DescriptorMismatch) (descriptor_explicit_script M descriptor))
             (\<lambda>witness_script.
           Inr \<lparr>pin_network = network,
                pin_genesis_hash = genesis_block_hash L network,
                pin_descriptor = descriptor_to_string M descriptor,
                pin_csv_blocks = csv_blocks,
                pin_primary_pubkey = primary,
                pin_override_pubkey = override_key,
                pin_agent_pubkey = agent,
                pin_safety_margin = SAFETY_MARGIN_BLOCKS,
                pin_velocity_per_sig_sats = VELOCITY_PER_SIG_SATS,
                pin_velocity_per_144_sats = VELOCITY_PER_144_SATS,
                pin_confirm_threshold_sats = OOB_CONFIRM_SATS,
                pin_wall_clock_seconds_per_block = WALL_CLOCK_SECONDS_PER_BLOCK,
                pin_script_pubkey = descriptor_script_pubkey M descriptor,
                pin_witness_script = witness_script\<rparr>)))"

definition receive_address ::
    "(script \<Rightarrow> network \<Rightarrow> 'addr option) \<Rightarrow> agent_pin \<Rightarrow> 'addr policy_result" where
  "receive_address address_from_script self =
     ok_or (Reject DescriptorMismatch)
       (address_from_script (pin_script_pubkey self) (pin_network self))"

definition contains_pubkey :: "agent_pin \<Rightarrow> public_key \<Rightarrow> bool" where
  "contains_pubkey self pk \<longleftrightarrow>
     pk = pin_primary_pubkey self \<or> pk = pin_override_pubkey self \<or> pk = pin_agent_pubkey self"

section \<open>Provisioned pins\<close>

text \<open>What every provisioned pin satisfies: the research networks and the locked constants.\<close>

definition locked_pin :: "agent_pin \<Rightarrow> bool" where
  "locked_pin pin \<longleftrightarrow>
     pin_network pin \<in> {Regtest, Testnet, Signet} \<and>
     1 \<le> unat (pin_csv_blocks pin) \<and> unat (pin_csv_blocks pin) \<le> 65535 \<and>
     pin_safety_margin pin = SAFETY_MARGIN_BLOCKS \<and>
     pin_velocity_per_sig_sats pin = VELOCITY_PER_SIG_SATS \<and>
     pin_velocity_per_144_sats pin = VELOCITY_PER_144_SATS \<and>
     pin_confirm_threshold_sats pin = OOB_CONFIRM_SATS \<and>
     pin_wall_clock_seconds_per_block pin = WALL_CLOCK_SECONDS_PER_BLOCK"

lemma csv_in_range_iff: "\<not> (csv = 0 \<or> 65535 < csv) \<longleftrightarrow> 1 \<le> unat csv \<and> unat csv \<le> 65535" for csv :: u32
  by (auto simp: word_less_nat_alt unat_eq_0 Suc_le_eq unat_gt_0)

lemma compile_vault_descriptor_Inl:
  "compile_vault_descriptor M p ov a csv = Inl e \<Longrightarrow> e = Reject DescriptorMismatch"
  by (auto simp: compile_vault_descriptor_def res_simps split: if_splits)

lemma compile_vault_descriptor_Inr_iff:
  "compile_vault_descriptor M p ov a csv = Inr d \<longleftrightarrow>
     (\<exists>pol ms. policy_from_str M (vault_policy_str M p ov a csv) = Some pol \<and>
        policy_compile M pol = Some ms \<and> descriptor_new_wsh M ms = Some d \<and>
        descriptor_sanity_check M d)"
  by (auto simp: compile_vault_descriptor_def res_simps)

lemma provision_locked: "provision L M net p ov a csv = Inr pin \<Longrightarrow> locked_pin pin"
  using csv_in_range_iff [of csv]
  by (auto simp: provision_def locked_pin_def res_simps split: if_splits)

text \<open>
  C39: provisioning fixes the vault identity. It succeeds only on regtest, testnet or signet with a
  CSV in \<open>1..=65535\<close>; then the pin holds exactly the caller's network, keys and CSV, the genesis
  hash of that network, the protocol's constants, and descriptor, script and witness script of
  one and the same sane compiled descriptor. Mainnet, other networks and failed compilations
  give \<open>WRONG_NETWORK\<close> and \<open>DESCRIPTOR_MISMATCH\<close>, nothing else.
\<close>

theorem provision_fixes_identity:
  "case provision L M net primary override_key agent csv of
     Inr pin \<Rightarrow>
       locked_pin pin \<and> pin_network pin = net \<and> pin_csv_blocks pin = csv \<and>
       pin_genesis_hash pin = genesis_block_hash L net \<and>
       pin_primary_pubkey pin = primary \<and> pin_override_pubkey pin = override_key \<and>
       pin_agent_pubkey pin = agent \<and>
       (\<exists>d. compile_vault_descriptor M primary override_key agent csv = Inr d \<and>
            descriptor_sanity_check M d \<and>
            pin_descriptor pin = descriptor_to_string M d \<and>
            pin_script_pubkey pin = descriptor_script_pubkey M d \<and>
            descriptor_explicit_script M d = Some (pin_witness_script pin))
   | Inl e \<Rightarrow>
       e = (if net \<in> {Regtest, Testnet, Signet} then Reject DescriptorMismatch
            else Reject WrongNetwork)"
proof (cases "provision L M net primary override_key agent csv")
  case (Inl e)
  then have "e = (if net \<in> {Regtest, Testnet, Signet} then Reject DescriptorMismatch
      else Reject WrongNetwork)"
    by (auto simp: provision_def res_simps split: if_splits dest: compile_vault_descriptor_Inl)
  with Inl show ?thesis by simp
next
  case (Inr pin)
  then obtain d where "compile_vault_descriptor M primary override_key agent csv = Inr d"
    "pin_network pin = net" "pin_csv_blocks pin = csv"
    "pin_genesis_hash pin = genesis_block_hash L net" "pin_primary_pubkey pin = primary"
    "pin_override_pubkey pin = override_key" "pin_agent_pubkey pin = agent"
    "pin_descriptor pin = descriptor_to_string M d"
    "pin_script_pubkey pin = descriptor_script_pubkey M d"
    "descriptor_explicit_script M d = Some (pin_witness_script pin)"
    by (auto simp: provision_def res_simps split: if_splits)
  moreover from this(1) have "descriptor_sanity_check M d"
    by (auto simp: compile_vault_descriptor_Inr_iff)
  ultimately show ?thesis using Inr provision_locked [OF Inr] by auto
qed

end
