(* ===== verification/Replay.thy ===== *)
theory Replay
  imports Pin
begin

text \<open>
  The durable replay store, in-memory half (\<open>tesaurus-policy/src/replay.rs\<close>): records and their
  payload, the preflight verdict (idempotent retry, conflict, replay, D5 fee bump), and the
  invariant of the record log that every accepted record keeps. The files behind the store are
  in the theory \<open>Replay_Disk\<close>.
\<close>

section \<open>Records\<close>

datatype replay_payload = Unsigned | Signed bytes

record replay_record =
  rr_request_id :: bytes
  rr_replay_id :: bytes
  rr_psbt_txid :: bytes
  rr_outpoints :: "out_point list"
  rr_outputs :: "tx_out list"
  rr_vault_script :: script
  rr_outputs_commitment :: bytes
  rr_payload :: replay_payload

datatype replay_verdict = Fresh | Idempotent bytes | FeeBump

record replay_store =
  records :: "replay_record list"

definition psbt_content_hash :: "bitcoin_lib \<Rightarrow> bytes \<Rightarrow> bytes" where
  "psbt_content_hash L psbt_bytes = sha256 L psbt_bytes"

definition replay_id :: "bitcoin_lib \<Rightarrow> bytes \<Rightarrow> bytes \<Rightarrow> bytes \<Rightarrow> bytes" where
  "replay_id L request_id psbt_txid content_hash = sha256 L (request_id @ psbt_txid @ content_hash)"

definition outputs_commitment :: "bitcoin_lib \<Rightarrow> tx_out list \<Rightarrow> bytes policy_result" where
  "outputs_commitment L outputs =
     rbind (try_fold (\<lambda>buf txout. rbind (ok_or (Reject Internal) (consensus_encode L txout))
              (\<lambda>enc. Inr (buf @ enc))) [] outputs)
       (\<lambda>buf. Inr (sha256 L buf))"

fun signed_bytes :: "replay_payload \<Rightarrow> bytes option" where
  "signed_bytes Unsigned = None"
| "signed_bytes (Signed raw) = Some raw"

definition from_pin ::
    "bitcoin_lib \<Rightarrow> agent_pin \<Rightarrow> bytes \<Rightarrow> psbt \<Rightarrow> bytes \<Rightarrow> replay_record policy_result" where
  "from_pin L pin request_id psbt psbt_bytes =
     (let tx = unsigned_tx psbt;
          psbt_txid = compute_txid L tx;
          content = psbt_content_hash L psbt_bytes
      in rbind (outputs_commitment L (tx_output tx)) (\<lambda>commitment.
         Inr \<lparr>rr_request_id = request_id,
              rr_replay_id = replay_id L request_id psbt_txid content,
              rr_psbt_txid = psbt_txid,
              rr_outpoints = map previous_output (tx_input tx),
              rr_outputs = tx_output tx,
              rr_vault_script = pin_script_pubkey pin,
              rr_outputs_commitment = commitment,
              rr_payload = Unsigned\<rparr>))"

definition attach_signed :: "replay_record \<Rightarrow> bytes \<Rightarrow> replay_record policy_result" where
  "attach_signed self signed_psbt_or_partial =
     (if signed_psbt_or_partial = [] then reject Internal
      else Inr (self\<lparr>rr_payload := Signed signed_psbt_or_partial\<rparr>))"

definition require_signed_payload :: "replay_record \<Rightarrow> unit policy_result" where
  "require_signed_payload record =
     (if rr_payload record = Unsigned then reject Internal else Inr ())"

section \<open>Outpoints and vault-change-only replacements\<close>

text \<open>The hash sets of the code are only asked for membership and equality.\<close>

definition outpoints_overlap :: "out_point list \<Rightarrow> out_point list \<Rightarrow> bool" where
  "outpoints_overlap a b \<longleftrightarrow> (\<exists>op\<in>set b. op \<in> set a)"

definition outpoints_identical :: "out_point list \<Rightarrow> out_point list \<Rightarrow> bool" where
  "outpoints_identical a b \<longleftrightarrow> set a \<noteq> {} \<and> set a = set b"

record classified_outputs =
  co_external :: tx_out
  co_change_sats :: u64

text \<open>The loop of \<open>classify_outputs\<close> splits the outputs, keeping their order.\<close>

fun split_outputs :: "script \<Rightarrow> tx_out list \<Rightarrow> tx_out list \<times> tx_out list" where
  "split_outputs vault_script [] = ([], [])"
| "split_outputs vault_script (output # outputs) =
     (let (externals, changes) = split_outputs vault_script outputs
      in if txo_script_pubkey output = vault_script then (externals, output # changes)
         else (output # externals, changes))"

definition classify_outputs :: "tx_out list \<Rightarrow> script \<Rightarrow> classified_outputs option" where
  "classify_outputs outputs vault_script =
     (case split_outputs vault_script outputs of
        ([external], []) \<Rightarrow> Some \<lparr>co_external = external, co_change_sats = 0\<rparr>
      | ([external], [change]) \<Rightarrow>
          Some \<lparr>co_external = external, co_change_sats = txo_value change\<rparr>
      | _ \<Rightarrow> None)"

definition is_vault_change_only :: "replay_record \<Rightarrow> replay_record \<Rightarrow> bool" where
  "is_vault_change_only previous candidate =
     (if \<not> outpoints_identical (rr_outpoints previous) (rr_outpoints candidate) then False
      else if rr_vault_script previous \<noteq> rr_vault_script candidate then False
      else case classify_outputs (rr_outputs previous) (rr_vault_script previous) of
        None \<Rightarrow> False
      | Some prev \<Rightarrow>
        (case classify_outputs (rr_outputs candidate) (rr_vault_script candidate) of
           None \<Rightarrow> False
         | Some cand \<Rightarrow>
             if txo_script_pubkey (co_external prev) \<noteq> txo_script_pubkey (co_external cand)
             then False
             else if txo_value (co_external prev) \<noteq> txo_value (co_external cand) then False
             else co_change_sats cand < co_change_sats prev))"

section \<open>Preflight\<close>

fun preflight_scan :: "replay_record \<Rightarrow> bool \<Rightarrow> replay_record list \<Rightarrow> replay_verdict policy_result" where
  "preflight_scan candidate saw_fee_bump [] =
     (if saw_fee_bump then Inr FeeBump else Inr Fresh)"
| "preflight_scan candidate saw_fee_bump (existing # rest) =
     (if \<not> outpoints_overlap (rr_outpoints existing) (rr_outpoints candidate)
      then preflight_scan candidate saw_fee_bump rest
      else if rr_outputs_commitment existing = rr_outputs_commitment candidate then reject Replay
      else if is_vault_change_only existing candidate then preflight_scan candidate True rest
      else reject Replay)"

definition preflight :: "replay_store \<Rightarrow> replay_record \<Rightarrow> replay_verdict policy_result" where
  "preflight self candidate =
     (case find (\<lambda>r. rr_request_id r = rr_request_id candidate) (records self) of
        Some existing \<Rightarrow>
          if rr_replay_id existing = rr_replay_id candidate then
            (case signed_bytes (rr_payload existing) of
               None \<Rightarrow> reject Internal
             | Some raw \<Rightarrow> Inr (Idempotent raw))
          else reject ReplayConflict
      | None \<Rightarrow> preflight_scan candidate False (records self))"

section \<open>Classification\<close>

lemma split_outputs_eq:
  "split_outputs v outs =
     (filter (\<lambda>out. txo_script_pubkey out \<noteq> v) outs, filter (\<lambda>out. txo_script_pubkey out = v) outs)"
  by (induction outs) auto

lemma classify_outputs_Some_iff:
  "classify_outputs outs v = Some c \<longleftrightarrow>
     (filter (\<lambda>out. txo_script_pubkey out \<noteq> v) outs = [co_external c] \<and>
      (filter (\<lambda>out. txo_script_pubkey out = v) outs = [] \<and> co_change_sats c = 0 \<or>
       (\<exists>ch. filter (\<lambda>out. txo_script_pubkey out = v) outs = [ch] \<and> co_change_sats c = txo_value ch)))"
  unfolding classify_outputs_def split_outputs_eq
  by (cases c) (auto split: list.splits)

definition change_of :: "replay_record \<Rightarrow> nat" where
  "change_of r =
     (case classify_outputs (rr_outputs r) (rr_vault_script r) of
        None \<Rightarrow> 0 | Some c \<Rightarrow> unat (co_change_sats c))"

definition external_of :: "replay_record \<Rightarrow> tx_out option" where
  "external_of r = map_option co_external (classify_outputs (rr_outputs r) (rr_vault_script r))"

lemma is_vault_change_only_iff:
  "is_vault_change_only p c \<longleftrightarrow>
     outpoints_identical (rr_outpoints p) (rr_outpoints c) \<and>
     rr_vault_script p = rr_vault_script c \<and>
     external_of p \<noteq> None \<and> external_of p = external_of c \<and> change_of c < change_of p"
proof -
  have eq: "a = b \<longleftrightarrow> txo_script_pubkey a = txo_script_pubkey b \<and> txo_value a = txo_value b"
    for a b :: tx_out
    by (cases a; cases b) auto
  show ?thesis
    by (auto simp: is_vault_change_only_def external_of_def change_of_def word_less_nat_alt eq
        split: option.splits)
qed

lemma overlap_sym: "outpoints_overlap a b \<longleftrightarrow> outpoints_overlap b a"
  by (auto simp: outpoints_overlap_def)

lemma identical_overlap: "outpoints_identical a b \<Longrightarrow> outpoints_overlap a b"
  by (cases a) (auto simp: outpoints_identical_def outpoints_overlap_def)

section \<open>Verdicts\<close>

definition may_follow :: "replay_record \<Rightarrow> replay_record \<Rightarrow> bool" where
  "may_follow existing candidate \<longleftrightarrow>
     (outpoints_overlap (rr_outpoints existing) (rr_outpoints candidate) \<longrightarrow>
        rr_outputs_commitment existing \<noteq> rr_outputs_commitment candidate \<and>
        is_vault_change_only existing candidate)"

lemma preflight_scan_cases:
  "preflight_scan c saw log =
     (if \<forall>r\<in>set log. may_follow r c
      then Inr (if saw \<or> (\<exists>r\<in>set log. outpoints_overlap (rr_outpoints r) (rr_outpoints c))
                then FeeBump else Fresh)
      else reject Replay)"
  by (induction log arbitrary: saw) (auto simp: may_follow_def)

lemma preflight_no_panic: "preflight st c \<noteq> Inl Panic"
  by (auto simp: preflight_def preflight_scan_cases split: option.splits)

lemma preflight_Inl:
  "preflight st c = Inl e \<Longrightarrow> e \<in> {Reject Internal, Reject ReplayConflict, Reject Replay}"
  by (auto simp: preflight_def preflight_scan_cases split: option.splits if_splits)

lemma preflight_accept_iff:
  "preflight st c = Inr v \<and> (v = Fresh \<or> v = FeeBump) \<longleftrightarrow>
     (\<forall>r\<in>set (records st). rr_request_id r \<noteq> rr_request_id c) \<and>
     (\<forall>r\<in>set (records st). may_follow r c) \<and>
     v = (if \<exists>r\<in>set (records st). outpoints_overlap (rr_outpoints r) (rr_outpoints c)
          then FeeBump else Fresh)"
proof (cases "find (\<lambda>r. rr_request_id r = rr_request_id c) (records st)")
  case None
  then have "\<forall>r\<in>set (records st). rr_request_id r \<noteq> rr_request_id c"
    by (simp add: find_None_iff_set)
  with None show ?thesis by (auto simp: preflight_def preflight_scan_cases)
next
  case (Some r)
  then have "\<exists>r\<in>set (records st). rr_request_id r = rr_request_id c"
    by (auto dest: find_SomeD)
  with Some show ?thesis by (auto simp: preflight_def split: option.splits)
qed

lemma preflight_fresh_iff:
  "preflight st c = Inr Fresh \<longleftrightarrow>
     (\<forall>r\<in>set (records st). rr_request_id r \<noteq> rr_request_id c \<and>
        \<not> outpoints_overlap (rr_outpoints r) (rr_outpoints c))"
  using preflight_accept_iff [of st c Fresh] by (auto simp: may_follow_def)

lemma preflight_fee_bump_iff:
  "preflight st c = Inr FeeBump \<longleftrightarrow>
     (\<forall>r\<in>set (records st). rr_request_id r \<noteq> rr_request_id c \<and> may_follow r c) \<and>
     (\<exists>r\<in>set (records st). outpoints_overlap (rr_outpoints r) (rr_outpoints c))"
  using preflight_accept_iff [of st c FeeBump] by auto

text \<open>
  C12: the preflight verdict in terms of the log. A known request id is an idempotent retry of the
  stored payload or a conflict, depending on the replay id alone; a new request is \<open>Fresh\<close> iff no
  record shares an outpoint with it, \<open>FeeBump\<close> iff some do and each of those is a vault-change-only
  predecessor with other outputs, and \<open>REPLAY\<close> otherwise. Preflight never panics.
\<close>

theorem preflight_exact:
  "preflight st c =
     (case find (\<lambda>r. rr_request_id r = rr_request_id c) (records st) of
        Some r \<Rightarrow>
          if rr_replay_id r \<noteq> rr_replay_id c then reject ReplayConflict
          else (case rr_payload r of Signed raw \<Rightarrow> Inr (Idempotent raw)
                                   | Unsigned \<Rightarrow> reject Internal)
      | None \<Rightarrow>
          let clashes = filter (\<lambda>r. set (rr_outpoints r) \<inter> set (rr_outpoints c) \<noteq> {}) (records st)
          in if clashes = [] then Inr Fresh
             else if list_all (\<lambda>r. rr_outputs_commitment r \<noteq> rr_outputs_commitment c \<and>
                       set (rr_outpoints r) = set (rr_outpoints c) \<and>
                       rr_vault_script r = rr_vault_script c \<and>
                       external_of r \<noteq> None \<and> external_of r = external_of c \<and>
                       change_of c < change_of r) clashes
             then Inr FeeBump else reject Replay)"
proof -
  have overlap: "outpoints_overlap a b \<longleftrightarrow> set a \<inter> set b \<noteq> {}" for a b
    by (auto simp: outpoints_overlap_def)
  have identical: "outpoints_identical a b \<longleftrightarrow> set a = set b"
    if "set a \<inter> set b \<noteq> {}" for a b :: "out_point list"
    using that by (auto simp: outpoints_identical_def)
  have follow: "may_follow r c \<longleftrightarrow>
      (set (rr_outpoints r) \<inter> set (rr_outpoints c) \<noteq> {} \<longrightarrow>
         rr_outputs_commitment r \<noteq> rr_outputs_commitment c \<and>
         set (rr_outpoints r) = set (rr_outpoints c) \<and> rr_vault_script r = rr_vault_script c \<and>
         external_of r \<noteq> None \<and> external_of r = external_of c \<and> change_of c < change_of r)" for r
    unfolding may_follow_def overlap is_vault_change_only_iff by (auto simp: identical)
  show ?thesis
    unfolding preflight_def preflight_scan_cases Let_def overlap follow
    by (auto simp: list_all_iff filter_empty_conv split: option.splits replay_payload.splits)
qed

section \<open>The log of accepted records\<close>

text \<open>
  The invariant of the record log: request ids are unique, every record is signed, and a later
  record that shares an outpoint with an earlier one is a vault-change-only replacement of it.
\<close>

definition log_inv :: "replay_record list \<Rightarrow> bool" where
  "log_inv log \<longleftrightarrow>
     distinct (map rr_request_id log) \<and>
     (\<forall>r\<in>set log. rr_payload r \<noteq> Unsigned) \<and>
     sorted_wrt may_follow log"

lemma log_inv_Nil [simp]: "log_inv []"
  by (simp add: log_inv_def)

lemma log_inv_append:
  assumes "log_inv (records st)" and "preflight st r = Inr v" and "v = Fresh \<or> v = FeeBump"
    and "require_signed_payload r = Inr ()"
  shows "log_inv (records st @ [r])"
proof -
  from assms(2,3) have "\<forall>q\<in>set (records st). rr_request_id q \<noteq> rr_request_id r"
    and "\<forall>q\<in>set (records st). may_follow q r"
    using preflight_accept_iff [of st r v] by blast+
  moreover from assms(4) have "rr_payload r \<noteq> Unsigned"
    by (simp add: require_signed_payload_def split: if_splits)
  ultimately show ?thesis
    using assms(1) by (auto simp: log_inv_def sorted_wrt_append)
qed

lemma find_request:
  assumes "distinct (map rr_request_id log)" and "r \<in> set log"
  shows "find (\<lambda>q. rr_request_id q = rr_request_id r) log = Some r"
proof (cases "find (\<lambda>q. rr_request_id q = rr_request_id r) log")
  case None
  with assms(2) show ?thesis by (auto simp: find_None_iff_set)
next
  case (Some q)
  then have "q \<in> set log" "rr_request_id q = rr_request_id r" by (auto dest: find_SomeD)
  with assms have "q = r" by (auto simp: distinct_map inj_on_def)
  with Some show ?thesis by simp
qed

lemma log_retry:
  assumes "log_inv (records st)" and "r \<in> set (records st)"
  shows "\<exists>raw. rr_payload r = Signed raw \<and> preflight st r = Inr (Idempotent raw)"
proof -
  from assms obtain raw where "rr_payload r = Signed raw"
    by (cases "rr_payload r") (auto simp: log_inv_def)
  with assms show ?thesis by (auto simp: preflight_def find_request log_inv_def)
qed

lemma log_inv_pair:
  assumes "log_inv log" and "i < j" and "j < length log"
    and "outpoints_overlap (rr_outpoints (log ! i)) (rr_outpoints (log ! j))"
  shows "is_vault_change_only (log ! i) (log ! j)"
proof -
  from assms(1-3) have "may_follow (log ! i) (log ! j)"
    by (simp add: log_inv_def sorted_wrt_iff_nth_less)
  with assms(4) show ?thesis by (simp add: may_follow_def)
qed

lemma log_inv_same_external:
  assumes "log_inv log" and "r \<in> set log" and "q \<in> set log" and "r \<noteq> q"
    and "outpoints_overlap (rr_outpoints r) (rr_outpoints q)"
  shows "external_of r \<noteq> None \<and> external_of r = external_of q \<and>
    set (rr_outpoints r) = set (rr_outpoints q)"
proof -
  from assms(2,3) obtain i j where ij: "i < length log" "r = log ! i" "j < length log" "q = log ! j"
    by (auto simp: in_set_conv_nth)
  with assms(4) have "i \<noteq> j" by auto
  then consider "i < j" | "j < i" by linarith
  then show ?thesis
  proof cases
    case 1
    with log_inv_pair [OF assms(1) 1] ij assms(5) show ?thesis
      by (auto simp: is_vault_change_only_iff outpoints_identical_def)
  next
    case 2
    with log_inv_pair [OF assms(1) 2] ij assms(5) show ?thesis
      by (auto simp: is_vault_change_only_iff outpoints_identical_def overlap_sym)
  qed
qed

text \<open>The records that spend one outpoint, in order: each pays strictly less change.\<close>

definition spenders :: "out_point \<Rightarrow> replay_record list \<Rightarrow> replay_record list" where
  "spenders op = filter (\<lambda>r. op \<in> set (rr_outpoints r))"

lemma spenders_decreasing:
  assumes "log_inv log"
  shows "sorted_wrt (\<lambda>p q. change_of q < change_of p) (spenders op log)"
proof -
  have "sorted_wrt may_follow (spenders op log)"
    using assms by (simp add: log_inv_def spenders_def sorted_wrt_filter)
  moreover have "change_of q < change_of p"
    if "p \<in> set (spenders op log)" "q \<in> set (spenders op log)" "may_follow p q" for p q
  proof -
    from that(1,2) have "outpoints_overlap (rr_outpoints p) (rr_outpoints q)"
      by (auto simp: spenders_def outpoints_overlap_def)
    with that(3) show ?thesis by (simp add: may_follow_def is_vault_change_only_iff)
  qed
  ultimately show ?thesis
    by (rule sorted_wrt_mono_rel [rotated]) blast
qed

lemma decreasing_length:
  "sorted_wrt (\<lambda>p q. f q < f p) (x # xs) \<Longrightarrow> length xs \<le> f x" for f :: "'a \<Rightarrow> nat"
proof (induction xs arbitrary: x)
  case (Cons y ys)
  then have "length ys \<le> f y" "f y < f x" by auto
  then show ?case by simp
qed simp

lemma spenders_bounded:
  assumes "log_inv log" and "spenders op log = r # rs"
  shows "length rs \<le> change_of r"
  using spenders_decreasing [OF assms(1), of op] unfolding assms(2) by (rule decreasing_length)

end
