(* ===== verification/Evaluate.thy ===== *)
theory Evaluate
  imports Csv Velocity Structure Facts Confirm Replay
begin

text \<open>
  The validation state machine (\<open>tesaurus-policy/src/evaluate.rs\<close>): every stage as the code has it,
  their composition \<open>evaluate\<close> in the code's order, and for each stage what it accepts and which
  code it rejects with. An index out of range and the \<open>expect\<close> on a missing fact are \<open>Panic\<close>.
\<close>

section \<open>Requests and outcomes\<close>

record policy_request =
  req_request_id :: bytes
  req_psbt_bytes :: bytes
  req_confirm_token :: "bytes option"
  req_claimed_external_sats :: u64

record amount_breakdown =
  ab_external_sats :: u64
  ab_external_script :: script
  ab_change_sats :: u64
  ab_fee_sats :: u64
  ab_input_sats :: u64

datatype policy_outcome =
    CachedSignature bytes
  | ValidatedUnsigned replay_verdict replay_record amount_breakdown

section \<open>The stages\<close>

text \<open>The body of the loop of \<open>collect_prevouts\<close>, for one input.\<close>

definition input_prevout :: "bitcoin_lib \<Rightarrow> tx_in \<Rightarrow> psbt_input \<Rightarrow> tx_out policy_result" where
  "input_prevout L txin input =
     (case witness_utxo input of
        Some utxo \<Rightarrow>
          (case non_witness_utxo input of
             Some prev_tx \<Rightarrow>
               if compute_txid L prev_tx \<noteq> op_txid (previous_output txin) then reject PrevoutMismatch
               else rbind (ok_or (Reject PrevoutMissing)
                      (nth_opt (tx_output prev_tx) (unat (op_vout (previous_output txin)))))
                    (\<lambda>from_tx. if from_tx \<noteq> utxo then reject PrevoutMismatch else Inr utxo)
           | None \<Rightarrow> Inr utxo)
      | None \<Rightarrow>
          (case non_witness_utxo input of
             Some prev_tx \<Rightarrow>
               if compute_txid L prev_tx \<noteq> op_txid (previous_output txin) then reject PrevoutMismatch
               else ok_or (Reject PrevoutMissing)
                      (nth_opt (tx_output prev_tx) (unat (op_vout (previous_output txin))))
           | None \<Rightarrow> reject PrevoutMissing))"

definition collect_prevouts :: "bitcoin_lib \<Rightarrow> psbt \<Rightarrow> tx_out list policy_result" where
  "collect_prevouts L psbt =
     try_map (\<lambda>(i, input).
         rbind (ok_or Panic (nth_opt (tx_input (unsigned_tx psbt)) i)) (\<lambda>txin.
         input_prevout L txin input))
       (enumerate 0 (psbt_inputs psbt))"

definition classify_amounts ::
    "agent_pin \<Rightarrow> transaction \<Rightarrow> tx_out list \<Rightarrow> amount_breakdown policy_result" where
  "classify_amounts pin tx prevouts =
     rbind (checked_sum (Reject Fee) txo_value 0 prevouts) (\<lambda>input_sats.
     rbind (try_fold (\<lambda>(output_sats, externals, changes) output.
              rbind (ok_or (Reject Fee) (checked_add output_sats (txo_value output))) (\<lambda>output_sats.
              if txo_script_pubkey output = pin_script_pubkey pin
              then Inr (output_sats, externals, changes @ [output])
              else Inr (output_sats, externals @ [output], changes)))
            (0, [], []) (tx_output tx)) (\<lambda>(output_sats, externals, changes).
     if length externals \<noteq> 1 then reject Change
     else if 1 < length changes then reject Change
     else rbind (ok_or (Reject Fee) (checked_sub input_sats output_sats)) (\<lambda>fee_sats.
       Inr \<lparr>ab_external_sats = txo_value (hd externals),
            ab_external_script = txo_script_pubkey (hd externals),
            ab_change_sats = (case changes of [] \<Rightarrow> 0 | c # _ \<Rightarrow> txo_value c),
            ab_fee_sats = fee_sats,
            ab_input_sats = input_sats\<rparr>)))"

definition check_dust :: "bitcoin_lib \<Rightarrow> agent_pin \<Rightarrow> amount_breakdown \<Rightarrow> unit policy_result" where
  "check_dust L pin amounts =
     (if ab_external_sats amounts < minimal_non_dust L (ab_external_script amounts) then reject Dust
      else if 0 < ab_change_sats amounts \<and>
              ab_change_sats amounts < minimal_non_dust L (pin_script_pubkey pin)
      then reject Dust
      else Inr ())"

definition input_against_pin :: "agent_pin \<Rightarrow> psbt_input \<times> tx_out \<Rightarrow> unit policy_result" where
  "input_against_pin pin = (\<lambda>(input, prevout).
     if txo_script_pubkey prevout \<noteq> pin_script_pubkey pin then reject ForeignInput
     else rbind (case witness_script input of
                   Some ws \<Rightarrow> if ws = pin_witness_script pin then Inr () else reject DescriptorMismatch
                 | None \<Rightarrow> reject DescriptorMismatch) (\<lambda>_.
     if redeem_script input \<noteq> None then reject DescriptorMismatch
     else rbind (try_each (\<lambda>(pk, sig).
                   if \<not> contains_pubkey pin pk then reject KeySubstitution else Inr ())
                 (partial_sigs input)) (\<lambda>_.
          try_each (\<lambda>(pk, origin).
              if \<not> contains_pubkey pin \<lparr>pk_compressed = True, pk_inner = pk\<rparr>
              then reject KeySubstitution else Inr ())
            (bip32_derivation input))))"

definition check_inputs_against_pin ::
    "agent_pin \<Rightarrow> psbt \<Rightarrow> tx_out list \<Rightarrow> unit policy_result" where
  "check_inputs_against_pin pin psbt prevouts =
     try_each (input_against_pin pin) (zip (psbt_inputs psbt) prevouts)"

definition find_fact :: "chain_view \<Rightarrow> tx_in \<Rightarrow> prevout_fact option" where
  "find_fact chain txin =
     find (\<lambda>f. fact_outpoint f = previous_output txin) (chain_prevouts chain)"

definition chain_prevout ::
    "agent_pin \<Rightarrow> chain_view \<Rightarrow> tx_in \<times> tx_out \<Rightarrow> unit policy_result" where
  "chain_prevout pin chain = (\<lambda>(txin, prevout).
     rbind (ok_or (Reject PrevoutMissing) (find_fact chain txin)) (\<lambda>fact.
     if \<not> visible_unspent fact then reject ForeignInput
     else if fact_script_pubkey fact \<noteq> txo_script_pubkey prevout \<or>
             fact_value fact \<noteq> txo_value prevout then reject PrevoutMismatch
     else if fact_script_pubkey fact \<noteq> pin_script_pubkey pin then reject ForeignInput
     else Inr ()))"

definition check_chain_prevouts ::
    "agent_pin \<Rightarrow> chain_view \<Rightarrow> psbt \<Rightarrow> tx_out list \<Rightarrow> unit policy_result" where
  "check_chain_prevouts pin chain psbt prevouts =
     try_each (chain_prevout pin chain) (zip (tx_input (unsigned_tx psbt)) prevouts)"

definition has_sig :: "psbt_input \<Rightarrow> public_key \<Rightarrow> bool" where
  "has_sig input pk \<longleftrightarrow> pk \<in> fst ` set (partial_sigs input)"

definition check_recovery_path :: "bitcoin_lib \<Rightarrow> agent_pin \<Rightarrow> psbt \<Rightarrow> unit policy_result" where
  "check_recovery_path L pin psbt =
     try_each (\<lambda>(i, input).
         if final_script_sig input \<noteq> None \<or> final_script_witness input \<noteq> None
         then reject NotRecoveryPath
         else rbind (ok_or Panic (nth_opt (tx_input (unsigned_tx psbt)) i)) (\<lambda>txin.
              rbind (require_recovery_sequence L (tx_sequence txin) (pin_csv_blocks pin)) (\<lambda>_.
              if has_sig input (pin_primary_pubkey pin) \<and> has_sig input (pin_override_pubkey pin)
              then reject NotRecoveryPath else Inr ())))
       (enumerate 0 (psbt_inputs psbt))"

definition csv_for_input :: "agent_pin \<Rightarrow> chain_view \<Rightarrow> tx_in \<Rightarrow> unit policy_result" where
  "csv_for_input pin chain txin =
     rbind (ok_or Panic (find_fact chain txin)) (\<lambda>fact.
     rbind (check_csv_maturity (chain_tip_height chain) (confirm_height fact)
              (chain_now_unix chain) (header_time_unix fact)
              (pin_csv_blocks pin) (pin_safety_margin pin)) (\<lambda>_.
     if pin_wall_clock_seconds_per_block pin \<noteq> WALL_CLOCK_SECONDS_PER_BLOCK
     then reject CsvImmatureWallclock else Inr ()))"

definition check_csv_for_inputs :: "agent_pin \<Rightarrow> chain_view \<Rightarrow> psbt \<Rightarrow> unit policy_result" where
  "check_csv_for_inputs pin chain psbt =
     try_each (csv_for_input pin chain) (tx_input (unsigned_tx psbt))"

definition binding_of ::
    "bitcoin_lib \<Rightarrow> agent_pin \<Rightarrow> policy_request \<Rightarrow> psbt \<Rightarrow> u64 \<Rightarrow> confirm_binding" where
  "binding_of L pin request psbt external_sats =
     \<lparr>cb_request_id = req_request_id request,
      cb_txid_display = txid_display_bytes (compute_txid L (unsigned_tx psbt)),
      cb_external_amount_sats = external_sats,
      cb_genesis_internal = genesis_internal_bytes (pin_genesis_hash pin)\<rparr>"

definition check_confirm ::
    "bitcoin_lib \<Rightarrow> agent_pin \<Rightarrow> policy_request \<Rightarrow> psbt \<Rightarrow> u64 \<Rightarrow> unit policy_result" where
  "check_confirm L pin request psbt external_sats =
     (if external_sats < pin_confirm_threshold_sats pin then Inr ()
      else rbind (ok_or (Reject ConfirmRequired) (req_confirm_token request)) (\<lambda>token.
           verify_confirm_token L token (binding_of L pin request psbt external_sats)
             (pin_override_pubkey pin)))"

text \<open>The loop of \<open>enforce_fee_bump_policy\<close> carries \<open>matched\<close>.\<close>

definition first_external_sats :: "replay_record \<Rightarrow> u64" where
  "first_external_sats previous =
     (case find (\<lambda>out. txo_script_pubkey out \<noteq> rr_vault_script previous) (rr_outputs previous) of
        Some out \<Rightarrow> txo_value out | None \<Rightarrow> 0)"

definition enforce_fee_bump_policy ::
    "replay_store \<Rightarrow> replay_record \<Rightarrow> u64 \<Rightarrow> unit policy_result" where
  "enforce_fee_bump_policy store candidate candidate_external_sats =
     rbind (try_fold (\<lambda>matched previous.
              if \<not> outpoints_identical (rr_outpoints previous) (rr_outpoints candidate) then
                (if \<exists>op\<in>set (rr_outpoints previous). op \<in> set (rr_outpoints candidate)
                 then reject Replay else Inr matched)
              else if \<not> is_vault_change_only previous candidate then reject FeeBumpInvalid
              else if first_external_sats previous < candidate_external_sats
              then reject FeeBumpInvalid
              else Inr True) False (records store)) (\<lambda>matched.
     if \<not> matched then reject FeeBumpInvalid else Inr ())"

section \<open>The state machine\<close>

definition validate_new ::
    "bitcoin_lib \<Rightarrow> agent_pin \<Rightarrow> policy_request \<Rightarrow> chain_view \<Rightarrow> replay_store \<Rightarrow>
     velocity_sample list \<Rightarrow> psbt \<Rightarrow> replay_record \<Rightarrow> replay_verdict \<Rightarrow>
     policy_outcome policy_result" where
  "validate_new L pin request chain store velocity_samples psbt candidate verdict =
     rbind (require_locktime_zero (tx_lock_time (unsigned_tx psbt))) (\<lambda>_.
     if tx_version (unsigned_tx psbt) \<noteq> 2 then reject NotRecoveryPath
     else if MAX_POLICY_INPUTS < length (psbt_inputs psbt) then reject Fee
     else rbind (require_sighash_all_on_psbt L psbt) (\<lambda>_.
     rbind (collect_prevouts L psbt) (\<lambda>prevouts.
     rbind (classify_amounts pin (unsigned_tx psbt) prevouts) (\<lambda>amounts.
     if MAX_POLICY_FEE_SATS < ab_fee_sats amounts then reject Fee
     else if ab_fee_sats amounts = 0 then reject Fee
     else rbind (check_inputs_against_pin pin psbt prevouts) (\<lambda>_.
     rbind (check_chain_prevouts pin chain psbt prevouts) (\<lambda>_.
     rbind (check_recovery_path L pin psbt) (\<lambda>_.
     if chain_genesis_hash chain \<noteq> pin_genesis_hash pin then reject WrongGenesis
     else rbind (check_csv_for_inputs pin chain psbt) (\<lambda>_.
     if req_claimed_external_sats request \<noteq> ab_external_sats amounts then reject Fee
     else rbind (check_dust L pin amounts) (\<lambda>_.
     rbind (if verdict = FeeBump
            then enforce_fee_bump_policy store candidate (ab_external_sats amounts)
            else Inr ()) (\<lambda>_.
     rbind (check_velocity_cap (ab_external_sats amounts) (pin_velocity_per_sig_sats pin)) (\<lambda>_.
     rbind (check_velocity_window_capped velocity_samples (chain_tip_height chain)
              (if verdict = FeeBump then 0 else ab_external_sats amounts)
              (pin_velocity_per_sig_sats pin) (pin_velocity_per_144_sats pin)) (\<lambda>_.
     rbind (check_confirm L pin request psbt (ab_external_sats amounts)) (\<lambda>_.
     Inr (ValidatedUnsigned verdict candidate amounts))))))))))))))"

definition evaluate ::
    "bitcoin_lib \<Rightarrow> agent_pin \<Rightarrow> policy_request \<Rightarrow> agent_auth \<Rightarrow> chain_view \<Rightarrow> replay_store \<Rightarrow>
     velocity_sample list \<Rightarrow> policy_outcome policy_result" where
  "evaluate L pin request auth chain store velocity_samples =
     (if \<not> is_ok auth then reject Auth
      else rbind (parse_psbt_v0 L (req_psbt_bytes request)) (\<lambda>psbt.
           rbind (require_no_unknown_psbt_fields psbt) (\<lambda>_.
           rbind (from_pin L pin (req_request_id request) psbt (req_psbt_bytes request)) (\<lambda>candidate.
           rbind (preflight store candidate) (\<lambda>verdict.
           case verdict of
             Idempotent raw \<Rightarrow> Inr (CachedSignature raw)
           | _ \<Rightarrow> validate_new L pin request chain store velocity_samples psbt candidate verdict)))))"

end
