(* ===== verification/Evaluate_Stages.thy ===== *)
theory Evaluate_Stages
  imports Evaluate
begin

text \<open>
  What each stage of the validation accepts, over natural numbers and whole lists, and the codes it
  rejects with. \<open>Evaluate_Spec\<close> composes them.
\<close>

section \<open>Previous outputs\<close>

lemma input_prevout_Inl:
  "input_prevout L txin input = Inl e \<Longrightarrow> e \<in> {Reject PrevoutMismatch, Reject PrevoutMissing}"
  by (auto simp: input_prevout_def res_simps split: option.splits if_splits)

lemma collect_prevouts_zip:
  assumes "length (tx_input (unsigned_tx p)) = length (psbt_inputs p)"
  shows "collect_prevouts L p =
    try_map (\<lambda>(txin, input). input_prevout L txin input)
      (zip (tx_input (unsigned_tx p)) (psbt_inputs p))"
  unfolding collect_prevouts_def
  by (intro try_map_cong2 enumerate_zip) (use assms in \<open>auto simp: ok_or_def split: option.splits\<close>)

lemma collect_prevouts_Inr_iff:
  assumes "length (tx_input (unsigned_tx p)) = length (psbt_inputs p)"
  shows "collect_prevouts L p = Inr prevs \<longleftrightarrow>
    length prevs = length (psbt_inputs p) \<and>
    (\<forall>i<length (psbt_inputs p).
       input_prevout L (tx_input (unsigned_tx p) ! i) (psbt_inputs p ! i) = Inr (prevs ! i))"
  unfolding collect_prevouts_zip [OF assms]
  using assms by (auto simp: res_simps list_all2_conv_all_nth)

lemma collect_prevouts_Inl:
  assumes "length (tx_input (unsigned_tx p)) = length (psbt_inputs p)"
    and "collect_prevouts L p = Inl e"
  shows "e \<in> {Reject PrevoutMismatch, Reject PrevoutMissing}"
  using assms(2) unfolding collect_prevouts_zip [OF assms(1)]
  by (auto dest!: try_map_InlD input_prevout_Inl)

section \<open>Amounts\<close>

lemma classify_fold:
  "try_fold (\<lambda>(s, ext, chg) out. rbind (ok_or e (checked_add s (txo_value out))) (\<lambda>s.
       if txo_script_pubkey out = v then Inr (s, ext, chg @ [out]) else Inr (s, ext @ [out], chg)))
     (s, ext, chg) outs =
   rbind (checked_sum e txo_value s outs) (\<lambda>s.
     Inr (s, ext @ filter (\<lambda>out. txo_script_pubkey out \<noteq> v) outs,
          chg @ filter (\<lambda>out. txo_script_pubkey out = v) outs))"
proof (induction outs arbitrary: s ext chg)
  case (Cons out outs)
  then show ?case by (cases "ok_or e (checked_add s (txo_value out))") auto
qed simp

definition amounts_spec ::
    "agent_pin \<Rightarrow> transaction \<Rightarrow> tx_out list \<Rightarrow> amount_breakdown \<Rightarrow> bool" where
  "amounts_spec pin tx prevouts a \<longleftrightarrow>
     (\<exists>external.
        filter (\<lambda>out. txo_script_pubkey out \<noteq> pin_script_pubkey pin) (tx_output tx) = [external] \<and>
        ab_external_sats a = txo_value external \<and>
        ab_external_script a = txo_script_pubkey external) \<and>
     length (filter (\<lambda>out. txo_script_pubkey out = pin_script_pubkey pin) (tx_output tx)) \<le> 1 \<and>
     unat (ab_change_sats a) =
       (\<Sum>out\<leftarrow>filter (\<lambda>out. txo_script_pubkey out = pin_script_pubkey pin) (tx_output tx).
          unat (txo_value out)) \<and>
     unat (ab_input_sats a) = (\<Sum>out\<leftarrow>prevouts. unat (txo_value out)) \<and>
     unat (ab_input_sats a) =
       unat (ab_external_sats a) + unat (ab_change_sats a) + unat (ab_fee_sats a)"

lemma classify_amounts_eq:
  "classify_amounts pin tx prevouts =
     rbind (checked_sum (Reject Fee) txo_value 0 prevouts) (\<lambda>input_sats.
     rbind (checked_sum (Reject Fee) txo_value 0 (tx_output tx)) (\<lambda>output_sats.
     let externals = filter (\<lambda>out. txo_script_pubkey out \<noteq> pin_script_pubkey pin) (tx_output tx);
         changes = filter (\<lambda>out. txo_script_pubkey out = pin_script_pubkey pin) (tx_output tx)
     in if length externals \<noteq> 1 then reject Change
        else if 1 < length changes then reject Change
        else rbind (ok_or (Reject Fee) (checked_sub input_sats output_sats)) (\<lambda>fee_sats.
          Inr \<lparr>ab_external_sats = txo_value (hd externals),
               ab_external_script = txo_script_pubkey (hd externals),
               ab_change_sats = (case changes of [] \<Rightarrow> 0 | c # _ \<Rightarrow> txo_value c),
               ab_fee_sats = fee_sats, ab_input_sats = input_sats\<rparr>)))"
  unfolding classify_amounts_def classify_fold
  by (cases "checked_sum (Reject Fee) txo_value 0 (tx_output tx)") (simp_all add: Let_def)

lemma classify_amounts_sound:
  assumes "classify_amounts pin tx prevouts = Inr a"
  shows "amounts_spec pin tx prevouts a"
proof -
  let ?ext = "filter (\<lambda>out. txo_script_pubkey out \<noteq> pin_script_pubkey pin) (tx_output tx)"
  let ?chg = "filter (\<lambda>out. txo_script_pubkey out = pin_script_pubkey pin) (tx_output tx)"
  from assms obtain ins outs fee where
    ins: "checked_sum (Reject Fee) txo_value 0 prevouts = Inr ins" and
    outs: "checked_sum (Reject Fee) txo_value 0 (tx_output tx) = Inr outs" and
    len: "length ?ext = 1" "\<not> 1 < length ?chg" and
    fee: "checked_sub ins outs = Some fee" and
    a: "a = \<lparr>ab_external_sats = txo_value (hd ?ext), ab_external_script = txo_script_pubkey (hd ?ext),
             ab_change_sats = (case ?chg of [] \<Rightarrow> 0 | c # _ \<Rightarrow> txo_value c),
             ab_fee_sats = fee, ab_input_sats = ins\<rparr>"
    unfolding classify_amounts_eq
    by (auto simp: rbind_Inr_iff ok_or_Inr_iff Let_def split: if_splits)
  from len(1) obtain external where e: "?ext = [external]" by (auto simp: length_Suc_conv)
  have c: "unat (ab_change_sats a) = (\<Sum>out\<leftarrow>?chg. unat (txo_value out))"
    using len(2) unfolding a by (cases ?chg) auto
  from ins have i: "unat ins = (\<Sum>out\<leftarrow>prevouts. unat (txo_value out))"
    by (simp add: checked_sum_Inr_iff)
  from outs have "unat outs = (\<Sum>out\<leftarrow>tx_output tx. unat (txo_value out))"
    by (simp add: checked_sum_Inr_iff)
  also have "\<dots> = (\<Sum>out\<leftarrow>?chg. unat (txo_value out)) + (\<Sum>out\<leftarrow>?ext. unat (txo_value out))"
    by (rule sum_list_partition)
  finally have o: "unat outs = unat (txo_value external) + unat (ab_change_sats a)"
    unfolding e c by simp
  from fee have "unat ins = unat outs + unat fee" by (simp add: checked_sub_Some_iff)
  then show ?thesis
    unfolding amounts_spec_def using e c i o len(2) a by auto
qed

lemma amounts_spec_unique:
  assumes "amounts_spec pin tx prevouts a" and "amounts_spec pin tx prevouts b"
  shows "a = b"
proof -
  have "ab_change_sats a = ab_change_sats b" "ab_input_sats a = ab_input_sats b"
    "ab_external_sats a = ab_external_sats b" "ab_external_script a = ab_external_script b"
    using assms by (auto simp: amounts_spec_def word_eq_unat_iff)
  moreover from this have "ab_fee_sats a = ab_fee_sats b"
    using assms by (auto simp: amounts_spec_def word_eq_unat_iff)
  ultimately show ?thesis by (cases a; cases b) simp
qed

lemma classify_amounts_complete:
  assumes "amounts_spec pin tx prevouts a"
  shows "classify_amounts pin tx prevouts = Inr a"
proof -
  let ?ext = "filter (\<lambda>out. txo_script_pubkey out \<noteq> pin_script_pubkey pin) (tx_output tx)"
  let ?chg = "filter (\<lambda>out. txo_script_pubkey out = pin_script_pubkey pin) (tx_output tx)"
  from assms obtain external where e: "?ext = [external]" "ab_external_sats a = txo_value external"
    by (auto simp: amounts_spec_def)
  have ins: "checked_sum (Reject Fee) txo_value 0 prevouts = Inr (ab_input_sats a)"
    using assms by (simp add: checked_sum_Inr_iff amounts_spec_def)
  have "(\<Sum>out\<leftarrow>tx_output tx. unat (txo_value out)) =
      (\<Sum>out\<leftarrow>?chg. unat (txo_value out)) + (\<Sum>out\<leftarrow>?ext. unat (txo_value out))"
    by (rule sum_list_partition)
  then have total: "(\<Sum>out\<leftarrow>tx_output tx. unat (txo_value out)) + unat (ab_fee_sats a) =
      unat (ab_input_sats a)"
    using assms e by (simp add: amounts_spec_def)
  obtain outs where outs: "checked_sum (Reject Fee) txo_value 0 (tx_output tx) = Inr outs"
    "unat outs = (\<Sum>out\<leftarrow>tx_output tx. unat (txo_value out))"
  proof (cases rule: checked_sum_cases [of "Reject Fee" txo_value 0 "tx_output tx"])
    case (fits s)
    then show ?thesis using that by simp
  next
    case overflows
    with total unat_lt [of "ab_input_sats a"] show ?thesis by simp
  qed
  have fee: "checked_sub (ab_input_sats a) outs = Some (ab_fee_sats a)"
    using total outs(2) by (simp add: checked_sub_Some_iff)
  have "length ?chg \<le> 1" using assms by (simp add: amounts_spec_def)
  then have "\<exists>b. classify_amounts pin tx prevouts = Inr b"
    unfolding classify_amounts_eq ins outs(1) by (simp add: fee e(1) Let_def)
  with classify_amounts_sound amounts_spec_unique [OF assms] show ?thesis by metis
qed

lemma classify_amounts_Inr_iff:
  "classify_amounts pin tx prevouts = Inr a \<longleftrightarrow> amounts_spec pin tx prevouts a"
  using classify_amounts_sound classify_amounts_complete by blast

lemma classify_amounts_Inl:
  "classify_amounts pin tx prevouts = Inl e \<Longrightarrow> e \<in> {Reject Fee, Reject Change}"
  unfolding classify_amounts_eq
  by (auto simp: rbind_Inl_iff ok_or_Inl_iff checked_sum_Inl_iff Let_def split: if_splits)

section \<open>Inputs\<close>

definition pinned_input :: "agent_pin \<Rightarrow> psbt_input \<Rightarrow> tx_out \<Rightarrow> bool" where
  "pinned_input pin input prevout \<longleftrightarrow>
     txo_script_pubkey prevout = pin_script_pubkey pin \<and>
     witness_script input = Some (pin_witness_script pin) \<and> redeem_script input = None \<and>
     (\<forall>pk\<in>fst ` set (partial_sigs input). contains_pubkey pin pk) \<and>
     (\<forall>pk\<in>fst ` set (bip32_derivation input).
        contains_pubkey pin \<lparr>pk_compressed = True, pk_inner = pk\<rparr>)"

interpretation pin_gate: gate "input_against_pin pin"
  "\<lambda>(input, prevout). pinned_input pin input prevout"
  "{Reject ForeignInput, Reject DescriptorMismatch, Reject KeySubstitution}" for pin
proof (unfold_locales, goal_cases)
  case (1 x)
  obtain input prevout where x: "x = (input, prevout)" by fastforce
  have keys: "try_each (\<lambda>(pk, y). if \<not> contains_pubkey pin (f pk) then reject KeySubstitution
      else Inr ()) kvs = Inr () \<longleftrightarrow> (\<forall>pk\<in>fst ` set kvs. contains_pubkey pin (f pk))"
    for f :: "'k \<Rightarrow> public_key" and kvs :: "('k \<times> 'v) list"
    by (force simp: try_each_Inr_iff split: if_splits)
  show ?case
    by (cases "witness_script input")
      (auto simp: x input_against_pin_def pinned_input_def rbind_Inr_iff keys split: if_splits)
next
  case (2 x e)
  then show ?case
    by (auto simp: input_against_pin_def rbind_Inl_iff split: prod.splits if_splits option.splits
        dest!: try_each_InlD)
qed

definition confirmed_prevout :: "agent_pin \<Rightarrow> chain_view \<Rightarrow> tx_in \<Rightarrow> tx_out \<Rightarrow> bool" where
  "confirmed_prevout pin chain txin prevout \<longleftrightarrow>
     (\<exists>fact. find_fact chain txin = Some fact \<and> visible_unspent fact \<and>
        fact_script_pubkey fact = txo_script_pubkey prevout \<and>
        fact_value fact = txo_value prevout \<and> fact_script_pubkey fact = pin_script_pubkey pin)"

interpretation chain_gate: gate "chain_prevout pin chain"
  "\<lambda>(txin, prevout). confirmed_prevout pin chain txin prevout"
  "{Reject PrevoutMissing, Reject ForeignInput, Reject PrevoutMismatch}" for pin chain
proof (unfold_locales, goal_cases)
  case (1 x)
  then show ?case
    by (auto simp: chain_prevout_def confirmed_prevout_def res_simps split: prod.splits)
next
  case (2 x e)
  then show ?case
    by (auto simp: chain_prevout_def res_simps split: prod.splits if_splits)
qed

definition on_recovery_path :: "bitcoin_lib \<Rightarrow> agent_pin \<Rightarrow> tx_in \<Rightarrow> psbt_input \<Rightarrow> bool" where
  "on_recovery_path L pin txin input \<longleftrightarrow>
     final_script_sig input = None \<and> final_script_witness input = None \<and>
     sequence_satisfies_older_csv L (tx_sequence txin) (pin_csv_blocks pin) \<and>
     \<not> (has_sig input (pin_primary_pubkey pin) \<and> has_sig input (pin_override_pubkey pin))"

definition recovery_input ::
    "bitcoin_lib \<Rightarrow> agent_pin \<Rightarrow> tx_in \<times> psbt_input \<Rightarrow> unit policy_result" where
  "recovery_input L pin = (\<lambda>(txin, input).
     if final_script_sig input \<noteq> None \<or> final_script_witness input \<noteq> None
     then reject NotRecoveryPath
     else rbind (require_recovery_sequence L (tx_sequence txin) (pin_csv_blocks pin)) (\<lambda>_.
          if has_sig input (pin_primary_pubkey pin) \<and> has_sig input (pin_override_pubkey pin)
          then reject NotRecoveryPath else Inr ()))"

interpretation recovery_gate: gate "recovery_input L pin"
  "\<lambda>(txin, input). on_recovery_path L pin txin input" "{Reject NotRecoveryPath}" for L pin
proof (unfold_locales, goal_cases)
  case (1 x)
  then show ?case
    by (auto simp: recovery_input_def on_recovery_path_def rbind_Inr_iff
        require_recovery_sequence_Inr_iff split: prod.splits if_splits)
next
  case (2 x e)
  then show ?case
    by (auto simp: recovery_input_def rbind_Inl_iff split: prod.splits if_splits
        dest: require_recovery_sequence_Inl)
qed

lemma check_recovery_path_zip:
  assumes "length (tx_input (unsigned_tx p)) = length (psbt_inputs p)"
  shows "check_recovery_path L pin p =
    try_each (recovery_input L pin) (zip (tx_input (unsigned_tx p)) (psbt_inputs p))"
  unfolding check_recovery_path_def
  by (intro try_each_cong2 enumerate_zip)
    (use assms in \<open>auto simp: recovery_input_def ok_or_def split: option.splits\<close>)

definition matured :: "agent_pin \<Rightarrow> chain_view \<Rightarrow> prevout_fact \<Rightarrow> bool" where
  "matured pin chain pf \<longleftrightarrow>
     csv_mature (chain_tip_height chain) (confirm_height pf) (chain_now_unix chain)
       (header_time_unix pf) (pin_csv_blocks pin) (pin_safety_margin pin)"

lemma csv_for_input_Inr_iff:
  "csv_for_input pin chain txin = Inr () \<longleftrightarrow>
     (\<exists>fact. find_fact chain txin = Some fact \<and> matured pin chain fact) \<and>
     pin_wall_clock_seconds_per_block pin = WALL_CLOCK_SECONDS_PER_BLOCK"
  by (auto simp: csv_for_input_def matured_def rbind_Inr_iff ok_or_Inr_iff
      check_csv_maturity_Inr_iff split: if_splits)

lemma csv_for_input_Inl:
  assumes "find_fact chain txin \<noteq> None" and "csv_for_input pin chain txin = Inl e"
  shows "e \<in> {Reject CsvImmatureDepth, Reject CsvImmatureWallclock}"
proof -
  from assms(1) obtain pf where f: "find_fact chain txin = Some pf" by blast
  have "check_csv_maturity tip h now t csv m = Inl e \<Longrightarrow>
      e \<in> {Reject CsvImmatureDepth, Reject CsvImmatureWallclock}" for tip h now t csv m
    using csv_gate.rejects [of "(tip, h, now, t, csv, m)" e] by simp
  with assms(2) f show ?thesis
    by (auto simp: csv_for_input_def rbind_Inl_iff split: if_splits)
qed

section \<open>Dust, confirmation and fee bumps\<close>

definition no_dust :: "bitcoin_lib \<Rightarrow> agent_pin \<Rightarrow> amount_breakdown \<Rightarrow> bool" where
  "no_dust L pin a \<longleftrightarrow>
     minimal_non_dust L (ab_external_script a) \<le> ab_external_sats a \<and>
     (ab_change_sats a = 0 \<or> minimal_non_dust L (pin_script_pubkey pin) \<le> ab_change_sats a)"

interpretation dust_gate: gate "check_dust L pin" "no_dust L pin" "{Reject Dust}" for L pin
  by unfold_locales
    (auto simp: check_dust_def no_dust_def word_gt_0 not_less split: if_splits)

definition confirmed_spend ::
    "bitcoin_lib \<Rightarrow> agent_pin \<Rightarrow> policy_request \<Rightarrow> psbt \<Rightarrow> u64 \<Rightarrow> bool" where
  "confirmed_spend L pin request psbt e \<longleftrightarrow>
     unat e < unat (pin_confirm_threshold_sats pin) \<or>
     (\<exists>token. req_confirm_token request = Some token \<and>
        verify_confirm_token L token (binding_of L pin request psbt e) (pin_override_pubkey pin)
          = Inr ())"

lemma check_confirm_Inr_iff:
  "check_confirm L pin request psbt e = Inr () \<longleftrightarrow> confirmed_spend L pin request psbt e"
  by (auto simp: check_confirm_def confirmed_spend_def word_less_nat_alt rbind_Inr_iff ok_or_Inr_iff)

lemma check_confirm_Inl:
  "check_confirm L pin request psbt e = Inl x \<Longrightarrow>
   x \<in> {Reject ConfirmRequired, Reject ConfirmInvalid}"
  by (auto simp: check_confirm_def rbind_Inl_iff ok_or_Inl_iff split: if_splits
      dest: verify_confirm_token_Inl)

lemma first_external_of:
  "external_of r = Some out \<Longrightarrow> first_external_sats r = txo_value out"
  by (auto simp: external_of_def first_external_sats_def find_filter classify_outputs_Some_iff)

text \<open>
  The explicit fee-bump stage repeats what the preflight verdict \<open>FeeBump\<close> already means, so it
  accepts every candidate that reaches it.
\<close>

lemma fee_bump_enforced:
  assumes "preflight st c = Inr FeeBump" and "external_of c = Some out" and "txo_value out = e"
  shows "enforce_fee_bump_policy st c e = Inr ()"
proof -
  let ?f = "\<lambda>matched previous.
      if \<not> outpoints_identical (rr_outpoints previous) (rr_outpoints c) then
        (if \<exists>op\<in>set (rr_outpoints previous). op \<in> set (rr_outpoints c)
         then reject Replay else Inr matched)
      else if \<not> is_vault_change_only previous c then reject FeeBumpInvalid
      else if first_external_sats previous < e then reject FeeBumpInvalid
      else Inr True"
  let ?hit = "\<lambda>r. outpoints_overlap (rr_outpoints r) (rr_outpoints c)"
  have step: "?f m r = Inr (m \<or> ?hit r)" if "may_follow r c" for m r
  proof (cases "?hit r")
    case True
    with that have "is_vault_change_only r c" by (simp add: may_follow_def)
    moreover from this have "first_external_sats r = e"
      using assms(2,3) by (simp add: is_vault_change_only_iff first_external_of)
    ultimately show ?thesis using True assms(2) by (simp add: is_vault_change_only_iff)
  next
    case False
    then have "\<not> outpoints_identical (rr_outpoints r) (rr_outpoints c)"
      using identical_overlap by blast
    with False show ?thesis by (auto simp: outpoints_overlap_def)
  qed
  have "try_fold ?f m log = Inr (m \<or> (\<exists>r\<in>set log. ?hit r))"
    if "\<forall>r\<in>set log. may_follow r c" for m log
    using that
  proof (induction log arbitrary: m)
    case (Cons r log)
    then show ?case using step [of r m] by simp
  qed simp
  moreover have "\<forall>r\<in>set (records st). may_follow r c" "\<exists>r\<in>set (records st). ?hit r"
    using assms(1) by (auto simp: preflight_fee_bump_iff)
  ultimately show ?thesis unfolding enforce_fee_bump_policy_def by simp
qed

end
