(* ===== verification/Actions.thy ===== *)
theory Actions
  imports Prelude
begin

text \<open>
  Effects: a fallible computation over a state (the disk of the replay store, the file system of the
  CLI, the world of a command) is a function to a result and the next state. \<open>abind\<close> is \<open>?\<close> in
  sequence, \<open>acatch\<close> is \<open>if let Ok(..)\<close>, \<open>amap_each\<close> is a loop that stops at the first error.
\<close>

type_synonym ('s, 'e, 'a) action = "'s \<Rightarrow> ('e + 'a) \<times> 's"

definition areturn :: "'a \<Rightarrow> ('s, 'e, 'a) action" where
  "areturn x = (\<lambda>s. (Inr x, s))"

definition araise :: "'e \<Rightarrow> ('s, 'e, 'a) action" where
  "araise e = (\<lambda>s. (Inl e, s))"

definition alift :: "'e + 'a \<Rightarrow> ('s, 'e, 'a) action" where
  "alift r = (\<lambda>s. (r, s))"

definition abind ::
    "('s, 'e, 'a) action \<Rightarrow> ('a \<Rightarrow> ('s, 'e, 'b) action) \<Rightarrow> ('s, 'e, 'b) action" where
  "abind m f = (\<lambda>s. case m s of (Inl e, s') \<Rightarrow> (Inl e, s') | (Inr x, s') \<Rightarrow> f x s')"

definition acatch :: "('s, 'e, 'a) action \<Rightarrow> ('s, 'e, 'a option) action" where
  "acatch m = (\<lambda>s. case m s of (Inl _, s') \<Rightarrow> (Inr None, s') | (Inr x, s') \<Rightarrow> (Inr (Some x), s'))"

fun amap_each :: "('a \<Rightarrow> ('s, 'e, 'b) action) \<Rightarrow> 'a list \<Rightarrow> ('s, 'e, 'b list) action" where
  "amap_each f [] = areturn []"
| "amap_each f (x # xs) = abind (f x) (\<lambda>y. abind (amap_each f xs) (\<lambda>ys. areturn (y # ys)))"

lemma abind_return [simp]: "abind (areturn x) f = f x"
  by (simp add: abind_def areturn_def)

lemma abind_raise [simp]: "abind (araise e) f = araise e"
  by (simp add: abind_def araise_def)

lemma abind_apply:
  "m s = (Inl e, s') \<Longrightarrow> abind m f s = (Inl e, s')"
  "m s = (Inr x, s') \<Longrightarrow> abind m f s = f x s'"
  by (simp_all add: abind_def)

lemma abind_cases:
  assumes "abind m f s = (r, s'')"
  obtains (failed) e where "m s = (Inl e, s'')" "r = Inl e"
  | (continued) x s' where "m s = (Inr x, s')" "f x s' = (r, s'')"
proof (cases "m s")
  case (Pair res s')
  with assms show ?thesis
    by (cases res) (auto simp: abind_def intro: that)
qed

lemma abind_Inr:
  assumes "abind m f s = (Inr y, s'')"
  obtains x s' where "m s = (Inr x, s')" "f x s' = (Inr y, s'')"
  using assms by (rule abind_cases) auto

lemma areturn_iff [simp]: "areturn x s = (r, s') \<longleftrightarrow> r = Inr x \<and> s' = s"
  by (auto simp: areturn_def)

lemma araise_iff [simp]: "araise e s = (r, s') \<longleftrightarrow> r = Inl e \<and> s' = s"
  by (auto simp: araise_def)

lemma action_projections [simp]:
  "snd (areturn x s) = s" "snd (araise e s) = s" "snd (alift r s) = s"
  "fst (areturn x s) = Inr x" "fst (araise e s) = Inl e" "fst (alift r s) = r"
  by (simp_all add: areturn_def araise_def alift_def)

lemma snd_acatch [simp]: "snd (acatch m s) = snd (m s)"
  by (auto simp: acatch_def split: prod.splits sum.splits)

end
