(* ===== verification/Disk.thy ===== *)
theory Disk
  imports Actions Errors
begin

text \<open>
  The file system as \<open>std::fs\<close> exposes it to the replay store: one directory, files with a cached
  and a durable content, and a plan that decides for each system call whether it succeeds. A
  failing \<open>write_all\<close> may have transferred a prefix. The directory remembers its states since it
  was last synced, because a power loss may keep any of them for any name, and it remembers whether
  its own entry in the parent is durable: the code never syncs the parent, so a directory that
  \<open>create_dir_all\<close> made may be gone as a whole. A function of type \<open>'a io\<close> is a fallible
  computation over the disk.
\<close>

section \<open>State\<close>

datatype io_outcome = IoOk | IoErr nat

record inode =
  cached :: bytes
  durable :: bytes
  file_mode :: nat

record disk =
  dir_exists :: bool
  dir_durable :: bool
  dir_mode :: nat
  entries :: "string \<Rightarrow> nat option"
  dir_states :: "(string \<Rightarrow> nat option) list"
  inodes :: "nat \<Rightarrow> inode"
  next_inode :: nat
  io_plan :: "nat \<Rightarrow> io_outcome"
  io_clock :: nat

type_synonym 'a io = "(disk, fault, 'a) action"

section \<open>System calls\<close>

text \<open>
  Every call advances the clock of the plan. The error value is that of \<open>io_err\<close>, which maps
  each \<open>std::io::Error\<close> to \<open>INTERNAL\<close>.
\<close>

definition io_err :: fault where
  "io_err = Reject Internal"

definition outcome :: "disk \<Rightarrow> io_outcome" where
  "outcome d = io_plan d (io_clock d)"

definition tick :: "disk \<Rightarrow> disk" where
  "tick d = d\<lparr>io_clock := Suc (io_clock d)\<rparr>"

definition sys_call :: "(disk \<Rightarrow> 'a \<times> disk) \<Rightarrow> 'a io" where
  "sys_call effect = (\<lambda>d.
     case outcome d of
       IoErr _ \<Rightarrow> (Inl io_err, tick d)
     | IoOk \<Rightarrow> (let (x, d') = effect (tick d) in (Inr x, d')))"

text \<open>A directory that is new is not durable in its parent, one that was there stays as it is.\<close>

definition create_dir_all :: "unit io" where
  "create_dir_all = sys_call (\<lambda>d.
     ((), d\<lparr>dir_exists := True, dir_durable := (dir_exists d \<and> dir_durable d)\<rparr>))"

text \<open>
  \<open>Path::exists\<close> and \<open>Path::is_dir\<close> are a \<open>stat\<close> whose error, whatever it is, reads as \<open>false\<close>.
\<close>

definition path_stat :: "(disk \<Rightarrow> bool) \<Rightarrow> bool io" where
  "path_stat test = (\<lambda>d. (Inr (outcome d = IoOk \<and> test d), tick d))"

definition set_dir_mode :: "nat \<Rightarrow> unit io" where
  "set_dir_mode m = sys_call (\<lambda>d. ((), d\<lparr>dir_mode := m\<rparr>))"

text \<open>\<open>write(true).create(true).truncate(true)\<close>: a new file gets a fresh inode and the mode.\<close>

definition open_truncate :: "string \<Rightarrow> nat \<Rightarrow> nat io" where
  "open_truncate name m = sys_call (\<lambda>d.
     case entries d name of
       Some i \<Rightarrow> (i, d\<lparr>inodes := (inodes d)(i := (inodes d i)\<lparr>cached := []\<rparr>)\<rparr>)
     | None \<Rightarrow>
        (let i = next_inode d
         in (i, d\<lparr>entries := (entries d)(name := Some i),
                  dir_states := (entries d)(name := Some i) # dir_states d,
                  inodes := (inodes d)(i := \<lparr>cached = [], durable = [], file_mode = m\<rparr>),
                  next_inode := Suc i\<rparr>)))"

definition set_file_mode :: "nat \<Rightarrow> nat \<Rightarrow> unit io" where
  "set_file_mode i m = sys_call (\<lambda>d.
     ((), d\<lparr>inodes := (inodes d)(i := (inodes d i)\<lparr>file_mode := m\<rparr>)\<rparr>))"

definition write_all :: "nat \<Rightarrow> bytes \<Rightarrow> unit io" where
  "write_all i contents = (\<lambda>d.
     let put = (\<lambda>bs. (tick d)\<lparr>inodes :=
           (inodes d)(i := (inodes d i)\<lparr>cached := cached (inodes d i) @ bs\<rparr>)\<rparr>)
     in case outcome d of
          IoOk \<Rightarrow> (Inr (), put contents)
        | IoErr n \<Rightarrow> (Inl io_err, put (take n contents)))"

definition sync_all :: "nat \<Rightarrow> unit io" where
  "sync_all i = sys_call (\<lambda>d.
     ((), d\<lparr>inodes := (inodes d)(i := (inodes d i)\<lparr>durable := cached (inodes d i)\<rparr>)\<rparr>))"

definition rename_file :: "string \<Rightarrow> string \<Rightarrow> unit io" where
  "rename_file src dst = sys_call (\<lambda>d.
     let moved = (entries d)(dst := entries d src, src := None)
     in ((), d\<lparr>entries := moved, dir_states := moved # dir_states d\<rparr>))"

definition sync_dir :: "unit io" where
  "sync_dir = sys_call (\<lambda>d. ((), d\<lparr>dir_states := [entries d]\<rparr>))"

definition open_dir :: "unit io" where
  "open_dir = sys_call (\<lambda>d. ((), d))"

text \<open>\<open>File::open\<close> fails on a missing entry; the content is read by a second call.\<close>

definition open_read :: "string \<Rightarrow> nat io" where
  "open_read name = (\<lambda>d.
     case entries d name of
       None \<Rightarrow> (Inl io_err, tick d)
     | Some i \<Rightarrow> sys_call (\<lambda>d. (i, d)) d)"

definition read_to_end :: "nat \<Rightarrow> bytes io" where
  "read_to_end i = sys_call (\<lambda>d. (cached (inodes d i), d))"

section \<open>Steps of the disk\<close>

text \<open>Clock ticks do not touch files.\<close>

lemma tick_simps [simp]:
  "dir_exists (tick d) = dir_exists d" "dir_durable (tick d) = dir_durable d" "dir_mode (tick d) = dir_mode d"
  "entries (tick d) = entries d"
  "dir_states (tick d) = dir_states d" "inodes (tick d) = inodes d"
  "next_inode (tick d) = next_inode d" "io_plan (tick d) = io_plan d"
  by (simp_all add: tick_def)

lemma sys_call_cases:
  assumes "sys_call effect d = (r, d')"
  obtains (failed) "r = Inl io_err" "d' = tick d"
  | (succeeded) x where "r = Inr x" "effect (tick d) = (x, d')"
  using assms by (auto simp: sys_call_def split: io_outcome.splits prod.splits)

text \<open>
  What may be found after a power loss. The directory itself may be gone if its entry in the parent
  was not durable; what is found of it is durable. Each name has an entry that it had in some state
  since the last sync of the directory, in any combination, but a rename never leaves a file under
  both names. A file whose cache equals its durable content keeps it, any other file may hold
  anything, and what is found is durable. System calls may succeed or fail anew.
\<close>

definition power_loss :: "disk \<Rightarrow> disk \<Rightarrow> bool" where
  "power_loss d d' \<longleftrightarrow>
     (dir_exists d' \<longrightarrow> dir_exists d) \<and> (dir_exists d \<and> dir_durable d \<longrightarrow> dir_exists d') \<and>
     dir_durable d' = dir_exists d' \<and>
     (dir_exists d' \<longrightarrow>
        (\<forall>name. \<exists>E\<in>set (dir_states d). entries d' name = E name) \<and>
        (\<forall>a b i. entries d' a = Some i \<and> entries d' b = Some i \<longrightarrow> a = b)) \<and>
     (\<not> dir_exists d' \<longrightarrow> entries d' = (\<lambda>_. None)) \<and>
     dir_states d' = [entries d'] \<and> next_inode d' = next_inode d \<and>
     (\<forall>i. cached (inodes d' i) = durable (inodes d' i)) \<and>
     (\<forall>i. cached (inodes d i) = durable (inodes d i) \<longrightarrow>
          cached (inodes d' i) = cached (inodes d i))"

definition holds_synced :: "disk \<Rightarrow> nat option \<Rightarrow> bytes \<Rightarrow> bool" where
  "holds_synced d entry bs \<longleftrightarrow>
     (\<exists>i. entry = Some i \<and> cached (inodes d i) = bs \<and> durable (inodes d i) = bs)"

text \<open>A directory that is not durable may be gone.\<close>

definition directory_gone :: "disk \<Rightarrow> disk" where
  "directory_gone d =
     d\<lparr>dir_exists := False, dir_durable := False, entries := (\<lambda>_. None), dir_states := [\<lambda>_. None],
       inodes := (\<lambda>i. (inodes d i)\<lparr>cached := durable (inodes d i)\<rparr>), io_plan := (\<lambda>_. IoOk)\<rparr>"

lemma power_loss_gone: "\<not> dir_durable d \<Longrightarrow> power_loss d (directory_gone d)"
  by (simp add: power_loss_def directory_gone_def)

lemma power_loss_synced: "power_loss d d' \<Longrightarrow> holds_synced d entry bs \<Longrightarrow> holds_synced d' entry bs"
  by (auto simp: power_loss_def holds_synced_def)

end
