(* ===== verification/Text.thy ===== *)
theory Text
  imports Prelude
begin

text \<open>
  What the program uses of Rust's text and path types. A \<open>str\<close> is the list of its UTF-8 bytes, one
  character per byte. Here are UTF-8 validity, \<open>trim\<close> (Unicode white space at both ends) and
  \<open>Path\<close> as the list of its components.
\<close>

section \<open>Bytes and strings\<close>

definition text_of :: "bytes \<Rightarrow> string" where
  "text_of raw = map (\<lambda>b. char_of (unat b)) raw"

lemma text_of_ascii [simp]: "text_of (ascii s) = s"
proof -
  have "char_of (unat (word_of_nat (of_char c) :: u8)) = c" for c
    by (simp add: unat_of_nat char_of_mod_256 del: of_nat_of_char)
  then show ?thesis by (simp add: text_of_def ascii_def comp_def map_idI)
qed

lemma ascii_append [simp]: "ascii (s @ t) = ascii s @ ascii t"
  by (simp add: ascii_def)

text \<open>The validity check of \<open>String::from_utf8\<close>: no surrogates, no overlong forms, at most U+10FFFF.\<close>

definition utf8_tail :: "u8 \<Rightarrow> bool" where
  "utf8_tail b \<longleftrightarrow> 0x80 \<le> b \<and> b \<le> 0xBF"

definition utf8_second3 :: "u8 \<Rightarrow> u8 \<Rightarrow> bool" where
  "utf8_second3 a b \<longleftrightarrow>
     utf8_tail b \<and> (a = 0xE0 \<longrightarrow> 0xA0 \<le> b) \<and> (a = 0xED \<longrightarrow> b \<le> 0x9F)"

definition utf8_second4 :: "u8 \<Rightarrow> u8 \<Rightarrow> bool" where
  "utf8_second4 a b \<longleftrightarrow>
     utf8_tail b \<and> (a = 0xF0 \<longrightarrow> 0x90 \<le> b) \<and> (a = 0xF4 \<longrightarrow> b \<le> 0x8F)"

fun utf8_valid :: "bytes \<Rightarrow> bool" where
  "utf8_valid [] = True"
| "utf8_valid (a # rest) =
     (if a < 0x80 then utf8_valid rest
      else case rest of
        b # rest2 \<Rightarrow>
          if 0xC2 \<le> a \<and> a \<le> 0xDF then utf8_tail b \<and> utf8_valid rest2
          else (case rest2 of
            c # rest3 \<Rightarrow>
              if 0xE0 \<le> a \<and> a \<le> 0xEF then utf8_second3 a b \<and> utf8_tail c \<and> utf8_valid rest3
              else (case rest3 of
                d # rest4 \<Rightarrow>
                  0xF0 \<le> a \<and> a \<le> 0xF4 \<and> utf8_second4 a b \<and> utf8_tail c \<and> utf8_tail d \<and>
                  utf8_valid rest4
              | [] \<Rightarrow> False)
          | [] \<Rightarrow> False)
      | [] \<Rightarrow> False)"

lemma utf8_valid_low: "\<forall>b\<in>set raw. b < 0x80 \<Longrightarrow> utf8_valid raw"
  by (induction raw) auto

definition from_utf8 :: "bytes \<Rightarrow> string option" where
  "from_utf8 raw = (if utf8_valid raw then Some (text_of raw) else None)"

definition newline :: string where "newline = [char_of (10 :: nat)]"

section \<open>White space\<close>

text \<open>The UTF-8 encodings of the characters with the Unicode property \<open>White_Space\<close>.\<close>

definition ws1 :: "u8 \<Rightarrow> bool" where
  "ws1 a \<longleftrightarrow> a \<in> {9, 10, 11, 12, 13, 32}"

definition ws2 :: "u8 \<Rightarrow> u8 \<Rightarrow> bool" where
  "ws2 a b \<longleftrightarrow> a = 0xC2 \<and> b \<in> {0x85, 0xA0}"

definition ws3 :: "u8 \<Rightarrow> u8 \<Rightarrow> u8 \<Rightarrow> bool" where
  "ws3 a b c \<longleftrightarrow>
     a = 0xE1 \<and> b = 0x9A \<and> c = 0x80 \<or>
     a = 0xE2 \<and> b = 0x80 \<and> (0x80 \<le> c \<and> c \<le> 0x8A \<or> c \<in> {0xA8, 0xA9, 0xAF}) \<or>
     a = 0xE2 \<and> b = 0x81 \<and> c = 0x9F \<or>
     a = 0xE3 \<and> b = 0x80 \<and> c = 0x80"

fun strip_ws ::
    "(u8 \<Rightarrow> u8 \<Rightarrow> bool) \<Rightarrow> (u8 \<Rightarrow> u8 \<Rightarrow> u8 \<Rightarrow> bool) \<Rightarrow> bytes \<Rightarrow> bytes" where
  "strip_ws w2 w3 [] = []"
| "strip_ws w2 w3 [a] = (if ws1 a then [] else [a])"
| "strip_ws w2 w3 [a, b] =
     (if ws1 a then strip_ws w2 w3 [b] else if w2 a b then [] else [a, b])"
| "strip_ws w2 w3 (a # b # c # rest) =
     (if ws1 a then strip_ws w2 w3 (b # c # rest)
      else if w2 a b then strip_ws w2 w3 (c # rest)
      else if w3 a b c then strip_ws w2 w3 rest
      else a # b # c # rest)"

definition trim_bytes :: "bytes \<Rightarrow> bytes" where
  "trim_bytes raw =
     rev (strip_ws (\<lambda>a b. ws2 b a) (\<lambda>a b c. ws3 c b a) (rev (strip_ws ws2 ws3 raw)))"

text \<open>\<open>str::trim\<close>.\<close>

definition trim :: "string \<Rightarrow> string" where
  "trim s = text_of (trim_bytes (ascii s))"

text \<open>A printable ASCII byte is never part of a white-space character.\<close>

definition visible :: "u8 \<Rightarrow> bool" where
  "visible b \<longleftrightarrow> 0x20 < b \<and> b < 0x7F"

lemma visible_low: "visible b \<Longrightarrow> b < 0x80"
  by (simp add: visible_def word_less_nat_alt)

lemma not_ws1_visible: "visible a \<Longrightarrow> \<not> ws1 a"
  by (auto simp: visible_def ws1_def word_less_nat_alt)

lemma not_ws_first:
  "visible a \<Longrightarrow> \<not> ws2 a b" "visible a \<Longrightarrow> \<not> ws3 a b c"
  "visible a \<Longrightarrow> \<not> ws2 b a" "visible a \<Longrightarrow> \<not> ws3 c b a"
  by (auto simp: visible_def ws2_def ws3_def word_less_nat_alt word_le_nat_alt)

lemma strip_ws_visible: "visible a \<Longrightarrow> strip_ws ws2 ws3 (a # raw) = a # raw"
  by (cases "(ws2, ws3, a # raw)" rule: strip_ws.cases) (auto simp: not_ws1_visible not_ws_first)

lemma strip_ws_rev_visible:
  "visible a \<Longrightarrow> strip_ws (\<lambda>a b. ws2 b a) (\<lambda>a b c. ws3 c b a) (a # raw) = a # raw"
  by (cases "(\<lambda>a b. ws2 b a, \<lambda>a b c. ws3 c b a, a # raw)" rule: strip_ws.cases)
    (auto simp: not_ws1_visible not_ws_first)

lemma strip_ws_newline: "strip_ws w2 w3 (10 # raw) = strip_ws w2 w3 raw"
  by (cases "(w2, w3, 10 # raw)" rule: strip_ws.cases) (auto simp: ws1_def)

lemma trim_visible_line:
  assumes "s \<noteq> []" and "\<forall>b\<in>set (ascii s). visible b"
  shows "trim (s @ newline) = s"
proof -
  obtain a raw where a: "ascii s = a # raw" "visible a"
    using assms by (cases s) (auto simp: ascii_def)
  obtain b war where b: "rev (ascii s) = b # war" "visible b"
    using assms by (cases s rule: rev_cases) (auto simp: ascii_def)
  have nl: "ascii newline = [10]" by (simp add: ascii_def newline_def)
  have "trim_bytes (ascii s @ [10]) = ascii s"
    using a b by (simp add: trim_bytes_def strip_ws_visible strip_ws_newline strip_ws_rev_visible)
      (metis rev.simps(2) rev_rev_ident)
  then show ?thesis by (simp add: trim_def nl)
qed

section \<open>Paths\<close>

text \<open>
  \<open>Path::components\<close>: empty components and all but a leading \<open>.\<close> are dropped. Two spellings with
  the same components are the same path.
\<close>

type_synonym path = "string list"

fun split_slash :: "string \<Rightarrow> string list" where
  "split_slash [] = [[]]"
| "split_slash (c # cs) =
     (if c = CHR ''/'' then [] # split_slash cs
      else case split_slash cs of [] \<Rightarrow> [[c]] | p # ps \<Rightarrow> (c # p) # ps)"

definition components :: "string \<Rightarrow> path" where
  "components s =
     (let parts = split_slash s;
          names = List.filter (\<lambda>p. p \<noteq> [] \<and> p \<noteq> ''.'') parts
      in if s \<noteq> [] \<and> hd s = CHR ''/'' then ''/'' # names
         else if hd parts = ''.'' then ''.'' # names
         else names)"

text \<open>\<open>Path::parent\<close> and \<open>Path::join\<close> with a single relative name.\<close>

definition path_parent :: "path \<Rightarrow> path option" where
  "path_parent p = (if p = [] \<or> p = [''/''] then None else Some (butlast p))"

definition path_join :: "path \<Rightarrow> string \<Rightarrow> path" where
  "path_join p name = p @ [name]"

lemma path_parent_join [simp]:
  "p \<noteq> [] \<Longrightarrow> path_parent (path_join p name) = Some p"
  by (simp add: path_parent_def path_join_def)

lemma path_join_eq_iff [simp]: "path_join p n = path_join p n' \<longleftrightarrow> n = n'"
  by (simp add: path_join_def)

lemma path_join_not_Nil [simp]: "path_join p n \<noteq> []"
  by (simp add: path_join_def)

end
