(* ===== verification/Replay_Disk.thy ===== *)
theory Replay_Disk
  imports Replay Disk Text
begin

text \<open>
  The durable replay store, disk half (\<open>tesaurus-policy/src/replay.rs\<close>): the stored form of a
  record and its round trip, \<open>init\<close>, \<open>open\<close> and \<open>commit\<close> over the file system of \<open>Disk\<close>. What a
  crash leaves of a store is in \<open>Replay_Crash\<close> and \<open>Replay_Sessions\<close>.
\<close>

section \<open>The stored form\<close>

record stored_tx_out =
  st_value_sats :: u64
  st_script_pubkey :: string

record stored_record =
  sr_request_id :: string
  sr_replay_id :: string
  sr_psbt_txid :: string
  sr_outpoints :: "string list"
  sr_outputs :: "stored_tx_out list"
  sr_vault_script :: string
  sr_outputs_commitment :: string
  sr_signed_psbt_or_partial :: string

record stored_file =
  sf_version :: u32
  sf_records :: "stored_record list"

text \<open>The \<open>hex\<close>, \<open>serde_json\<close> and \<open>OutPoint\<close> text codecs are parameters.\<close>

record codec_lib =
  hex_encode :: "bytes \<Rightarrow> string"
  hex_decode :: "string \<Rightarrow> bytes option"
  outpoint_to_string :: "out_point \<Rightarrow> string"
  outpoint_from_str :: "string \<Rightarrow> out_point option"
  json_to_vec :: "stored_file \<Rightarrow> bytes option"
  json_from_slice :: "bytes \<Rightarrow> stored_file option"

definition to_store_hex :: "codec_lib \<Rightarrow> replay_payload \<Rightarrow> string" where
  "to_store_hex C self = (case self of Unsigned \<Rightarrow> [] | Signed raw \<Rightarrow> hex_encode C raw)"

definition from_store_hex :: "codec_lib \<Rightarrow> string \<Rightarrow> replay_payload policy_result" where
  "from_store_hex C hex_str =
     (if hex_str = [] then Inr Unsigned
      else rbind (ok_or (Reject Internal) (hex_decode C hex_str)) (\<lambda>raw. Inr (Signed raw)))"

definition hex_array :: "codec_lib \<Rightarrow> nat \<Rightarrow> string \<Rightarrow> bytes policy_result" where
  "hex_array C n hex =
     rbind (ok_or (Reject Internal) (hex_decode C hex)) (\<lambda>raw.
     if length raw = n then Inr raw else reject Internal)"

definition to_stored :: "codec_lib \<Rightarrow> replay_record \<Rightarrow> stored_record" where
  "to_stored C self =
     \<lparr>sr_request_id = hex_encode C (rr_request_id self),
      sr_replay_id = hex_encode C (rr_replay_id self),
      sr_psbt_txid = hex_encode C (rr_psbt_txid self),
      sr_outpoints = map (outpoint_to_string C) (rr_outpoints self),
      sr_outputs = map (\<lambda>out. \<lparr>st_value_sats = txo_value out,
                               st_script_pubkey = hex_encode C (txo_script_pubkey out)\<rparr>)
                     (rr_outputs self),
      sr_vault_script = hex_encode C (rr_vault_script self),
      sr_outputs_commitment = hex_encode C (rr_outputs_commitment self),
      sr_signed_psbt_or_partial = to_store_hex C (rr_payload self)\<rparr>"

definition from_stored :: "codec_lib \<Rightarrow> stored_record \<Rightarrow> replay_record policy_result" where
  "from_stored C stored =
     rbind (try_map (\<lambda>s. ok_or (Reject Internal) (outpoint_from_str C s)) (sr_outpoints stored))
       (\<lambda>outpoints.
     rbind (try_map (\<lambda>out. rbind (ok_or (Reject Internal) (hex_decode C (st_script_pubkey out)))
              (\<lambda>script. Inr \<lparr>txo_value = st_value_sats out, txo_script_pubkey = script\<rparr>))
              (sr_outputs stored)) (\<lambda>outputs.
     rbind (ok_or (Reject Internal) (hex_decode C (sr_vault_script stored))) (\<lambda>vault_bytes.
     rbind (hex_array C 16 (sr_request_id stored)) (\<lambda>request_id.
     rbind (hex_array C 32 (sr_replay_id stored)) (\<lambda>replay_id.
     rbind (hex_array C 32 (sr_psbt_txid stored)) (\<lambda>psbt_txid.
     rbind (hex_array C 32 (sr_outputs_commitment stored)) (\<lambda>commitment.
     rbind (from_store_hex C (sr_signed_psbt_or_partial stored)) (\<lambda>payload.
     Inr \<lparr>rr_request_id = request_id, rr_replay_id = replay_id, rr_psbt_txid = psbt_txid,
          rr_outpoints = outpoints, rr_outputs = outputs, rr_vault_script = vault_bytes,
          rr_outputs_commitment = commitment, rr_payload = payload\<rparr>))))))))"

section \<open>Files\<close>

definition STORE_VERSION_TAG :: bytes where
  "STORE_VERSION_TAG = ascii ''TESAURUS_REPLAY_V1'' @ [10]"

definition RECORDS_FILE :: string where "RECORDS_FILE = ''records.json''"

definition VERSION_FILE :: string where "VERSION_FILE = ''VERSION''"

definition TMP_FILE :: string where "TMP_FILE = ''records.json.tmp''"

text \<open>Owner read and write (octal 600), owner only directory (octal 700).\<close>

definition MODE_FILE :: nat where "MODE_FILE = 0x180"

definition MODE_DIR :: nat where "MODE_DIR = 0x1C0"

definition write_private_fsynced :: "string \<Rightarrow> bytes \<Rightarrow> unit io" where
  "write_private_fsynced path contents =
     abind (open_truncate path MODE_FILE) (\<lambda>file.
     abind (set_file_mode file MODE_FILE) (\<lambda>_.
     abind (write_all file contents) (\<lambda>_.
     sync_all file)))"

definition fsync_dir :: "unit io" where
  "fsync_dir = abind open_dir (\<lambda>_. sync_dir)"

definition read_file :: "string \<Rightarrow> bytes io" where
  "read_file path = abind (open_read path) read_to_end"

definition persist_records :: "codec_lib \<Rightarrow> replay_record list \<Rightarrow> unit io" where
  "persist_records C recs =
     abind (alift (ok_or (Reject Internal)
               (json_to_vec C \<lparr>sf_version = 1, sf_records = map (to_stored C) recs\<rparr>))) (\<lambda>json.
     abind (write_private_fsynced TMP_FILE json) (\<lambda>_.
     rename_file TMP_FILE RECORDS_FILE))"

section \<open>The store\<close>

definition is_dir :: "unit io" where
  "is_dir = abind (path_stat dir_exists) (\<lambda>there.
     if there then areturn () else araise (Reject Internal))"

text \<open>
  The version check compares \<open>String::from_utf8_lossy(..).trim()\<close> with the trimmed tag. The tag is
  ASCII, so this is a comparison of bytes after removing the UTF-8 encodings of Unicode white
  space at both ends: a replacement character is neither white space nor part of the tag.
\<close>

definition open_store :: "codec_lib \<Rightarrow> replay_store io" where
  "open_store C =
     abind is_dir (\<lambda>_.
     abind (read_file VERSION_FILE) (\<lambda>version.
     if trim_bytes version \<noteq> trim_bytes STORE_VERSION_TAG then araise (Reject Internal)
     else abind (read_file RECORDS_FILE) (\<lambda>raw.
       abind (alift (ok_or (Reject Internal) (json_from_slice C raw))) (\<lambda>stored.
       if sf_version stored \<noteq> 1 then araise (Reject Internal)
       else abind (alift (try_map (from_stored C) (sf_records stored))) (\<lambda>records.
         areturn \<lparr>records = records\<rparr>)))))"

definition require_no_version_file :: "unit io" where
  "require_no_version_file =
     abind (path_stat (\<lambda>d. entries d VERSION_FILE \<noteq> None)) (\<lambda>there.
     if there then araise (Reject Internal) else areturn ())"

definition init_store :: "codec_lib \<Rightarrow> replay_store io" where
  "init_store C =
     abind create_dir_all (\<lambda>_.
     abind (set_dir_mode MODE_DIR) (\<lambda>_.
     abind require_no_version_file (\<lambda>_.
     abind (write_private_fsynced VERSION_FILE STORE_VERSION_TAG) (\<lambda>_.
     abind (persist_records C []) (\<lambda>_.
     abind fsync_dir (\<lambda>_.
     open_store C))))))"

text \<open>
  The record is pushed before it is persisted: the pushed store is returned on every path after
  that, also when persisting fails.
\<close>

definition push_and_persist ::
    "codec_lib \<Rightarrow> replay_store \<Rightarrow> replay_record \<Rightarrow> replay_verdict \<Rightarrow> disk \<Rightarrow>
     replay_verdict policy_result \<times> replay_store \<times> disk" where
  "push_and_persist C self record verdict d =
     (case require_signed_payload record of
        Inl e \<Rightarrow> (Inl e, self, d)
      | Inr _ \<Rightarrow>
          let self' = self\<lparr>records := records self @ [record]\<rparr>
          in case abind (persist_records C (records self')) (\<lambda>_. fsync_dir) d of
               (Inl e, d') \<Rightarrow> (Inl e, self', d')
             | (Inr _, d') \<Rightarrow> (Inr verdict, self', d'))"

definition commit ::
    "codec_lib \<Rightarrow> replay_store \<Rightarrow> replay_record \<Rightarrow> disk \<Rightarrow>
     replay_verdict policy_result \<times> replay_store \<times> disk" where
  "commit C self record d =
     (case preflight self record of
        Inl e \<Rightarrow> (Inl e, self, d)
      | Inr (Idempotent raw) \<Rightarrow> (Inr (Idempotent raw), self, d)
      | Inr Fresh \<Rightarrow> push_and_persist C self record Fresh d
      | Inr FeeBump \<Rightarrow> push_and_persist C self record FeeBump d)"

section \<open>The round trip of a record\<close>

text \<open>The documented behaviour of the three codecs that the store relies on.\<close>

definition codec_documented :: "codec_lib \<Rightarrow> bool" where
  "codec_documented C \<longleftrightarrow>
     (\<forall>raw. hex_decode C (hex_encode C raw) = Some raw) \<and>
     (\<forall>raw. hex_encode C raw = [] \<longleftrightarrow> raw = []) \<and>
     (\<forall>op. length (op_txid op) = 32 \<longrightarrow>
        outpoint_from_str C (outpoint_to_string C op) = Some op) \<and>
     (\<forall>f raw. json_to_vec C f = Some raw \<longrightarrow> json_from_slice C raw = Some f)"

text \<open>\<open>serde_json::to_vec_pretty\<close> cannot fail on the structs of the store file.\<close>

definition codec_total :: "codec_lib \<Rightarrow> bool" where
  "codec_total C \<longleftrightarrow> (\<forall>f. json_to_vec C f \<noteq> None)"

text \<open>The array lengths of the record's fields, and a payload that \<open>attach_signed\<close> can have made.\<close>

definition wf_record :: "replay_record \<Rightarrow> bool" where
  "wf_record r \<longleftrightarrow>
     length (rr_request_id r) = 16 \<and> length (rr_replay_id r) = 32 \<and>
     length (rr_psbt_txid r) = 32 \<and> length (rr_outputs_commitment r) = 32 \<and>
     (\<forall>op\<in>set (rr_outpoints r). length (op_txid op) = 32) \<and> rr_payload r \<noteq> Signed []"

lemma hex_array_encode:
  "codec_documented C \<Longrightarrow> length raw = n \<Longrightarrow> hex_array C n (hex_encode C raw) = Inr raw"
  by (simp add: codec_documented_def hex_array_def)

lemma try_map_inverse:
  "(\<And>x. x \<in> set xs \<Longrightarrow> f (g x) = Inr x) \<Longrightarrow> try_map f (map g xs) = Inr xs"
  by (induction xs) auto

lemma payload_round_trip:
  assumes "codec_documented C" and "p \<noteq> Signed []"
  shows "from_store_hex C (to_store_hex C p) = Inr p"
  using assms
  by (cases p) (auto simp: from_store_hex_def to_store_hex_def codec_documented_def)

lemma stored_round_trip:
  assumes "codec_documented C" and "wf_record r"
  shows "from_stored C (to_stored C r) = Inr r"
proof -
  have "try_map (\<lambda>s. ok_or (Reject Internal) (outpoint_from_str C s))
      (map (outpoint_to_string C) (rr_outpoints r)) = Inr (rr_outpoints r)"
    using assms by (intro try_map_inverse) (simp add: codec_documented_def wf_record_def)
  moreover have "try_map (\<lambda>out. rbind (ok_or (Reject Internal) (hex_decode C (st_script_pubkey out)))
        (\<lambda>script. Inr \<lparr>txo_value = st_value_sats out, txo_script_pubkey = script\<rparr>))
      (map (\<lambda>out. \<lparr>st_value_sats = txo_value out,
                  st_script_pubkey = hex_encode C (txo_script_pubkey out)\<rparr>) (rr_outputs r))
      = Inr (rr_outputs r)"
    using assms(1) by (intro try_map_inverse) (simp add: codec_documented_def)
  ultimately show ?thesis
    using assms payload_round_trip [OF assms(1), of "rr_payload r"]
    by (simp add: from_stored_def to_stored_def hex_array_encode wf_record_def)
      (simp add: codec_documented_def)
qed

locale record_codec =
  fixes enc :: "'a \<Rightarrow> 'b" and dec :: "'b \<Rightarrow> 'e + 'a" and wf :: "'a \<Rightarrow> bool"
  assumes round_trip: "wf x \<Longrightarrow> dec (enc x) = Inr x"
begin

lemma list_round_trip: "(\<forall>x\<in>set xs. wf x) \<Longrightarrow> try_map dec (map enc xs) = Inr xs"
  by (intro try_map_inverse) (simp add: round_trip)

lemma enc_inj: "wf x \<Longrightarrow> wf y \<Longrightarrow> enc x = enc y \<Longrightarrow> x = y"
  by (metis round_trip sum.inject(2))

lemma enc_list_inj:
  "(\<forall>x\<in>set xs. wf x) \<Longrightarrow> (\<forall>y\<in>set ys. wf y) \<Longrightarrow> map enc xs = map enc ys \<Longrightarrow> xs = ys"
  by (metis list_round_trip sum.inject(2))

end

interpretation stored: record_codec "to_stored C" "from_stored C"
  "\<lambda>r. codec_documented C \<and> wf_record r" for C
  by unfold_locales (simp add: stored_round_trip)

end
