(* ===== verification/Replay_Crash.thy ===== *)
theory Replay_Crash
  imports Replay_Disk
begin

text \<open>
  Crash safety of the replay store: whatever system calls fail during a commit, and whatever a
  power loss makes of unsynced files and directory entries, the store directory, if it is found,
  holds the record log up to some commit, and never falls behind the last commit that returned
  \<open>Ok\<close>.
\<close>

section \<open>Frame of the temporary file\<close>

text \<open>The inodes that hold the version or the records in a directory state a crash may return to.\<close>

definition refs :: "disk \<Rightarrow> nat set" where
  "refs d = {i. \<exists>E\<in>set (dir_states d). E RECORDS_FILE = Some i \<or> E VERSION_FILE = Some i}"

definition staged :: "disk \<Rightarrow> bool" where
  "staged d \<longleftrightarrow>
     entries d \<in> set (dir_states d) \<and>
     (\<forall>E\<in>set (dir_states d). \<forall>name i. E name = Some i \<longrightarrow> i < next_inode d) \<and>
     (\<forall>E\<in>set (dir_states d). \<forall>i. E TMP_FILE = Some i \<longrightarrow>
        E RECORDS_FILE \<noteq> Some i \<and> E VERSION_FILE \<noteq> Some i) \<and>
     (\<forall>i\<in>refs d. entries d TMP_FILE \<noteq> Some i)"

definition same_off_tmp :: "(string \<Rightarrow> nat option) \<Rightarrow> (string \<Rightarrow> nat option) \<Rightarrow> bool" where
  "same_off_tmp E E' \<longleftrightarrow> (\<forall>name. name \<noteq> TMP_FILE \<longrightarrow> E name = E' name)"

definition covers :: "(string \<Rightarrow> nat option) list \<Rightarrow> (string \<Rightarrow> nat option) list \<Rightarrow> bool" where
  "covers D D' \<longleftrightarrow> set D \<subseteq> set D' \<and> (\<forall>E'\<in>set D'. \<exists>E\<in>set D. same_off_tmp E' E)"

definition tmp_only :: "disk \<Rightarrow> disk \<Rightarrow> bool" where
  "tmp_only d d' \<longleftrightarrow>
     staged d' \<and> same_off_tmp (entries d') (entries d) \<and> covers (dir_states d) (dir_states d') \<and>
     (\<forall>i\<in>refs d. inodes d' i = inodes d i) \<and> dir_exists d' = dir_exists d"

lemma file_names [simp]:
  "RECORDS_FILE \<noteq> TMP_FILE" "VERSION_FILE \<noteq> TMP_FILE" "RECORDS_FILE \<noteq> VERSION_FILE"
  "TMP_FILE \<noteq> RECORDS_FILE" "TMP_FILE \<noteq> VERSION_FILE" "VERSION_FILE \<noteq> RECORDS_FILE"
  by (simp_all add: RECORDS_FILE_def TMP_FILE_def VERSION_FILE_def)

lemma same_off_tmp_refl [simp]: "same_off_tmp E E"
  by (simp add: same_off_tmp_def)

lemma same_off_tmp_trans: "same_off_tmp E E' \<Longrightarrow> same_off_tmp E' E'' \<Longrightarrow> same_off_tmp E E''"
  by (simp add: same_off_tmp_def)

lemma same_off_tmp_upd [simp]: "same_off_tmp (E(TMP_FILE := x)) E"
  by (simp add: same_off_tmp_def)

lemma covers_refl [simp]: "covers D D"
  by (auto simp: covers_def intro!: bexI)

lemma covers_trans: "covers D D' \<Longrightarrow> covers D' D'' \<Longrightarrow> covers D D''"
  unfolding covers_def by (meson same_off_tmp_trans subset_trans)

lemma covers_Cons: "E \<in> set D \<Longrightarrow> same_off_tmp E' E \<Longrightarrow> covers D (E' # D)"
  unfolding covers_def by (auto intro: same_off_tmp_refl)

lemma covers_refs:
  assumes "covers (dir_states d) (dir_states d')"
  shows "refs d' = refs d"
proof -
  have "refs d \<subseteq> refs d'" using assms by (auto simp: covers_def refs_def)
  moreover have "refs d' \<subseteq> refs d"
    using assms by (fastforce simp: covers_def refs_def same_off_tmp_def)
  ultimately show ?thesis by blast
qed

lemma tmp_only_refs: "tmp_only d d' \<Longrightarrow> refs d' = refs d"
  by (simp add: tmp_only_def covers_refs)

lemma tmp_only_refl: "staged d \<Longrightarrow> tmp_only d d"
  by (simp add: tmp_only_def)

lemma tmp_only_trans:
  assumes "tmp_only d d'" and "tmp_only d' d''"
  shows "tmp_only d d''"
  using assms tmp_only_refs [OF assms(1)]
  by (auto simp: tmp_only_def intro: same_off_tmp_trans covers_trans)

lemma staged_cong:
  assumes "entries d' = entries d" "dir_states d' = dir_states d" "next_inode d' = next_inode d"
  shows "staged d' = staged d" "refs d' = refs d"
  using assms by (simp_all add: staged_def refs_def)

lemma staged_tick [simp]: "staged (tick d) = staged d" "refs (tick d) = refs d"
  by (simp_all add: staged_def refs_def)

lemma tmp_only_tick: "staged d \<Longrightarrow> tmp_only d (tick d)"
  by (simp add: tmp_only_def)

lemma tmp_only_inode:
  assumes "staged d" and "entries d TMP_FILE = Some i"
  shows "tmp_only d ((tick d)\<lparr>inodes := (inodes d)(i := x)\<rparr>)"
proof -
  have "i \<notin> refs d" using assms by (auto simp: staged_def)
  moreover have "staged ((tick d)\<lparr>inodes := (inodes d)(i := x)\<rparr>)"
    using assms(1) by (subst staged_cong(1) [of _ d]) simp_all
  ultimately show ?thesis by (auto simp: tmp_only_def)
qed

lemma refs_below: "staged d \<Longrightarrow> i \<in> refs d \<Longrightarrow> i < next_inode d"
  by (auto simp: staged_def refs_def)

lemma tmp_only_create:
  assumes "staged d" and "i = next_inode d"
    and "d' = (tick d)\<lparr>entries := (entries d)(TMP_FILE := Some i),
               dir_states := (entries d)(TMP_FILE := Some i) # dir_states d,
               inodes := (inodes d)(i := x), next_inode := Suc i\<rparr>"
  shows "tmp_only d d'"
proof -
  note st = assms(1) [unfolded staged_def]
  have below: "E name = Some j \<Longrightarrow> j < i" if "E \<in> set (dir_states d)" for E name j
    using st that assms(2) by blast
  have cov: "covers (dir_states d) (dir_states d')"
    unfolding assms(3) using st by (auto intro: covers_Cons)
  have refs: "refs d' = refs d" using cov by (rule covers_refs)
  have fresh: "i \<notin> refs d" using refs_below [OF assms(1), of i] assms(2) by auto
  have "staged d'"
    unfolding staged_def refs
  proof (intro conjI ballI allI impI)
    show "entries d' \<in> set (dir_states d')" by (simp add: assms(3))
  next
    fix E name j assume "E \<in> set (dir_states d')" "E name = Some j"
    moreover have "j < Suc i"
      if "entries d name = Some j \<or> E \<in> set (dir_states d) \<and> E name = Some j \<or> j = i"
      using that below [of "entries d" name j] below [of E name j] st by auto
    ultimately show "j < next_inode d'"
      by (auto simp: assms(3) split: if_splits)
  next
    fix E j assume E: "E \<in> set (dir_states d')" "E TMP_FILE = Some j"
    have "E name \<noteq> Some j" if "name = RECORDS_FILE \<or> name = VERSION_FILE" for name
    proof (cases "E \<in> set (dir_states d)")
      case True
      with E that st show ?thesis by blast
    next
      case False
      with E have "E = (entries d)(TMP_FILE := Some i)" by (simp add: assms(3))
      with E that below [of "entries d" name j] st show ?thesis by auto
    qed
    then show "E RECORDS_FILE \<noteq> Some j" "E VERSION_FILE \<noteq> Some j" by blast+
  next
    fix j assume "j \<in> refs d"
    with fresh show "entries d' TMP_FILE \<noteq> Some j" by (auto simp: assms(3))
  qed
  moreover have "inodes d' j = inodes d j" if "j \<in> refs d" for j
    using that fresh by (auto simp: assms(3))
  ultimately show ?thesis using cov by (simp add: tmp_only_def assms(3))
qed

lemma open_truncate_tmp:
  assumes "staged d" and "open_truncate TMP_FILE m d = (r, d')"
  shows "tmp_only d d' \<and> (\<forall>i. r = Inr i \<longrightarrow> entries d' TMP_FILE = Some i \<and> cached (inodes d' i) = [])"
  using assms(2) unfolding open_truncate_def
proof (cases rule: sys_call_cases)
  case failed
  with assms(1) show ?thesis by (simp add: tmp_only_tick)
next
  case (succeeded i)
  show ?thesis
  proof (cases "entries d TMP_FILE")
    case None
    with succeeded have "i = next_inode d" and
      d': "d' = (tick d)\<lparr>entries := (entries d)(TMP_FILE := Some i),
               dir_states := (entries d)(TMP_FILE := Some i) # dir_states d,
               inodes := (inodes d)(i := \<lparr>cached = [], durable = [], file_mode = m\<rparr>),
               next_inode := Suc i\<rparr>"
      by (auto simp: Let_def)
    from tmp_only_create [OF assms(1) this] succeeded(1) d' show ?thesis by simp
  next
    case (Some j)
    with succeeded tmp_only_inode [OF assms(1) Some] show ?thesis
      by auto
  qed
qed

lemma set_file_mode_tmp:
  assumes "staged d" and "entries d TMP_FILE = Some i" and "set_file_mode i m d = (r, d')"
  shows "tmp_only d d' \<and> entries d' TMP_FILE = Some i \<and> cached (inodes d' i) = cached (inodes d i)"
  using assms(3) unfolding set_file_mode_def
  by (cases rule: sys_call_cases) (use assms in \<open>auto simp: tmp_only_tick intro: tmp_only_inode\<close>)

lemma write_all_tmp:
  assumes "staged d" and "entries d TMP_FILE = Some i" and "write_all i bs d = (r, d')"
  shows "tmp_only d d' \<and> entries d' TMP_FILE = Some i \<and>
    (r = Inr () \<longrightarrow> cached (inodes d' i) = cached (inodes d i) @ bs)"
  using assms by (auto simp: write_all_def Let_def intro: tmp_only_inode split: io_outcome.splits)

lemma sync_all_tmp:
  assumes "staged d" and "entries d TMP_FILE = Some i" and "sync_all i d = (r, d')"
  shows "tmp_only d d' \<and> entries d' TMP_FILE = Some i \<and>
    (r = Inr () \<longrightarrow> holds_synced d' (Some i) (cached (inodes d i)))"
  using assms(3) unfolding sync_all_def
  by (cases rule: sys_call_cases)
    (use assms in \<open>auto simp: tmp_only_tick holds_synced_def io_err_def intro: tmp_only_inode\<close>)

lemma tmp_only_staged: "tmp_only d d' \<Longrightarrow> staged d'"
  by (simp add: tmp_only_def)

lemma write_private_tmp:
  assumes "staged d" and "write_private_fsynced TMP_FILE bs d = (r, d')"
  shows "tmp_only d d' \<and> (r = Inr () \<longrightarrow> holds_synced d' (entries d' TMP_FILE) bs)"
  using assms(2) unfolding write_private_fsynced_def
proof (cases rule: abind_cases)
  case (failed e)
  with open_truncate_tmp [OF assms(1)] show ?thesis by blast
next
  case (continued i d1)
  with open_truncate_tmp [OF assms(1)]
  have 1: "tmp_only d d1" "entries d1 TMP_FILE = Some i" "cached (inodes d1 i) = []" by blast+
  note s1 = tmp_only_staged [OF 1(1)]
  from continued(2) show ?thesis
  proof (cases rule: abind_cases)
    case (failed e)
    with set_file_mode_tmp [OF s1 1(2)] 1(1) show ?thesis by (auto intro: tmp_only_trans)
  next
    case (continued u d2)
    with set_file_mode_tmp [OF s1 1(2)] 1
    have 2: "tmp_only d d2" "entries d2 TMP_FILE = Some i" "cached (inodes d2 i) = []"
      by (auto intro: tmp_only_trans)
    note s2 = tmp_only_staged [OF 2(1)]
    from continued(2) show ?thesis
    proof (cases rule: abind_cases)
      case (failed e)
      with write_all_tmp [OF s2 2(2)] 2(1) show ?thesis by (auto intro: tmp_only_trans)
    next
      case (continued u d3)
      with write_all_tmp [OF s2 2(2)] 2
      have 3: "tmp_only d d3" "entries d3 TMP_FILE = Some i" "cached (inodes d3 i) = bs"
        by (auto intro: tmp_only_trans)
      note s3 = tmp_only_staged [OF 3(1)]
      from sync_all_tmp [OF s3 3(2) continued(2)] 3 show ?thesis
        by (auto intro: tmp_only_trans)
    qed
  qed
qed

section \<open>Persisting a log\<close>

definition encode_log :: "codec_lib \<Rightarrow> replay_record list \<Rightarrow> bytes option" where
  "encode_log C log = json_to_vec C \<lparr>sf_version = 1, sf_records = map (to_stored C) log\<rparr>"

definition renamed :: "disk \<Rightarrow> disk" where
  "renamed d =
     (let moved = (entries d)(RECORDS_FILE := entries d TMP_FILE, TMP_FILE := None)
      in (tick d)\<lparr>entries := moved, dir_states := moved # dir_states d\<rparr>)"

lemma persist_cases:
  assumes "staged d" and "persist_records C log d = (r, d')"
  obtains (unchanged) e where "r = Inl e" "tmp_only d d'"
  | (replaced) bs d1 where "r = Inr ()" "encode_log C log = Some bs" "tmp_only d d1"
      "holds_synced d1 (entries d1 TMP_FILE) bs" "d' = renamed d1"
  using assms(2) unfolding persist_records_def encode_log_def [symmetric]
proof (cases rule: abind_cases)
  case (failed e)
  then show ?thesis using assms(1) by (auto simp: alift_def intro: that(1) tmp_only_refl)
next
  case (continued bs d0)
  then have bs: "encode_log C log = Some bs" and [simp]: "d0 = d"
    by (auto simp: alift_def res_simps)
  from continued(2) show ?thesis
  proof (cases rule: abind_cases)
    case (failed e)
    then show ?thesis using write_private_tmp [OF assms(1)] by (auto intro: that(1))
  next
    case (continued u d1)
    with write_private_tmp [OF assms(1)]
    have 1: "tmp_only d d1" "holds_synced d1 (entries d1 TMP_FILE) bs" by auto
    from continued(2) show ?thesis
      unfolding rename_file_def
    proof (cases rule: sys_call_cases)
      case failed
      with 1 show ?thesis
        by (auto intro!: that(1) intro: tmp_only_trans tmp_only_tick tmp_only_staged)
    next
      case (succeeded x)
      then have "d' = renamed d1" by (simp add: renamed_def Let_def)
      with succeeded(1) bs 1 show ?thesis by (auto intro: that(2))
    qed
  qed
qed

lemma fsync_dir_cases:
  assumes "fsync_dir d = (r, d')"
  obtains (failed) e k where "r = Inl e" "d' = d\<lparr>io_clock := k\<rparr>"
  | (synced) k where "r = Inr ()" "d' = d\<lparr>io_clock := k, dir_states := [entries d]\<rparr>"
  using assms unfolding fsync_dir_def open_dir_def sync_dir_def
  by (auto elim!: abind_cases sys_call_cases simp: tick_def intro: that)

section \<open>The invariant of the store on disk\<close>

definition holds_log ::
    "codec_lib \<Rightarrow> disk \<Rightarrow> replay_record list \<Rightarrow> (string \<Rightarrow> nat option) \<Rightarrow> nat \<Rightarrow> bool" where
  "holds_log C d log E n \<longleftrightarrow>
     holds_synced d (E VERSION_FILE) STORE_VERSION_TAG \<and>
     (\<exists>bs. encode_log C (take n log) = Some bs \<and> holds_synced d (E RECORDS_FILE) bs)"

text \<open>
  The current directory holds the first \<open>c\<close> records of the log; a crash leads to a directory that
  holds at least the first \<open>acked\<close> of them.
\<close>

definition store_inv :: "codec_lib \<Rightarrow> replay_record list \<Rightarrow> nat \<Rightarrow> disk \<Rightarrow> bool" where
  "store_inv C log acked d \<longleftrightarrow>
     staged d \<and> dir_exists d \<and>
     (\<exists>c\<le>length log. holds_log C d log (entries d) c \<and>
        (\<forall>E\<in>set (dir_states d). \<exists>n. acked \<le> n \<and> n \<le> c \<and> holds_log C d log E n))"

lemma holds_synced_frame:
  "holds_synced d e bs \<Longrightarrow> (\<And>i. e = Some i \<Longrightarrow> inodes d' i = inodes d i) \<Longrightarrow>
   holds_synced d' e bs"
  by (auto simp: holds_synced_def)

lemma holds_log_same_off_tmp:
  assumes "holds_log C d log E n" and "E \<in> set (dir_states d)"
    and "\<forall>i\<in>refs d. inodes d' i = inodes d i" and "same_off_tmp E' E"
  shows "holds_log C d' log E' n"
proof -
  have same: "E' VERSION_FILE = E VERSION_FILE" "E' RECORDS_FILE = E RECORDS_FILE"
    using assms(4) by (simp_all add: same_off_tmp_def)
  have "i \<in> refs d" if "E VERSION_FILE = Some i \<or> E RECORDS_FILE = Some i" for i
    using that assms(2) by (auto simp: refs_def)
  with assms(3) have "holds_synced d (E name) bs \<Longrightarrow> holds_synced d' (E name) bs"
    if "name = VERSION_FILE \<or> name = RECORDS_FILE" for name bs
    using that by (auto intro: holds_synced_frame)
  with assms(1) show ?thesis unfolding holds_log_def same by blast
qed

lemma holds_log_extend:
  "n \<le> length log \<Longrightarrow> holds_log C d (log @ ext) E n = holds_log C d log E n"
  by (simp add: holds_log_def)

lemma store_inv_tmp_only:
  assumes inv: "store_inv C log a d" and tmp: "tmp_only d d'"
  shows "store_inv C log a d'"
proof -
  from inv obtain c where c: "c \<le> length log" "holds_log C d log (entries d) c"
    and states: "\<forall>E\<in>set (dir_states d). \<exists>n. a \<le> n \<and> n \<le> c \<and> holds_log C d log E n"
    by (auto simp: store_inv_def)
  have frame: "holds_log C d' log E' n"
    if "holds_log C d log E n" "E \<in> set (dir_states d)" "same_off_tmp E' E" for E E' n
    using that tmp by (auto simp: tmp_only_def intro: holds_log_same_off_tmp)
  have "entries d \<in> set (dir_states d)" using inv by (simp add: store_inv_def staged_def)
  with c(2) tmp have "holds_log C d' log (entries d') c" by (auto simp: tmp_only_def intro: frame)
  moreover have "\<exists>n. a \<le> n \<and> n \<le> c \<and> holds_log C d' log E' n"
    if "E' \<in> set (dir_states d')" for E'
  proof -
    from that tmp obtain E where E: "E \<in> set (dir_states d)" "same_off_tmp E' E"
      by (auto simp: tmp_only_def covers_def)
    with states frame show ?thesis by blast
  qed
  ultimately show ?thesis using inv tmp c(1) by (auto simp: store_inv_def tmp_only_def)
qed

lemma store_invE:
  assumes "store_inv C log a d"
  obtains c where "staged d" "dir_exists d" "c \<le> length log" "holds_log C d log (entries d) c"
    "\<And>E. E \<in> set (dir_states d) \<Longrightarrow> \<exists>n. a \<le> n \<and> n \<le> c \<and> holds_log C d log E n"
  using assms by (auto simp: store_inv_def)

lemma store_inv_extend:
  assumes "store_inv C log a d"
  shows "store_inv C (log @ ext) a d"
proof -
  from assms obtain c where c: "staged d" "dir_exists d" "c \<le> length log"
    "holds_log C d log (entries d) c"
    and st: "\<And>E. E \<in> set (dir_states d) \<Longrightarrow> \<exists>n. a \<le> n \<and> n \<le> c \<and> holds_log C d log E n"
    by (rule store_invE) blast
  have "\<exists>n. a \<le> n \<and> n \<le> c \<and> holds_log C d (log @ ext) E n" if "E \<in> set (dir_states d)" for E
    using st [OF that] c(3) holds_log_extend by (metis order.trans)
  with c holds_log_extend [OF c(3)] show ?thesis
    unfolding store_inv_def by (intro conjI exI [of _ c]) auto
qed

lemma staged_renamed: "staged d \<Longrightarrow> staged (renamed d)"
  by (auto simp: staged_def renamed_def refs_def Let_def)

text \<open>After the rename, the current directory holds the whole log.\<close>

lemma holds_log_renamed:
  assumes "holds_synced d (entries d VERSION_FILE) STORE_VERSION_TAG"
    and "encode_log C log = Some bs" and "holds_synced d (entries d TMP_FILE) bs"
  shows "holds_log C (renamed d) log (entries (renamed d)) (length log)"
  using assms by (simp add: holds_log_def holds_synced_def renamed_def Let_def)

lemma store_inv_renamed:
  assumes inv: "store_inv C log a d" and bs: "encode_log C log = Some bs"
    "holds_synced d (entries d TMP_FILE) bs"
  shows "store_inv C log a (renamed d)"
    and "holds_log C (renamed d) log (entries (renamed d)) (length log)"
proof -
  from inv obtain c where c: "staged d" "dir_exists d" "c \<le> length log"
    "holds_log C d log (entries d) c"
    and st: "\<And>E. E \<in> set (dir_states d) \<Longrightarrow> \<exists>n. a \<le> n \<and> n \<le> c \<and> holds_log C d log E n"
    by (rule store_invE) blast
  from c(4) have "holds_synced d (entries d VERSION_FILE) STORE_VERSION_TAG"
    by (simp add: holds_log_def)
  from holds_log_renamed [OF this bs] show now:
    "holds_log C (renamed d) log (entries (renamed d)) (length log)" .
  have "entries d \<in> set (dir_states d)" using c(1) by (simp add: staged_def)
  with st have "a \<le> length log" using c(3) by force
  have inodes: "inodes (renamed d) = inodes d" and
    states: "dir_states (renamed d) = entries (renamed d) # dir_states d"
    by (simp_all add: renamed_def Let_def)
  have "holds_log C (renamed d) log E n = holds_log C d log E n" for E n
    by (simp add: holds_log_def holds_synced_def inodes)
  with now \<open>a \<le> length log\<close> st c(3)
  have "\<exists>n. a \<le> n \<and> n \<le> length log \<and> holds_log C (renamed d) log E n"
    if "E \<in> set (dir_states (renamed d))" for E
    using that unfolding states by (metis order.refl order.trans set_ConsD)
  with now staged_renamed [OF c(1)] c(2) show "store_inv C log a (renamed d)"
    unfolding store_inv_def by (auto simp: renamed_def Let_def)
qed

lemma staged_sync: "staged d \<Longrightarrow> staged (d\<lparr>io_clock := k, dir_states := [entries d]\<rparr>)"
  by (auto simp: staged_def refs_def)

lemma holds_synced_clock [simp]:
  "holds_synced (d\<lparr>io_clock := k\<rparr>) e bs = holds_synced d e bs"
  "holds_synced (d\<lparr>io_plan := p\<rparr>) e bs = holds_synced d e bs"
  "holds_synced (d\<lparr>dir_states := D\<rparr>) e bs = holds_synced d e bs"
  by (simp_all add: holds_synced_def)

lemma holds_log_clock [simp]:
  "holds_log C (d\<lparr>io_clock := k\<rparr>) log E n = holds_log C d log E n"
  "holds_log C (d\<lparr>io_plan := p\<rparr>) log E n = holds_log C d log E n"
  "holds_log C (d\<lparr>dir_states := D\<rparr>) log E n = holds_log C d log E n"
  by (simp_all add: holds_log_def)

lemma store_inv_clock [simp]:
  "store_inv C log a (d\<lparr>io_clock := k\<rparr>) = store_inv C log a d"
  "store_inv C log a (d\<lparr>io_plan := p\<rparr>) = store_inv C log a d"
  by (simp_all add: store_inv_def staged_def refs_def)

text \<open>Syncing the directory makes the current state the only one a crash can lead to.\<close>

lemma store_inv_sync:
  assumes "staged d" "dir_exists d" "holds_log C d log (entries d) (length log)"
  shows "store_inv C log (length log) (d\<lparr>io_clock := k, dir_states := [entries d]\<rparr>)"
  using assms staged_sync [OF assms(1)]
  by (auto simp: store_inv_def intro!: exI [of _ "length log"])

lemma store_inv_mono: "store_inv C log a d \<Longrightarrow> b \<le> a \<Longrightarrow> store_inv C log b d"
  unfolding store_inv_def by (meson order.trans)

lemma store_inv_bound: "store_inv C log a d \<Longrightarrow> a \<le> length log"
  unfolding store_inv_def staged_def by (meson order.trans)

definition write_log :: "codec_lib \<Rightarrow> replay_record list \<Rightarrow> unit io" where
  "write_log C log = abind (persist_records C log) (\<lambda>_. fsync_dir)"

lemma write_log_inv:
  assumes inv: "store_inv C log a d" and run: "write_log C log d = (r, d')"
  shows "store_inv C log a d' \<and> (r = Inr () \<longrightarrow> store_inv C log (length log) d')"
proof -
  from inv have st: "staged d" by (simp add: store_inv_def)
  from run show ?thesis
    unfolding write_log_def
  proof (cases rule: abind_cases)
    case (failed e)
    from st failed(1) show ?thesis
      by (cases rule: persist_cases) (use inv failed(2) in \<open>auto intro: store_inv_tmp_only\<close>)
  next
    case (continued u d1)
    from st continued(1) obtain bs d0 where 1: "encode_log C log = Some bs" "tmp_only d d0"
      "holds_synced d0 (entries d0 TMP_FILE) bs" "d1 = renamed d0"
      by (cases rule: persist_cases) auto
    note ren = store_inv_renamed [OF store_inv_tmp_only [OF inv 1(2)] 1(1,3)]
    from continued(2) show ?thesis
    proof (cases rule: fsync_dir_cases)
      case (failed e k)
      with ren(1) 1(4) show ?thesis by simp
    next
      case (synced k)
      have "staged d1" "dir_exists d1" using ren(1) 1(4) by (auto simp: store_inv_def)
      from store_inv_sync [OF this] ren(2) 1(4) synced(2)
      have "store_inv C log (length log) d'" by simp
      with inv show ?thesis by (auto intro: store_inv_mono dest: store_inv_bound)
    qed
  qed
qed

text \<open>
  A commit keeps the invariant for the pushed log, also when it fails. If it accepts, every record
  of the log is acknowledged from then on.
\<close>

lemma commit_inv:
  assumes inv: "store_inv C (records st) a d" and run: "commit C st r d = (res, st', d')"
  shows "store_inv C (records st') a d'"
    and "res = Inr Fresh \<or> res = Inr FeeBump \<Longrightarrow>
         records st' = records st @ [r] \<and> store_inv C (records st') (length (records st')) d'"
proof -
  have push: "store_inv C (records st') a d' \<and> (res = Inr Fresh \<or> res = Inr FeeBump \<longrightarrow>
      records st' = records st @ [r] \<and> store_inv C (records st') (length (records st')) d')"
    if p: "push_and_persist C st r v d = (res, st', d')" for v
  proof (cases "require_signed_payload r")
    case (Inl e)
    with p inv show ?thesis by (auto simp: push_and_persist_def)
  next
    case (Inr u)
    obtain w d1 where w: "write_log C (records st @ [r]) d = (w, d1)" by fastforce
    with p Inr have "records st' = records st @ [r]" "d' = d1" "res = Inr v \<Longrightarrow> w = Inr ()"
      "res = Inr Fresh \<or> res = Inr FeeBump \<Longrightarrow> w = Inr ()"
      by (auto simp: push_and_persist_def Let_def write_log_def split: sum.splits)
    with write_log_inv [OF store_inv_extend [OF inv] w] show ?thesis by auto
  qed
  have "store_inv C (records st') a d' \<and> (res = Inr Fresh \<or> res = Inr FeeBump \<longrightarrow>
      records st' = records st @ [r] \<and> store_inv C (records st') (length (records st')) d')"
    using run inv push
    by (auto simp: commit_def split: sum.splits replay_verdict.splits)
  then show "store_inv C (records st') a d'"
    "res = Inr Fresh \<or> res = Inr FeeBump \<Longrightarrow>
         records st' = records st @ [r] \<and> store_inv C (records st') (length (records st')) d'"
    by blast+
qed

section \<open>Reading the store back\<close>

lemma failing_plan: "io_plan d n = IoErr k \<Longrightarrow> \<exists>n. io_plan d n \<noteq> IoOk"
  by (metis io_outcome.distinct(1))

lemma read_file_cases:
  assumes "entries d name = Some i" and "read_file name d = (r, d')"
  obtains (failed) k where "r = Inl io_err" "d' = d\<lparr>io_clock := k\<rparr>" "\<exists>n. io_plan d n \<noteq> IoOk"
  | (got) k where "r = Inr (cached (inodes d i))" "d' = d\<lparr>io_clock := k\<rparr>"
  using assms unfolding read_file_def open_read_def read_to_end_def
  by (auto simp: abind_def sys_call_def outcome_def tick_def intro: that failing_plan
      split: io_outcome.splits sum.splits)

lemma is_dir_cases:
  assumes "is_dir d = (r, d')" and "dir_exists d"
  obtains (failed) "r = Inl io_err" "d' = tick d" "\<exists>n. io_plan d n \<noteq> IoOk"
  | (found) "r = Inr ()" "d' = tick d"
  using assms
  by (cases "outcome d")
    (auto simp: is_dir_def path_stat_def abind_def areturn_def araise_def io_err_def outcome_def
      intro: that failing_plan)

lemma open_store_cases:
  assumes "dir_exists d" and "holds_log C d log (entries d) c"
    and "codec_documented C" and "\<forall>r\<in>set log. wf_record r" and "open_store C d = (r, d')"
  obtains (failed) k where "r = Inl io_err" "d' = d\<lparr>io_clock := k\<rparr>" "\<exists>n. io_plan d n \<noteq> IoOk"
  | (got) k where "r = Inr \<lparr>records = take c log\<rparr>" "d' = d\<lparr>io_clock := k\<rparr>"
proof -
  from assms(2) obtain v i bs where ent: "entries d VERSION_FILE = Some v"
    "cached (inodes d v) = STORE_VERSION_TAG" "entries d RECORDS_FILE = Some i"
    "cached (inodes d i) = bs" "encode_log C (take c log) = Some bs"
    by (auto simp: holds_log_def holds_synced_def)
  have dec: "json_from_slice C bs =
      Some \<lparr>sf_version = 1, sf_records = map (to_stored C) (take c log)\<rparr>"
    using ent(5) assms(3) by (simp add: encode_log_def codec_documented_def)
  have recs: "try_map (from_stored C) (map (to_stored C) (take c log)) = Inr (take c log)"
    using assms(3,4) by (intro stored.list_round_trip) (auto dest: in_set_takeD)
  obtain r0 d0 where 0: "is_dir d = (r0, d0)" by fastforce
  from 0 assms(1) show ?thesis
  proof (cases rule: is_dir_cases)
    case failed
    with 0 assms(5) show ?thesis
      by (auto simp: open_store_def abind_def tick_def intro: that(1))
  next
    case found
    then have d0: "entries d0 = entries d" "inodes d0 = inodes d" "io_plan d0 = io_plan d"
      "d0 = d\<lparr>io_clock := Suc (io_clock d)\<rparr>" by (simp_all add: tick_def)
    obtain r1 d1 where 1: "read_file VERSION_FILE d0 = (r1, d1)" by fastforce
    have "entries d0 VERSION_FILE = Some v" using ent(1) d0(1) by simp
    from this 1 show ?thesis
    proof (cases rule: read_file_cases)
      case (failed k)
      have "d1 = d\<lparr>io_clock := k\<rparr>" unfolding failed(2) d0(4) by simp
      with failed(1,3) 0 1 found(1) d0(3) assms(5) show ?thesis
        by (auto simp: open_store_def abind_def intro: that(1))
    next
      case (got k)
      obtain r2 d2 where 2: "read_file RECORDS_FILE d1 = (r2, d2)" by fastforce
      from got(2) d0 ent(3) have "entries d1 RECORDS_FILE = Some i" by simp
      from this 2 show ?thesis
      proof (cases rule: read_file_cases)
        case (failed k')
        have d2: "d2 = d\<lparr>io_clock := k'\<rparr>" unfolding failed(2) got(2) d0(4) by simp
        have "\<exists>n. io_plan d n \<noteq> IoOk" using failed(3) got(2) d0(3) by simp
        with d2 failed(1) 0 1 2 found(1) d0(2) got(1) ent assms(5) show ?thesis
          by (auto simp: open_store_def abind_def intro: that(1))
      next
        case (got k')
        have d2: "d2 = d\<lparr>io_clock := k'\<rparr>" unfolding got(2) \<open>d1 = _\<close> d0(4) by simp
        have "r2 = Inr bs" using got(1) \<open>d1 = _\<close> d0(2) ent(4) by simp
        with d2 0 1 2 found(1) d0(2) \<open>r1 = _\<close> ent dec recs assms(5) show ?thesis
          by (auto simp: open_store_def abind_def alift_def areturn_def intro: that(2))
      qed
    qed
  qed
qed

text \<open>An opened store was in a directory that exists.\<close>

lemma open_store_dir: "open_store C d = (Inr st, d') \<Longrightarrow> dir_exists d"
  by (auto simp: open_store_def is_dir_def path_stat_def araise_def elim!: abind_Inr
      split: if_splits)

section \<open>What no commit touches\<close>

definition keeps_frame :: "'a io \<Rightarrow> bool" where
  "keeps_frame m \<longleftrightarrow>
     (\<forall>d. io_plan (snd (m d)) = io_plan d \<and> dir_durable (snd (m d)) = dir_durable d)"

lemma keeps_frame_bind: "keeps_frame m \<Longrightarrow> (\<And>x. keeps_frame (f x)) \<Longrightarrow> keeps_frame (abind m f)"
  by (simp add: keeps_frame_def abind_def split: prod.split sum.split) (metis snd_conv)

lemma keeps_frame_calls:
  "keeps_frame (open_truncate name m)" "keeps_frame (set_file_mode i m)"
  "keeps_frame (write_all i bs)" "keeps_frame (sync_all i)" "keeps_frame (rename_file a b)"
  "keeps_frame open_dir" "keeps_frame sync_dir" "keeps_frame (alift r)"
  by (auto simp: keeps_frame_def open_truncate_def set_file_mode_def write_all_def sync_all_def
      rename_file_def open_dir_def sync_dir_def sys_call_def alift_def Let_def
      split: io_outcome.split option.split)

lemma commit_frame:
  assumes "commit C st r d = (res, st', d')"
  shows "io_plan d' = io_plan d \<and> dir_durable d' = dir_durable d"
proof -
  have "keeps_frame (abind (persist_records C log) (\<lambda>_. fsync_dir))" for log
    unfolding persist_records_def write_private_fsynced_def fsync_dir_def
    by (intro keeps_frame_bind keeps_frame_calls)
  from this [of "records st @ [r]", unfolded keeps_frame_def, rule_format, of d] assms show ?thesis
    by (auto simp: commit_def push_and_persist_def Let_def
        split: sum.splits replay_verdict.splits prod.splits)
qed

end
