(* ===== verification/Replay_Codec.thy ===== *)
theory Replay_Codec
  imports Replay_Disk
begin

text \<open>
  A concrete codec with the documented behaviour of \<open>hex\<close>, \<open>serde_json\<close> and the text form of an
  outpoint. The model takes these as parameters; the codec shows that what is assumed of them can
  hold, and serves the witnesses. It writes every store file: hex as one character per byte, an
  outpoint as its transaction id and its index in unary, a file as a count-prefixed tree.
\<close>

section \<open>Words and lists as bytes\<close>

definition word_bits :: "'a::len word \<Rightarrow> bytes" where
  "word_bits w = map (\<lambda>i. if bit w i then 1 else 0) [0..<LENGTH('a)]"

definition bits_word :: "bytes \<Rightarrow> 'a::len word" where
  "bits_word bs = horner_sum of_bool 2 (map (\<lambda>b. b = 1) (take LENGTH('a) bs))"

lemma bits_word_bits [simp]: "bits_word (word_bits w @ rest) = w"
proof -
  have "map (\<lambda>b. b = (1 :: u8)) (word_bits w) = map (bit w) [0..<LENGTH('a)]"
    by (simp add: word_bits_def comp_def)
  moreover have "length (word_bits w) = LENGTH('a)" by (simp add: word_bits_def)
  ultimately show ?thesis
    by (simp add: bits_word_def horner_sum_bit_eq_take_bit take_bit_word_eq_self)
qed

lemma length_word_bits [simp]: "length (word_bits (w :: 'a::len word)) = LENGTH('a)"
  by (simp add: word_bits_def)

text \<open>A list is its length in unary, a zero, and its elements; a decoder returns what follows.\<close>

definition put_list :: "('a \<Rightarrow> bytes) \<Rightarrow> 'a list \<Rightarrow> bytes" where
  "put_list put xs = replicate (length xs) 1 @ 0 # concat (map put xs)"

fun get_items :: "(bytes \<Rightarrow> 'a \<times> bytes) \<Rightarrow> nat \<Rightarrow> bytes \<Rightarrow> 'a list \<times> bytes" where
  "get_items get 0 bs = ([], bs)"
| "get_items get (Suc n) bs =
     (let (x, bs1) = get bs; (xs, bs2) = get_items get n bs1 in (x # xs, bs2))"

definition get_list :: "(bytes \<Rightarrow> 'a \<times> bytes) \<Rightarrow> bytes \<Rightarrow> 'a list \<times> bytes" where
  "get_list get bs =
     (let n = length (takeWhile (\<lambda>b. b = 1) bs) in get_items get n (drop (Suc n) bs))"

lemma get_put_list:
  assumes "\<And>x rest. get (put x @ rest) = (x, rest)"
  shows "get_list get (put_list put xs @ rest) = (xs, rest)"
proof -
  have "takeWhile (\<lambda>b. b = (1 :: u8)) (replicate n 1 @ 0 # bs) = replicate n 1" for n bs
    by (induction n) auto
  moreover have "get_items get (length xs) (concat (map put xs) @ rest) = (xs, rest)"
    by (induction xs) (simp_all add: assms)
  ultimately show ?thesis by (simp add: get_list_def put_list_def Let_def)
qed

section \<open>Store files as bytes\<close>

definition put_char :: "char \<Rightarrow> bytes" where "put_char c = [of_nat (of_char c)]"

definition get_char :: "bytes \<Rightarrow> char \<times> bytes" where
  "get_char bs = (char_of (unat (hd bs)), tl bs)"

abbreviation put_string :: "string \<Rightarrow> bytes" where "put_string \<equiv> put_list put_char"

abbreviation get_string :: "bytes \<Rightarrow> string \<times> bytes" where "get_string \<equiv> get_list get_char"

definition put_out :: "stored_tx_out \<Rightarrow> bytes" where
  "put_out out = word_bits (st_value_sats out) @ put_string (st_script_pubkey out)"

definition get_out :: "bytes \<Rightarrow> stored_tx_out \<times> bytes" where
  "get_out bs = (let (s, rest) = get_string (drop 64 bs)
     in (\<lparr>st_value_sats = bits_word bs, st_script_pubkey = s\<rparr>, rest))"

definition put_record :: "stored_record \<Rightarrow> bytes" where
  "put_record r =
     put_string (sr_request_id r) @ put_string (sr_replay_id r) @ put_string (sr_psbt_txid r) @
     put_list put_string (sr_outpoints r) @ put_list put_out (sr_outputs r) @
     put_string (sr_vault_script r) @ put_string (sr_outputs_commitment r) @
     put_string (sr_signed_psbt_or_partial r)"

definition get_record :: "bytes \<Rightarrow> stored_record \<times> bytes" where
  "get_record bs =
     (let (a, bs) = get_string bs; (b, bs) = get_string bs; (c, bs) = get_string bs;
          (d, bs) = get_list get_string bs; (e, bs) = get_list get_out bs; (f, bs) = get_string bs;
          (g, bs) = get_string bs; (h, bs) = get_string bs
      in (\<lparr>sr_request_id = a, sr_replay_id = b, sr_psbt_txid = c, sr_outpoints = d,
           sr_outputs = e, sr_vault_script = f, sr_outputs_commitment = g,
           sr_signed_psbt_or_partial = h\<rparr>, bs))"

definition put_file :: "stored_file \<Rightarrow> bytes" where
  "put_file f = word_bits (sf_version f) @ put_list put_record (sf_records f)"

definition get_file :: "bytes \<Rightarrow> stored_file" where
  "get_file bs =
     \<lparr>sf_version = bits_word bs, sf_records = fst (get_list get_record (drop 32 bs))\<rparr>"

lemma get_put_char: "get_char (put_char c @ rest) = (c, rest)"
  by (simp add: get_char_def put_char_def unat_of_nat of_char_mod_256)

lemmas get_put_string = get_put_list [of get_char put_char, OF get_put_char]

lemma get_put_out: "get_out (put_out out @ rest) = (out, rest)"
  by (simp add: get_out_def put_out_def get_put_string)

lemma get_put_record: "get_record (put_record r @ rest) = (r, rest)"
  by (simp add: get_record_def put_record_def get_put_string
      get_put_list [of get_string put_string, OF get_put_string]
      get_put_list [of get_out put_out, OF get_put_out])

lemma get_put_file [simp]: "get_file (put_file f) = f"
  using get_put_list [of get_record put_record, OF get_put_record, of _ "[]"]
  by (simp add: get_file_def put_file_def)

section \<open>The codec\<close>

definition demo_hex :: "bytes \<Rightarrow> string" where
  "demo_hex = map (\<lambda>b. char_of (unat b))"

definition demo_unhex :: "string \<Rightarrow> bytes option" where
  "demo_unhex s = Some (map (\<lambda>c. of_nat (of_char c)) s)"

definition demo_outpoint_str :: "out_point \<Rightarrow> string" where
  "demo_outpoint_str op = demo_hex (op_txid op) @ replicate (unat (op_vout op)) CHR ''I''"

definition demo_outpoint_parse :: "string \<Rightarrow> out_point option" where
  "demo_outpoint_parse s =
     Some \<lparr>op_txid = map (\<lambda>c. of_nat (of_char c)) (take 32 s), op_vout = of_nat (length (drop 32 s))\<rparr>"

definition demo_codec :: codec_lib where
  "demo_codec =
     \<lparr>hex_encode = demo_hex, hex_decode = demo_unhex, outpoint_to_string = demo_outpoint_str,
      outpoint_from_str = demo_outpoint_parse, json_to_vec = (\<lambda>f. Some (put_file f)),
      json_from_slice = (\<lambda>raw. Some (get_file raw))\<rparr>"

lemma demo_codec_simps [simp]:
  "json_to_vec demo_codec f = Some (put_file f)"
  "json_from_slice demo_codec raw = Some (get_file raw)"
  by (simp_all add: demo_codec_def)

lemma demo_unhex_hex: "demo_unhex (demo_hex bs) = Some bs"
  by (simp add: demo_unhex_def demo_hex_def comp_def)

lemma demo_outpoint_round_trip:
  "length (op_txid op) = 32 \<Longrightarrow> demo_outpoint_parse (demo_outpoint_str op) = Some op"
  by (cases op) (simp add: demo_outpoint_parse_def demo_outpoint_str_def demo_hex_def comp_def)

lemma demo_codec_documented: "codec_documented demo_codec"
  by (auto simp: codec_documented_def demo_codec_def demo_unhex_hex demo_outpoint_round_trip)
    (simp_all add: demo_hex_def)

lemma demo_codec_total: "codec_total demo_codec"
  by (simp add: codec_total_def)

end
