(* ===== verification/Replay_Sessions.thy ===== *)
theory Replay_Sessions
  imports Replay_Crash Replay_Codec
begin

text \<open>
  Histories of one replay store: created by \<open>init\<close>, then any sequence of commits, process
  restarts and power losses, under every plan of system-call failures. The theorems say what an
  acknowledgement (\<open>Ok\<close> of \<open>Fresh\<close> or \<open>FeeBump\<close>) is worth, and what it is not worth: it outlives
  every power loss that leaves the directory, which only a durable entry in the parent promises.
\<close>

section \<open>Initialisation\<close>

definition blank :: "disk \<Rightarrow> bool" where
  "blank d \<longleftrightarrow> entries d = (\<lambda>_. None) \<and> dir_states d = [\<lambda>_. None]"

lemma write_private_new:
  assumes "entries d name = None" and "write_private_fsynced name bs d = (Inr u, d')"
  obtains k where "d' = d\<lparr>entries := (entries d)(name := Some (next_inode d)),
      dir_states := (entries d)(name := Some (next_inode d)) # dir_states d,
      next_inode := Suc (next_inode d), io_clock := k,
      inodes := (inodes d)(next_inode d := \<lparr>cached = bs, durable = bs, file_mode = MODE_FILE\<rparr>)\<rparr>"
  using assms unfolding write_private_fsynced_def open_truncate_def set_file_mode_def
    write_all_def sync_all_def sys_call_def
  by (auto simp: abind_def Let_def tick_def outcome_def intro: that
      split: io_outcome.splits sum.splits prod.splits)

lemma create_dir_cases:
  assumes "create_dir_all d = (Inr u, d')"
  obtains k where "d' = d\<lparr>io_clock := k, dir_exists := True,
    dir_durable := (dir_exists d \<and> dir_durable d)\<rparr>"
  using assms by (auto simp: create_dir_all_def sys_call_def tick_def split: io_outcome.splits)

lemma set_dir_mode_cases:
  assumes "set_dir_mode m d = (Inr u, d')"
  obtains k where "d' = d\<lparr>io_clock := k, dir_mode := m\<rparr>"
  using assms by (auto simp: set_dir_mode_def sys_call_def tick_def split: io_outcome.splits)

text \<open>The state right after the version file was written into an empty directory.\<close>

lemma version_written:
  assumes "blank d" and "dir_exists d"
    and "write_private_fsynced VERSION_FILE STORE_VERSION_TAG d = (Inr u, d')"
  shows "staged d'" "dir_exists d'" "holds_synced d' (entries d' VERSION_FILE) STORE_VERSION_TAG"
    "entries d' RECORDS_FILE = None"
proof -
  from assms(1) have "entries d VERSION_FILE = None" by (simp add: blank_def)
  from write_private_new [OF this assms(3)] obtain k where
    d': "d' = d\<lparr>entries := (entries d)(VERSION_FILE := Some (next_inode d)),
      dir_states := (entries d)(VERSION_FILE := Some (next_inode d)) # dir_states d,
      next_inode := Suc (next_inode d), io_clock := k,
      inodes := (inodes d)(next_inode d :=
        \<lparr>cached = STORE_VERSION_TAG, durable = STORE_VERSION_TAG, file_mode = MODE_FILE\<rparr>)\<rparr>" .
  with assms(1,2) show "dir_exists d'" "entries d' RECORDS_FILE = None"
    "holds_synced d' (entries d' VERSION_FILE) STORE_VERSION_TAG"
    by (auto simp: blank_def holds_synced_def)
  from d' assms(1) show "staged d'"
    by (auto simp: blank_def staged_def refs_def split: if_splits)
qed

lemma init_inv:
  assumes blank: "blank d" and doc: "codec_documented C" and run: "init_store C d = (Inr st, d')"
  shows "records st = []" "store_inv C [] 0 d'"
proof -
  from run obtain d1 d2 d3 d4 d5 d6 where
    1: "create_dir_all d = (Inr (), d1)" and 2: "set_dir_mode MODE_DIR d1 = (Inr (), d2)" and
    3: "require_no_version_file d2 = (Inr (), d3)" and
    4: "write_private_fsynced VERSION_FILE STORE_VERSION_TAG d3 = (Inr (), d4)" and
    5: "persist_records C [] d4 = (Inr (), d5)" and 6: "fsync_dir d5 = (Inr (), d6)" and
    7: "open_store C d6 = (Inr st, d')"
    unfolding init_store_def
    by (auto elim!: abind_Inr)
  from 3 have "d3 = tick d2"
    by (auto simp: require_no_version_file_def path_stat_def elim!: abind_Inr split: if_splits)
  with 1 2 blank have "blank d3" "dir_exists d3"
    by (auto elim!: create_dir_cases set_dir_mode_cases simp: blank_def)
  note v = version_written [OF this 4]
  from v(1) 5 obtain bs d0 where p: "encode_log C [] = Some bs" "tmp_only d4 d0"
    "holds_synced d0 (entries d0 TMP_FILE) bs" "d5 = renamed d0"
    by (cases rule: persist_cases) auto
  have "holds_synced d0 (entries d0 VERSION_FILE) STORE_VERSION_TAG"
  proof -
    have "entries d0 VERSION_FILE = entries d4 VERSION_FILE"
      using p(2) by (simp add: tmp_only_def same_off_tmp_def)
    moreover have "i \<in> refs d4" if "entries d4 VERSION_FILE = Some i" for i
      using v(1) that by (auto simp: refs_def staged_def)
    ultimately show ?thesis
      using v(3) p(2) by (auto intro: holds_synced_frame simp: tmp_only_def)
  qed
  from holds_log_renamed [OF this p(1,3)] p(4)
  have now: "holds_log C d5 [] (entries d5) (length ([] :: replay_record list))" by simp
  have "staged d0" "dir_exists d0" using p(2) v(2) by (auto simp: tmp_only_def)
  then have st: "staged d5" "dir_exists d5"
    using staged_renamed p(4) by (auto simp: renamed_def Let_def)
  from 6 obtain k where d6: "d6 = d5\<lparr>io_clock := k, dir_states := [entries d5]\<rparr>"
    by (cases rule: fsync_dir_cases) auto
  from store_inv_sync [OF st now] have inv6: "store_inv C [] 0 d6" by (simp add: d6)
  have "dir_exists d6" "holds_log C d6 [] (entries d6) (length ([] :: replay_record list))"
    using st now by (simp_all add: d6)
  from this doc _ 7 show "records st = []" and "store_inv C [] 0 d'"
    by (cases rule: open_store_cases; use inv6 in simp)+
qed

section \<open>Crashes and restarts\<close>

definition restarted :: "disk \<Rightarrow> disk \<Rightarrow> bool" where
  "restarted d d' \<longleftrightarrow> (\<exists>k p. d' = d\<lparr>io_clock := k, io_plan := p\<rparr>)"

lemma restarted_inv: "store_inv C log a d \<Longrightarrow> restarted d d' \<Longrightarrow> store_inv C log a d'"
  by (auto simp: restarted_def)

lemma power_loss_inv:
  assumes inv: "store_inv C log a d" and loss: "power_loss d d'" and found: "dir_exists d'"
  shows "store_inv C log a d'"
proof -
  from inv obtain c where c: "staged d" "dir_exists d" "c \<le> length log"
    and st: "\<And>E. E \<in> set (dir_states d) \<Longrightarrow> \<exists>n. a \<le> n \<and> n \<le> c \<and> holds_log C d log E n"
    by (rule store_invE) blast
  from loss found have E: "\<And>name. \<exists>E\<in>set (dir_states d). entries d' name = E name"
    "\<And>a b i. entries d' a = Some i \<Longrightarrow> entries d' b = Some i \<Longrightarrow> a = b"
    "dir_states d' = [entries d']" "next_inode d' = next_inode d"
    by (auto simp: power_loss_def)
  obtain V where V: "V \<in> set (dir_states d)" "entries d' VERSION_FILE = V VERSION_FILE"
    using E(1) by blast
  obtain R where R: "R \<in> set (dir_states d)" "entries d' RECORDS_FILE = R RECORDS_FILE"
    using E(1) by blast
  from st [OF R(1)] obtain n where n: "a \<le> n" "n \<le> c" "holds_log C d log R n" by blast
  with st [OF V(1)] V R have "holds_log C d log (entries d') n" by (auto simp: holds_log_def)
  then have "holds_log C d' log (entries d') n"
    using power_loss_synced [OF loss] by (auto simp: holds_log_def)
  moreover have "staged d'"
  proof -
    have "i < next_inode d" if "entries d' name = Some i" for name i
      using E(1) [of name] that c(1) unfolding staged_def by metis
    moreover have "name = TMP_FILE" if "entries d' TMP_FILE = Some i" "entries d' name = Some i"
      for name i using E(2) that by blast
    ultimately show ?thesis using E(3,4) by (auto simp: staged_def refs_def) (metis file_names)+
  qed
  ultimately show ?thesis
    using n c E(3) found unfolding store_inv_def by (auto intro!: exI [of _ n])
qed

text \<open>What the process finds when it opens the store again.\<close>

lemma reopen_inv:
  assumes inv: "store_inv C log a d" and doc: "codec_documented C" and wf: "\<forall>r\<in>set log. wf_record r"
    and run: "open_store C d = (Inr st, d')"
  obtains c where "records st = take c log" "a \<le> c" "c \<le> length log"
    "store_inv C (records st) a d'"
proof -
  from inv obtain c where c: "staged d" "dir_exists d" "c \<le> length log"
    "holds_log C d log (entries d) c"
    and st: "\<And>E. E \<in> set (dir_states d) \<Longrightarrow> \<exists>n. a \<le> n \<and> n \<le> c \<and> holds_log C d log E n"
    by (rule store_invE) blast
  from c(2,4) doc wf run obtain k where o: "records st = take c log" "d' = d\<lparr>io_clock := k\<rparr>"
    by (cases rule: open_store_cases) auto
  have cut: "holds_log C d (take c log) E n = holds_log C d log E n" if "n \<le> c" for E n
    using that by (simp add: holds_log_def min_def)
  have "entries d \<in> set (dir_states d)" using c(1) by (simp add: staged_def)
  with st have "a \<le> c" by force
  moreover have "store_inv C (take c log) a d"
  proof -
    have "\<exists>n. a \<le> n \<and> n \<le> c \<and> holds_log C d (take c log) E n" if "E \<in> set (dir_states d)" for E
      using st [OF that] cut by blast
    then have "\<forall>E\<in>set (dir_states d). \<exists>n. a \<le> n \<and> n \<le> c \<and> holds_log C d (take c log) E n" ..
    moreover have "c \<le> length (take c log) \<and> holds_log C d (take c log) (entries d) c"
      using c cut by simp
    ultimately show ?thesis using c(1,2) unfolding store_inv_def by blast
  qed
  ultimately show ?thesis using that [of c] o c(3) by simp
qed

text \<open>If no system call fails, it does open it.\<close>

lemma open_succeeds:
  assumes inv: "store_inv C log a d" and doc: "codec_documented C" and wf: "\<forall>r\<in>set log. wf_record r"
    and ok: "io_plan d = (\<lambda>_. IoOk)"
  obtains st c k where "open_store C d = (Inr st, d\<lparr>io_clock := k\<rparr>)" "records st = take c log"
    "a \<le> c" "c \<le> length log"
proof -
  obtain res d' where run: "open_store C d = (res, d')" by fastforce
  from inv obtain n where "dir_exists d" "holds_log C d log (entries d) n"
    by (rule store_invE) blast
  from this doc wf run obtain st k where o: "res = Inr st" "d' = d\<lparr>io_clock := k\<rparr>"
    by (cases rule: open_store_cases) (use ok in auto)
  from run o have "open_store C d = (Inr st, d')" by simp
  from reopen_inv [OF inv doc wf this] run o that show ?thesis by metis
qed

section \<open>Histories\<close>

text \<open>
  \<open>sessions C st acked d\<close>: the process holds the store \<open>st\<close> over the disk \<open>d\<close>, and \<open>acked\<close> are the
  records whose commit returned \<open>Fresh\<close> or \<open>FeeBump\<close> since the store was created.
\<close>

inductive sessions ::
    "codec_lib \<Rightarrow> replay_store \<Rightarrow> replay_record list \<Rightarrow> disk \<Rightarrow> bool" for C where
  created: "blank d \<Longrightarrow> init_store C d = (Inr st, d') \<Longrightarrow> sessions C st [] d'"
| acknowledged: "sessions C st acked d \<Longrightarrow> wf_record r \<Longrightarrow> commit C st r d = (Inr v, st', d') \<Longrightarrow>
    v = Fresh \<or> v = FeeBump \<Longrightarrow> sessions C st' (acked @ [r]) d'"
| cached_reply: "sessions C st acked d \<Longrightarrow> commit C st r d = (Inr (Idempotent raw), st', d') \<Longrightarrow>
    sessions C st' acked d'"
| refused: "sessions C st acked d \<Longrightarrow> wf_record r \<Longrightarrow> commit C st r d = (Inl e, st', d') \<Longrightarrow>
    sessions C st' acked d'"
| reopened: "sessions C st acked d \<Longrightarrow> power_loss d d' \<or> restarted d d' \<Longrightarrow>
    open_store C d' = (Inr st', d'') \<Longrightarrow> sessions C st' acked d''"

lemma commit_records:
  assumes "commit C st r d = (res, st', d')"
  shows "records st' = records st \<or> records st' = records st @ [r] \<and>
    (\<exists>v. preflight st r = Inr v \<and> (v = Fresh \<or> v = FeeBump)) \<and> require_signed_payload r = Inr ()"
  using assms
  by (auto simp: commit_def push_and_persist_def Let_def
      split: sum.splits replay_verdict.splits prod.splits)

lemma commit_idempotent:
  assumes "commit C st r d = (Inr (Idempotent raw), st', d')"
  shows "st' = st \<and> d' = d \<and> preflight st r = Inr (Idempotent raw)"
  using assms
  by (auto simp: commit_def push_and_persist_def Let_def
      split: sum.splits replay_verdict.splits prod.splits)

lemma commit_log_inv:
  assumes "commit C st r d = (res, st', d')" and "log_inv (records st)"
  shows "log_inv (records st')"
  using commit_records [OF assms(1)] log_inv_append [OF assms(2)] assms(2) by auto

lemma log_inv_take: "log_inv log \<Longrightarrow> log_inv (take n log)"
  unfolding log_inv_def
  by (auto simp: take_map [symmetric] sorted_wrt_take dest: in_set_takeD)

lemma sessions_inv:
  assumes "sessions C st acked d" and "codec_documented C"
  shows "log_inv (records st) \<and> (\<forall>r\<in>set (records st). wf_record r) \<and>
    (\<exists>a. store_inv C (records st) a d \<and> set acked \<subseteq> set (take a (records st)))"
  using assms
proof (induction rule: sessions.induct)
  case (created d st d')
  then show ?case using init_inv [of d C st d'] by auto
next
  case (acknowledged st acked d r v st' d')
  then obtain a where a: "store_inv C (records st) a d" "set acked \<subseteq> set (take a (records st))"
    by blast
  note c = commit_inv(2) [OF a(1) acknowledged.hyps(3)]
  have "set acked \<subseteq> set (records st)" using a(2) set_take_subset by fastforce
  with c acknowledged commit_log_inv [OF acknowledged.hyps(3)] show ?case by fastforce
next
  case (cached_reply st acked d r raw st' d')
  then have "st' = st" "d' = d" using commit_idempotent by blast+
  with cached_reply show ?case by blast
next
  case (refused st acked d r e st' d')
  then obtain a where a: "store_inv C (records st) a d" "set acked \<subseteq> set (take a (records st))"
    by blast
  have "take a (records st') = take a (records st)"
    using commit_records [OF refused.hyps(3)] store_inv_bound [OF a(1)] by auto
  with commit_inv(1) [OF a(1) refused.hyps(3)] a(2)
  have "\<exists>a. store_inv C (records st') a d' \<and> set acked \<subseteq> set (take a (records st'))" by (metis (no_types))
  moreover have "\<forall>q\<in>set (records st'). wf_record q"
    using commit_records [OF refused.hyps(3)] refused by auto
  ultimately show ?case using refused commit_log_inv [OF refused.hyps(3)] by blast
next
  case (reopened st acked d d' st' d'')
  then obtain a where a: "store_inv C (records st) a d" "set acked \<subseteq> set (take a (records st))"
    and wf: "\<forall>r\<in>set (records st). wf_record r" and log: "log_inv (records st)" by blast
  from reopened.hyps(2) a(1) open_store_dir [OF reopened.hyps(3)]
  have "store_inv C (records st) a d'" by (auto intro: power_loss_inv restarted_inv)
  from reopen_inv [OF this reopened.prems wf reopened.hyps(3)] obtain c where
    c: "records st' = take c (records st)" "a \<le> c" "c \<le> length (records st)"
       "store_inv C (records st') a d''" by blast
  have "take a (records st') = take a (records st)" using c(1,2) by (simp add: min_def)
  moreover have "\<forall>r\<in>set (records st'). wf_record r"
    using wf c(1) by (auto dest: in_set_takeD)
  moreover have "log_inv (records st')" using log_inv_take [OF log] c(1) by simp
  ultimately show ?case using c(4) a(2) by metis
qed

text \<open>What a process finds when it opens the store again is a prefix of what it had in memory.\<close>

lemma reopened_prefix:
  assumes "sessions C st acked d" and "codec_documented C" and "power_loss d d' \<or> restarted d d'"
    and "open_store C d' = (Inr st', d'')"
  shows "\<exists>c. records st' = take c (records st)"
proof -
  from sessions_inv [OF assms(1,2)] obtain a where
    a: "store_inv C (records st) a d" and wf: "\<forall>r\<in>set (records st). wf_record r" by blast
  from assms(3) a open_store_dir [OF assms(4)] have "store_inv C (records st) a d'"
    by (auto intro: power_loss_inv restarted_inv)
  from reopen_inv [OF this assms(2) wf assms(4)] show ?thesis by metis
qed

text \<open>
  C4: an acknowledgement survives. In every history of \<open>init\<close>, commits with any system-call
  failures, restarts and power losses, each record whose commit returned \<open>Fresh\<close> or \<open>FeeBump\<close> is
  in the opened store, and the log keeps its invariant: unique request ids, signed payloads, and
  only vault-change-only replacements on shared outpoints.
\<close>

theorem acknowledged_records_survive:
  assumes "sessions C st acked d" and "codec_documented C"
  shows "set acked \<subseteq> set (records st) \<and> log_inv (records st)"
  using sessions_inv [OF assms] set_take_subset by fastforce

text \<open>A run of the store, unfolded to its system calls.\<close>

lemmas io_run_defs =
  init_store_def persist_records_def write_private_fsynced_def open_store_def fsync_dir_def
  create_dir_all_def set_dir_mode_def open_truncate_def set_file_mode_def write_all_def
  sync_all_def rename_file_def sync_dir_def open_dir_def read_file_def open_read_def
  read_to_end_def sys_call_def abind_def alift_def areturn_def is_dir_def
  require_no_version_file_def path_stat_def outcome_def tick_def

abbreviation init_tail :: "codec_lib \<Rightarrow> replay_store io" where
  "init_tail C \<equiv> abind (write_private_fsynced VERSION_FILE STORE_VERSION_TAG) (\<lambda>_.
     abind (persist_records C []) (\<lambda>_. abind fsync_dir (\<lambda>_. open_store C)))"

text \<open>With an empty directory, or one whose version file is about to be overwritten, \<open>init\<close> succeeds.\<close>

lemma init_writes:
  assumes "\<forall>n\<ge>io_clock d. io_plan d n = IoOk" and "dir_exists d" and "codec_documented C"
    and "codec_total C" and "\<forall>name i. entries d name = Some i \<longrightarrow> i < next_inode d"
    and "\<forall>v. entries d VERSION_FILE = Some v \<longrightarrow> entries d TMP_FILE \<noteq> Some v"
  shows "\<exists>d' bs. init_tail C d = (Inr \<lparr>records = []\<rparr>, d') \<and>
      encode_log C [] = Some bs \<and> dir_states d' = [entries d'] \<and>
      holds_synced d' (entries d' RECORDS_FILE) bs"
proof -
  from assms(4) obtain bs where bs: "json_to_vec C \<lparr>sf_version = 1, sf_records = []\<rparr> = Some bs"
    by (auto simp: codec_total_def)
  with assms(3) have dec: "json_from_slice C bs = Some \<lparr>sf_version = 1, sf_records = []\<rparr>"
    by (simp add: codec_documented_def)
  have ok: "io_plan d n = IoOk" if "io_clock d \<le> n" for n using assms(1) that by blast
  have below: "entries d VERSION_FILE = Some i \<Longrightarrow> next_inode d \<noteq> i \<and> i \<noteq> next_inode d"
    "entries d TMP_FILE = Some i \<Longrightarrow> next_inode d \<noteq> i \<and> i \<noteq> next_inode d" for i
    using assms(5) by blast+
  show ?thesis
    by (cases "entries d VERSION_FILE"; cases "entries d TMP_FILE")
      (use assms(2,6) bs dec ok below in
        \<open>simp_all add: io_run_defs encode_log_def holds_synced_def Let_def\<close>)
qed

text \<open>\<open>init\<close> goes on where the \<open>stat\<close> of the version file finds none, or fails.\<close>

lemma init_proceeds:
  assumes "io_plan d (io_clock d) = IoOk" and "io_plan d (Suc (io_clock d)) = IoOk"
    and "entries d VERSION_FILE = None \<or> io_plan d (Suc (Suc (io_clock d))) \<noteq> IoOk"
  obtains d' where "init_store C d = init_tail C d'" "dir_exists d'" "entries d' = entries d"
    "io_plan d' = io_plan d" "io_clock d' = io_clock d + 3" "next_inode d' = next_inode d"
proof
  let ?d = "d\<lparr>dir_exists := True, dir_durable := (dir_exists d \<and> dir_durable d),
    dir_mode := MODE_DIR, io_clock := Suc (Suc (Suc (io_clock d)))\<rparr>"
  show "init_store C d = init_tail C ?d"
    using assms
    by (auto simp: init_store_def abind_def create_dir_all_def set_dir_mode_def sys_call_def
        require_no_version_file_def path_stat_def areturn_def outcome_def tick_def)
qed simp_all

lemma init_on_gone:
  assumes "codec_documented C" and "codec_total C"
  shows "fst (init_store C (directory_gone d)) = Inr \<lparr>records = []\<rparr>"
proof -
  obtain d' where "init_store C (directory_gone d) = init_tail C d'" "dir_exists d'"
    "entries d' = (\<lambda>_. None)" "io_plan d' = (\<lambda>_. IoOk)"
    by (rule init_proceeds [of "directory_gone d" C]) (simp_all add: directory_gone_def)
  with init_writes [of d' C] assms show ?thesis by auto
qed

text \<open>
  C5: recovery. After any history and a power loss that leaves the store directory, if the system
  calls succeed again, \<open>open\<close> succeeds and finds a prefix of the log that the process had in memory,
  with every acknowledged record in it. A directory whose entry in the parent is durable is always
  left. But \<open>init\<close> syncs the directory and never its parent: as long as the entry is not durable,
  a power loss may take the directory with all acknowledged records. Then \<open>open\<close> refuses with
  \<open>INTERNAL\<close>, and \<open>init\<close> makes an empty store in its place.
\<close>

theorem crash_recovery:
  assumes "sessions C st acked d" and "codec_documented C" and "codec_total C"
  shows "(\<forall>d'. power_loss d d' \<and> io_plan d' = (\<lambda>_. IoOk) \<and> dir_exists d' \<longrightarrow>
      (\<exists>st' d'' c. open_store C d' = (Inr st', d'') \<and> records st' = take c (records st) \<and>
         set acked \<subseteq> set (records st'))) \<and>
    (dir_durable d \<longrightarrow> (\<forall>d'. power_loss d d' \<longrightarrow> dir_exists d')) \<and>
    (\<not> dir_durable d \<longrightarrow> (\<exists>d'. power_loss d d' \<and> \<not> dir_exists d' \<and> io_plan d' = (\<lambda>_. IoOk) \<and>
      fst (open_store C d') = Inl io_err \<and> fst (init_store C d') = Inr \<lparr>records = []\<rparr>))"
proof (intro conjI allI impI)
  from sessions_inv [OF assms(1,2)] obtain a where
    a: "store_inv C (records st) a d" "set acked \<subseteq> set (take a (records st))"
    and wf: "\<forall>r\<in>set (records st). wf_record r" by blast
  {
    fix d' assume loss: "power_loss d d' \<and> io_plan d' = (\<lambda>_. IoOk) \<and> dir_exists d'"
    then have inv: "store_inv C (records st) a d'" using power_loss_inv [OF a(1)] by blast
    from loss have "io_plan d' = (\<lambda>_. IoOk)" by blast
    with inv assms(2) wf obtain st' c k where
      o: "open_store C d' = (Inr st', d'\<lparr>io_clock := k\<rparr>)" "records st' = take c (records st)" "a \<le> c"
      by (rule open_succeeds)
    then have "set (take a (records st)) \<subseteq> set (records st')"
      by (simp add: set_take_subset_set_take)
    with a(2) o show "\<exists>st' d'' c. open_store C d' = (Inr st', d'') \<and>
        records st' = take c (records st) \<and> set acked \<subseteq> set (records st')" by auto
  next
    fix d' assume "dir_durable d" "power_loss d d'"
    with a(1) show "dir_exists d'" by (auto simp: store_inv_def power_loss_def)
  next
    let ?d = "directory_gone d"
    assume "\<not> dir_durable d"
    then have "power_loss d ?d" by (rule power_loss_gone)
    moreover have "fst (open_store C ?d) = Inl io_err"
      by (simp add: io_run_defs directory_gone_def io_err_def araise_def)
    moreover have "fst (init_store C ?d) = Inr \<lparr>records = []\<rparr>"
      using init_on_gone [OF assms(2,3)] by simp
    ultimately show "\<exists>d'. power_loss d d' \<and> \<not> dir_exists d' \<and> io_plan d' = (\<lambda>_. IoOk) \<and>
        fst (open_store C d') = Inl io_err \<and> fst (init_store C d') = Inr \<lparr>records = []\<rparr>"
      by (intro exI [of _ ?d]) (simp add: directory_gone_def)
  }
qed

section \<open>What an error leaves behind\<close>

text \<open>
  C23: a cached reply is not an acknowledgement. If the first system call of a commit fails, the
  commit reports \<open>INTERNAL\<close> and nothing reaches the disk, yet the pushed record stays in memory: an
  honest retry of the same request gets \<open>Ok\<close> with the signature, without a single write, and after
  a power loss the record is gone.
\<close>

theorem cached_reply_not_durable:
  assumes "sessions C st acked d" and "codec_documented C" and "preflight st r = Inr Fresh"
    and "rr_payload r = Signed raw" and "outcome d = IoErr n"
    and "encode_log C (records st @ [r]) = Some bs"
    and "power_loss (tick d) d'" and "open_store C d' = (Inr st', d'')"
  shows "\<exists>st1. commit C st r d = (Inl io_err, st1, tick d) \<and>
    commit C st1 r (tick d) = (Inr (Idempotent raw), st1, tick d) \<and> r \<notin> set (records st')"
proof -
  let ?st1 = "st\<lparr>records := records st @ [r]\<rparr>"
  from assms(3) have fresh: "\<forall>q\<in>set (records st). rr_request_id q \<noteq> rr_request_id r"
    by (simp add: preflight_fresh_iff)
  have "persist_records C (records st @ [r]) d = (Inl io_err, tick d)"
    using assms(5,6)
    by (simp add: persist_records_def encode_log_def abind_def alift_def
        write_private_fsynced_def open_truncate_def sys_call_def)
  then have "commit C st r d = (Inl io_err, ?st1, tick d)"
    using assms(3,4)
    by (simp add: commit_def push_and_persist_def require_signed_payload_def abind_def)
  moreover have "find (\<lambda>q. rr_request_id q = rr_request_id r) (records ?st1) = Some r"
    using fresh by (simp add: find_append_None)
  then have "commit C ?st1 r (tick d) = (Inr (Idempotent raw), ?st1, tick d)"
    using assms(4) by (simp add: commit_def preflight_def)
  moreover have "set (records st') \<subseteq> set (records st)"
  proof -
    from assms(7) have "power_loss d d'" unfolding power_loss_def tick_simps .
    from reopened_prefix [OF assms(1,2) disjI1 [OF this] assms(8)] show ?thesis
      by (metis set_take_subset)
  qed
  ultimately show ?thesis using fresh by blast
qed

text \<open>
  C25: \<open>init\<close> where a version file is. If its third system call, the \<open>stat\<close> of that file, does not
  fail, \<open>init\<close> reports \<open>INTERNAL\<close> and changes no file. But \<open>Path::exists\<close> reads a failing \<open>stat\<close> as
  \<open>there is no such file\<close>: if that call alone fails, \<open>init\<close> succeeds, whatever records were stored,
  and the durable records file is that of the empty log. And where an interrupted \<open>init\<close> left no
  records file, \<open>open\<close> always reports \<open>INTERNAL\<close>, so such a directory is of no use to either.
\<close>

theorem init_on_existing_store:
  assumes "entries d VERSION_FILE = Some v" and "entries d TMP_FILE \<noteq> Some v"
    and "\<forall>name i. entries d name = Some i \<longrightarrow> i < next_inode d"
    and "codec_documented C" and "codec_total C"
  shows "(io_plan d (io_clock d + 2) = IoOk \<longrightarrow> fst (init_store C d) = Inl io_err \<and>
      entries (snd (init_store C d)) = entries d \<and> inodes (snd (init_store C d)) = inodes d) \<and>
    ((\<forall>n. io_plan d n = IoOk \<longleftrightarrow> n \<noteq> io_clock d + 2) \<longrightarrow>
      (\<exists>d' bs. init_store C d = (Inr \<lparr>records = []\<rparr>, d') \<and> encode_log C [] = Some bs \<and>
         dir_states d' = [entries d'] \<and> holds_synced d' (entries d' RECORDS_FILE) bs)) \<and>
    (entries d RECORDS_FILE = None \<longrightarrow> fst (open_store C d) = Inl io_err \<and>
      entries (snd (open_store C d)) = entries d)"
proof (intro conjI impI)
  assume "io_plan d (io_clock d + 2) = IoOk"
  with assms(1) have "fst (init_store C d) = Inl io_err \<and>
      entries (snd (init_store C d)) = entries d \<and> inodes (snd (init_store C d)) = inodes d"
    by (simp add: init_store_def abind_def create_dir_all_def set_dir_mode_def sys_call_def
        require_no_version_file_def path_stat_def araise_def outcome_def tick_def io_err_def
        split: io_outcome.splits)
  then show "fst (init_store C d) = Inl io_err" "entries (snd (init_store C d)) = entries d"
    "inodes (snd (init_store C d)) = inodes d" by blast+
next
  assume plan: "\<forall>n. io_plan d n = IoOk \<longleftrightarrow> n \<noteq> io_clock d + 2"
  then obtain d' where "init_store C d = init_tail C d'" "dir_exists d'" "entries d' = entries d"
    "io_plan d' = io_plan d" "io_clock d' = io_clock d + 3" "next_inode d' = next_inode d"
    by (auto intro: init_proceeds [of d C])
  with init_writes [of d' C] plan assms
  show "\<exists>d' bs. init_store C d = (Inr \<lparr>records = []\<rparr>, d') \<and> encode_log C [] = Some bs \<and>
      dir_states d' = [entries d'] \<and> holds_synced d' (entries d' RECORDS_FILE) bs" by simp
next
  assume "entries d RECORDS_FILE = None"
  with assms(1) have "fst (open_store C d) = Inl io_err \<and> entries (snd (open_store C d)) = entries d"
    by (simp add: io_run_defs araise_def io_err_def split: io_outcome.splits)
  then show "fst (open_store C d) = Inl io_err" "entries (snd (open_store C d)) = entries d"
    by blast+
qed

section \<open>A concrete store\<close>

definition demo_txid :: bytes where "demo_txid = replicate 32 7"

definition demo_outpoint :: out_point where
  "demo_outpoint = \<lparr>op_txid = demo_txid, op_vout = 0\<rparr>"

definition demo_record :: replay_record where
  "demo_record =
     \<lparr>rr_request_id = replicate 16 1, rr_replay_id = replicate 32 2, rr_psbt_txid = replicate 32 3,
      rr_outpoints = [demo_outpoint], rr_outputs = [\<lparr>txo_value = 9000, txo_script_pubkey = [81]\<rparr>],
      rr_vault_script = [82], rr_outputs_commitment = replicate 32 4, rr_payload = Signed [5]\<rparr>"

definition demo_stored :: stored_record where
  "demo_stored =
     \<lparr>sr_request_id = demo_hex (replicate 16 1), sr_replay_id = demo_hex (replicate 32 2),
      sr_psbt_txid = demo_hex (replicate 32 3), sr_outpoints = [demo_outpoint_str demo_outpoint],
      sr_outputs = [\<lparr>st_value_sats = 9000, st_script_pubkey = demo_hex [81]\<rparr>],
      sr_vault_script = demo_hex [82], sr_outputs_commitment = demo_hex (replicate 32 4),
      sr_signed_psbt_or_partial = demo_hex [5]\<rparr>"

lemma demo_wf: "wf_record demo_record"
  by (simp add: wf_record_def demo_record_def demo_outpoint_def demo_txid_def)

lemma demo_to_stored [simp]:
  "to_stored demo_codec demo_record = demo_stored" "rr_payload demo_record = Signed [5]"
  by (simp_all add: to_stored_def demo_codec_def demo_record_def demo_stored_def to_store_hex_def)

definition demo_blank :: "(nat \<Rightarrow> io_outcome) \<Rightarrow> disk" where
  "demo_blank plan =
     \<lparr>dir_exists = False, dir_durable = False, dir_mode = 0, entries = (\<lambda>_. None), dir_states = [\<lambda>_. None],
      inodes = (\<lambda>_. \<lparr>cached = [], durable = [], file_mode = 0\<rparr>), next_inode = 0,
      io_plan = plan, io_clock = 0\<rparr>"

lemma demo_blank: "blank (demo_blank p)"
  by (simp add: blank_def demo_blank_def)

text \<open>Every call succeeds but, if given, the \<open>n\<close>th.\<close>

definition demo_plan :: "nat option \<Rightarrow> nat \<Rightarrow> io_outcome" where
  "demo_plan failing = (\<lambda>n. if Some n = failing then IoErr 0 else IoOk)"

definition demo_opened :: "nat option \<Rightarrow> disk" where
  "demo_opened failing = snd (init_store demo_codec (demo_blank (demo_plan failing)))"

definition demo_committed :: "nat option \<Rightarrow> replay_verdict policy_result \<times> replay_store \<times> disk" where
  "demo_committed failing = commit demo_codec \<lparr>records = []\<rparr> demo_record (demo_opened failing)"

lemmas demo_run_defs = io_run_defs demo_blank_def demo_plan_def Let_def

lemma demo_init:
  assumes "failing = None \<or> failing = Some 19"
  shows "init_store demo_codec (demo_blank (demo_plan failing)) =
    (Inr \<lparr>records = []\<rparr>, demo_opened failing)"
  using assms unfolding demo_opened_def by (auto simp: demo_run_defs)

lemma demo_commit: "demo_committed None =
    (Inr Fresh, \<lparr>records = [demo_record]\<rparr>, snd (snd (demo_committed None)))"
  by (simp add: demo_committed_def demo_opened_def commit_def preflight_def push_and_persist_def
      require_signed_payload_def demo_run_defs)

lemma demo_created: "sessions demo_codec \<lparr>records = []\<rparr> [] (demo_opened failing)"
  if "failing = None \<or> failing = Some 19"
  using demo_blank demo_init [OF that] by (rule sessions.created)

lemma demo_session:
  "sessions demo_codec \<lparr>records = [demo_record]\<rparr> [demo_record] (snd (snd (demo_committed None)))"
  using sessions.acknowledged [OF demo_created [of None] demo_wf, of Fresh] demo_commit
  by (simp add: demo_committed_def)

text \<open>The disks of the demonstration, as a power loss that takes nothing leaves them.\<close>

definition found_again :: "disk \<Rightarrow> disk" where
  "found_again d = d\<lparr>dir_durable := True, io_plan := (\<lambda>_. IoOk)\<rparr>"

lemma demo_synced:
  "power_loss (snd (snd (demo_committed None))) (found_again (snd (snd (demo_committed None))))"
  and demo_not_durable: "\<not> dir_durable (snd (snd (demo_committed None)))"
  by (simp_all add: demo_committed_def demo_opened_def commit_def preflight_def found_again_def
      push_and_persist_def require_signed_payload_def demo_run_defs power_loss_def)

lemma found_again_simps [simp]:
  "io_plan (found_again d) = (\<lambda>_. IoOk)" "dir_exists (found_again d) = dir_exists d"
  by (simp_all add: found_again_def)

lemma demo_disk:
  "dir_exists (snd (snd (demo_committed None)))"
  "entries (snd (snd (demo_committed None))) VERSION_FILE = Some 0"
  "entries (snd (snd (demo_committed None))) TMP_FILE = None"
  "entries (snd (snd (demo_committed None))) name = Some i \<Longrightarrow>
   i < next_inode (snd (snd (demo_committed None)))"
  by (auto simp: demo_committed_def demo_opened_def commit_def preflight_def
      push_and_persist_def require_signed_payload_def demo_run_defs split: if_splits)

theorem acknowledged_records_survive_witness:
  "set [demo_record] \<subseteq> set (records \<lparr>records = [demo_record]\<rparr>) \<and>
   log_inv (records \<lparr>records = [demo_record]\<rparr>)"
  by (rule acknowledged_records_survive [OF demo_session demo_codec_documented])

theorem crash_recovery_witness:
  "(\<exists>st' d'' c. open_store demo_codec (found_again (snd (snd (demo_committed None)))) = (Inr st', d'') \<and>
     records st' = take c [demo_record] \<and> set [demo_record] \<subseteq> set (records st')) \<and>
   (\<exists>d'. power_loss (snd (snd (demo_committed None))) d' \<and> fst (open_store demo_codec d') = Inl io_err \<and>
     fst (init_store demo_codec d') = Inr \<lparr>records = []\<rparr>)"
  using crash_recovery [OF demo_session demo_codec_documented demo_codec_total]
    demo_synced demo_not_durable demo_disk(1) by (simp del: ex_simps) blast

theorem cached_reply_not_durable_witness:
  "\<exists>st1. commit demo_codec \<lparr>records = []\<rparr> demo_record (demo_opened (Some 19)) =
       (Inl io_err, st1, tick (demo_opened (Some 19))) \<and>
     commit demo_codec st1 demo_record (tick (demo_opened (Some 19))) =
       (Inr (Idempotent [5]), st1, tick (demo_opened (Some 19))) \<and>
     demo_record \<notin> set (records \<lparr>records = []\<rparr>)"
proof -
  let ?d = "demo_opened (Some 19)"
  have fails: "outcome ?d = IoErr 0" and loss: "power_loss (tick ?d) (found_again (tick ?d))" and
    reads: "open_store demo_codec (found_again (tick ?d)) =
      (Inr \<lparr>records = []\<rparr>, snd (open_store demo_codec (found_again (tick ?d))))"
    by (simp_all add: demo_opened_def demo_run_defs power_loss_def found_again_def)
  have "encode_log demo_codec (records \<lparr>records = []\<rparr> @ [demo_record]) =
      Some (put_file \<lparr>sf_version = 1, sf_records = [demo_stored]\<rparr>)"
    by (simp add: encode_log_def)
  from cached_reply_not_durable [OF demo_created [of "Some 19"] demo_codec_documented _ _ fails this
      loss reads, of "[5]"]
  show ?thesis by (simp add: preflight_def)
qed

theorem init_on_existing_store_witness:
  "(\<exists>d. entries d = entries (snd (snd (demo_committed None))) \<and>
      inodes d = inodes (snd (snd (demo_committed None))) \<and>
      sessions demo_codec \<lparr>records = [demo_record]\<rparr> [demo_record] (snd (snd (demo_committed None))) \<and>
      fst (init_store demo_codec d) = Inr \<lparr>records = []\<rparr>) \<and>
   (let d = (snd (init_store demo_codec (demo_blank (demo_plan (Some 7)))))\<lparr>io_plan := \<lambda>_. IoOk\<rparr>
    in fst (init_store demo_codec d) = Inl io_err \<and> fst (open_store demo_codec d) = Inl io_err)"
proof (intro conjI)
  let ?d = "(snd (snd (demo_committed None)))\<lparr>io_plan := demo_plan (Some 2), io_clock := 0\<rparr>"
  have "\<forall>n. io_plan ?d n = IoOk \<longleftrightarrow> n \<noteq> io_clock ?d + 2" by (simp add: demo_plan_def)
  with init_on_existing_store [of ?d 0 demo_codec] demo_disk demo_codec_documented demo_codec_total
  have "fst (init_store demo_codec ?d) = Inr \<lparr>records = []\<rparr>" by auto
  then show "\<exists>d. entries d = entries (snd (snd (demo_committed None))) \<and>
      inodes d = inodes (snd (snd (demo_committed None))) \<and>
      sessions demo_codec \<lparr>records = [demo_record]\<rparr> [demo_record] (snd (snd (demo_committed None))) \<and>
      fst (init_store demo_codec d) = Inr \<lparr>records = []\<rparr>"
    by (intro exI [of _ ?d]) (simp add: demo_session)
next
  let ?d = "(snd (init_store demo_codec (demo_blank (demo_plan (Some 7)))))\<lparr>io_plan := \<lambda>_. IoOk\<rparr>"
  have "entries ?d VERSION_FILE = Some 0" "entries ?d TMP_FILE \<noteq> Some 0"
    "\<forall>name i. entries ?d name = Some i \<longrightarrow> i < next_inode ?d" "entries ?d RECORDS_FILE = None"
    by (auto simp: demo_run_defs split: if_splits)
  with init_on_existing_store [of ?d 0 demo_codec] demo_codec_documented demo_codec_total
  show "let d = ?d
    in fst (init_store demo_codec d) = Inl io_err \<and> fst (open_store demo_codec d) = Inl io_err"
    by (simp add: Let_def)
qed

end
