(* ===== verification/Replay_Service.thy ===== *)
theory Replay_Service
  imports Replay_Sessions
begin

text \<open>
  What a caller of the replay store may rely on, as an interface: the log only grows, it keeps its
  invariant, and a known request is answered with its stored signature. The client lemmas on
  sequences of submissions are proved once against this interface, which \<open>commit\<close> over a disk
  provides for every codec and every plan of system-call failures.
\<close>

fun submit_all :: "('r \<Rightarrow> 's \<Rightarrow> 'x \<times> 's) \<Rightarrow> 'r list \<Rightarrow> 's \<Rightarrow> 's" where
  "submit_all f [] s = s"
| "submit_all f (r # rs) s = submit_all f rs (snd (f r s))"

locale replay_service =
  fixes log_of :: "'s \<Rightarrow> replay_record list"
    and submit :: "replay_record \<Rightarrow> 's \<Rightarrow> replay_verdict policy_result \<times> 's"
  assumes grows: "\<exists>ext. log_of (snd (submit r s)) = log_of s @ ext"
    and valid: "log_inv (log_of s) \<Longrightarrow> log_inv (log_of (snd (submit r s)))"
    and accepted: "fst (submit r s) = Inr Fresh \<or> fst (submit r s) = Inr FeeBump \<Longrightarrow>
          r \<in> set (log_of (snd (submit r s))) \<and> rr_payload r \<noteq> Unsigned"
    and retried: "log_inv (log_of s) \<Longrightarrow> r \<in> set (log_of s) \<Longrightarrow>
          rr_request_id q = rr_request_id r \<Longrightarrow> rr_replay_id q = rr_replay_id r \<Longrightarrow>
          rr_payload r = Signed raw \<Longrightarrow> submit q s = (Inr (Idempotent raw), s)"
    and conflicting: "log_inv (log_of s) \<Longrightarrow> r \<in> set (log_of s) \<Longrightarrow>
          rr_request_id q = rr_request_id r \<Longrightarrow> rr_replay_id q \<noteq> rr_replay_id r \<Longrightarrow>
          submit q s = (reject ReplayConflict, s)"
begin

lemma all_grow: "\<exists>ext. log_of (submit_all submit rs s) = log_of s @ ext"
proof (induction rs arbitrary: s)
  case (Cons r rs)
  from Cons [of "snd (submit r s)"] grows [of r s] show ?case by auto
qed simp

lemma all_valid: "log_inv (log_of s) \<Longrightarrow> log_inv (log_of (submit_all submit rs s))"
  by (induction rs arbitrary: s) (simp_all add: valid)

lemma kept: "r \<in> set (log_of s) \<Longrightarrow> r \<in> set (log_of (submit_all submit rs s))"
  using all_grow [of rs s] by auto

lemma retry_forever:
  assumes "log_inv (log_of s)" and "fst (submit r s) = Inr Fresh \<or> fst (submit r s) = Inr FeeBump"
    and "rr_request_id q = rr_request_id r" and "rr_replay_id q = rr_replay_id r"
    and s': "s' = submit_all submit rs (snd (submit r s))"
  shows "\<exists>raw. rr_payload r = Signed raw \<and> submit q s' = (Inr (Idempotent raw), s')"
proof -
  from accepted [OF assms(2)] have "r \<in> set (log_of s')" "rr_payload r \<noteq> Unsigned"
    using kept s' by simp_all
  moreover have "log_inv (log_of s')" using assms(1) valid all_valid s' by blast
  ultimately show ?thesis using retried assms(3,4) by (cases "rr_payload r") blast+
qed

lemma conflict_forever:
  assumes "log_inv (log_of s)" and "fst (submit r s) = Inr Fresh \<or> fst (submit r s) = Inr FeeBump"
    and "rr_request_id q = rr_request_id r" and "rr_replay_id q \<noteq> rr_replay_id r"
    and s': "s' = submit_all submit rs (snd (submit r s))"
  shows "submit q s' = (reject ReplayConflict, s')"
proof -
  from accepted [OF assms(2)] have "r \<in> set (log_of s')" using kept s' by simp
  moreover have "log_inv (log_of s')" using assms(1) valid all_valid s' by blast
  ultimately show ?thesis using conflicting assms(3,4) by blast
qed

text \<open>Two records of the log that spend a common outpoint pay the same external output.\<close>

lemma one_payment:
  assumes "log_inv (log_of s)" and "p \<in> set (log_of (submit_all submit rs s))"
    and "q \<in> set (log_of (submit_all submit rs s))" and "p \<noteq> q"
    and "outpoints_overlap (rr_outpoints p) (rr_outpoints q)"
  shows "external_of p = external_of q \<and> external_of p \<noteq> None \<and>
    set (rr_outpoints p) = set (rr_outpoints q)"
  using log_inv_same_external [OF all_valid [OF assms(1)] assms(2-5)] by blast

lemma bounded_replacements:
  assumes "log_inv (log_of s)" and "spenders op (log_of (submit_all submit rs s)) = r # later"
  shows "length later \<le> change_of r"
  using spenders_bounded [OF all_valid [OF assms(1)] assms(2)] .

end

section \<open>The store provides it\<close>

definition service_step ::
    "codec_lib \<Rightarrow> replay_record \<Rightarrow> replay_store \<times> disk \<Rightarrow>
     replay_verdict policy_result \<times> (replay_store \<times> disk)" where
  "service_step C r s = (case s of (st, d) \<Rightarrow> (case commit C st r d of (res, st', d') \<Rightarrow> (res, (st', d'))))"

lemma service_step_simps [simp]:
  "commit C st r d = (res, st', d') \<Longrightarrow> service_step C r (st, d) = (res, (st', d'))"
  by (simp add: service_step_def)

lemma commit_known:
  assumes "log_inv (records st)" and "r \<in> set (records st)" and "rr_request_id q = rr_request_id r"
  shows "commit C st q d =
    (if rr_replay_id q \<noteq> rr_replay_id r then reject ReplayConflict
     else (case rr_payload r of Signed raw \<Rightarrow> Inr (Idempotent raw) | Unsigned \<Rightarrow> reject Internal),
     st, d)"
proof -
  have "find (\<lambda>p. rr_request_id p = rr_request_id q) (records st) = Some r"
    using assms find_request [of "records st" r] by (simp add: log_inv_def)
  then show ?thesis by (simp add: commit_def preflight_def split: replay_payload.splits)
qed

interpretation store: replay_service "\<lambda>s. records (fst s)" "service_step C" for C
proof unfold_locales
  fix r and s :: "replay_store \<times> disk"
  obtain st d res st' d' where s: "s = (st, d)" and run: "commit C st r d = (res, st', d')"
    by (metis prod.exhaust)
  show "\<exists>ext. records (fst (snd (service_step C r s))) = records (fst s) @ ext"
    using commit_records [OF run] run s by auto
  show "log_inv (records (fst s)) \<Longrightarrow> log_inv (records (fst (snd (service_step C r s))))"
    using commit_log_inv [OF run] run s by simp
  assume "fst (service_step C r s) = Inr Fresh \<or> fst (service_step C r s) = Inr FeeBump"
  with run s have "res = Inr Fresh \<or> res = Inr FeeBump" by simp
  with run have "require_signed_payload r = Inr () \<and> records st' = records st @ [r]"
    by (auto simp: commit_def push_and_persist_def Let_def
        split: sum.splits replay_verdict.splits prod.splits)
  with run s show "r \<in> set (records (fst (snd (service_step C r s)))) \<and> rr_payload r \<noteq> Unsigned"
    by (auto simp: require_signed_payload_def)
next
  fix s :: "replay_store \<times> disk" and r q :: replay_record and raw
  assume "log_inv (records (fst s))" "r \<in> set (records (fst s))"
    "rr_request_id q = rr_request_id r" "rr_replay_id q = rr_replay_id r" "rr_payload r = Signed raw"
  then show "service_step C q s = (Inr (Idempotent raw), s)"
    by (cases s) (simp add: service_step_def commit_known [of _ r])
next
  fix s :: "replay_store \<times> disk" and r q :: replay_record
  assume "log_inv (records (fst s))" "r \<in> set (records (fst s))"
    "rr_request_id q = rr_request_id r" "rr_replay_id q \<noteq> rr_replay_id r"
  then show "service_step C q s = (reject ReplayConflict, s)"
    by (cases s) (simp add: service_step_def commit_known [of _ r])
qed

text \<open>
  C19: an honest retry. Once a commit returned \<open>Fresh\<close> or \<open>FeeBump\<close>, the same request gets the same
  signature back after any number of other commits, whatever the disk does, without changing the
  store or the disk.
\<close>

theorem retry_returns_first_signature:
  assumes "log_inv (records st)" and "commit C st r d = (Inr v, st1, d1)"
    and "v = Fresh \<or> v = FeeBump"
    and "rr_request_id q = rr_request_id r" and "rr_replay_id q = rr_replay_id r"
    and "submit_all (service_step C) rs (st1, d1) = (st2, d2)"
  shows "\<exists>raw. rr_payload r = Signed raw \<and> commit C st2 q d2 = (Inr (Idempotent raw), st2, d2)"
proof -
  have step: "service_step C r (st, d) = (Inr v, (st1, d1))" using assms(2) by simp
  have "\<exists>raw. rr_payload r = Signed raw \<and>
      service_step C q (st2, d2) = (Inr (Idempotent raw), (st2, d2))"
    by (rule store.retry_forever [of "(st, d)" C r q _ rs]) (use assms step in auto)
  then show ?thesis by (auto simp: service_step_def split: prod.splits)
qed

text \<open>
  C8: no double payment. In any sequence of commits on a valid store, two different records of the
  log that share an outpoint spend the same set of outpoints and pay the same external output:
  same script, same amount.
\<close>

theorem shared_outpoint_pays_once:
  assumes "log_inv (records st)" and "submit_all (service_step C) rs (st, d) = (st', d')"
    and "p \<in> set (records st')" and "q \<in> set (records st')" and "p \<noteq> q"
    and "outpoints_overlap (rr_outpoints p) (rr_outpoints q)"
  shows "external_of p = external_of q \<and> external_of p \<noteq> None \<and>
    set (rr_outpoints p) = set (rr_outpoints q)"
  by (rule store.one_payment [of "(st, d)" p C rs q]) (use assms in auto)

text \<open>
  C20: fee bumps end. In any sequence of commits on a valid store, the records that spend one outpoint
  are at most one more than the vault change of the first of them has satoshis.
\<close>

theorem replacements_bounded_by_change:
  assumes "log_inv (records st)" and "submit_all (service_step C) rs (st, d) = (st', d')"
    and "spenders op (records st') = r # later"
  shows "length later \<le> change_of r"
  by (rule store.bounded_replacements [of "(st, d)" op C rs]) (use assms in auto)

section \<open>Witnesses\<close>

text \<open>A second record: the same payment from the same outpoint with change, and a fee bump of it.\<close>

definition demo_bump :: "8 word \<Rightarrow> u64 \<Rightarrow> replay_record" where
  "demo_bump k change = demo_record\<lparr>
     rr_request_id := replicate 16 k, rr_replay_id := replicate 32 k,
     rr_outputs := [\<lparr>txo_value = 9000, txo_script_pubkey = [81]\<rparr>,
                    \<lparr>txo_value = change, txo_script_pubkey = [82]\<rparr>],
     rr_outputs_commitment := replicate 32 k\<rparr>"

definition demo_pair :: replay_store where
  "demo_pair = \<lparr>records = [demo_bump 1 700, demo_bump 2 600]\<rparr>"

lemma demo_bump_simps:
  "rr_outpoints (demo_bump k c) = [demo_outpoint]" "change_of (demo_bump k c) = unat c"
  "rr_payload (demo_bump k c) = Signed [5]" "rr_request_id (demo_bump k c) = replicate 16 k"
  "rr_outputs_commitment (demo_bump k c) = replicate 32 k"
  "rr_vault_script (demo_bump k c) = [82]"
  "external_of (demo_bump k c) = Some \<lparr>txo_value = 9000, txo_script_pubkey = [81]\<rparr>"
  by (simp_all add: demo_bump_def demo_record_def change_of_def external_of_def
      classify_outputs_def)

lemma demo_pair_inv: "log_inv (records demo_pair)"
  by (simp add: log_inv_def demo_pair_def may_follow_def is_vault_change_only_iff
      demo_bump_simps outpoints_identical_def)

theorem retry_returns_first_signature_witness:
  "\<exists>raw. rr_payload demo_record = Signed raw \<and>
     commit demo_codec \<lparr>records = [demo_record]\<rparr> demo_record (snd (snd (demo_committed None))) =
       (Inr (Idempotent raw), \<lparr>records = [demo_record]\<rparr>, snd (snd (demo_committed None)))"
  using retry_returns_first_signature [of "\<lparr>records = []\<rparr>" demo_codec demo_record
      "demo_opened None" Fresh "\<lparr>records = [demo_record]\<rparr>" "snd (snd (demo_committed None))"
      demo_record "[]"] demo_commit
  by (simp add: demo_committed_def)

theorem shared_outpoint_pays_once_witness:
  "external_of (demo_bump 1 700) = external_of (demo_bump 2 600) \<and>
   external_of (demo_bump 1 700) \<noteq> None \<and>
   set (rr_outpoints (demo_bump 1 700)) = set (rr_outpoints (demo_bump 2 600))"
proof -
  have "demo_bump 1 700 \<noteq> demo_bump 2 600"
    using demo_bump_simps(2) [of 1 700] demo_bump_simps(2) [of 2 600] by auto
  then show ?thesis
    using shared_outpoint_pays_once [OF demo_pair_inv, of demo_codec "[]" "demo_opened None"]
    by (simp add: demo_pair_def demo_bump_simps outpoints_overlap_def)
qed

theorem replacements_bounded_by_change_witness:
  "length [demo_bump 2 600] \<le> change_of (demo_bump 1 700)"
  using replacements_bounded_by_change [OF demo_pair_inv, of demo_codec "[]" "demo_opened None"
      demo_pair "demo_opened None" demo_outpoint "demo_bump 1 700" "[demo_bump 2 600]"]
  by (simp add: demo_pair_def demo_bump_simps spenders_def)

end
