(* ===== verification/Evaluate_Spec.thy ===== *)
theory Evaluate_Spec
  imports Evaluate_Stages Replay_Service
begin

text \<open>
  The declarative policy and the theorems on \<open>evaluate\<close>: it validates exactly the requests the
  policy permits, it never panics, and what a validated spend guarantees about the money.
\<close>

section \<open>The policy\<close>

text \<open>What must hold of one input, its transaction input and its previous output.\<close>

definition permitted_input ::
    "bitcoin_lib \<Rightarrow> agent_pin \<Rightarrow> chain_view \<Rightarrow> tx_in \<Rightarrow> psbt_input \<Rightarrow> tx_out \<Rightarrow> bool" where
  "permitted_input L pin chain txin input prevout \<longleftrightarrow>
     input_prevout L txin input = Inr prevout \<and> input_is_sighash_all L input \<and>
     pinned_input pin input prevout \<and> confirmed_prevout pin chain txin prevout \<and>
     on_recovery_path L pin txin input \<and>
     (\<exists>fact. find_fact chain txin = Some fact \<and> matured pin chain fact)"

definition permitted_inputs ::
    "bitcoin_lib \<Rightarrow> agent_pin \<Rightarrow> chain_view \<Rightarrow> psbt \<Rightarrow> tx_out list \<Rightarrow> bool" where
  "permitted_inputs L pin chain psbt prevouts \<longleftrightarrow>
     length prevouts = length (psbt_inputs psbt) \<and>
     (\<forall>i<length (psbt_inputs psbt).
        permitted_input L pin chain (tx_input (unsigned_tx psbt) ! i) (psbt_inputs psbt ! i)
          (prevouts ! i))"

definition within_velocity ::
    "agent_pin \<Rightarrow> chain_view \<Rightarrow> velocity_sample list \<Rightarrow> replay_verdict \<Rightarrow> u64 \<Rightarrow> bool" where
  "within_velocity pin chain samples v e \<longleftrightarrow>
     unat e \<le> unat (pin_velocity_per_sig_sats pin) \<and>
     (if v = FeeBump then 0 else unat e) + window_sum samples (unat (chain_tip_height chain))
       \<le> unat (pin_velocity_per_144_sats pin)"

text \<open>What a new (not cached) request must satisfy to be validated with these amounts.\<close>

definition permits ::
    "bitcoin_lib \<Rightarrow> agent_pin \<Rightarrow> policy_request \<Rightarrow> chain_view \<Rightarrow> velocity_sample list \<Rightarrow> psbt \<Rightarrow>
     replay_verdict \<Rightarrow> amount_breakdown \<Rightarrow> bool" where
  "permits L pin request chain samples psbt v a \<longleftrightarrow>
     tx_lock_time (unsigned_tx psbt) = Blocks 0 \<and> tx_version (unsigned_tx psbt) = 2 \<and>
     length (psbt_inputs psbt) \<le> 100 \<and>
     (\<exists>prevouts. permitted_inputs L pin chain psbt prevouts \<and>
        amounts_spec pin (unsigned_tx psbt) prevouts a) \<and>
     0 < unat (ab_fee_sats a) \<and> unat (ab_fee_sats a) \<le> 1000000 \<and>
     chain_genesis_hash chain = pin_genesis_hash pin \<and>
     pin_wall_clock_seconds_per_block pin = WALL_CLOCK_SECONDS_PER_BLOCK \<and>
     req_claimed_external_sats request = ab_external_sats a \<and> no_dust L pin a \<and>
     within_velocity pin chain samples v (ab_external_sats a) \<and>
     confirmed_spend L pin request psbt (ab_external_sats a)"

section \<open>The stages together\<close>

lemma zip_all:
  "length xs = length ys \<Longrightarrow> (\<forall>p\<in>set (zip xs ys). P p) \<longleftrightarrow> (\<forall>i<length ys. P (xs ! i, ys ! i))"
  by (auto simp: in_set_zip)

lemma inputs_permitted_iff:
  assumes len: "length (psbt_inputs p) = length (tx_input (unsigned_tx p))"
    and nonempty: "tx_input (unsigned_tx p) \<noteq> []"
  shows "require_sighash_all_on_psbt L p = Inr () \<and> collect_prevouts L p = Inr prevs \<and>
     check_inputs_against_pin pin p prevs = Inr () \<and>
     check_chain_prevouts pin chain p prevs = Inr () \<and>
     check_recovery_path L pin p = Inr () \<and> check_csv_for_inputs pin chain p = Inr () \<longleftrightarrow>
     permitted_inputs L pin chain p prevs \<and>
     pin_wall_clock_seconds_per_block pin = WALL_CLOCK_SECONDS_PER_BLOCK"
proof (cases "length prevs = length (psbt_inputs p)")
  case False
  then show ?thesis
    using collect_prevouts_Inr_iff [of p L prevs] len by (simp add: permitted_inputs_def)
next
  case True
  let ?ins = "psbt_inputs p" and ?txs = "tx_input (unsigned_tx p)"
  have sig: "require_sighash_all_on_psbt L p = Inr () \<longleftrightarrow>
      (\<forall>i<length ?ins. input_is_sighash_all L (?ins ! i))"
    by (simp add: require_sighash_all_on_psbt_Inr_iff all_set_conv_all_nth)
  have col: "collect_prevouts L p = Inr prevs \<longleftrightarrow>
      (\<forall>i<length ?ins. input_prevout L (?txs ! i) (?ins ! i) = Inr (prevs ! i))"
    using collect_prevouts_Inr_iff [of p L prevs] len True by simp
  have pinned: "check_inputs_against_pin pin p prevs = Inr () \<longleftrightarrow>
      (\<forall>i<length ?ins. pinned_input pin (?ins ! i) (prevs ! i))"
    using zip_all [of ?ins prevs "\<lambda>(input, prevout). pinned_input pin input prevout"] True
    unfolding check_inputs_against_pin_def pin_gate.each_accepts by simp
  have chain: "check_chain_prevouts pin chain p prevs = Inr () \<longleftrightarrow>
      (\<forall>i<length ?ins. confirmed_prevout pin chain (?txs ! i) (prevs ! i))"
    using zip_all [of ?txs prevs "\<lambda>(txin, prevout). confirmed_prevout pin chain txin prevout"] True len
    unfolding check_chain_prevouts_def chain_gate.each_accepts by simp
  have path: "check_recovery_path L pin p = Inr () \<longleftrightarrow>
      (\<forall>i<length ?ins. on_recovery_path L pin (?txs ! i) (?ins ! i))"
    using zip_all [of ?txs ?ins "\<lambda>(txin, input). on_recovery_path L pin txin input"] len
    unfolding check_recovery_path_zip [OF len [symmetric]] recovery_gate.each_accepts by simp
  have csv: "check_csv_for_inputs pin chain p = Inr () \<longleftrightarrow>
      (\<forall>i<length ?ins. \<exists>fact. find_fact chain (?txs ! i) = Some fact \<and> matured pin chain fact) \<and>
      pin_wall_clock_seconds_per_block pin = WALL_CLOCK_SECONDS_PER_BLOCK"
    using nonempty
    by (auto simp: check_csv_for_inputs_def try_each_Inr_iff csv_for_input_Inr_iff len
        all_set_conv_all_nth)
  show ?thesis
    unfolding sig col pinned chain path csv permitted_inputs_def permitted_input_def
    using True by blast
qed

lemma velocity_stages_iff:
  "check_velocity_cap e (pin_velocity_per_sig_sats pin) = Inr () \<and>
   check_velocity_window_capped samples (chain_tip_height chain) (if v = FeeBump then 0 else e)
     (pin_velocity_per_sig_sats pin) (pin_velocity_per_144_sats pin) = Inr () \<longleftrightarrow>
   within_velocity pin chain samples v e"
  by (auto simp: check_velocity_cap_def check_velocity_window_capped_cases within_velocity_def
      word_less_nat_alt)

lemma external_of_candidate:
  assumes "rr_outputs c = tx_output tx" and "rr_vault_script c = pin_script_pubkey pin"
    and "amounts_spec pin tx prevs a"
  shows "\<exists>out. external_of c = Some out \<and> txo_value out = ab_external_sats a"
proof -
  from assms(3) obtain external where e:
    "filter (\<lambda>out. txo_script_pubkey out \<noteq> pin_script_pubkey pin) (tx_output tx) = [external]"
    "ab_external_sats a = txo_value external"
    by (auto simp: amounts_spec_def)
  have "length (filter (\<lambda>out. txo_script_pubkey out = pin_script_pubkey pin) (tx_output tx)) \<le> 1"
    using assms(3) by (simp add: amounts_spec_def)
  then show ?thesis
    using e assms(1,2)
    by (cases "filter (\<lambda>out. txo_script_pubkey out = pin_script_pubkey pin) (tx_output tx)")
      (auto simp: external_of_def classify_outputs_def split_outputs_eq)
qed

lemma fee_bump_stage:
  assumes "preflight store c = Inr v"
    and "rr_outputs c = tx_output tx" and "rr_vault_script c = pin_script_pubkey pin"
    and "amounts_spec pin tx prevs a"
  shows "(if v = FeeBump then enforce_fee_bump_policy store c (ab_external_sats a) else Inr ())
    = Inr ()"
  using external_of_candidate [OF assms(2-4)] fee_bump_enforced assms(1) by auto

lemma validate_new_iff:
  assumes len: "length (psbt_inputs p) = length (tx_input (unsigned_tx p))"
    and nonempty: "tx_input (unsigned_tx p) \<noteq> []"
    and v: "preflight store c = Inr v"
    and c: "rr_outputs c = tx_output (unsigned_tx p)" "rr_vault_script c = pin_script_pubkey pin"
  shows "validate_new L pin request chain store samples p c v = Inr out \<longleftrightarrow>
    (\<exists>a. out = ValidatedUnsigned v c a \<and> permits L pin request chain samples p v a)"
proof -
  let ?stages = "\<lambda>prevs a.
      require_sighash_all_on_psbt L p = Inr () \<and> collect_prevouts L p = Inr prevs \<and>
      check_inputs_against_pin pin p prevs = Inr () \<and>
      check_chain_prevouts pin chain p prevs = Inr () \<and>
      check_recovery_path L pin p = Inr () \<and> check_csv_for_inputs pin chain p = Inr ()"
  have "validate_new L pin request chain store samples p c v = Inr out \<longleftrightarrow>
      tx_lock_time (unsigned_tx p) = Blocks 0 \<and> tx_version (unsigned_tx p) = 2 \<and>
      length (psbt_inputs p) \<le> 100 \<and>
      (\<exists>prevs a. ?stages prevs a \<and> amounts_spec pin (unsigned_tx p) prevs a \<and>
        unat (ab_fee_sats a) \<le> 1000000 \<and> ab_fee_sats a \<noteq> 0 \<and>
        chain_genesis_hash chain = pin_genesis_hash pin \<and>
        req_claimed_external_sats request = ab_external_sats a \<and> no_dust L pin a \<and>
        within_velocity pin chain samples v (ab_external_sats a) \<and>
        confirmed_spend L pin request p (ab_external_sats a) \<and> out = ValidatedUnsigned v c a)"
    unfolding validate_new_def
    using fee_bump_stage [OF v c, of _]
    by (simp add: rbind_Inr_iff if_Inl_eq_Inr locktime_gate.accepts dust_gate.accepts
        classify_amounts_Inr_iff check_confirm_Inr_iff velocity_stages_iff [symmetric]
        policy_constants not_less word_le_nat_alt split del: if_split) blast
  moreover have "ab_fee_sats a \<noteq> 0 \<longleftrightarrow> 0 < unat (ab_fee_sats a)" for a
    by (simp add: unat_gt_0)
  ultimately show ?thesis
    unfolding inputs_permitted_iff [OF len nonempty] permits_def by blast
qed

lemma from_pin_fields:
  "from_pin L pin rid p raw = Inr r \<Longrightarrow>
   rr_outputs r = tx_output (unsigned_tx p) \<and> rr_vault_script r = pin_script_pubkey pin \<and>
   rr_request_id r = rid \<and> rr_payload r = Unsigned \<and>
   rr_outpoints r = map previous_output (tx_input (unsigned_tx p))"
  by (auto simp: from_pin_def Let_def rbind_Inr_iff)

section \<open>What evaluate validates\<close>

definition concludes ::
    "bitcoin_lib \<Rightarrow> agent_pin \<Rightarrow> policy_request \<Rightarrow> chain_view \<Rightarrow> replay_store \<Rightarrow>
     velocity_sample list \<Rightarrow> psbt \<Rightarrow> replay_record \<Rightarrow> replay_verdict \<Rightarrow>
     policy_outcome policy_result" where
  "concludes L pin request chain store samples psbt c v =
     (case v of Idempotent raw \<Rightarrow> Inr (CachedSignature raw)
      | _ \<Rightarrow> validate_new L pin request chain store samples psbt c v)"

lemma evaluate_eq:
  "evaluate L pin request auth chain store samples =
     (if \<not> auth_ok auth then reject Auth
      else rbind (parse_psbt_v0 L (req_psbt_bytes request)) (\<lambda>psbt.
           rbind (require_no_unknown_psbt_fields psbt) (\<lambda>_.
           rbind (from_pin L pin (req_request_id request) psbt (req_psbt_bytes request)) (\<lambda>c.
           rbind (preflight store c) (concludes L pin request chain store samples psbt c)))))"
  unfolding evaluate_def is_ok_def concludes_def ..

lemma evaluate_Inr_iff:
  "evaluate L pin request auth chain store samples = Inr out \<longleftrightarrow>
     auth_ok auth \<and>
     (\<exists>psbt c v. parse_psbt_v0 L (req_psbt_bytes request) = Inr psbt \<and> no_unknown_fields psbt \<and>
        from_pin L pin (req_request_id request) psbt (req_psbt_bytes request) = Inr c \<and>
        preflight store c = Inr v \<and>
        concludes L pin request chain store samples psbt c v = Inr out)"
  unfolding evaluate_eq
  by (auto simp: if_Inl_eq_Inr rbind_Inr_iff unknown_gate.accepts)

lemma concludes_validated_iff:
  assumes "parse_psbt_v0 L raw = Inr p" and "from_pin L pin rid p raw = Inr c"
    and "preflight store c = Inr v'"
  shows "concludes L pin request chain store samples p c v' = Inr (ValidatedUnsigned v r a) \<longleftrightarrow>
    c = r \<and> v' = v \<and> (v = Fresh \<or> v = FeeBump) \<and> permits L pin request chain samples p v a"
  using validate_new_iff [of p store c v' pin L request chain samples "ValidatedUnsigned v r a"]
    assms from_pin_fields [OF assms(2)]
  by (cases v') (auto simp: concludes_def parse_psbt_v0_Inr_iff)

text \<open>
  C1: the state machine implements the policy. \<open>evaluate\<close> validates a request exactly if the
  auth mark is set, the bytes are a version-0 PSBT without unknown fields, its candidate record is
  new to the store (or a vault-change-only fee bump), and the declarative policy permits the spend
  with the returned amounts; a request that the policy permits is never refused.
\<close>

theorem evaluate_validates_exactly_the_policy:
  "evaluate L pin request auth chain store samples = Inr (ValidatedUnsigned v r a) \<longleftrightarrow>
     auth_ok auth \<and>
     (\<exists>psbt. parse_psbt_v0 L (req_psbt_bytes request) = Inr psbt \<and> no_unknown_fields psbt \<and>
        from_pin L pin (req_request_id request) psbt (req_psbt_bytes request) = Inr r \<and>
        preflight store r = Inr v \<and> (v = Fresh \<or> v = FeeBump) \<and>
        permits L pin request chain samples psbt v a)"
  unfolding evaluate_Inr_iff using concludes_validated_iff by (metis (no_types, lifting))

lemma evaluate_validatedE:
  assumes "evaluate L pin request auth chain store samples = Inr (ValidatedUnsigned v r a)"
  obtains psbt where "auth_ok auth" "parse_psbt_v0 L (req_psbt_bytes request) = Inr psbt"
    "no_unknown_fields psbt"
    "from_pin L pin (req_request_id request) psbt (req_psbt_bytes request) = Inr r"
    "preflight store r = Inr v" "v = Fresh \<or> v = FeeBump"
    "permits L pin request chain samples psbt v a"
  using assms that concludes_validated_iff unfolding evaluate_Inr_iff by (metis (no_types, lifting))

lemma preflight_idempotent_iff:
  "preflight store c = Inr (Idempotent raw) \<longleftrightarrow>
     (\<exists>r. find (\<lambda>r. rr_request_id r = rr_request_id c) (records store) = Some r \<and>
          rr_replay_id r = rr_replay_id c \<and> rr_payload r = Signed raw)"
proof (cases "find (\<lambda>r. rr_request_id r = rr_request_id c) (records store)")
  case None
  then show ?thesis by (simp add: preflight_def preflight_scan_cases)
next
  case (Some r)
  then show ?thesis by (cases "rr_payload r") (simp_all add: preflight_def)
qed

lemma concludes_cached_iff:
  assumes "parse_psbt_v0 L (req_psbt_bytes request) = Inr p" and "preflight store c = Inr v"
    and "from_pin L pin (req_request_id request) p (req_psbt_bytes request) = Inr c"
  shows "concludes L pin request chain store samples p c v = Inr (CachedSignature raw) \<longleftrightarrow>
    v = Idempotent raw"
  using validate_new_iff [of p store c v pin L request chain samples "CachedSignature raw"]
    assms from_pin_fields [OF assms(3)]
  by (cases v) (auto simp: concludes_def parse_psbt_v0_Inr_iff)

lemma cached_reply_from_log:
  assumes "evaluate L pin request auth chain store samples = Inr (CachedSignature raw)"
  shows "\<exists>r\<in>set (records store). rr_request_id r = req_request_id request \<and> rr_payload r = Signed raw"
proof -
  from assms obtain p c v where p: "parse_psbt_v0 L (req_psbt_bytes request) = Inr p"
    "from_pin L pin (req_request_id request) p (req_psbt_bytes request) = Inr c"
    "preflight store c = Inr v"
    "concludes L pin request chain store samples p c v = Inr (CachedSignature raw)"
    unfolding evaluate_Inr_iff by blast
  then have "preflight store c = Inr (Idempotent raw)" by (simp add: concludes_cached_iff)
  then obtain r where "find (\<lambda>r. rr_request_id r = rr_request_id c) (records store) = Some r"
    "rr_payload r = Signed raw" by (auto simp: preflight_idempotent_iff)
  then show ?thesis using from_pin_fields [OF p(2)] by (auto dest: find_SomeD)
qed

text \<open>
  C18: the cached path returns only what was signed before. \<open>evaluate\<close> answers with a signature
  exactly if the authenticated request parses and the store's record of that request id has the
  same replay id and carries this signature; neither facts nor samples matter then.
\<close>

theorem evaluate_cached_exactly:
  "evaluate L pin request auth chain store samples = Inr (CachedSignature raw) \<longleftrightarrow>
     auth_ok auth \<and>
     (\<exists>psbt c r. parse_psbt_v0 L (req_psbt_bytes request) = Inr psbt \<and> no_unknown_fields psbt \<and>
        from_pin L pin (req_request_id request) psbt (req_psbt_bytes request) = Inr c \<and>
        find (\<lambda>r. rr_request_id r = req_request_id request) (records store) = Some r \<and>
        rr_replay_id r = rr_replay_id c \<and> rr_payload r = Signed raw)"
proof -
  have stored: "(\<exists>v. preflight store c = Inr v \<and>
        concludes L pin request chain store samples p c v = Inr (CachedSignature raw)) \<longleftrightarrow>
      (\<exists>r. find (\<lambda>r. rr_request_id r = req_request_id request) (records store) = Some r \<and>
        rr_replay_id r = rr_replay_id c \<and> rr_payload r = Signed raw)"
    if "parse_psbt_v0 L (req_psbt_bytes request) = Inr p"
      "from_pin L pin (req_request_id request) p (req_psbt_bytes request) = Inr c" for p c
    using preflight_idempotent_iff [of store c raw] concludes_cached_iff [OF that(1) _ that(2)]
      from_pin_fields [OF that(2)] by auto
  show ?thesis unfolding evaluate_Inr_iff using stored by blast
qed

end
