(* ===== verification/Evaluate_Safety.thy ===== *)
theory Evaluate_Safety
  imports Evaluate_Spec
begin

text \<open>
  Consequences of the exact characterisation of \<open>evaluate\<close>: absence of panics and the set of codes
  it can reject with, the money that a validated spend can move, the meaning of an override
  confirmation, and the composition of \<open>evaluate\<close> with signing and \<open>commit\<close>.
\<close>

section \<open>Errors\<close>

definition evaluate_codes :: "policy_error_code set" where
  "evaluate_codes =
     {Auth, PsbtParse, UnknownField, Internal, ReplayConflict, Replay, Locktime, NotRecoveryPath,
      Fee, Sighash, PrevoutMismatch, PrevoutMissing, Change, ForeignInput, DescriptorMismatch,
      KeySubstitution, WrongGenesis, CsvImmatureDepth, CsvImmatureWallclock, Dust, Velocity,
      ConfirmRequired, ConfirmInvalid}"

lemma facts_known:
  assumes "check_chain_prevouts pin chain p prevs = Inr ()"
    and "length prevs = length (tx_input (unsigned_tx p))" and "txin \<in> set (tx_input (unsigned_tx p))"
  shows "find_fact chain txin \<noteq> None"
proof -
  from assms(3) obtain i where i: "i < length (tx_input (unsigned_tx p))"
    "tx_input (unsigned_tx p) ! i = txin" by (auto simp: in_set_conv_nth)
  have "\<forall>x\<in>set (zip (tx_input (unsigned_tx p)) prevs).
      case x of (txin, prevout) \<Rightarrow> confirmed_prevout pin chain txin prevout"
    using assms(1) unfolding check_chain_prevouts_def chain_gate.each_accepts .
  then have "confirmed_prevout pin chain txin (prevs ! i)"
    using i assms(2) zip_all [of "tx_input (unsigned_tx p)" prevs] by fastforce
  then show ?thesis by (auto simp: confirmed_prevout_def)
qed

lemma velocity_Inl:
  "check_velocity_cap e cap = Inl x \<Longrightarrow> x = Reject Velocity"
  "check_velocity_window_capped samples tip e cap wcap = Inl x \<Longrightarrow> x = Reject Velocity"
  by (auto simp: check_velocity_cap_def check_velocity_window_capped_cases split: if_splits)

lemma check_csv_for_inputs_Inl:
  assumes "check_csv_for_inputs pin chain p = Inl e"
    and "\<forall>txin\<in>set (tx_input (unsigned_tx p)). find_fact chain txin \<noteq> None"
  shows "e \<in> {Reject CsvImmatureDepth, Reject CsvImmatureWallclock}"
  using assms csv_for_input_Inl unfolding check_csv_for_inputs_def by (metis try_each_InlD)

lemma validate_new_Inl:
  assumes run: "validate_new L pin request chain store samples p c v = Inl e"
    and len: "length (psbt_inputs p) = length (tx_input (unsigned_tx p))"
    and v: "preflight store c = Inr v"
    and c: "rr_outputs c = tx_output (unsigned_tx p)" "rr_vault_script c = pin_script_pubkey pin"
  shows "e \<in> Reject ` evaluate_codes"
proof -
  let ?S = "Reject ` evaluate_codes"
  have "errs_in ?S (require_locktime_zero t)" for t
    using locktime_gate.rejects by (intro errs_inI) (auto simp: evaluate_codes_def)
  moreover have "errs_in ?S (require_sighash_all_on_psbt L p)"
    by (intro errs_inI) (auto dest: require_sighash_all_on_psbt_Inl simp: evaluate_codes_def)
  moreover have "errs_in ?S (collect_prevouts L p)"
    by (intro errs_inI) (auto dest!: collect_prevouts_Inl [OF len [symmetric]]
        simp: evaluate_codes_def)
  moreover have "errs_in ?S (classify_amounts pin tx prevs)" for tx prevs
    by (intro errs_inI) (auto dest!: classify_amounts_Inl simp: evaluate_codes_def)
  moreover have "errs_in ?S (check_inputs_against_pin pin p prevs)" for prevs
    unfolding check_inputs_against_pin_def
    by (intro errs_inI) (auto dest!: pin_gate.each_rejects simp: evaluate_codes_def)
  moreover have "errs_in ?S (check_chain_prevouts pin chain p prevs)" for prevs
    unfolding check_chain_prevouts_def
    by (intro errs_inI) (auto dest!: chain_gate.each_rejects simp: evaluate_codes_def)
  moreover have "errs_in ?S (check_recovery_path L pin p)"
    unfolding check_recovery_path_zip [OF len [symmetric]]
    by (intro errs_inI) (auto dest!: recovery_gate.each_rejects simp: evaluate_codes_def)
  moreover have "errs_in ?S (check_csv_for_inputs pin chain p)"
    if "collect_prevouts L p = Inr prevs" "check_chain_prevouts pin chain p prevs = Inr ()" for prevs
  proof -
    have "length prevs = length (tx_input (unsigned_tx p))"
      using that(1) collect_prevouts_Inr_iff [OF len [symmetric]] len by simp
    then have "\<forall>txin\<in>set (tx_input (unsigned_tx p)). find_fact chain txin \<noteq> None"
      using facts_known [OF that(2)] by blast
    then show ?thesis
      by (intro errs_inI) (auto dest!: check_csv_for_inputs_Inl simp: evaluate_codes_def)
  qed
  moreover have "errs_in ?S (check_dust L pin a)" for a
    using dust_gate.rejects by (intro errs_inI) (auto simp: evaluate_codes_def)
  moreover have "errs_in ?S (enforce_fee_bump_policy store c (ab_external_sats a))"
    if "classify_amounts pin (unsigned_tx p) prevs = Inr a" "v = FeeBump" for a prevs
    using fee_bump_stage [OF v c] that by (simp add: classify_amounts_Inr_iff)
  moreover have "errs_in ?S (check_velocity_cap e cap)"
    "errs_in ?S (check_velocity_window_capped samples tip e cap wcap)" for e cap tip wcap
    by (intro errs_inI; auto dest!: velocity_Inl simp: evaluate_codes_def)+
  moreover have "errs_in ?S (check_confirm L pin request p e)" for e
    by (intro errs_inI) (auto dest!: check_confirm_Inl simp: evaluate_codes_def)
  ultimately have "errs_in ?S (validate_new L pin request chain store samples p c v)"
    unfolding validate_new_def
    by (intro errs_in_bind errs_in_if) (assumption | simp add: evaluate_codes_def)+
  then show ?thesis using run by (rule errs_inD)
qed

lemma from_pin_Inl: "from_pin L pin rid p raw = Inl e \<Longrightarrow> e = Reject Internal"
proof -
  have "errs_in {Reject Internal} (try_fold (\<lambda>buf txout.
      rbind (ok_or (Reject Internal) (consensus_encode L txout)) (\<lambda>enc. Inr (buf @ enc))) buf outs)"
    for buf outs
  proof (induction outs arbitrary: buf)
    case (Cons out outs)
    then show ?case by (cases "consensus_encode L out") auto
  qed simp
  then show "from_pin L pin rid p raw = Inl e \<Longrightarrow> e = Reject Internal"
    by (auto simp: from_pin_def outputs_commitment_def Let_def rbind_Inl_iff errs_in_def)
qed

lemma evaluate_errs: "errs_in (Reject ` evaluate_codes) (evaluate L pin request auth chain store samples)"
  unfolding evaluate_eq
proof (intro errs_in_if errs_in_bind)
  fix p u c v
  assume p: "parse_psbt_v0 L (req_psbt_bytes request) = Inr p"
    and c: "from_pin L pin (req_request_id request) p (req_psbt_bytes request) = Inr c"
    and v: "preflight store c = Inr v"
  from p have "length (psbt_inputs p) = length (tx_input (unsigned_tx p))"
    by (simp add: parse_psbt_v0_Inr_iff)
  from validate_new_Inl [OF _ this v, where L = L and pin = pin and request = request and
      chain = chain and samples = samples] from_pin_fields [OF c]
  have "errs_in (Reject ` evaluate_codes) (validate_new L pin request chain store samples p c v)"
    by (intro errs_inI) auto
  then show "errs_in (Reject ` evaluate_codes) (concludes L pin request chain store samples p c v)"
    by (cases v) (simp_all add: concludes_def)
next
  show "errs_in (Reject ` evaluate_codes) (parse_psbt_v0 L (req_psbt_bytes request))"
    by (intro errs_inI) (auto dest: parse_psbt_v0_Inl simp: evaluate_codes_def)
next
  fix p
  show "errs_in (Reject ` evaluate_codes) (require_no_unknown_psbt_fields p)"
    using unknown_gate.rejects by (intro errs_inI) (auto simp: evaluate_codes_def)
next
  fix p
  show "errs_in (Reject ` evaluate_codes)
      (from_pin L pin (req_request_id request) p (req_psbt_bytes request))"
    by (intro errs_inI) (auto dest: from_pin_Inl simp: evaluate_codes_def)
next
  fix c
  show "errs_in (Reject ` evaluate_codes) (preflight store c)"
    by (intro errs_inI) (auto dest: preflight_Inl simp: evaluate_codes_def)
qed (simp add: evaluate_codes_def)

text \<open>
  C7: \<open>evaluate\<close> never panics, for any bytes, facts and store: no input index is out of range and
  the \<open>expect\<close> on chain facts cannot fail. Every refusal carries one of 23 codes; \<open>SEQUENCE\<close>,
  \<open>INPUT_SCRIPT\<close>, \<open>WRONG_NETWORK\<close> and \<open>FEE_BUMP_INVALID\<close> are never among them.
\<close>

theorem evaluate_never_panics:
  "evaluate L pin request auth chain store samples
     \<in> range Inr \<union> (Inl \<circ> Reject) ` evaluate_codes \<and>
   {Sequence, InputScript, WrongNetwork, FeeBumpInvalid} \<inter> evaluate_codes = {} \<and>
   evaluate L pin request auth chain store samples \<noteq> Inl Panic"
proof (cases "evaluate L pin request auth chain store samples")
  case (Inl e)
  with evaluate_errs [of L pin request auth chain store samples] show ?thesis
    by (auto simp: errs_in_def) (simp_all add: evaluate_codes_def)
next
  case (Inr out)
  then show ?thesis by (simp add: evaluate_codes_def)
qed

section \<open>Money\<close>

lemma permitsE:
  assumes "permits L pin request chain samples psbt v a"
  obtains prevouts where "permitted_inputs L pin chain psbt prevouts"
    "amounts_spec pin (unsigned_tx psbt) prevouts a"
  using assms by (auto simp: permits_def)

lemma locked_limits:
  assumes "locked_pin pin"
  shows "unat (pin_velocity_per_sig_sats pin) = 10000000"
    "unat (pin_velocity_per_144_sats pin) = 50000000"
    "unat (pin_confirm_threshold_sats pin) = 5000000"
  using assms by (simp_all add: locked_pin_def policy_constants OOB_CONFIRM_SATS_def)

text \<open>The coins of permitted inputs are those of the PSBT, and what the chain facts say they are.\<close>

lemma permitted_inputs_facts:
  assumes "permitted_inputs L pin chain psbt prevs"
    and len: "length (tx_input (unsigned_tx psbt)) = length (psbt_inputs psbt)"
  shows "\<exists>facts. collect_prevouts L psbt = Inr prevs \<and>
    map (find_fact chain) (tx_input (unsigned_tx psbt)) = map Some facts \<and>
    map fact_value facts = map txo_value prevs \<and>
    (\<forall>fact\<in>set facts. visible_unspent fact \<and> fact_script_pubkey fact = pin_script_pubkey pin)"
proof -
  let ?ins = "tx_input (unsigned_tx psbt)"
  let ?facts = "map (\<lambda>txin. the (find_fact chain txin)) ?ins"
  have n: "length prevs = length ?ins"
    and input: "\<And>i. i < length ?ins \<Longrightarrow>
      permitted_input L pin chain (?ins ! i) (psbt_inputs psbt ! i) (prevs ! i)"
    using assms by (simp_all add: permitted_inputs_def)
  have fact_i: "find_fact chain (?ins ! i) = Some (?facts ! i) \<and> visible_unspent (?facts ! i) \<and>
      fact_value (?facts ! i) = txo_value (prevs ! i) \<and>
      fact_script_pubkey (?facts ! i) = pin_script_pubkey pin" if "i < length ?ins" for i
    using input [OF that] that by (auto simp: permitted_input_def confirmed_prevout_def)
  have "collect_prevouts L psbt = Inr prevs"
    using input n len by (simp add: collect_prevouts_Inr_iff permitted_input_def)
  moreover have "map (find_fact chain) ?ins = map Some ?facts"
    "map fact_value ?facts = map txo_value prevs"
    by (rule nth_equalityI; use fact_i n in simp)+
  moreover have "\<forall>fact\<in>set ?facts. visible_unspent fact \<and>
      fact_script_pubkey fact = pin_script_pubkey pin"
    using fact_i by (simp add: all_set_conv_all_nth del: set_map)
  ultimately show ?thesis by blast
qed

text \<open>
  C2: bounded loss. On a pin with the locked constants, the coins that a validated spend takes are
  those that the PSBT documents (\<open>collect_prevouts\<close>), and each is what the chain facts say of the
  outpoint it spends: unspent, paying the vault, of this value. Counted in these facts, exactly one
  output leaves the vault, the balance is exact, and the vault gets back all but at most 11,000,000
  satoshis of what it spends (10,000,000 to the external output, 1,000,000 in fees).
\<close>

theorem validated_spend_bounded_loss:
  assumes "evaluate L pin request auth chain store samples = Inr (ValidatedUnsigned v r a)"
    and "locked_pin pin"
  shows "\<exists>psbt prevouts facts. parse_psbt_v0 L (req_psbt_bytes request) = Inr psbt \<and>
    collect_prevouts L psbt = Inr prevouts \<and>
    map (find_fact chain) (tx_input (unsigned_tx psbt)) = map Some facts \<and>
    map fact_value facts = map txo_value prevouts \<and>
    (\<forall>fact\<in>set facts. visible_unspent fact \<and> fact_script_pubkey fact = pin_script_pubkey pin) \<and>
    length (filter (\<lambda>out. txo_script_pubkey out \<noteq> pin_script_pubkey pin)
      (tx_output (unsigned_tx psbt))) = 1 \<and>
    (\<Sum>fact\<leftarrow>facts. unat (fact_value fact)) =
      (\<Sum>out\<leftarrow>tx_output (unsigned_tx psbt). unat (txo_value out)) + unat (ab_fee_sats a) \<and>
    (\<Sum>fact\<leftarrow>facts. unat (fact_value fact)) \<le>
      (\<Sum>out\<leftarrow>filter (\<lambda>out. txo_script_pubkey out = pin_script_pubkey pin)
         (tx_output (unsigned_tx psbt)). unat (txo_value out)) + 11000000"
  using assms(1)
proof (rule evaluate_validatedE)
  fix psbt
  assume parsed: "parse_psbt_v0 L (req_psbt_bytes request) = Inr psbt"
    and permits: "permits L pin request chain samples psbt v a"
  from permits obtain prevs where inputs: "permitted_inputs L pin chain psbt prevs"
    and amounts: "amounts_spec pin (unsigned_tx psbt) prevs a" by (rule permitsE)
  let ?out = "tx_output (unsigned_tx psbt)" and ?v = "pin_script_pubkey pin"
  have len: "length (tx_input (unsigned_tx psbt)) = length (psbt_inputs psbt)"
    using parsed by (simp add: parse_psbt_v0_Inr_iff)
  from permitted_inputs_facts [OF inputs len] obtain facts where
    facts: "collect_prevouts L psbt = Inr prevs"
      "map (find_fact chain) (tx_input (unsigned_tx psbt)) = map Some facts"
      "map fact_value facts = map txo_value prevs"
      "\<forall>fact\<in>set facts. visible_unspent fact \<and> fact_script_pubkey fact = ?v" by blast
  from amounts obtain external where
    ext: "filter (\<lambda>out. txo_script_pubkey out \<noteq> ?v) ?out = [external]"
      "ab_external_sats a = txo_value external"
    by (auto simp: amounts_spec_def)
  have "(\<Sum>out\<leftarrow>?out. unat (txo_value out)) =
      (\<Sum>out\<leftarrow>filter (\<lambda>out. txo_script_pubkey out = ?v) ?out. unat (txo_value out)) +
      unat (ab_external_sats a)"
    using sum_list_partition [of "\<lambda>out. unat (txo_value out)" ?out "\<lambda>out. txo_script_pubkey out = ?v"]
      ext by simp
  moreover have "unat (ab_external_sats a) \<le> 10000000" "unat (ab_fee_sats a) \<le> 1000000"
    using permits locked_limits [OF assms(2)] by (simp_all add: permits_def within_velocity_def)
  moreover have "(\<Sum>fact\<leftarrow>facts. unat (fact_value fact)) = (\<Sum>out\<leftarrow>prevs. unat (txo_value out))"
    using arg_cong [OF facts(3), of "\<lambda>xs. \<Sum>x\<leftarrow>xs. unat x"] by (simp add: comp_def)
  ultimately show ?thesis
    using amounts ext parsed facts
    by (intro exI [of _ psbt] exI [of _ prevs] exI [of _ facts]) (simp add: amounts_spec_def)
qed

section \<open>The override confirmation\<close>

text \<open>
  C11: no large spend without its own confirmation. A validated spend of 5,000,000 satoshis or more
  on a locked pin carries a 64-byte token whose signature verifies under the pinned override key
  over the digest of one message: the domain and version bytes, this request id, the displayed id of
  this transaction, the value of its only output that leaves the vault, and the pinned chain. No
  other binding of the array lengths of the code has that message.
\<close>

theorem large_spend_needs_its_confirmation:
  assumes "evaluate L pin request auth chain store samples = Inr (ValidatedUnsigned v r a)"
    and "locked_pin pin" and "5000000 \<le> unat (ab_external_sats a)"
    and "length (req_request_id request) = 16" and "length (pin_genesis_hash pin) = 32"
    and "\<forall>tx. length (compute_txid L tx) = 32"
  shows "\<exists>psbt out token sig message.
    parse_psbt_v0 L (req_psbt_bytes request) = Inr psbt \<and>
    filter (\<lambda>out. txo_script_pubkey out \<noteq> pin_script_pubkey pin) (tx_output (unsigned_tx psbt)) = [out] \<and>
    req_confirm_token request = Some token \<and> length token = 64 \<and>
    ecdsa_from_compact L token = Some sig \<and>
    message = ascii ''TESAURUS_CONFIRM_V1'' @ [1] @ req_request_id request @
      rev (compute_txid L (unsigned_tx psbt)) @ to_be_bytes (txo_value out) @ pin_genesis_hash pin \<and>
    verify_ecdsa L (sha256 L message) sig (pk_inner (pin_override_pubkey pin)) \<and>
    (\<forall>b. wf_binding b \<and> confirm_preimage b = message \<longrightarrow>
      b = \<lparr>cb_request_id = req_request_id request,
           cb_txid_display = rev (compute_txid L (unsigned_tx psbt)),
           cb_external_amount_sats = txo_value out, cb_genesis_internal = pin_genesis_hash pin\<rparr>)"
  using assms(1)
proof (rule evaluate_validatedE)
  fix psbt
  assume parsed: "parse_psbt_v0 L (req_psbt_bytes request) = Inr psbt"
    and permits: "permits L pin request chain samples psbt v a"
  from permits obtain prevs where "amounts_spec pin (unsigned_tx psbt) prevs a" by (rule permitsE)
  then obtain out where out: "filter (\<lambda>out. txo_script_pubkey out \<noteq> pin_script_pubkey pin)
      (tx_output (unsigned_tx psbt)) = [out]" "ab_external_sats a = txo_value out"
    by (auto simp: amounts_spec_def)
  let ?b = "binding_of L pin request psbt (ab_external_sats a)"
  from permits assms(3) locked_limits(3) [OF assms(2)] obtain token sig where
    token: "req_confirm_token request = Some token" "length token = 64"
      "ecdsa_from_compact L token = Some sig"
      "verify_ecdsa L (sha256 L (confirm_preimage ?b)) sig (pk_inner (pin_override_pubkey pin))"
    by (auto simp: permits_def confirmed_spend_def verify_confirm_token_Inr_iff)
  have b: "?b = \<lparr>cb_request_id = req_request_id request,
       cb_txid_display = rev (compute_txid L (unsigned_tx psbt)),
       cb_external_amount_sats = txo_value out, cb_genesis_internal = pin_genesis_hash pin\<rparr>"
    by (simp add: binding_of_def txid_display_bytes_def genesis_internal_bytes_def out(2))
  then have "wf_binding ?b" using assms(4-6) by (simp add: wf_binding_def)
  then have "\<forall>b. wf_binding b \<and> confirm_preimage b = confirm_preimage ?b \<longrightarrow> b = ?b"
    using confirm_preimage_eqD by blast
  moreover have "confirm_preimage ?b = ascii ''TESAURUS_CONFIRM_V1'' @ [1] @ req_request_id request @
      rev (compute_txid L (unsigned_tx psbt)) @ to_be_bytes (txo_value out) @ pin_genesis_hash pin"
    by (simp add: b confirm_preimage_def CONFIRM_DOMAIN_def CONFIRM_LAYOUT_VERSION_def)
  ultimately show ?thesis
    using parsed out(1) token unfolding b by metis
qed

section \<open>Signing and committing a validated record\<close>

lemma preflight_payload: "preflight store (r\<lparr>rr_payload := p\<rparr>) = preflight store r"
proof -
  have "is_vault_change_only q (r\<lparr>rr_payload := p\<rparr>) = is_vault_change_only q r" for q
    by (simp add: is_vault_change_only_iff external_of_def change_of_def)
  then have "preflight_scan (r\<lparr>rr_payload := p\<rparr>) saw log = preflight_scan r saw log" for saw log
    by (induction log arbitrary: saw) auto
  then show ?thesis by (simp add: preflight_def split: option.split)
qed

text \<open>Once a signed record is in the log, its request is answered with the signature.\<close>

lemma evaluate_after_push:
  assumes "evaluate L pin request auth chain store samples = Inr (ValidatedUnsigned v r a)"
    and "attach_signed r raw = Inr sr" and "records store' = records store @ [sr]"
  shows "evaluate L pin request auth chain' store' samples' = Inr (CachedSignature raw)"
  using assms(1)
proof (rule evaluate_validatedE)
  fix psbt
  assume auth: "auth_ok auth" and parsed: "parse_psbt_v0 L (req_psbt_bytes request) = Inr psbt"
    and known: "no_unknown_fields psbt"
    and cand: "from_pin L pin (req_request_id request) psbt (req_psbt_bytes request) = Inr r"
    and pre: "preflight store r = Inr v" and v: "v = Fresh \<or> v = FeeBump"
  from assms(2) have sr: "sr = r\<lparr>rr_payload := Signed raw\<rparr>"
    by (simp add: attach_signed_def split: if_splits)
  have "\<forall>q\<in>set (records store). rr_request_id q \<noteq> rr_request_id r"
    using preflight_accept_iff [of store r v] pre v by blast
  then have "find (\<lambda>q. rr_request_id q = rr_request_id r) (records store') = Some sr"
    using assms(3) by (simp add: find_append_None sr)
  then have "preflight store' r = Inr (Idempotent raw)"
    by (simp add: preflight_idempotent_iff sr)
  then show ?thesis
    using auth parsed known cand unfolding evaluate_Inr_iff
    by (intro conjI exI [of _ psbt] exI [of _ r] exI [of _ "Idempotent raw"])
      (simp_all add: concludes_def)
qed

lemma validated_commit:
  assumes "evaluate L pin request auth chain store samples = Inr (ValidatedUnsigned v r a)"
    and "attach_signed r raw = Inr sr" and "commit C store sr d = (res, store', d')"
  shows "records store' = records store @ [sr]" and "res = Inr v \<or> res = reject Internal"
    and "v = Fresh \<or> v = FeeBump"
proof -
  from assms(1) have pre: "preflight store r = Inr v" and v: "v = Fresh \<or> v = FeeBump"
    by (auto elim: evaluate_validatedE)
  from assms(2) have "sr = r\<lparr>rr_payload := Signed raw\<rparr>"
    by (simp add: attach_signed_def split: if_splits)
  then have signed: "preflight store sr = Inr v" "require_signed_payload sr = Inr ()"
    using pre by (simp_all add: preflight_payload require_signed_payload_def)
  obtain w d1 where
    w: "abind (persist_records C (records store @ [sr])) (\<lambda>_. fsync_dir) d = (w, d1)" by fastforce
  have "errs_in {Reject Internal} (fst (abind (persist_records C log) (\<lambda>_. fsync_dir) d))"
    for log d
    by (simp add: abind_def persist_records_def write_private_fsynced_def alift_def
        fsync_dir_def open_truncate_def set_file_mode_def write_all_def sync_all_def rename_file_def
        open_dir_def sync_dir_def sys_call_def io_err_def Let_def ok_or_def
        split: sum.splits prod.splits option.splits io_outcome.splits)
  from this [of "records store @ [sr]" d] w have "w = Inr () \<or> w = reject Internal"
    by (cases w) auto
  with assms(3) v signed w show "records store' = records store @ [sr]"
    "res = Inr v \<or> res = reject Internal" "v = Fresh \<or> v = FeeBump"
    by (auto simp: commit_def push_and_persist_def Let_def)
qed

text \<open>
  C9: what evaluate validates, commit accepts. Signing a validated record and committing it to the
  same store gives the verdict of the evaluation, or \<open>INTERNAL\<close> when the disk fails, and never a
  conflict; the same request evaluated again then returns this signature, whatever the chain
  facts and velocity samples have become.
\<close>

theorem validated_record_commits:
  assumes "evaluate L pin request auth chain store samples = Inr (ValidatedUnsigned v r a)"
    and "attach_signed r raw = Inr record'"
    and "commit C store record' d = (res, store', d')"
  shows "(res = Inr v \<or> res = reject Internal) \<and> records store' = records store @ [record'] \<and>
    evaluate L pin request auth chain' store' samples' = Inr (CachedSignature raw)"
  using validated_commit(1,2) [OF assms] evaluate_after_push [OF assms(1,2)] by blast

section \<open>A validated spend\<close>

text \<open>
  One request that passes every stage, with an external output above the confirmation threshold:
  one vault input of 6,100,000 satoshis, 6,000,000 to a foreign script, 99,000 change, 1,000 fee.
\<close>

definition spend_key :: "u8 \<Rightarrow> public_key" where
  "spend_key n = \<lparr>pk_compressed = True, pk_inner = [n]\<rparr>"

definition spend_pin :: agent_pin where
  "spend_pin =
     \<lparr>pin_network = Regtest, pin_genesis_hash = replicate 32 0, pin_descriptor = [],
      pin_csv_blocks = 4320, pin_primary_pubkey = spend_key 1, pin_override_pubkey = spend_key 2,
      pin_agent_pubkey = spend_key 3, pin_safety_margin = 1008,
      pin_velocity_per_sig_sats = 10000000, pin_velocity_per_144_sats = 50000000,
      pin_confirm_threshold_sats = 5000000, pin_wall_clock_seconds_per_block = 600,
      pin_script_pubkey = [82], pin_witness_script = [83]\<rparr>"

definition spend_prevout :: tx_out where
  "spend_prevout = \<lparr>txo_value = 6100000, txo_script_pubkey = [82]\<rparr>"

definition spend_tx :: transaction where
  "spend_tx =
     \<lparr>tx_version = 2, tx_lock_time = Blocks 0,
      tx_input = [\<lparr>previous_output = demo_outpoint, script_sig = [], tx_sequence = 4320,
                   tx_witness = []\<rparr>],
      tx_output = [\<lparr>txo_value = 6000000, txo_script_pubkey = [81]\<rparr>,
                   \<lparr>txo_value = 99000, txo_script_pubkey = [82]\<rparr>]\<rparr>"

definition spend_input :: psbt_input where
  "spend_input =
     \<lparr>non_witness_utxo = None, witness_utxo = Some spend_prevout, partial_sigs = [],
      psbt_sighash_type = Some 1, redeem_script = None, witness_script = Some [83],
      bip32_derivation = [], final_script_sig = None, final_script_witness = None,
      ripemd160_preimages = [], sha256_preimages = [], hash160_preimages = [],
      hash256_preimages = [], tap_key_sig = None, tap_script_sigs = [], tap_scripts = [],
      tap_key_origins = [], tap_internal_key = None, tap_merkle_root = None,
      in_proprietary = [], in_unknown = []\<rparr>"

definition spend_output :: psbt_output where
  "spend_output =
     \<lparr>out_tap_internal_key = None, out_tap_tree = None, out_tap_key_origins = [],
      out_proprietary = [], out_unknown = []\<rparr>"

definition spend_psbt :: psbt where
  "spend_psbt =
     \<lparr>psbt_version = 0, unsigned_tx = spend_tx, psbt_inputs = [spend_input],
      psbt_outputs = [spend_output, spend_output], psbt_xpub = [], psbt_proprietary = [],
      psbt_unknown = []\<rparr>"

definition spend_binding :: confirm_binding where
  "spend_binding =
     \<lparr>cb_request_id = replicate 16 9, cb_txid_display = replicate 32 6,
      cb_external_amount_sats = 6000000, cb_genesis_internal = replicate 32 0\<rparr>"

definition spend_lib :: bitcoin_lib where
  "spend_lib =
     \<lparr>sha256 = (\<lambda>b. b), psbt_deserialize = (\<lambda>_. Some spend_psbt),
      compute_txid = (\<lambda>_. replicate 32 6), consensus_encode = (\<lambda>out. Some (txo_script_pubkey out)),
      minimal_non_dust = (\<lambda>_. 330), to_relative_lock_time = bip68_lock,
      sequence_from_height = (\<lambda>h. ucast h), psbt_sighash_from = (\<lambda>_. 1),
      ecdsa_from_compact = Some,
      verify_ecdsa = (\<lambda>digest sig pk. digest = confirm_preimage spend_binding),
      genesis_block_hash = (\<lambda>_. replicate 32 0)\<rparr>"

definition spend_chain :: chain_view where
  "spend_chain =
     \<lparr>chain_genesis_hash = replicate 32 0, chain_tip_height = 10000,
      chain_now_unix = 2000000000,
      chain_prevouts = [\<lparr>fact_outpoint = demo_outpoint, fact_value = 6100000,
        fact_script_pubkey = [82], confirm_height = 1000, header_time_unix = 1600000000,
        visible_unspent = True\<rparr>]\<rparr>"

definition spend_request :: policy_request where
  "spend_request =
     \<lparr>req_request_id = replicate 16 9, req_psbt_bytes = [1], req_confirm_token = Some (replicate 64 0),
      req_claimed_external_sats = 6000000\<rparr>"

definition spend_record :: replay_record where
  "spend_record =
     \<lparr>rr_request_id = replicate 16 9, rr_replay_id = replicate 16 9 @ replicate 32 6 @ [1],
      rr_psbt_txid = replicate 32 6, rr_outpoints = [demo_outpoint],
      rr_outputs = tx_output spend_tx, rr_vault_script = [82],
      rr_outputs_commitment = [81, 82], rr_payload = Unsigned\<rparr>"

definition spend_amounts :: amount_breakdown where
  "spend_amounts =
     \<lparr>ab_external_sats = 6000000, ab_external_script = [81], ab_change_sats = 99000,
      ab_fee_sats = 1000, ab_input_sats = 6100000\<rparr>"

lemmas spend_defs =
  spend_pin_def spend_prevout_def spend_tx_def spend_input_def spend_output_def spend_psbt_def
  spend_binding_def spend_lib_def spend_chain_def spend_request_def spend_record_def
  spend_amounts_def spend_key_def

lemma spend_parses: "parse_psbt_v0 spend_lib [1] = Inr spend_psbt"
  by (simp add: parse_psbt_v0_Inr_iff spend_defs)

lemma spend_permitted:
  "permits spend_lib spend_pin spend_request spend_chain [] spend_psbt Fresh spend_amounts"
proof -
  have seq: "sequence_satisfies_older_csv spend_lib 4320 4320"
    by (simp add: sequence_satisfies_older_csv_def spend_lib_def bip68_lock_def bit_numeral_rec
        word_le_nat_alt unat_ucast_low16 unat_ucast_widen)
  have "permitted_inputs spend_lib spend_pin spend_chain spend_psbt [spend_prevout]"
    using seq
    by (simp add: permitted_inputs_def permitted_input_def input_prevout_def
        input_is_sighash_all_def pinned_input_def confirmed_prevout_def on_recovery_path_def
        find_fact_def matured_def csv_mature_def has_sig_def spend_defs)
  moreover have "amounts_spec spend_pin spend_tx [spend_prevout] spend_amounts"
    by (simp add: amounts_spec_def spend_defs)
  moreover have "confirmed_spend spend_lib spend_pin spend_request spend_psbt 6000000"
    by (simp add: confirmed_spend_def verify_confirm_token_Inr_iff binding_of_def
        txid_display_bytes_def genesis_internal_bytes_def spend_defs)
  ultimately show ?thesis
    by (auto simp: permits_def no_dust_def within_velocity_def window_sum_def spend_psbt_def
        policy_constants)
      (simp_all add: spend_defs)
qed

lemma spend_validated:
  "evaluate spend_lib spend_pin spend_request \<lparr>auth_ok = True\<rparr> spend_chain \<lparr>records = []\<rparr> [] =
     Inr (ValidatedUnsigned Fresh spend_record spend_amounts)"
proof -
  have "from_pin spend_lib spend_pin (replicate 16 9) spend_psbt [1] = Inr spend_record"
    by (simp add: from_pin_def outputs_commitment_def replay_id_def psbt_content_hash_def spend_defs
        Let_def)
  moreover have "preflight \<lparr>records = []\<rparr> spend_record = Inr Fresh"
    by (simp add: preflight_def)
  moreover have "no_unknown_fields spend_psbt"
    by (simp add: no_unknown_fields_def input_has_unknown_fields_def output_has_unknown_fields_def
        spend_defs)
  moreover have "concludes spend_lib spend_pin spend_request spend_chain \<lparr>records = []\<rparr> []
      spend_psbt spend_record Fresh = Inr (ValidatedUnsigned Fresh spend_record spend_amounts)"
    using spend_permitted
      concludes_validated_iff [OF spend_parses calculation(1,2), of spend_request spend_chain "[]"]
    by simp
  ultimately show ?thesis
    unfolding evaluate_Inr_iff using spend_parses by (auto simp: spend_request_def)
qed

lemma spend_pin_locked: "locked_pin spend_pin"
  by (simp add: locked_pin_def spend_pin_def policy_constants OOB_CONFIRM_SATS_def)

theorem validated_spend_bounded_loss_witness:
  "locked_pin spend_pin \<and>
   (\<exists>psbt prevouts facts. parse_psbt_v0 spend_lib [1] = Inr psbt \<and>
     collect_prevouts spend_lib psbt = Inr prevouts \<and>
     map (find_fact spend_chain) (tx_input (unsigned_tx psbt)) = map Some facts \<and>
     (\<Sum>fact\<leftarrow>facts. unat (fact_value fact)) =
       (\<Sum>out\<leftarrow>tx_output (unsigned_tx psbt). unat (txo_value out)) + 1000)"
proof -
  have "req_psbt_bytes spend_request = [1]" "unat (ab_fee_sats spend_amounts) = 1000"
    by (simp_all add: spend_request_def spend_amounts_def)
  with validated_spend_bounded_loss [OF spend_validated spend_pin_locked] spend_pin_locked
  show ?thesis by metis
qed

theorem large_spend_needs_its_confirmation_witness:
  "\<exists>psbt sig. parse_psbt_v0 spend_lib [1] = Inr psbt \<and>
     ecdsa_from_compact spend_lib (replicate 64 0) = Some sig \<and>
     verify_ecdsa spend_lib (sha256 spend_lib (ascii ''TESAURUS_CONFIRM_V1'' @ [1] @ replicate 16 9 @
       rev (compute_txid spend_lib (unsigned_tx psbt)) @ to_be_bytes 6000000 @ replicate 32 0)) sig [2]"
proof -
  have "5000000 \<le> unat (ab_external_sats spend_amounts)"
    "length (req_request_id spend_request) = 16" "length (pin_genesis_hash spend_pin) = 32"
    "\<forall>tx. length (compute_txid spend_lib tx) = 32"
    by (simp_all add: spend_defs)
  from large_spend_needs_its_confirmation [OF spend_validated spend_pin_locked this]
  obtain psbt out sig where p: "parse_psbt_v0 spend_lib [1] = Inr psbt"
    "filter (\<lambda>out. txo_script_pubkey out \<noteq> [82]) (tx_output (unsigned_tx psbt)) = [out]"
    "ecdsa_from_compact spend_lib (replicate 64 0) = Some sig"
    "verify_ecdsa spend_lib (sha256 spend_lib (ascii ''TESAURUS_CONFIRM_V1'' @ [1] @ replicate 16 9 @
       rev (compute_txid spend_lib (unsigned_tx psbt)) @ to_be_bytes (txo_value out) @
       replicate 32 0)) sig [2]"
    by (auto simp: spend_request_def spend_pin_def spend_key_def)
  from p(1) spend_parses have "psbt = spend_psbt" by simp
  with p(2) have "txo_value out = 6000000" by (auto simp: spend_psbt_def spend_tx_def)
  with p show ?thesis by auto
qed

theorem validated_record_commits_witness:
  "\<exists>res store' d'.
     commit demo_codec \<lparr>records = []\<rparr> (spend_record\<lparr>rr_payload := Signed [5]\<rparr>) (demo_opened None) =
       (res, store', d') \<and>
     records store' = [spend_record\<lparr>rr_payload := Signed [5]\<rparr>] \<and>
     evaluate spend_lib spend_pin spend_request \<lparr>auth_ok = True\<rparr> spend_chain store' [] =
       Inr (CachedSignature [5])"
proof -
  obtain res store' d' where run: "commit demo_codec \<lparr>records = []\<rparr>
      (spend_record\<lparr>rr_payload := Signed [5]\<rparr>) (demo_opened None) = (res, store', d')"
    by (metis prod.exhaust)
  have "attach_signed spend_record [5] = Inr (spend_record\<lparr>rr_payload := Signed [5]\<rparr>)"
    by (simp add: attach_signed_def)
  from validated_record_commits [OF spend_validated this run] run show ?thesis by auto
qed

end
