(* ===== verification/Replay_Progress.thy ===== *)
theory Replay_Progress
  imports Replay_Service
begin

text \<open>
  Progress of the replay store: a commit that failed is not lost for good. Once system calls
  succeed again, the store opens, the same record can be committed, and what is then answered
  survives every later power loss.
\<close>

section \<open>Calls that succeed\<close>

lemma write_log_succeeds:
  assumes "codec_total C" and "io_plan d = (\<lambda>_. IoOk)"
  shows "\<exists>d'. write_log C log d = (Inr (), d')"
proof -
  from assms(1) obtain bs where
    "json_to_vec C \<lparr>sf_version = 1, sf_records = map (to_stored C) log\<rparr> = Some bs"
    by (auto simp: codec_total_def)
  with assms(2) show ?thesis
    by (simp add: write_log_def io_run_defs Let_def split: option.splits)
qed

lemma commit_succeeds:
  assumes "codec_total C" and "io_plan d = (\<lambda>_. IoOk)" and "preflight st r = Inr v"
    and "v = Fresh \<or> v = FeeBump" and "require_signed_payload r = Inr ()"
  shows "\<exists>d'. commit C st r d = (Inr v, st\<lparr>records := records st @ [r]\<rparr>, d')"
proof -
  obtain d' where "write_log C (records st @ [r]) d = (Inr (), d')"
    using write_log_succeeds [OF assms(1,2)] by blast
  with assms(3-5) show ?thesis
    by (auto simp: commit_def push_and_persist_def write_log_def)
qed

lemma preflight_prefix:
  assumes "preflight st r = Inr v" and "v = Fresh \<or> v = FeeBump"
    and "records st' = take c (records st)"
  shows "\<exists>v'. preflight st' r = Inr v' \<and> (v' = Fresh \<or> v' = FeeBump)"
proof -
  let ?v = "if \<exists>q\<in>set (records st'). outpoints_overlap (rr_outpoints q) (rr_outpoints r)
    then FeeBump else Fresh"
  have "set (records st') \<subseteq> set (records st)" by (simp add: assms(3) set_take_subset)
  then have "preflight st' r = Inr ?v \<and> (?v = Fresh \<or> ?v = FeeBump)"
    using assms(1,2) preflight_accept_iff [of st r v] preflight_accept_iff [of st' r ?v] by blast
  then show ?thesis by blast
qed

section \<open>After a power loss\<close>

text \<open>What is found after a power loss is durable: the next one finds it again.\<close>

lemma synced_store:
  assumes "store_inv C log a d" and "dir_states d = [entries d]"
    and "open_store C d = (Inr st, d\<lparr>io_clock := k\<rparr>)" and "codec_documented C"
    and "\<forall>r\<in>set log. wf_record r"
  shows "store_inv C (records st) (length (records st)) (d\<lparr>io_clock := k\<rparr>)"
proof -
  from assms(1) obtain c where c: "staged d" "dir_exists d" "c \<le> length log"
    "holds_log C d log (entries d) c"
    by (rule store_invE) blast
  from c(2,4) assms(4,5,3) have st: "records st = take c log"
    by (cases rule: open_store_cases) auto
  then have "holds_log C d (records st) (entries d) (length (records st))"
    using c(3,4) by (simp add: holds_log_def)
  moreover have "d\<lparr>io_clock := k, dir_states := [entries d]\<rparr> = d\<lparr>io_clock := k\<rparr>"
    using assms(2) by (cases d) simp
  ultimately show ?thesis using store_inv_sync [OF c(1,2), of C "records st" k] by simp
qed

lemma survives_power_loss:
  assumes "store_inv C log (length log) d" and "codec_documented C" and "\<forall>r\<in>set log. wf_record r"
    and "power_loss d d'" and "io_plan d' = (\<lambda>_. IoOk)" and "dir_durable d"
  shows "\<exists>st' d''. open_store C d' = (Inr st', d'') \<and> records st' = log"
proof -
  have "dir_exists d'" using assms(1,4,6) by (simp add: store_inv_def power_loss_def)
  from power_loss_inv [OF assms(1,4) this] assms(2,3,5) obtain st' c k where
    "open_store C d' = (Inr st', d'\<lparr>io_clock := k\<rparr>)" "records st' = take c log" "length log \<le> c"
    by (rule open_succeeds)
  then show ?thesis by auto
qed

text \<open>
  What was found is a prefix of the log with the interrupted record at its end: the commit finds the
  record, or stores it now.
\<close>

lemma commit_after_reopening:
  assumes "store_inv C (records st2) (length (records st2)) d" and "log_inv (records st2)"
    and "records st2 = take c (records st @ [r])" and "codec_total C" and "rr_payload r = Signed raw"
    and "preflight st r = Inr v" and "v = Fresh \<or> v = FeeBump" and "io_plan d = (\<lambda>_. IoOk)"
  shows "\<exists>v2 st3 d4. commit C st2 r d = (Inr v2, st3, d4) \<and> v2 \<in> {Fresh, FeeBump, Idempotent raw} \<and>
    store_inv C (records st3) (length (records st3)) d4 \<and>
    insert r (set (records st2)) = set (records st3)"
proof (cases "c \<le> length (records st)")
  case False
  then have "r \<in> set (records st2)" using assms(3) by simp
  moreover from this have "commit C st2 r d = (Inr (Idempotent raw), st2, d)"
    using assms(2,5) by (simp add: commit_known)
  ultimately show ?thesis using assms(1) by auto
next
  case True
  then have "records st2 = take c (records st)" using assms(3) by simp
  from preflight_prefix [OF assms(6,7) this] obtain v2 where
    v2: "preflight st2 r = Inr v2" "v2 = Fresh \<or> v2 = FeeBump" by blast
  have "require_signed_payload r = Inr ()" using assms(5) by (simp add: require_signed_payload_def)
  from commit_succeeds [OF assms(4,8) v2 this] obtain d4 where
    run: "commit C st2 r d = (Inr v2, st2\<lparr>records := records st2 @ [r]\<rparr>, d4)" by blast
  from commit_inv(2) [OF assms(1) run] v2(2) run show ?thesis by auto
qed

text \<open>
  C6: an interrupted commit can be completed. After any history of the store, let a commit of a
  record that preflight accepts fail at any system call, and let a power loss follow that leaves
  the store directory, as it must if its entry in the parent is durable. If system calls succeed
  from then on, the store opens and the same commit is answered: \<open>Fresh\<close> or \<open>FeeBump\<close>, or with the
  stored signature if the record had reached the disk. Then the record and all acknowledged ones are
  in the store, and still are after every next power loss.
\<close>

theorem interrupted_commit_completes:
  assumes "sessions C st acked d" and "codec_documented C" and "codec_total C"
    and "wf_record r" and "rr_payload r = Signed raw" and "preflight st r = Inr v"
    and "v = Fresh \<or> v = FeeBump" and "commit C st r d = (Inl e, st1, d1)"
    and "power_loss d1 d2" and "dir_durable d1 \<or> dir_exists d2" and "io_plan d2 = (\<lambda>_. IoOk)"
  shows "\<exists>st2 d3 v2 st3 d4. open_store C d2 = (Inr st2, d3) \<and>
    commit C st2 r d3 = (Inr v2, st3, d4) \<and> v2 \<in> {Fresh, FeeBump, Idempotent raw} \<and>
    insert r (set acked) \<subseteq> set (records st3) \<and>
    (\<forall>d5. power_loss d4 d5 \<and> io_plan d5 = (\<lambda>_. IoOk) \<longrightarrow>
       (\<exists>st5 d6. open_store C d5 = (Inr st5, d6) \<and> records st5 = records st3))"
proof -
  have "sessions C st1 acked d1" by (rule sessions.refused [OF assms(1,4,8)])
  from sessions_inv [OF this assms(2)] obtain a where
    a: "store_inv C (records st1) a d1" "set acked \<subseteq> set (take a (records st1))"
    and wf: "\<forall>q\<in>set (records st1). wf_record q" and log1: "log_inv (records st1)" by blast
  have signed: "require_signed_payload r = Inr ()"
    using assms(5) by (simp add: require_signed_payload_def)
  have st1: "records st1 = records st @ [r]"
    using assms(6-8) signed
    by (auto simp: commit_def push_and_persist_def Let_def split: prod.splits sum.splits)
  have found: "dir_exists d2"
    using a(1) assms(9,10) by (auto simp: store_inv_def power_loss_def)
  note inv2 = power_loss_inv [OF a(1) assms(9) found]
  from inv2 assms(2) wf assms(11) obtain st2 c k where
    st2: "open_store C d2 = (Inr st2, d2\<lparr>io_clock := k\<rparr>)" "records st2 = take c (records st1)"
      "a \<le> c" "c \<le> length (records st1)"
    by (rule open_succeeds)
  let ?d3 = "d2\<lparr>io_clock := k\<rparr>"
  have inv3: "store_inv C (records st2) (length (records st2)) ?d3"
    using synced_store [OF inv2 _ st2(1) assms(2) wf] assms(9) by (simp add: power_loss_def)
  have wf2: "\<forall>q\<in>set (records st2). wf_record q"
    using wf st2(2) by (auto dest: in_set_takeD)
  have acked2: "set acked \<subseteq> set (records st2)"
    using a(2) st2(2,3) set_take_subset_set_take by fastforce
  have log2: "log_inv (records st2)" using log_inv_take [OF log1] st2(2) by simp
  have "records st2 = take c (records st @ [r])" using st2(2) st1 by simp
  from commit_after_reopening [OF inv3 log2 this assms(3,5-7)] assms(11) obtain v2 st3 d4 where
    run: "commit C st2 r ?d3 = (Inr v2, st3, d4)" and v2: "v2 \<in> {Fresh, FeeBump, Idempotent raw}"
    and inv4: "store_inv C (records st3) (length (records st3)) d4"
    and st3: "insert r (set (records st2)) = set (records st3)" by auto
  have "\<forall>q\<in>set (records st3). wf_record q" using wf2 assms(4) st3 by auto
  moreover have "dir_durable d4"
    using commit_frame [OF run] found assms(9) by (simp add: power_loss_def)
  ultimately show ?thesis
    using survives_power_loss [OF inv4 assms(2)] run v2 st2(1) acked2 st3
    by (intro exI [of _ st2] exI [of _ ?d3] exI [of _ v2] exI [of _ st3] exI [of _ d4]) auto
qed

theorem interrupted_commit_completes_witness:
  "\<exists>d2 st2 d3 v2 st3 d4. power_loss (snd (snd (demo_committed (Some 19)))) d2 \<and>
     open_store demo_codec d2 = (Inr st2, d3) \<and>
     commit demo_codec st2 demo_record d3 = (Inr v2, st3, d4) \<and> demo_record \<in> set (records st3)"
proof -
  let ?d = "snd (snd (demo_committed (Some 19)))"
  have run: "commit demo_codec \<lparr>records = []\<rparr> demo_record (demo_opened (Some 19)) =
      (Inl io_err, fst (snd (demo_committed (Some 19))), ?d)"
    by (simp add: demo_committed_def demo_opened_def commit_def preflight_def push_and_persist_def
        require_signed_payload_def demo_run_defs)
  have loss: "power_loss ?d (found_again ?d)" and found: "dir_exists ?d"
    by (simp_all add: demo_committed_def demo_opened_def commit_def preflight_def push_and_persist_def
        require_signed_payload_def demo_run_defs power_loss_def found_again_def)
  have "preflight \<lparr>records = []\<rparr> demo_record = Inr Fresh" by (simp add: preflight_def)
  with interrupted_commit_completes [OF demo_created demo_codec_documented demo_codec_total demo_wf
      _ _ _ run loss, of "[5]" Fresh] loss found
  show ?thesis by simp blast
qed

end
