(* ===== verification/Evaluate_Records.thy ===== *)
theory Evaluate_Records
  imports Evaluate_Safety Replay_Progress
begin

text \<open>
  The type of a record: what \<open>evaluate\<close> hands to the signer and what the signer attaches to it has
  the array lengths of the Rust type, so that \<open>commit\<close> stores it, once signed, and \<open>open\<close> reads it back. With a concrete
  library whose hashes have 32 bytes, on which \<open>evaluate\<close> is run by simplification.
\<close>

section \<open>Candidates have the lengths of the Rust arrays\<close>

lemma outputs_commitment_length:
  "lengths_documented L \<Longrightarrow> outputs_commitment L outs = Inr h \<Longrightarrow> length h = 32"
  by (auto simp: outputs_commitment_def lengths_documented_def res_simps)

lemma parsed_outpoints:
  assumes "lengths_documented L" and "parse_psbt_v0 L raw = Inr p"
    and "op \<in> set (map previous_output (tx_input (unsigned_tx p)))"
  shows "length (op_txid op) = 32"
  using assms by (auto simp: lengths_documented_def parse_psbt_v0_Inr_iff)

lemma from_pin_wf:
  assumes "lengths_documented L" and "parse_psbt_v0 L raw = Inr p" and "length rid = 16"
    and "from_pin L pin rid p raw = Inr r"
  shows "wf_record r"
  using assms(1,3,4) parsed_outpoints [OF assms(1,2)] outputs_commitment_length [OF assms(1)]
  by (auto simp: from_pin_def wf_record_def replay_id_def lengths_documented_def Let_def res_simps)

lemma attach_signed_wf: "wf_record r \<Longrightarrow> attach_signed r raw = Inr sr \<Longrightarrow> wf_record sr"
  by (auto simp: attach_signed_def wf_record_def split: if_splits)

lemma validated_wf:
  assumes "evaluate L pin request auth chain store samples = Inr (ValidatedUnsigned v r a)"
    and "lengths_documented L" and "length (req_request_id request) = 16"
  shows "wf_record r" and "rr_payload r = Unsigned"
proof -
  from assms(1) obtain psbt where p: "parse_psbt_v0 L (req_psbt_bytes request) = Inr psbt"
    "from_pin L pin (req_request_id request) psbt (req_psbt_bytes request) = Inr r"
    by (rule evaluate_validatedE)
  show "wf_record r" using from_pin_wf [OF assms(2) p(1) assms(3) p(2)] .
  show "rr_payload r = Unsigned" using from_pin_fields [OF p(2)] by simp
qed

text \<open>An unsigned record is never pushed, whatever the store and the disk.\<close>

lemma commit_unsigned:
  assumes "rr_payload r = Unsigned"
  shows "\<exists>res. commit C st r d = (res, st, d) \<and> res \<noteq> Inr Fresh \<and> res \<noteq> Inr FeeBump"
proof -
  have "push_and_persist C st r v d = (reject Internal, st, d)" for v
    using assms by (simp add: push_and_persist_def require_signed_payload_def)
  then show ?thesis by (simp add: commit_def split: sum.split replay_verdict.split)
qed

text \<open>A commit that was acknowledged in a history of the store is found on the disk.\<close>

lemma acknowledged_reopens:
  assumes "sessions C st acked d" and "codec_documented C" and "wf_record r"
    and "commit C st r d = (Inr v, st', d')" and "v = Fresh \<or> v = FeeBump"
    and "io_plan d = (\<lambda>_. IoOk)"
  shows "\<exists>d''. open_store C d' = (Inr st', d'')"
proof -
  from sessions_inv [OF assms(1,2)] obtain a where
    a: "store_inv C (records st) a d" and wf: "\<forall>q\<in>set (records st). wf_record q" by blast
  from commit_inv(2) [OF a assms(4)] assms(5) have
    inv: "records st' = records st @ [r]" "store_inv C (records st') (length (records st')) d'"
    by auto
  have wf': "\<forall>q\<in>set (records st'). wf_record q" using wf assms(3) inv(1) by simp
  have "io_plan d' = (\<lambda>_. IoOk)" using commit_frame [OF assms(4)] assms(6) by simp
  with inv(2) assms(2) wf' obtain st2 c k where
    "open_store C d' = (Inr st2, d'\<lparr>io_clock := k\<rparr>)" "records st2 = take c (records st')"
    "length (records st') \<le> c" by (rule open_succeeds)
  then show ?thesis by simp
qed

text \<open>
  C10: what \<open>evaluate\<close> validates can be stored, and only once it is signed. As it stands, the
  record has the array lengths of its Rust type and \<open>commit\<close> stores it in no store whatever; on the
  store of the evaluation it reports \<open>INTERNAL\<close> and changes nothing. An empty signature cannot be
  attached. With any other one attached, if the system calls succeed, \<open>commit\<close> on that store
  returns the verdict of the evaluation with the signed record at the end of the log, every codec
  with the documented behaviour reads the record back unchanged, and where the store has a history
  on that disk, opening it again finds exactly this log.
\<close>

theorem validated_record_storable:
  assumes "evaluate L pin request auth chain store samples = Inr (ValidatedUnsigned v r a)"
    and "lengths_documented L" and "length (req_request_id request) = 16"
  shows "wf_record r \<and>
    (\<forall>C st d. \<exists>res. commit C st r d = (res, st, d) \<and> res \<noteq> Inr Fresh \<and> res \<noteq> Inr FeeBump) \<and>
    (\<forall>C d. commit C store r d = (reject Internal, store, d)) \<and>
    attach_signed r [] = reject Internal \<and>
    (\<forall>raw C d. raw \<noteq> [] \<and> codec_documented C \<and> codec_total C \<and> io_plan d = (\<lambda>_. IoOk) \<longrightarrow>
       (\<exists>sr st' d'. attach_signed r raw = Inr sr \<and> commit C store sr d = (Inr v, st', d') \<and>
          records st' = records store @ [sr] \<and> signed_bytes (rr_payload sr) = Some raw \<and>
          from_stored C (to_stored C sr) = Inr sr \<and>
          (\<forall>acked. sessions C store acked d \<longrightarrow> (\<exists>d''. open_store C d' = (Inr st', d'')))))"
proof -
  note r = validated_wf [OF assms]
  from assms(1) have pre: "preflight store r = Inr v" and v: "v = Fresh \<or> v = FeeBump"
    by (auto elim: evaluate_validatedE)
  have main: "\<exists>sr st' d'. attach_signed r raw = Inr sr \<and> commit C store sr d = (Inr v, st', d') \<and>
      records st' = records store @ [sr] \<and> signed_bytes (rr_payload sr) = Some raw \<and>
      from_stored C (to_stored C sr) = Inr sr \<and>
      (\<forall>acked. sessions C store acked d \<longrightarrow> (\<exists>d''. open_store C d' = (Inr st', d'')))"
    if "raw \<noteq> []" "codec_documented C" "codec_total C" "io_plan d = (\<lambda>_. IoOk)" for raw C d
  proof -
    let ?sr = "r\<lparr>rr_payload := Signed raw\<rparr>"
    from that(1) have sr: "attach_signed r raw = Inr ?sr" by (simp add: attach_signed_def)
    note wf = attach_signed_wf [OF r(1) sr]
    have "preflight store ?sr = Inr v" "require_signed_payload ?sr = Inr ()"
      using pre by (simp_all add: preflight_payload require_signed_payload_def)
    from commit_succeeds [OF that(3,4) this(1) v this(2)] obtain d' where
      run: "commit C store ?sr d = (Inr v, store\<lparr>records := records store @ [?sr]\<rparr>, d')" by blast
    from acknowledged_reopens [OF _ that(2) wf run v that(4)] sr run
      stored_round_trip [OF that(2) wf]
    show ?thesis
      by (intro exI [of _ ?sr] exI [of _ "store\<lparr>records := records store @ [?sr]\<rparr>"] exI [of _ d']) auto
  qed
  have "commit C store r d = (reject Internal, store, d)" for C d
    using pre v r(2) by (auto simp: commit_def push_and_persist_def require_signed_payload_def)
  moreover have "\<exists>res. commit C st r d = (res, st, d) \<and> res \<noteq> Inr Fresh \<and> res \<noteq> Inr FeeBump" for C st d
    by (rule commit_unsigned [OF r(2)])
  moreover have "attach_signed r [] = reject Internal" by (simp add: attach_signed_def)
  ultimately show ?thesis using r(1) main by blast
qed

section \<open>Running the policy\<close>

text \<open>The code of every stage, for evaluation by the simplifier on a concrete request.\<close>

lemmas structure_code =
  parse_psbt_v0_def require_no_unknown_psbt_fields_def input_has_unknown_fields_def
  output_has_unknown_fields_def require_locktime_zero_def LOCK_TIME_ZERO_def
  require_sighash_all_on_psbt_def input_sighash_all_def require_sighash_all_def
  sequence_satisfies_older_csv_def require_recovery_sequence_def bip68_lock_def

lemmas csv_code =
  csv_depth_def csv_depth_is_mature_def wall_clock_deadline_unix_def wall_clock_is_mature_def
  check_csv_maturity_def

lemmas velocity_code = check_velocity_cap_def window_start_def check_velocity_window_capped_def

lemmas confirm_code =
  verify_confirm_token_def txid_display_bytes_def genesis_internal_bytes_def

lemmas replay_code =
  from_pin_def outputs_commitment_def replay_id_def psbt_content_hash_def preflight_def

lemmas checked_code = checked_add_def checked_sub_def checked_mul_def policy_constants Let_def

lemmas evaluate_code =
  evaluate_def is_ok_def validate_new_def collect_prevouts_def input_prevout_def
  classify_amounts_def check_inputs_against_pin_def input_against_pin_def
  check_chain_prevouts_def chain_prevout_def find_fact_def check_recovery_path_def has_sig_def
  check_csv_for_inputs_def csv_for_input_def check_dust_def check_confirm_def binding_of_def
  contains_pubkey_def

lemmas policy_code =
  evaluate_code structure_code csv_code velocity_code confirm_code replay_code checked_code

definition hashed_lib :: bitcoin_lib where
  "hashed_lib = spend_lib\<lparr>sha256 := (\<lambda>b. take 32 (b @ replicate 32 0)), verify_ecdsa := (\<lambda>_ _ _. True)\<rparr>"

definition hashed_record :: replay_record where
  "hashed_record = spend_record\<lparr>rr_replay_id := replicate 16 9 @ replicate 16 6,
     rr_outputs_commitment := [81, 82] @ replicate 30 0\<rparr>"

lemma hashed_validated:
  "evaluate hashed_lib spend_pin spend_request \<lparr>auth_ok = True\<rparr> spend_chain \<lparr>records = []\<rparr> [] =
     Inr (ValidatedUnsigned Fresh hashed_record spend_amounts)"
  by (simp add: policy_code spend_defs hashed_lib_def hashed_record_def)

lemma hashed_lengths: "lengths_documented hashed_lib"
  by (auto simp: lengths_documented_def hashed_lib_def spend_lib_def spend_psbt_def spend_tx_def
      demo_outpoint_def demo_txid_def)

theorem validated_record_storable_witness:
  "wf_record hashed_record \<and>
   (\<exists>sr st' d' d''. attach_signed hashed_record [5] = Inr sr \<and>
      commit demo_codec \<lparr>records = []\<rparr> sr (demo_opened None) = (Inr Fresh, st', d') \<and>
      open_store demo_codec d' = (Inr st', d'') \<and> records st' = [sr])"
proof -
  have "length (req_request_id spend_request) = 16" by (simp add: spend_request_def)
  note storable = validated_record_storable [OF hashed_validated hashed_lengths this]
  have "io_plan (demo_opened None) = (\<lambda>_. IoOk)" by (simp add: demo_opened_def demo_run_defs)
  with storable [THEN conjunct2, THEN conjunct2, THEN conjunct2, THEN conjunct2, rule_format,
      of "[5]" demo_codec "demo_opened None"] demo_codec_documented demo_codec_total
    demo_created [of None] storable [THEN conjunct1]
  show ?thesis by simp blast
qed

end
