(* ===== verification/Agent_Runs.thy ===== *)
theory Agent_Runs
  imports Evaluate_Records
begin

text \<open>
  The policy crate in use: an agent that evaluates a request, signs what was validated, commits the
  signed record, notes a velocity sample and answers, over any sequence of requests, chain views,
  disk failures, restarts and power losses. The agent itself is not part of the repository; its
  loop is the one the protocol document prescribes, and every step is a call of the crate.
\<close>

section \<open>Runs of an agent\<close>

record signature_entry =
  en_sample :: velocity_sample
  en_verdict :: replay_verdict
  en_record :: replay_record

text \<open>
  The store and its disk, the entries whose samples the agent counts, the records whose commit was
  acknowledged, and the signatures it released, each with the request id it answered.
\<close>

record agent_state =
  ag_store :: replay_store
  ag_disk :: disk
  ag_counted :: "signature_entry list"
  ag_acked :: "replay_record list"
  ag_released :: "(bytes \<times> bytes) list"

text \<open>A fee bump replaces a payment that was counted before, so it counts as 0.\<close>

definition sample_of :: "chain_view \<Rightarrow> replay_verdict \<Rightarrow> amount_breakdown \<Rightarrow> velocity_sample" where
  "sample_of chain v a =
     \<lparr>sample_tip_height = chain_tip_height chain,
      sample_external_sats = (if v = FeeBump then 0 else ab_external_sats a)\<rparr>"

abbreviation entry_of ::
    "chain_view \<Rightarrow> replay_verdict \<Rightarrow> amount_breakdown \<Rightarrow> replay_record \<Rightarrow> signature_entry" where
  "entry_of chain v a sr \<equiv>
     \<lparr>en_sample = sample_of chain v a, en_verdict = v, en_record = sr\<rparr>"

text \<open>
  The protocol has the agent note a sample \<open>on successful signature\<close>. Whether it also notes one
  when \<open>commit\<close> fails is the parameter \<open>count_failed\<close>.
\<close>

inductive agent_run ::
    "bitcoin_lib \<Rightarrow> codec_lib \<Rightarrow> agent_pin \<Rightarrow> bool \<Rightarrow> agent_state \<Rightarrow> bool"
  for L C pin count_failed where
  created: "blank d0 \<Longrightarrow> init_store C d0 = (Inr st, d) \<Longrightarrow>
    agent_run L C pin count_failed
      \<lparr>ag_store = st, ag_disk = d, ag_counted = [], ag_acked = [], ag_released = []\<rparr>"
| signs: "agent_run L C pin count_failed s \<Longrightarrow> length (req_request_id request) = 16 \<Longrightarrow>
    evaluate L pin request auth chain (ag_store s) (map en_sample (ag_counted s)) =
      Inr (ValidatedUnsigned v r a) \<Longrightarrow>
    attach_signed r raw = Inr sr \<Longrightarrow>
    commit C (ag_store s) sr (ag_disk s) = (Inr v', st', d') \<Longrightarrow>
    agent_run L C pin count_failed
      (s\<lparr>ag_store := st', ag_disk := d', ag_counted := ag_counted s @ [entry_of chain v a sr],
         ag_acked := ag_acked s @ [sr],
         ag_released := ag_released s @ [(req_request_id request, raw)]\<rparr>)"
| fails: "agent_run L C pin count_failed s \<Longrightarrow> length (req_request_id request) = 16 \<Longrightarrow>
    evaluate L pin request auth chain (ag_store s) (map en_sample (ag_counted s)) =
      Inr (ValidatedUnsigned v r a) \<Longrightarrow>
    attach_signed r raw = Inr sr \<Longrightarrow>
    commit C (ag_store s) sr (ag_disk s) = (Inl e, st', d') \<Longrightarrow>
    agent_run L C pin count_failed
      (s\<lparr>ag_store := st', ag_disk := d',
         ag_counted := ag_counted s @ (if count_failed then [entry_of chain v a sr] else [])\<rparr>)"
| replies: "agent_run L C pin count_failed s \<Longrightarrow>
    evaluate L pin request auth chain (ag_store s) (map en_sample (ag_counted s)) =
      Inr (CachedSignature raw) \<Longrightarrow>
    agent_run L C pin count_failed
      (s\<lparr>ag_released := ag_released s @ [(req_request_id request, raw)]\<rparr>)"
| reopens: "agent_run L C pin count_failed s \<Longrightarrow>
    power_loss (ag_disk s) d' \<or> restarted (ag_disk s) d' \<Longrightarrow>
    open_store C d' = (Inr st', d'') \<Longrightarrow>
    agent_run L C pin count_failed (s\<lparr>ag_store := st', ag_disk := d''\<rparr>)"

definition paid_by :: "replay_record \<Rightarrow> nat" where
  "paid_by r = (case external_of r of Some out \<Rightarrow> unat (txo_value out) | None \<Rightarrow> 0)"

section \<open>What every run keeps\<close>

lemma validated_amount:
  assumes "evaluate L pin request auth chain st samples = Inr (ValidatedUnsigned v r a)"
    and "attach_signed r raw = Inr sr"
  shows "v = Fresh \<or> v = FeeBump" and "within_velocity pin chain samples v (ab_external_sats a)"
    and "paid_by sr = unat (ab_external_sats a)"
    and "rr_request_id sr = req_request_id request" and "rr_payload sr = Signed raw"
proof -
  from assms(1) obtain psbt where p: "v = Fresh \<or> v = FeeBump"
    "from_pin L pin (req_request_id request) psbt (req_psbt_bytes request) = Inr r"
    "permits L pin request chain samples psbt v a"
    by (rule evaluate_validatedE)
  then show "v = Fresh \<or> v = FeeBump" "within_velocity pin chain samples v (ab_external_sats a)"
    by (simp_all add: permits_def)
  from p(3) obtain prevs where "amounts_spec pin (unsigned_tx psbt) prevs a"
    by (auto simp: permits_def)
  from external_of_candidate [OF _ _ this, of r] from_pin_fields [OF p(2)]
  obtain out where "external_of r = Some out" "txo_value out = ab_external_sats a" by auto
  moreover have sr: "sr = r\<lparr>rr_payload := Signed raw\<rparr>"
    using assms(2) by (simp add: attach_signed_def split: if_splits)
  then have "external_of sr = external_of r" by (simp add: external_of_def)
  ultimately show "paid_by sr = unat (ab_external_sats a)" by (simp add: paid_by_def)
  show "rr_request_id sr = req_request_id request" "rr_payload sr = Signed raw"
    using from_pin_fields [OF p(2)] sr by simp_all
qed

text \<open>Every run of an agent is a history of its store.\<close>

lemma run_session:
  assumes "agent_run L C pin count_failed s" and "lengths_documented L"
  shows "sessions C (ag_store s) (ag_acked s) (ag_disk s)"
  using assms
proof (induction rule: agent_run.induct)
  case (signs s request auth chain v r a raw sr v' st' d')
  have "wf_record sr"
    using validated_wf(1) [OF signs.hyps(3) signs.prems signs.hyps(2)] signs.hyps(4)
    by (rule attach_signed_wf)
  with signs validated_commit(2,3) [OF signs.hyps(3-5)] show ?case
    by (auto intro: sessions.acknowledged)
next
  case (fails s request auth chain v r a raw sr e st' d')
  have "wf_record sr"
    using validated_wf(1) [OF fails.hyps(3) fails.prems fails.hyps(2)] fails.hyps(4)
    by (rule attach_signed_wf)
  with fails show ?case by (auto intro: sessions.refused)
qed (auto intro: sessions.created sessions.reopened)

lemma run_acknowledged:
  "agent_run L C pin count_failed s \<Longrightarrow> set (ag_acked s) \<subseteq> en_record ` set (ag_counted s)"
  by (induction rule: agent_run.induct) auto

lemma run_velocity:
  assumes "agent_run L C pin count_failed s"
  shows "velocity_history (pin_velocity_per_sig_sats pin) (pin_velocity_per_144_sats pin)
      (map en_sample (ag_counted s)) \<and>
    (\<forall>e\<in>set (ag_counted s). unat (sample_external_sats (en_sample e)) =
       (if en_verdict e = FeeBump then 0 else paid_by (en_record e)) \<and>
       paid_by (en_record e) \<le> unat (pin_velocity_per_sig_sats pin))"
    (is "?P (ag_counted s)")
proof -
  have step: "?P (hist @ [entry_of chain v a sr])"
    if "?P hist" "evaluate L pin request auth chain st (map en_sample hist) = Inr (ValidatedUnsigned v r a)"
      "attach_signed r raw = Inr sr" for hist request auth chain st v r a raw sr
  proof -
    note amount = validated_amount [OF that(2,3)]
    have "check_velocity_window_capped (map en_sample hist) (chain_tip_height chain)
        (if v = FeeBump then 0 else ab_external_sats a)
        (pin_velocity_per_sig_sats pin) (pin_velocity_per_144_sats pin) = Inr ()"
      using amount(2) by (auto simp: check_velocity_window_capped_cases within_velocity_def)
    with that(1) have "velocity_history (pin_velocity_per_sig_sats pin) (pin_velocity_per_144_sats pin)
        (map en_sample hist @ [sample_of chain v a])"
      unfolding sample_of_def by (intro velocity_history.sign) simp_all
    with that(1) amount(2,3) show ?thesis
      by (auto simp: sample_of_def within_velocity_def)
  qed
  from assms show ?thesis
  proof (induction rule: agent_run.induct)
    case (signs s request auth chain v r a raw sr v' st' d')
    with step [OF signs.IH signs.hyps(3,4)] show ?case by simp
  next
    case (fails s request auth chain v r a raw sr e st' d')
    with step [OF fails.IH fails.hyps(3,4)] show ?case by simp
  qed (simp_all add: velocity_history.empty)
qed

text \<open>An agent that counts failed commits too has counted every record of its log.\<close>

lemma run_log_counted:
  assumes "agent_run L C pin True s" and "lengths_documented L" and "codec_documented C"
  shows "set (records (ag_store s)) \<subseteq> en_record ` set (ag_counted s)"
  using assms(1)
proof (induction rule: agent_run.induct)
  case (created d0 st d)
  then show ?case using init_inv(1) [OF created.hyps(1) assms(3) created.hyps(2)] by simp
next
  case (signs s request auth chain v r a raw sr v' st' d')
  then show ?case using validated_commit(1) [OF signs.hyps(3-5)] by auto
next
  case (fails s request auth chain v r a raw sr e st' d')
  then show ?case using validated_commit(1) [OF fails.hyps(3-5)] by auto
next
  case (reopens s d' st' d'')
  obtain c where "records st' = take c (records (ag_store s))"
    using reopened_prefix [OF run_session [OF reopens.hyps(1) assms(2)] assms(3) reopens.hyps(2,3)]
    by blast
  with reopens.IH show ?case using set_take_subset by fastforce
qed simp

lemma run_released_counted:
  assumes "agent_run L C pin True s" and "lengths_documented L" and "codec_documented C"
  shows "\<forall>(id, raw)\<in>set (ag_released s). \<exists>e\<in>set (ag_counted s).
    rr_request_id (en_record e) = id \<and> rr_payload (en_record e) = Signed raw"
  using assms(1)
proof (induction rule: agent_run.induct)
  case (signs s request auth chain v r a raw sr v' st' d')
  with validated_amount(4,5) [OF signs.hyps(3,4)] show ?case by auto
next
  case (replies s request auth chain raw)
  from cached_reply_from_log [OF replies.hyps(2)] run_log_counted [OF replies.hyps(1) assms(2,3)]
  have "\<exists>e\<in>set (ag_counted s). rr_request_id (en_record e) = req_request_id request \<and>
      rr_payload (en_record e) = Signed raw" by blast
  with replies.IH show ?case by simp
qed auto

text \<open>
  C3: an agent that follows the protocol never authorises more than the policy allows. From the
  creation of its store on, over any requests, chain views with heights that never go down, disk
  failures, restarts and power losses: in every window of 144 heights the fresh payments it counted
  add up to at most 50,000,000 satoshis, none of them above 10,000,000; every acknowledged record
  is counted and in the log, and two that share a coin make the same payment, so a fee bump never
  adds one; and if failed commits are counted too, every signature it released, cached ones
  included, is that of a counted record.
\<close>

theorem agent_never_overspends:
  assumes "agent_run L C pin count_failed s" and "locked_pin pin"
    and "lengths_documented L" and "codec_documented C"
    and "sorted (map (\<lambda>e. unat (sample_tip_height (en_sample e))) (ag_counted s))"
  shows "(\<Sum>e\<leftarrow>filter (\<lambda>e. en_verdict e = Fresh \<and>
        unat (sample_tip_height (en_sample e)) \<le> w \<and>
        w < unat (sample_tip_height (en_sample e)) + 144) (ag_counted s). paid_by (en_record e))
      \<le> 50000000 \<and>
    (\<forall>e\<in>set (ag_counted s). paid_by (en_record e) \<le> 10000000) \<and>
    set (ag_acked s) \<subseteq> en_record ` set (ag_counted s) \<inter> set (records (ag_store s)) \<and>
    (\<forall>p\<in>set (ag_acked s). \<forall>q\<in>set (ag_acked s). p \<noteq> q \<and>
       set (rr_outpoints p) \<inter> set (rr_outpoints q) \<noteq> {} \<longrightarrow>
       external_of p = external_of q \<and> external_of p \<noteq> None \<and>
       set (rr_outpoints p) = set (rr_outpoints q)) \<and>
    (count_failed \<longrightarrow> (\<forall>(id, raw)\<in>set (ag_released s). \<exists>e\<in>set (ag_counted s).
       rr_request_id (en_record e) = id \<and> rr_payload (en_record e) = Signed raw))"
proof -
  let ?hist = "ag_counted s"
  from run_velocity [OF assms(1)] assms(2) have
    hist: "velocity_history 10000000 50000000 (map en_sample ?hist)" and
    entry: "\<And>e. e \<in> set ?hist \<Longrightarrow> unat (sample_external_sats (en_sample e)) =
      (if en_verdict e = FeeBump then 0 else paid_by (en_record e)) \<and> paid_by (en_record e) \<le> 10000000"
    by (auto simp: locked_pin_def policy_constants)
  from assms(5) have "sorted (map (\<lambda>s. unat (sample_tip_height s)) (map en_sample ?hist))"
    by (simp add: comp_def)
  from velocity_history_bound [OF hist this, of w]
  have "window_sum (map en_sample ?hist) w \<le> 50000000" by simp
  moreover have "(\<Sum>e\<leftarrow>filter (\<lambda>e. en_verdict e = Fresh \<and> in_window w (en_sample e)) es. paid_by (en_record e)) \<le>
      window_sum (map en_sample es) w" if "set es \<subseteq> set ?hist" for es
    using that
  proof (induction es)
    case (Cons e es)
    with entry [of e] show ?case by auto
  qed simp
  from this [of ?hist] have "(\<Sum>e\<leftarrow>filter (\<lambda>e. en_verdict e = Fresh \<and> in_window w (en_sample e)) ?hist.
      paid_by (en_record e)) \<le> window_sum (map en_sample ?hist) w" by simp
  ultimately have "(\<Sum>e\<leftarrow>filter (\<lambda>e. en_verdict e = Fresh \<and> in_window w (en_sample e)) ?hist. paid_by (en_record e))
      \<le> 50000000" by simp
  moreover have "log_inv (records (ag_store s))" "set (ag_acked s) \<subseteq> set (records (ag_store s))"
    using sessions_inv [OF run_session [OF assms(1,3)] assms(4)] set_take_subset by fastforce+
  moreover have "external_of p = external_of q \<and> external_of p \<noteq> None \<and>
      set (rr_outpoints p) = set (rr_outpoints q)"
    if "p \<in> set (ag_acked s)" "q \<in> set (ag_acked s)" "p \<noteq> q"
      "set (rr_outpoints p) \<inter> set (rr_outpoints q) \<noteq> {}" for p q
    using that calculation log_inv_same_external [of "records (ag_store s)" p q]
    by (auto simp: outpoints_overlap_def)
  moreover have "count_failed \<Longrightarrow> \<forall>(id, raw)\<in>set (ag_released s). \<exists>e\<in>set ?hist.
       rr_request_id (en_record e) = id \<and> rr_payload (en_record e) = Signed raw"
    using run_released_counted [of L C pin s] assms(1,3,4) by simp
  ultimately show ?thesis
    using entry run_acknowledged [OF assms(1)] unfolding in_window_def by blast
qed


section \<open>One signature\<close>

definition hashed_signed :: replay_record where
  "hashed_signed = hashed_record\<lparr>rr_payload := Signed [5]\<rparr>"

definition agent_start :: "nat option \<Rightarrow> agent_state" where
  "agent_start failing =
     \<lparr>ag_store = \<lparr>records = []\<rparr>, ag_disk = demo_opened failing, ag_counted = [], ag_acked = [],
      ag_released = []\<rparr>"

lemma agent_started:
  "failing = None \<or> failing = Some 19 \<Longrightarrow>
   agent_run hashed_lib demo_codec spend_pin cf (agent_start failing)"
  unfolding agent_start_def using demo_blank demo_init by (rule agent_run.created)

lemma agent_request:
  "length (req_request_id spend_request) = 16" "attach_signed hashed_record [5] = Inr hashed_signed"
  "evaluate hashed_lib spend_pin spend_request \<lparr>auth_ok = True\<rparr> spend_chain
     (ag_store (agent_start failing)) (map en_sample (ag_counted (agent_start failing))) =
     Inr (ValidatedUnsigned Fresh hashed_record spend_amounts)"
  using hashed_validated
  by (simp_all add: agent_start_def attach_signed_def hashed_signed_def spend_request_def)

lemma agent_commit:
  "\<exists>d. commit demo_codec (ag_store (agent_start None)) hashed_signed (ag_disk (agent_start None)) =
     (Inr Fresh, \<lparr>records = [hashed_signed]\<rparr>, d)"
  "\<exists>st d. commit demo_codec (ag_store (agent_start (Some 19))) hashed_signed
     (ag_disk (agent_start (Some 19))) = (Inl io_err, st, d)"
  by (simp_all add: agent_start_def commit_def preflight_def push_and_persist_def
      require_signed_payload_def hashed_signed_def demo_opened_def demo_run_defs)

theorem agent_never_overspends_witness:
  "\<exists>s. agent_run hashed_lib demo_codec spend_pin True s \<and> paid_by hashed_signed = 6000000 \<and>
     ag_released s = [(replicate 16 9, [5])] \<and>
     (\<exists>e\<in>set (ag_counted s). rr_request_id (en_record e) = replicate 16 9 \<and>
        rr_payload (en_record e) = Signed [5]) \<and>
     (\<Sum>e\<leftarrow>filter (\<lambda>e. en_verdict e = Fresh \<and> unat (sample_tip_height (en_sample e)) \<le> 10000 \<and>
        10000 < unat (sample_tip_height (en_sample e)) + 144) (ag_counted s). paid_by (en_record e))
       \<le> 50000000"
proof -
  from agent_commit(1) obtain d where
    d: "commit demo_codec (ag_store (agent_start None)) hashed_signed (ag_disk (agent_start None)) =
      (Inr Fresh, \<lparr>records = [hashed_signed]\<rparr>, d)" by blast
  let ?s = "(agent_start None)\<lparr>ag_store := \<lparr>records = [hashed_signed]\<rparr>, ag_disk := d,
      ag_counted := [entry_of spend_chain Fresh spend_amounts hashed_signed],
      ag_acked := [hashed_signed], ag_released := [(replicate 16 9, [5])]\<rparr>"
  have run: "agent_run hashed_lib demo_codec spend_pin True ?s"
    using agent_run.signs [OF agent_started agent_request(1,3,2) d]
    by (simp add: agent_start_def spend_request_def)
  have "paid_by hashed_signed = 6000000"
    using validated_amount(3) [OF hashed_validated agent_request(2)] by (simp add: spend_amounts_def)
  moreover note agent_never_overspends [OF run spend_pin_locked hashed_lengths
      demo_codec_documented, of 10000]
  ultimately show ?thesis using run by (intro exI [of _ ?s]) simp
qed


end
