(* ===== verification/Vault_Errors.thy ===== *)
theory Vault_Errors
  imports Bitcoin_Types
begin

text \<open>
  The error type of the CLI crate (\<open>src/error.rs\<close>) and the functions of the \<open>bitcoin\<close>, \<open>secp256k1\<close>,
  \<open>miniscript\<close> and \<open>hex\<close> crates that only this crate uses, as one record of parameters. An error is
  its constructor with the reason of the message; the values in a reason are those the message
  prints.
\<close>

text \<open>The messages of \<open>descriptor.rs\<close>.\<close>

datatype descriptor_reason =
    MainnetDisabled | NetworkNotEnabled network | CsvOutOfRange | InvalidPolicy
  | PolicyCompileFailed | WshWrapperFailed | SanityCheckFailed | AddressDerivationFailed
  | StoredDescriptorUnparsable | InvalidNetwork string | BadPrimaryPubkey | BadOverridePubkey
  | BadAgentPubkey | DescriptorNotCanonical | AddressNotCanonical
  | VaultNetworkMismatch network network

text \<open>The messages of \<open>spend.rs\<close>: of the builder and coin selection, of the validator, of the broadcast.\<close>

datatype build_reason =
    AmountZero | FeeAboveCap u64 | FeeAboveAmount | TargetOverflow | InvalidDestination
  | DestinationNetworkMismatch | DestinationDust u64 u64 | InputTotalOverflow
  | InsufficientFunds u64 u64 | InputBelowTarget | ChangeDust u64 u64 | WitnessScriptFailed
  | SighashFailed | NonEmptyScriptSig | CouldNotSatisfy | FeeRateOverflow | FeeRateAboveCap u64
  | AvailableOverflow | TooManyInputs | InsufficientMature u64 u64

datatype check_reason =
    RequestViolatesLimits | MetadataMismatch | InvalidTxHex | TxDecodeFailed | TxidMismatch
  | NoInputs | InputCountExceeded | VersionOrLocktime | VsizeOverflow | FeeRateExceeded
  | DuplicateInput | UnknownInput | InputNotVault | InputNotSpendable | SequenceMismatch
  | MissingWitness | InputSumOverflow | BadDestination | WrongDestinationNetwork
  | DestinationIsDust | UnexpectedOutputs | DestinationMismatch | ChangeMismatch
  | OutputSumOverflow | OutputsExceedInputs | FeeMismatch u64 u64 | AmountFeeOverflow
  | InputsBelowTarget | ReportedChangeMismatch

datatype broadcast_reason =
    MempoolResultCount nat | MempoolResultMissing | MempoolTxidMismatch
  | MempoolRejected "string option"

datatype spend_reason =
    Building build_reason | Checking check_reason | Broadcasting broadcast_reason

text \<open>The messages of \<open>config.rs\<close> and of the configuration checks of \<open>rpc.rs\<close>.\<close>

datatype config_reason =
    NetworkUnknown string | NetworkMainnet | NetworkDisabled network | NotLoopbackUrl
  | BadWalletName | RpcUserWithoutPassword | CsvBlocksZero | CsvBlocksTooLarge | EmptyStatePath
  | EmptyKeysDir | ExampleMainnet | ConnectionDisabled | AuthRequired | ConfigNotRegular
  | ConfigAccessible | InvalidToml

text \<open>The messages of \<open>wallet.rs\<close> and \<open>rpc.rs\<close>.\<close>

datatype wallet_reason =
    StateNotRegular | StateAccessible | UnsupportedStateVersion u32 | StateSymlink
  | BalanceOverflow | ConnectFailed | CoreNetworkMismatch network network | WalletConnectFailed
  | UnexpectedImportResponse | ImportFailed nat

text \<open>The messages of \<open>keys.rs\<close>.\<close>

datatype key_reason =
    InvalidWif | KeyReadSymlink | KeyAccessible | KeyWriteSymlink | KeyExists | KeyDirPermissive
  | InvalidPubkey string | KeygenDisabled network | KeySetExists

datatype error =
    ConfigError config_reason | KeyError key_reason | DescriptorError descriptor_reason
  | WalletError wallet_reason | SpendError spend_reason | RpcError string | BitcoinError
  | IoError | JsonError

type_synonym 'a vault_result = "error + 'a"

abbreviation config_err :: "config_reason \<Rightarrow> 'a vault_result" where
  "config_err r \<equiv> Inl (ConfigError r)"

abbreviation key_err :: "key_reason \<Rightarrow> 'a vault_result" where
  "key_err r \<equiv> Inl (KeyError r)"

abbreviation descriptor_err :: "descriptor_reason \<Rightarrow> 'a vault_result" where
  "descriptor_err r \<equiv> Inl (DescriptorError r)"

abbreviation wallet_err :: "wallet_reason \<Rightarrow> 'a vault_result" where
  "wallet_err r \<equiv> Inl (WalletError r)"

abbreviation build_err :: "build_reason \<Rightarrow> 'a vault_result" where
  "build_err r \<equiv> Inl (SpendError (Building r))"

abbreviation check_err :: "check_reason \<Rightarrow> 'a vault_result" where
  "check_err r \<equiv> Inl (SpendError (Checking r))"

abbreviation broadcast_err :: "broadcast_reason \<Rightarrow> 'a vault_result" where
  "broadcast_err r \<equiv> Inl (SpendError (Broadcasting r))"

text \<open>The \<open>?\<close> operator on a reply of the RPC client (\<open>#[from]\<close>).\<close>

definition rpc_result :: "string + 'a \<Rightarrow> 'a vault_result" where
  "rpc_result reply = (case reply of Inl e \<Rightarrow> Inl (RpcError e) | Inr x \<Rightarrow> Inr x)"

lemma rpc_result_Inr_iff [res_simps]: "rpc_result reply = Inr x \<longleftrightarrow> reply = Inr x"
  by (cases reply) (auto simp: rpc_result_def)

lemma rpc_result_Inl_iff [res_simps]:
  "rpc_result reply = Inl e \<longleftrightarrow> (\<exists>msg. reply = Inl msg \<and> e = RpcError msg)"
  by (cases reply) (auto simp: rpc_result_def)

section \<open>Functions of the crates\<close>

text \<open>
  \<open>'desc\<close> is a parsed descriptor, \<open>'addr\<close> an address. \<open>desc_satisfaction\<close> is \<open>get_satisfaction\<close>
  with a satisfier given by its signature lookup and its answer to every relative lock time.
\<close>

record ('desc, 'addr) vault_lib =
  network_from_str :: "string \<Rightarrow> network option"
  network_to_string :: "network \<Rightarrow> string"
  public_key_from_str :: "string \<Rightarrow> public_key option"
  descriptor_from_str :: "string \<Rightarrow> 'desc option"
  descriptor_address :: "'desc \<Rightarrow> network \<Rightarrow> 'addr option"
  address_to_string :: "'addr \<Rightarrow> string"
  address_from_str :: "string \<Rightarrow> 'addr option"
  address_require_network :: "'addr \<Rightarrow> network \<Rightarrow> 'addr option"
  address_script_pubkey :: "'addr \<Rightarrow> script"
  desc_satisfaction ::
    "'desc \<Rightarrow> (public_key \<Rightarrow> ecdsa_signature option) \<Rightarrow> bool \<Rightarrow> (bytes list \<times> script) option"
  p2wsh_sighash :: "transaction \<Rightarrow> nat \<Rightarrow> script \<Rightarrow> u64 \<Rightarrow> ecdsa_sighash_type \<Rightarrow> bytes option"
  sign_ecdsa :: "bytes \<Rightarrow> bytes \<Rightarrow> bytes"
  public_of_private :: "bytes \<Rightarrow> public_key"
  tx_vsize :: "transaction \<Rightarrow> nat"
  tx_serialize :: "transaction \<Rightarrow> bytes"
  tx_deserialize :: "bytes \<Rightarrow> transaction option"
  bytes_to_hex :: "bytes \<Rightarrow> string"
  hex_to_bytes :: "string \<Rightarrow> bytes option"
  txid_to_string :: "bytes \<Rightarrow> string"

end
