(* ===== verification/Descriptor.thy ===== *)
theory Descriptor
  imports Vault_Errors Pin
begin

text \<open>
  The vault descriptor of the CLI (\<open>src/descriptor.rs\<close>): construction, validation of a stored
  vault against its canonical form, network check and receive address. The theorems relate it to
  the policy crate's \<open>provision\<close>, which compiles the same policy on its own.
\<close>

section \<open>The code\<close>

record vault_descriptor =
  vd_descriptor :: string
  vd_csv_blocks :: u32
  vd_network :: string
  vd_primary_pubkey :: string
  vd_override_pubkey :: string
  vd_agent_pubkey :: string
  vd_receive_address :: string

definition build ::
    "('pol, 'ms, 'desc) miniscript_lib \<Rightarrow> ('desc, 'addr) vault_lib \<Rightarrow>
     public_key \<Rightarrow> public_key \<Rightarrow> public_key \<Rightarrow> u32 \<Rightarrow> network \<Rightarrow> vault_descriptor vault_result" where
  "build M V primary override_key agent csv_blocks network =
     (if network = Bitcoin then descriptor_err MainnetDisabled
      else if network \<notin> {Regtest, Testnet, Signet} then descriptor_err (NetworkNotEnabled network)
      else if csv_blocks = 0 \<or> 65535 < csv_blocks then descriptor_err CsvOutOfRange
      else
        let policy_str =
              ''thresh(2,pk('' @ public_key_to_string M primary @ ''),pk('' @
              public_key_to_string M override_key @ ''),and(pk('' @ public_key_to_string M agent @
              ''),older('' @ show_nat (unat csv_blocks) @ '')))''
        in rbind (ok_or (DescriptorError InvalidPolicy) (policy_from_str M policy_str)) (\<lambda>policy.
           rbind (ok_or (DescriptorError PolicyCompileFailed) (policy_compile M policy)) (\<lambda>ms.
           rbind (ok_or (DescriptorError WshWrapperFailed) (descriptor_new_wsh M ms)) (\<lambda>desc.
           if \<not> descriptor_sanity_check M desc then descriptor_err SanityCheckFailed
           else rbind (ok_or (DescriptorError AddressDerivationFailed)
                         (descriptor_address V desc network)) (\<lambda>address.
           Inr \<lparr>vd_descriptor = descriptor_to_string M desc,
                vd_csv_blocks = csv_blocks,
                vd_network = network_to_string V network,
                vd_primary_pubkey = public_key_to_string M primary,
                vd_override_pubkey = public_key_to_string M override_key,
                vd_agent_pubkey = public_key_to_string M agent,
                vd_receive_address = address_to_string V address\<rparr>)))))"

definition parsed :: "('desc, 'addr) vault_lib \<Rightarrow> vault_descriptor \<Rightarrow> 'desc vault_result" where
  "parsed V self =
     ok_or (DescriptorError StoredDescriptorUnparsable) (descriptor_from_str V (vd_descriptor self))"

definition pubkeys ::
    "('desc, 'addr) vault_lib \<Rightarrow> vault_descriptor \<Rightarrow>
     (public_key \<times> public_key \<times> public_key) vault_result" where
  "pubkeys V self =
     rbind (ok_or (DescriptorError BadPrimaryPubkey)
              (public_key_from_str V (vd_primary_pubkey self))) (\<lambda>primary.
     rbind (ok_or (DescriptorError BadOverridePubkey)
              (public_key_from_str V (vd_override_pubkey self))) (\<lambda>override_key.
     rbind (ok_or (DescriptorError BadAgentPubkey)
              (public_key_from_str V (vd_agent_pubkey self))) (\<lambda>agent.
     Inr (primary, override_key, agent))))"

definition stored_network ::
    "('desc, 'addr) vault_lib \<Rightarrow> vault_descriptor \<Rightarrow> network vault_result" where
  "stored_network V self =
     ok_or (DescriptorError (InvalidNetwork (vd_network self))) (network_from_str V (vd_network self))"

definition validate ::
    "('pol, 'ms, 'desc) miniscript_lib \<Rightarrow> ('desc, 'addr) vault_lib \<Rightarrow> vault_descriptor \<Rightarrow>
     unit vault_result" where
  "validate M V self =
     rbind (parsed V self) (\<lambda>desc.
     if \<not> descriptor_sanity_check M desc then descriptor_err SanityCheckFailed
     else rbind (stored_network V self) (\<lambda>network.
          rbind (pubkeys V self) (\<lambda>(primary, override_key, agent).
          rbind (build M V primary override_key agent (vd_csv_blocks self) network) (\<lambda>canonical.
          if vd_descriptor canonical \<noteq> vd_descriptor self then descriptor_err DescriptorNotCanonical
          else if vd_receive_address canonical \<noteq> vd_receive_address self
          then descriptor_err AddressNotCanonical
          else Inr ()))))"

definition require_network ::
    "('pol, 'ms, 'desc) miniscript_lib \<Rightarrow> ('desc, 'addr) vault_lib \<Rightarrow> vault_descriptor \<Rightarrow> network \<Rightarrow>
     unit vault_result" where
  "require_network M V self expected =
     rbind (validate M V self) (\<lambda>_.
     rbind (stored_network V self) (\<lambda>actual.
     if actual \<noteq> expected then descriptor_err (VaultNetworkMismatch actual expected) else Inr ()))"

definition address ::
    "('pol, 'ms, 'desc) miniscript_lib \<Rightarrow> ('desc, 'addr) vault_lib \<Rightarrow> vault_descriptor \<Rightarrow>
     'addr vault_result" where
  "address M V self =
     rbind (validate M V self) (\<lambda>_.
     rbind (stored_network V self) (\<lambda>network.
     rbind (parsed V self) (\<lambda>desc.
     ok_or (DescriptorError AddressDerivationFailed) (descriptor_address V desc network))))"

section \<open>Construction and the policy crate\<close>

lemma build_Inr_iff:
  "build M V p ov a csv net = Inr v \<longleftrightarrow>
     net \<in> {Regtest, Testnet, Signet} \<and> 1 \<le> unat csv \<and> unat csv \<le> 65535 \<and>
     (\<exists>d addr. compile_vault_descriptor M p ov a csv = Inr d \<and>
        descriptor_address V d net = Some addr \<and>
        v = \<lparr>vd_descriptor = descriptor_to_string M d, vd_csv_blocks = csv,
             vd_network = network_to_string V net, vd_primary_pubkey = public_key_to_string M p,
             vd_override_pubkey = public_key_to_string M ov,
             vd_agent_pubkey = public_key_to_string M a,
             vd_receive_address = address_to_string V addr\<rparr>)"
  using csv_in_range_iff [of csv]
  by (auto simp: build_def compile_vault_descriptor_Inr_iff vault_policy_str_def Let_def
      if_Inl_eq_Inr rbind_Inr_iff ok_or_Inr_iff)

text \<open>
  C36: two implementations, one vault. For any keys, CSV and network, \<open>build\<close> of the CLI and
  \<open>provision\<close> of the policy crate refuse alike, up to the derivation of the address and of the
  witness script, and when both succeed the descriptor strings are equal.
\<close>

theorem build_agrees_with_provision:
  "(case (build M V p ov a csv net, provision L M net p ov a csv) of
      (Inr vault, Inr pin) \<Rightarrow> vd_descriptor vault = pin_descriptor pin \<and>
          vd_csv_blocks vault = pin_csv_blocks pin
    | (Inr vault, Inl _) \<Rightarrow>
        \<exists>d. compile_vault_descriptor M p ov a csv = Inr d \<and> descriptor_explicit_script M d = None
    | (Inl e, Inr pin) \<Rightarrow>
        e = DescriptorError AddressDerivationFailed \<and>
        (\<exists>d. compile_vault_descriptor M p ov a csv = Inr d \<and> descriptor_address V d net = None)
    | (Inl _, Inl _) \<Rightarrow> True)"
proof -
  have prov: "provision L M net p ov a csv = Inr pin \<longleftrightarrow>
      net \<in> {Regtest, Testnet, Signet} \<and> 1 \<le> unat csv \<and> unat csv \<le> 65535 \<and>
      (\<exists>d ws. compile_vault_descriptor M p ov a csv = Inr d \<and>
         descriptor_explicit_script M d = Some ws \<and>
         provision L M net p ov a csv = Inr pin \<and>
         pin_descriptor pin = descriptor_to_string M d \<and> pin_csv_blocks pin = csv)" for pin
    using csv_in_range_iff [of csv]
    by (auto simp: provision_def if_Inl_eq_Inr rbind_Inr_iff ok_or_Inr_iff)
  have prov_ok: "\<exists>pin. provision L M net p ov a csv = Inr pin"
    if "net \<in> {Regtest, Testnet, Signet}" "1 \<le> unat csv" "unat csv \<le> 65535"
      "compile_vault_descriptor M p ov a csv = Inr d" "descriptor_explicit_script M d = Some ws" for d ws
    using that csv_in_range_iff [of csv] by (auto simp: provision_def)
  show ?thesis
  proof (cases "build M V p ov a csv net"; cases "provision L M net p ov a csv")
    fix e pin
    assume b: "build M V p ov a csv net = Inl e" and pr: "provision L M net p ov a csv = Inr pin"
    from pr prov [of pin] obtain d where d: "compile_vault_descriptor M p ov a csv = Inr d"
      "net \<in> {Regtest, Testnet, Signet}" "1 \<le> unat csv" "unat csv \<le> 65535" by auto
    then have addr: "descriptor_address V d net = None"
      using b build_Inr_iff [of M V p ov a csv net] by (cases "descriptor_address V d net") auto
    have "e = DescriptorError AddressDerivationFailed"
      using b d addr csv_in_range_iff [of csv]
      by (auto simp: build_def compile_vault_descriptor_Inr_iff vault_policy_str_def Let_def)
    with b pr d addr show ?thesis by auto
  next
    fix vault e
    assume b: "build M V p ov a csv net = Inr vault" and pr: "provision L M net p ov a csv = Inl e"
    from b obtain d where d: "compile_vault_descriptor M p ov a csv = Inr d"
      "net \<in> {Regtest, Testnet, Signet}" "1 \<le> unat csv" "unat csv \<le> 65535"
      by (auto simp: build_Inr_iff)
    with prov_ok [OF d(2-4) d(1)] pr have "descriptor_explicit_script M d = None"
      by (cases "descriptor_explicit_script M d") auto
    with b pr d show ?thesis by auto
  next
    fix vault pin
    assume b: "build M V p ov a csv net = Inr vault" and pr: "provision L M net p ov a csv = Inr pin"
    from prov [of pin] pr b have "vd_descriptor vault = pin_descriptor pin"
      "vd_csv_blocks vault = pin_csv_blocks pin" by (auto simp: build_Inr_iff)
    with b pr show ?thesis by simp
  qed auto
qed

section \<open>Validation of a stored vault\<close>

text \<open>The documented behaviour of the text codecs: what is printed parses back.\<close>

definition vault_documented ::
    "('pol, 'ms, 'desc) miniscript_lib \<Rightarrow> ('desc, 'addr) vault_lib \<Rightarrow> bool" where
  "vault_documented M V \<longleftrightarrow>
     (\<forall>d. descriptor_from_str V (descriptor_to_string M d) = Some d) \<and>
     (\<forall>net. network_from_str V (network_to_string V net) = Some net) \<and>
     (\<forall>pk. public_key_from_str V (public_key_to_string M pk) = Some pk)"

lemma pubkeys_Inr_iff:
  "pubkeys V v = Inr (p, ov, a) \<longleftrightarrow>
     public_key_from_str V (vd_primary_pubkey v) = Some p \<and>
     public_key_from_str V (vd_override_pubkey v) = Some ov \<and>
     public_key_from_str V (vd_agent_pubkey v) = Some a"
  by (auto simp: pubkeys_def res_simps)

lemma validate_Inr_iff:
  "validate M V v = Inr () \<longleftrightarrow>
     (\<exists>desc net p ov a c. descriptor_from_str V (vd_descriptor v) = Some desc \<and>
        descriptor_sanity_check M desc \<and> network_from_str V (vd_network v) = Some net \<and>
        pubkeys V v = Inr (p, ov, a) \<and> build M V p ov a (vd_csv_blocks v) net = Inr c \<and>
        vd_descriptor c = vd_descriptor v \<and> vd_receive_address c = vd_receive_address v)"
  by (auto simp: validate_def parsed_def stored_network_def if_Inl_eq_Inr rbind_Inr_iff ok_or_Inr_iff
      split: prod.splits)

lemma built_parts:
  assumes "vault_documented M V" and "build M V p ov a csv net = Inr v"
  obtains d addr where "descriptor_from_str V (vd_descriptor v) = Some d"
    "descriptor_sanity_check M d" "network_from_str V (vd_network v) = Some net"
    "pubkeys V v = Inr (p, ov, a)" "vd_csv_blocks v = csv"
    "descriptor_address V d net = Some addr" "vd_receive_address v = address_to_string V addr"
    "compile_vault_descriptor M p ov a csv = Inr d"
  using assms
  by (auto simp: build_Inr_iff vault_documented_def pubkeys_Inr_iff compile_vault_descriptor_Inr_iff)

lemma built_validates:
  assumes "vault_documented M V" and "build M V p ov a csv net = Inr v"
  shows "validate M V v = Inr ()"
  using assms(1,2) by (rule built_parts) (use assms(2) in \<open>auto simp: validate_Inr_iff\<close>)

lemma built_require_network:
  assumes "vault_documented M V" and "build M V p ov a csv net = Inr v"
  shows "require_network M V v net = Inr ()"
  using assms
  by (rule built_parts) (simp add: built_validates [OF assms] require_network_def stored_network_def)

text \<open>
  C34: what \<open>build\<close> makes, the loader accepts. With codecs that parse what they print, a built vault
  validates, belongs to the network it was built for and to no other, and derives the very receive
  address it stores.
\<close>

theorem built_vault_round_trip:
  assumes "vault_documented M V" and "build M V p ov a csv net = Inr v"
  shows "validate M V v = Inr () \<and>
    require_network M V v net' =
      (if net' = net then Inr () else descriptor_err (VaultNetworkMismatch net net')) \<and>
    (\<exists>addr. address M V v = Inr addr \<and> address_to_string V addr = vd_receive_address v)"
proof -
  note ok = built_validates [OF assms]
  from assms show ?thesis
    by (rule built_parts)
      (auto simp: ok require_network_def address_def stored_network_def parsed_def)
qed

text \<open>
  C35: a tampered vault file is refused. Whatever the file says, a vault that validates has a
  research network, a CSV in \<open>1..=65535\<close>, and exactly the descriptor and address that its three
  keys and its CSV compile to.
\<close>

theorem validated_vault_is_canonical:
  assumes "validate M V v = Inr ()"
  shows "\<exists>p ov a net d addr. pubkeys V v = Inr (p, ov, a) \<and>
    network_from_str V (vd_network v) = Some net \<and> net \<in> {Regtest, Testnet, Signet} \<and>
    1 \<le> unat (vd_csv_blocks v) \<and> unat (vd_csv_blocks v) \<le> 65535 \<and>
    compile_vault_descriptor M p ov a (vd_csv_blocks v) = Inr d \<and>
    vd_descriptor v = descriptor_to_string M d \<and>
    descriptor_address V d net = Some addr \<and> vd_receive_address v = address_to_string V addr"
  using assms by (auto simp: validate_Inr_iff build_Inr_iff)

lemma address_Inr:
  assumes "address M V v = Inr addr"
  shows "validate M V v = Inr ()"
    "\<exists>net desc. network_from_str V (vd_network v) = Some net \<and>
       descriptor_from_str V (vd_descriptor v) = Some desc \<and>
       descriptor_address V desc net = Some addr"
  using assms by (auto simp: address_def stored_network_def parsed_def rbind_Inr_iff ok_or_Inr_iff)

lemma require_network_Inr_iff:
  "require_network M V v net = Inr () \<longleftrightarrow>
     validate M V v = Inr () \<and> network_from_str V (vd_network v) = Some net"
  by (auto simp: require_network_def stored_network_def rbind_Inr_iff ok_or_Inr_iff if_Inl_eq_Inr)

lemma validate_csv:
  "validate M V v = Inr () \<Longrightarrow> 1 \<le> unat (vd_csv_blocks v) \<and> unat (vd_csv_blocks v) \<le> 65535"
  by (auto simp: validate_Inr_iff build_Inr_iff)

section \<open>A concrete vault\<close>

text \<open>Text codecs with the documented behaviour, and a compiler whose descriptor is its policy.\<close>

definition toy_net_to_string :: "network \<Rightarrow> string" where
  "toy_net_to_string net =
     (case net of Bitcoin \<Rightarrow> ''bitcoin'' | Testnet \<Rightarrow> ''testnet'' | Testnet4 \<Rightarrow> ''testnet4''
      | Signet \<Rightarrow> ''signet'' | Regtest \<Rightarrow> ''regtest'')"

definition toy_net_from_str :: "string \<Rightarrow> network option" where
  "toy_net_from_str s =
     find (\<lambda>net. toy_net_to_string net = s) [Bitcoin, Testnet, Testnet4, Signet, Regtest]"

definition toy_pk_to_string :: "public_key \<Rightarrow> string" where
  "toy_pk_to_string pk =
     (if pk_compressed pk then CHR ''C'' else CHR ''U'') # map (\<lambda>b. char_of (unat b)) (pk_inner pk)"

definition toy_pk_from_str :: "string \<Rightarrow> public_key option" where
  "toy_pk_from_str s =
     (case s of [] \<Rightarrow> None
      | c # cs \<Rightarrow> Some \<lparr>pk_compressed = (c = CHR ''C''),
                      pk_inner = map (\<lambda>c. of_nat (of_char c)) cs\<rparr>)"

definition toy_miniscript :: "(string, string, string) miniscript_lib" where
  "toy_miniscript =
     \<lparr>policy_from_str = Some, policy_compile = Some, descriptor_new_wsh = Some,
      descriptor_sanity_check = (\<lambda>_. True), descriptor_script_pubkey = (\<lambda>_. [82]),
      descriptor_explicit_script = (\<lambda>_. Some [83]), descriptor_to_string = (\<lambda>d. d),
      public_key_to_string = toy_pk_to_string\<rparr>"

text \<open>An address is its script; the vault's address is the script 82 on every network.\<close>

definition toy_vault_lib :: "(string, bytes) vault_lib" where
  "toy_vault_lib =
     \<lparr>network_from_str = toy_net_from_str, network_to_string = toy_net_to_string,
      public_key_from_str = toy_pk_from_str, descriptor_from_str = Some,
      descriptor_address = (\<lambda>_ _. Some [82]),
      address_to_string = map (\<lambda>b. char_of (unat b)),
      address_from_str = (\<lambda>s. Some (map (\<lambda>c. of_nat (of_char c)) s)),
      address_require_network = (\<lambda>a _. Some a), address_script_pubkey = (\<lambda>a. a),
      desc_satisfaction = (\<lambda>_ sigs older. if sigs \<lparr>pk_compressed = True, pk_inner = [1]\<rparr> = None
         then None else Some ([[1]], [])),
      p2wsh_sighash = (\<lambda>_ _ _ _ _. Some []), sign_ecdsa = (\<lambda>m k. k),
      public_of_private = (\<lambda>k. \<lparr>pk_compressed = True, pk_inner = k\<rparr>), tx_vsize = (\<lambda>_. 200),
      tx_serialize = (\<lambda>_. []), tx_deserialize = (\<lambda>_. None),
      bytes_to_hex = map (\<lambda>b. char_of (unat b)),
      hex_to_bytes = (\<lambda>s. Some (map (\<lambda>c. of_nat (of_char c)) s)),
      txid_to_string = map (\<lambda>b. char_of (unat b))\<rparr>"

lemma toy_documented: "vault_documented toy_miniscript toy_vault_lib"
proof -
  have "toy_net_from_str (toy_net_to_string net) = Some net" for net
    by (cases net) (simp_all add: toy_net_from_str_def toy_net_to_string_def)
  moreover have "toy_pk_from_str (toy_pk_to_string pk) = Some pk" for pk
    by (cases pk) (simp add: toy_pk_from_str_def toy_pk_to_string_def comp_def)
  ultimately show ?thesis
    by (simp add: vault_documented_def toy_miniscript_def toy_vault_lib_def)
qed

definition toy_key :: "u8 \<Rightarrow> public_key" where
  "toy_key n = \<lparr>pk_compressed = True, pk_inner = [n]\<rparr>"

definition toy_vault :: vault_descriptor where
  "toy_vault =
     \<lparr>vd_descriptor = vault_policy_str toy_miniscript (toy_key 1) (toy_key 2) (toy_key 3) 10,
      vd_csv_blocks = 10, vd_network = ''regtest'', vd_primary_pubkey = toy_pk_to_string (toy_key 1),
      vd_override_pubkey = toy_pk_to_string (toy_key 2),
      vd_agent_pubkey = toy_pk_to_string (toy_key 3), vd_receive_address = [char_of (82 :: nat)]\<rparr>"

lemma toy_built:
  "build toy_miniscript toy_vault_lib (toy_key 1) (toy_key 2) (toy_key 3) 10 Regtest = Inr toy_vault"
  by (simp add: build_Inr_iff compile_vault_descriptor_Inr_iff toy_vault_def)
    (simp add: toy_miniscript_def toy_vault_lib_def toy_net_to_string_def)

theorem built_vault_round_trip_witness:
  "validate toy_miniscript toy_vault_lib toy_vault = Inr () \<and>
   require_network toy_miniscript toy_vault_lib toy_vault Signet =
     descriptor_err (VaultNetworkMismatch Regtest Signet)"
  using built_vault_round_trip [OF toy_documented toy_built, of Signet] by simp

theorem validated_vault_is_canonical_witness:
  "\<exists>p ov a d. pubkeys toy_vault_lib toy_vault = Inr (p, ov, a) \<and>
     compile_vault_descriptor toy_miniscript p ov a 10 = Inr d \<and>
     vd_descriptor toy_vault = descriptor_to_string toy_miniscript d"
  using validated_vault_is_canonical [OF built_validates [OF toy_documented toy_built]]
  by (auto simp: toy_vault_def)

end
