(* ===== verification/Wallet.thy ===== *)
theory Wallet
  imports Descriptor
begin

text \<open>
  The watch-only wallet (\<open>src/wallet.rs\<close>): vault coins with their spendability on either path, as
  \<open>listunspent\<close> of Bitcoin Core reports them, and the balance. The RPC client is a parameter; the
  vault state file is in \<open>State_Files\<close>.
\<close>

section \<open>The code\<close>

record vault_state =
  vs_version :: u32
  vs_vault :: vault_descriptor
  vs_notes :: "string option"

definition new_state :: "vault_descriptor \<Rightarrow> vault_state" where
  "new_state vault =
     \<lparr>vs_version = 1, vs_vault = vault,
      vs_notes = Some ''Back up this file and your key WIFs. The descriptor alone cannot spend funds.''\<rparr>"

record vault_utxo =
  vu_outpoint :: out_point
  vu_txout :: tx_out
  vu_confirmations :: u32
  vu_spendable_primary :: bool
  vu_spendable_recovery :: bool

text \<open>An entry of the \<open>listunspent\<close> reply, as far as it is read.\<close>

record unspent_entry =
  ue_txid :: bytes
  ue_vout :: u32
  ue_amount :: u64
  ue_confirmations :: u32

type_synonym 'addr list_unspent_rpc = "'addr \<Rightarrow> string + unspent_entry list"

definition list_utxos ::
    "('pol, 'ms, 'desc) miniscript_lib \<Rightarrow> ('desc, 'addr) vault_lib \<Rightarrow> 'addr list_unspent_rpc \<Rightarrow>
     vault_state \<Rightarrow> vault_utxo list vault_result" where
  "list_utxos M V list_unspent state =
     rbind (address M V (vs_vault state)) (\<lambda>addr.
     rbind (rpc_result (list_unspent addr)) (\<lambda>unspent.
     let csv = vd_csv_blocks (vs_vault state)
     in Inr (map (\<lambda>u.
          \<lparr>vu_outpoint = \<lparr>op_txid = ue_txid u, op_vout = ue_vout u\<rparr>,
           vu_txout = \<lparr>txo_value = ue_amount u,
                       txo_script_pubkey = address_script_pubkey V addr\<rparr>,
           vu_confirmations = ue_confirmations u,
           vu_spendable_primary = True,
           vu_spendable_recovery = csv \<le> ue_confirmations u\<rparr>) unspent)))"

abbreviation utxo_sats :: "vault_utxo \<Rightarrow> u64" where
  "utxo_sats u \<equiv> txo_value (vu_txout u)"

definition balance_sats ::
    "('pol, 'ms, 'desc) miniscript_lib \<Rightarrow> ('desc, 'addr) vault_lib \<Rightarrow> 'addr list_unspent_rpc \<Rightarrow>
     vault_state \<Rightarrow> u64 vault_result" where
  "balance_sats M V list_unspent state =
     rbind (list_utxos M V list_unspent state) (\<lambda>utxos.
     checked_sum (WalletError BalanceOverflow) utxo_sats 0 utxos)"

section \<open>What the wallet reports\<close>

text \<open>Every reported coin pays the vault's own script, and its outpoint comes from Core's reply.\<close>

definition vault_coins ::
    "('pol, 'ms, 'desc) miniscript_lib \<Rightarrow> ('desc, 'addr) vault_lib \<Rightarrow> vault_descriptor \<Rightarrow>
     vault_utxo list \<Rightarrow> bool" where
  "vault_coins M V vault utxos \<longleftrightarrow>
     (\<forall>addr. address M V vault = Inr addr \<longrightarrow>
        (\<forall>u\<in>set utxos. txo_script_pubkey (vu_txout u) = address_script_pubkey V addr))"

lemma list_utxos_Inr_iff:
  "list_utxos M V rpc state = Inr utxos \<longleftrightarrow>
     (\<exists>addr us. address M V (vs_vault state) = Inr addr \<and> rpc addr = Inr us \<and>
        utxos = map (\<lambda>u.
          \<lparr>vu_outpoint = \<lparr>op_txid = ue_txid u, op_vout = ue_vout u\<rparr>,
           vu_txout = \<lparr>txo_value = ue_amount u,
                       txo_script_pubkey = address_script_pubkey V addr\<rparr>,
           vu_confirmations = ue_confirmations u, vu_spendable_primary = True,
           vu_spendable_recovery = vd_csv_blocks (vs_vault state) \<le> ue_confirmations u\<rparr>) us)"
  by (auto simp: list_utxos_def rbind_Inr_iff rpc_result_Inr_iff Let_def)

lemma list_utxos_vault_coins:
  "list_utxos M V rpc state = Inr utxos \<Longrightarrow> vault_coins M V (vs_vault state) utxos"
  by (auto simp: list_utxos_Inr_iff vault_coins_def)

text \<open>
  The wallet's view is Core's view. On success the coins are Core's entries in order, all on
  the vault's script, each spendable on the recovery path exactly if it has at least
  \<open>csv_blocks\<close> confirmations, and the balance is the exact sum of their amounts; it is refused
  rather than wrapped when it does not fit 64 bits.\<close>

theorem wallet_reports_core_view:
  assumes "list_utxos M V rpc state = Inr utxos"
  shows "(\<exists>addr us. address M V (vs_vault state) = Inr addr \<and> rpc addr = Inr us \<and>
      map (\<lambda>u. (op_txid (vu_outpoint u), op_vout (vu_outpoint u), utxo_sats u, vu_confirmations u)) utxos
        = map (\<lambda>u. (ue_txid u, ue_vout u, ue_amount u, ue_confirmations u)) us \<and>
      (\<forall>u\<in>set utxos. txo_script_pubkey (vu_txout u) = address_script_pubkey V addr \<and>
         vu_spendable_recovery u =
           (unat (vd_csv_blocks (vs_vault state)) \<le> unat (vu_confirmations u)))) \<and>
    balance_sats M V rpc state =
      (if (\<Sum>u\<leftarrow>utxos. unat (utxo_sats u)) < 2 ^ 64
       then Inr (of_nat (\<Sum>u\<leftarrow>utxos. unat (utxo_sats u)))
       else wallet_err BalanceOverflow)"
proof -
  have "balance_sats M V rpc state =
      (if (\<Sum>u\<leftarrow>utxos. unat (utxo_sats u)) < 2 ^ 64
       then Inr (of_nat (\<Sum>u\<leftarrow>utxos. unat (utxo_sats u)))
       else wallet_err BalanceOverflow)"
  proof (cases rule: checked_sum_cases [of "WalletError BalanceOverflow" utxo_sats 0 utxos])
    case (fits s)
    have "s = of_nat (unat s)" by simp
    also have "unat s = (\<Sum>u\<leftarrow>utxos. unat (utxo_sats u))" using fits(2) by simp
    finally have "s = of_nat (\<Sum>u\<leftarrow>utxos. unat (utxo_sats u))" .
    with fits unat_lt [of s] show ?thesis by (simp add: balance_sats_def assms)
  next
    case overflows
    then show ?thesis by (simp add: balance_sats_def assms)
  qed
  with assms show ?thesis by (auto simp: list_utxos_Inr_iff word_le_nat_alt)
qed

definition toy_state :: vault_state where
  "toy_state = new_state toy_vault"

definition toy_unspent :: "bytes \<Rightarrow> string + unspent_entry list" where
  "toy_unspent addr =
     Inr [\<lparr>ue_txid = [1], ue_vout = 0, ue_amount = 70000, ue_confirmations = 12\<rparr>,
          \<lparr>ue_txid = [2], ue_vout = 1, ue_amount = 50000, ue_confirmations = 3\<rparr>]"

lemma toy_address: "address toy_miniscript toy_vault_lib toy_vault = Inr [82]"
  using built_validates [OF toy_documented toy_built]
  by (simp add: address_def stored_network_def parsed_def toy_vault_lib_def toy_vault_def
      toy_net_from_str_def toy_net_to_string_def)

definition toy_coin :: "u8 \<Rightarrow> u32 \<Rightarrow> u64 \<Rightarrow> u32 \<Rightarrow> vault_utxo" where
  "toy_coin txid vout sats conf =
     \<lparr>vu_outpoint = \<lparr>op_txid = [txid], op_vout = vout\<rparr>,
      vu_txout = \<lparr>txo_value = sats, txo_script_pubkey = [82]\<rparr>, vu_confirmations = conf,
      vu_spendable_primary = True, vu_spendable_recovery = 10 \<le> conf\<rparr>"

lemma toy_utxos:
  "list_utxos toy_miniscript toy_vault_lib toy_unspent toy_state =
     Inr [toy_coin 1 0 70000 12, toy_coin 2 1 50000 3]"
  by (simp add: list_utxos_Inr_iff toy_state_def new_state_def toy_address toy_unspent_def)
    (simp add: toy_coin_def toy_vault_lib_def toy_vault_def)

theorem wallet_reports_core_view_witness:
  "balance_sats toy_miniscript toy_vault_lib toy_unspent toy_state = Inr 120000"
  using wallet_reports_core_view [OF toy_utxos] by (simp add: toy_coin_def)

end
