(* ===== verification/Coin_Selection.thy ===== *)
theory Coin_Selection
  imports Wallet "HOL-Library.Multiset"
begin

text \<open>
  Coin selection of the spend builder (\<open>select_coins\<close> of \<open>src/spend.rs\<close>): the candidates of the
  requested path, sorted by descending value (stably), taken until the target is reached. The
  theorems show that it takes as few coins as any choice would need and fails only for cause.
\<close>

section \<open>The code\<close>

datatype spend_path = Primary | Recovery

definition MAX_FEE_SATS :: u64 where "MAX_FEE_SATS = 1000000"

definition MAX_FEE_RATE_SAT_PER_VB :: u64 where "MAX_FEE_RATE_SAT_PER_VB = 100"

definition MAX_SELECTED_INPUTS :: nat where "MAX_SELECTED_INPUTS = 100"

definition spendable_on :: "spend_path \<Rightarrow> vault_utxo \<Rightarrow> bool" where
  "spendable_on path u =
     (case path of Primary \<Rightarrow> vu_spendable_primary u | Recovery \<Rightarrow> vu_spendable_recovery u)"

text \<open>The loop of \<open>select_coins\<close>, over the sorted candidates that are left.\<close>

fun select_loop ::
    "u64 \<Rightarrow> vault_utxo list \<Rightarrow> u64 \<Rightarrow> vault_utxo list \<Rightarrow> vault_utxo list vault_result" where
  "select_loop need selected acc [] = build_err (InsufficientMature need acc)"
| "select_loop need selected acc (u # candidates) =
     rbind (ok_or (SpendError (Building AvailableOverflow)) (checked_add acc (utxo_sats u)))
       (\<lambda>acc.
     let selected = selected @ [u]
     in if MAX_SELECTED_INPUTS < length selected then build_err TooManyInputs
        else if need \<le> acc then Inr selected
        else select_loop need selected acc candidates)"

text \<open>\<open>sort_by_key\<close> with \<open>Reverse\<close> is the stable sort by descending value.\<close>

definition sorted_candidates :: "vault_utxo list \<Rightarrow> spend_path \<Rightarrow> vault_utxo list" where
  "sorted_candidates utxos path =
     sort_key (\<lambda>u. - int (unat (utxo_sats u))) (filter (spendable_on path) utxos)"

definition select_coins :: "vault_utxo list \<Rightarrow> u64 \<Rightarrow> spend_path \<Rightarrow> vault_utxo list vault_result" where
  "select_coins utxos need path = select_loop need [] 0 (sorted_candidates utxos path)"

section \<open>The loop\<close>

definition total_sats :: "vault_utxo list \<Rightarrow> nat" where
  "total_sats us = (\<Sum>u\<leftarrow>us. unat (utxo_sats u))"

lemma total_sats_simps [simp]:
  "total_sats [] = 0"
  "total_sats (u # us) = unat (utxo_sats u) + total_sats us"
  "total_sats (us @ vs) = total_sats us + total_sats vs"
  by (simp_all add: total_sats_def)

lemma total_sats_take: "total_sats (take n us) \<le> total_sats us"
  using total_sats_simps(3) [of "take n us" "drop n us"] by simp

text \<open>
  Success is the shortest nonempty prefix that reaches the target; each failure names what stopped
  the loop.
\<close>

lemma select_loop_Inr:
  assumes "select_loop need selected acc us = Inr sel" and "unat acc = total_sats selected"
  shows "\<exists>n. 0 < n \<and> n \<le> length us \<and> sel = selected @ take n us \<and> length sel \<le> 100 \<and>
    unat need \<le> total_sats sel \<and>
    (\<forall>m. 0 < m \<and> m < n \<longrightarrow> total_sats selected + total_sats (take m us) < unat need)"
  using assms
proof (induction us arbitrary: selected acc)
  case (Cons u us)
  from Cons.prems(1) obtain t where t: "checked_add acc (utxo_sats u) = Some t"
    by (auto simp: rbind_Inr_iff ok_or_Inr_iff)
  then have tot: "unat t = total_sats (selected @ [u])"
    using Cons.prems(2) by (simp add: checked_add_Some_iff)
  from Cons.prems(1) t have len: "length selected < 100"
    by (simp add: Let_def MAX_SELECTED_INPUTS_def split: if_splits)
  show ?case
  proof (cases "need \<le> t")
    case True
    with Cons.prems(1) t len have "sel = selected @ [u]"
      by (simp add: Let_def MAX_SELECTED_INPUTS_def)
    with True tot len show ?thesis by (intro exI [of _ 1]) (simp add: word_le_nat_alt)
  next
    case False
    with Cons.prems(1) t len have "select_loop need (selected @ [u]) t us = Inr sel"
      by (simp add: Let_def MAX_SELECTED_INPUTS_def)
    from Cons.IH [OF this tot] obtain n where n: "0 < n" "n \<le> length us"
      "sel = (selected @ [u]) @ take n us" "length sel \<le> 100" "unat need \<le> total_sats sel"
      "\<forall>m. 0 < m \<and> m < n \<longrightarrow> total_sats (selected @ [u]) + total_sats (take m us) < unat need"
      by blast
    have "total_sats selected + total_sats (take m (u # us)) < unat need" if "0 < m" "m < Suc n" for m
    proof (cases m)
      case (Suc k)
      then show ?thesis
        using that n(6) [rule_format, of k] False tot
        by (cases k) (auto simp: word_le_nat_alt not_le add.assoc)
    qed (use that in simp)
    with n show ?thesis by (intro exI [of _ "Suc n"]) simp
  qed
qed simp

lemma select_loop_Inl:
  assumes "select_loop need selected acc us = Inl e" and "unat acc = total_sats selected"
    and "length selected \<le> 100"
  shows "e = SpendError (Building (InsufficientMature need
             (of_nat (total_sats selected + total_sats us)))) \<and>
           total_sats selected + total_sats us < 2 ^ 64 \<and>
           (us \<noteq> [] \<longrightarrow> total_sats selected + total_sats us < unat need) \<or>
         e = SpendError (Building TooManyInputs) \<and> 100 < length selected + length us \<and>
           (length selected < 100 \<longrightarrow>
            total_sats selected + total_sats (take (100 - length selected) us) < unat need) \<or>
         e = SpendError (Building AvailableOverflow) \<and>
           2 ^ 64 \<le> total_sats selected + total_sats us"
  using assms
proof (induction us arbitrary: selected acc)
  case Nil
  have "acc = of_nat (unat acc)" by simp
  also have "\<dots> = of_nat (total_sats selected)" using Nil.prems(2) by simp
  finally have "acc = of_nat (total_sats selected)" .
  moreover have "total_sats selected < 2 ^ 64" using Nil.prems(2) unat_lt [of acc] by simp
  ultimately show ?case using Nil.prems(1) by simp
next
  case (Cons u us)
  show ?case
  proof (cases "checked_add acc (utxo_sats u)")
    case None
    then have "2 ^ 64 \<le> unat acc + unat (utxo_sats u)" by (simp add: checked_add_None_iff)
    with None Cons.prems show ?thesis by simp
  next
    case (Some t)
    then have tot: "unat t = total_sats (selected @ [u])"
      using Cons.prems(2) by (simp add: checked_add_Some_iff)
    show ?thesis
    proof (cases "length selected < 100")
      case False
      with Cons.prems Some show ?thesis by (simp add: Let_def MAX_SELECTED_INPUTS_def)
    next
      case True
      with Cons.prems(1) Some have small: "unat t < unat need"
        and "select_loop need (selected @ [u]) t us = Inl e"
        by (auto simp: Let_def MAX_SELECTED_INPUTS_def word_le_nat_alt split: if_splits)
      from Cons.IH [OF this(2) tot] True small tot show ?thesis
        by (cases us) (auto simp: add.assoc not_less Suc_diff_Suc take_Cons' split: if_splits)
    qed
  qed
qed

section \<open>No choice needs fewer coins\<close>

lemma prefix_dominates:
  assumes "sorted_wrt (\<lambda>a b. utxo_sats b \<le> utxo_sats a) xs" and "M \<subseteq># mset xs"
  shows "(\<Sum>u\<in>#M. unat (utxo_sats u)) \<le> total_sats (take (size M) xs)"
  using assms
proof (induction xs arbitrary: M)
  case (Cons x xs)
  show ?case
  proof (cases "M = {#}")
    case False
    then obtain y N where "M = add_mset y N" by (cases M) auto
    define z where "z = (if x \<in># M then x else y)"
    have z: "z \<in># M" and "z \<in> set (x # xs)"
      using \<open>M = _\<close> mset_subset_eqD [OF Cons.prems(2)] by (auto simp: z_def)
    then have le: "utxo_sats z \<le> utxo_sats x" using Cons.prems(1) by auto
    have "M - {#z#} \<subseteq># mset xs"
    proof (cases "x \<in># M")
      case True
      then show ?thesis using Cons.prems(2) by (auto simp: z_def subset_eq_diff_conv)
    next
      case False
      then have "M \<subseteq># mset xs"
        using Cons.prems(2) by (metis mset.simps(2) subset_eq_diff_conv diff_single_trivial
            add_mset_add_single)
      then show ?thesis using subset_mset.dual_order.trans diff_subset_eq_self by blast
    qed
    moreover have "sorted_wrt (\<lambda>a b. utxo_sats b \<le> utxo_sats a) xs" using Cons.prems(1) by simp
    ultimately have "(\<Sum>u\<in>#M - {#z#}. unat (utxo_sats u)) \<le> total_sats (take (size (M - {#z#})) xs)"
      using Cons.IH by blast
    moreover have "(\<Sum>u\<in>#M. unat (utxo_sats u)) =
        unat (utxo_sats z) + (\<Sum>u\<in>#M - {#z#}. unat (utxo_sats u))"
      using z by (metis insert_DiffM image_mset_add_mset sum_mset.add_mset)
    moreover have "size M = Suc (size (M - {#z#}))" using z by (metis insert_DiffM size_add_mset)
    ultimately show ?thesis using le by (simp add: word_le_nat_alt)
  qed simp
qed simp

lemma sorted_candidates_desc:
  "sorted_wrt (\<lambda>a b. utxo_sats b \<le> utxo_sats a) (sorted_candidates utxos path)"
proof -
  have "sorted (map (\<lambda>u. - int (unat (utxo_sats u))) (sorted_candidates utxos path))"
    by (simp add: sorted_candidates_def)
  then show ?thesis by (simp add: sorted_map word_le_def)
qed

lemma mset_candidates: "mset (sorted_candidates utxos path) = mset (filter (spendable_on path) utxos)"
  by (simp add: sorted_candidates_def)

lemma sum_list_mset_eq:
  "mset (xs :: vault_utxo list) = mset ys \<Longrightarrow>
   (\<Sum>u\<leftarrow>xs. unat (utxo_sats u)) = (\<Sum>u\<leftarrow>ys. unat (utxo_sats u))"
  by (metis mset_map sum_mset_sum_list)

lemma choice_dominated:
  assumes "mset ys \<subseteq># mset (filter (spendable_on path) utxos)"
  shows "total_sats ys \<le> total_sats (take (length ys) (sorted_candidates utxos path))"
proof -
  have "total_sats ys = (\<Sum>u\<in>#mset ys. unat (utxo_sats u))"
    by (induction ys) (simp_all)
  also have "\<dots> \<le> total_sats (take (size (mset ys)) (sorted_candidates utxos path))"
    by (rule prefix_dominates [OF sorted_candidates_desc]) (use assms mset_candidates in simp)
  finally show ?thesis by simp
qed

lemma select_coins_Inr:
  assumes "select_coins utxos need path = Inr sel"
  shows "\<exists>n. 0 < n \<and> sel = take n (sorted_candidates utxos path) \<and> length sel = n \<and> n \<le> 100 \<and>
    unat need \<le> total_sats sel \<and>
    (\<forall>m. 0 < m \<and> m < n \<longrightarrow> total_sats (take m (sorted_candidates utxos path)) < unat need)"
  using select_loop_Inr [of need "[]" 0 "sorted_candidates utxos path" sel] assms
  unfolding select_coins_def by auto

lemma mset_take_subset: "mset (take n xs) \<subseteq># mset xs"
  by (metis append_take_drop_id mset_append mset_subset_eq_add_left)

text \<open>
  C21: coin selection is optimal. The selected coins are spendable on the path, at most 100,
  without repetition beyond the wallet's own, reach the target, and no other choice of spendable
  coins that reaches it has fewer coins.
\<close>

theorem select_coins_optimal:
  assumes "select_coins utxos need path = Inr sel" and "0 < unat need"
    and "mset ys \<subseteq># mset (filter (spendable_on path) utxos)" and "unat need \<le> total_sats ys"
  shows "mset sel \<subseteq># mset (filter (spendable_on path) utxos) \<and> unat need \<le> total_sats sel \<and>
    length sel \<le> 100 \<and> length sel \<le> length ys"
proof -
  from select_coins_Inr [OF assms(1)] obtain n where n: "length sel = n" "n \<le> 100"
    "sel = take n (sorted_candidates utxos path)" "unat need \<le> total_sats sel"
    "\<forall>m. 0 < m \<and> m < n \<longrightarrow> total_sats (take m (sorted_candidates utxos path)) < unat need"
    by blast
  have "n \<le> length ys"
  proof (rule ccontr)
    assume "\<not> n \<le> length ys"
    moreover have "0 < length ys" using assms(2,4) by (cases ys) auto
    ultimately have "total_sats (take (length ys) (sorted_candidates utxos path)) < unat need"
      using n(5) by simp
    with choice_dominated [OF assms(3)] assms(4) show False by simp
  qed
  with n mset_take_subset [of n "sorted_candidates utxos path"] show ?thesis
    by (simp add: mset_candidates)
qed

text \<open>
  C22: coin selection does not give up early. If some choice of at most 100 spendable coins
  reaches a positive target, the only possible failure is the overflow check, and then the
  spendable coins together exceed 64 bits.
\<close>

theorem select_coins_complete:
  assumes "select_coins utxos need path = Inl e" and "0 < unat need"
    and "mset ys \<subseteq># mset (filter (spendable_on path) utxos)" and "length ys \<le> 100"
    and "unat need \<le> total_sats ys"
  shows "e = SpendError (Building AvailableOverflow) \<and>
    2 ^ 64 \<le> total_sats (filter (spendable_on path) utxos)"
proof -
  let ?c = "sorted_candidates utxos path"
  have dom: "unat need \<le> total_sats (take (length ys) ?c)"
    using choice_dominated [OF assms(3)] assms(5) by simp
  have "take (length ys) ?c = take (length ys) (take 100 ?c)"
    using assms(4) by (simp add: min_def)
  with dom total_sats_take [of "length ys" "take 100 ?c"] total_sats_take [of "length ys" ?c]
  have "unat need \<le> total_sats (take 100 ?c)" "unat need \<le> total_sats ?c" by simp_all
  moreover have "?c \<noteq> []" using dom assms(2) by auto
  moreover have "total_sats ?c = total_sats (filter (spendable_on path) utxos)"
    unfolding total_sats_def by (rule sum_list_mset_eq) (simp add: mset_candidates)
  ultimately show ?thesis
    using select_loop_Inl [of need "[]" 0 ?c e] assms(1) by (auto simp: select_coins_def)
qed

theorem select_coins_optimal_witness:
  "select_coins [toy_coin 1 0 500 1, toy_coin 2 0 900 1, toy_coin 3 0 700 1] 1000 Primary =
     Inr [toy_coin 2 0 900 1, toy_coin 3 0 700 1] \<and>
   length [toy_coin 2 0 900 1, toy_coin 3 0 700 1] \<le> length [toy_coin 1 0 500 1, toy_coin 2 0 900 1]"
proof -
  have run: "select_coins [toy_coin 1 0 500 1, toy_coin 2 0 900 1, toy_coin 3 0 700 1] 1000 Primary =
     Inr [toy_coin 2 0 900 1, toy_coin 3 0 700 1]"
    by (simp add: select_coins_def sorted_candidates_def toy_coin_def spendable_on_def checked_add_def
        MAX_SELECTED_INPUTS_def)
  from select_coins_optimal [OF run, of "[toy_coin 1 0 500 1, toy_coin 2 0 900 1]"] run
  show ?thesis by (simp add: toy_coin_def spendable_on_def total_sats_def)
qed

theorem select_coins_complete_witness:
  "select_coins [toy_coin 1 0 0x8000000000000000 1, toy_coin 2 0 0x8000000000000000 1,
       toy_coin 3 0 5 1] 0x8000000000000005 Primary = build_err AvailableOverflow \<and>
   2 ^ 64 \<le> total_sats [toy_coin 1 0 0x8000000000000000 1, toy_coin 2 0 0x8000000000000000 1,
       toy_coin 3 0 5 1]"
proof -
  let ?us = "[toy_coin 1 0 0x8000000000000000 1, toy_coin 2 0 0x8000000000000000 1, toy_coin 3 0 5 1]"
  let ?ys = "[toy_coin 1 0 0x8000000000000000 1, toy_coin 3 0 5 1]"
  have run: "select_coins ?us 0x8000000000000005 Primary = build_err AvailableOverflow"
    by (simp add: select_coins_def sorted_candidates_def toy_coin_def spendable_on_def checked_add_def
        MAX_SELECTED_INPUTS_def)
  have "mset ?ys \<subseteq># mset (filter (spendable_on Primary) ?us)"
    by (simp add: toy_coin_def spendable_on_def)
  from select_coins_complete [OF run _ this] run show ?thesis
    by (simp add: toy_coin_def spendable_on_def total_sats_def)
qed

end
