(* ===== verification/Files.thy ===== *)
theory Files
  imports Actions Disk Text Vault_Errors
begin

text \<open>
  The file system as \<open>std::fs\<close> exposes it to the CLI: files, directories and symbolic links with Unix
  modes, a umask, and a plan that decides for each system call whether it succeeds. A refused
  permission is a failure of the plan. A link is followed at the end of a path only; directory
  parts are not resolved. Everything a call sequence leaves at some moment is the final state of
  the plan that fails there, so a law over all plans holds at every moment.
\<close>

section \<open>State\<close>

datatype node = Regular bytes u32 | Directory u32 | Symlink path

record fsys =
  fs_nodes :: "path \<Rightarrow> node option"
  fs_umask :: u32
  fs_plan :: "nat \<Rightarrow> io_outcome"
  fs_clock :: nat

type_synonym 'a fio = "(fsys, error, 'a) action"

section \<open>System calls\<close>

definition fs_tick :: "fsys \<Rightarrow> fsys" where
  "fs_tick s = s\<lparr>fs_clock := Suc (fs_clock s)\<rparr>"

definition fs_call :: "(fsys \<Rightarrow> 'a vault_result \<times> fsys) \<Rightarrow> 'a fio" where
  "fs_call effect = (\<lambda>s.
     case fs_plan s (fs_clock s) of IoErr _ \<Rightarrow> (Inl IoError, fs_tick s) | IoOk \<Rightarrow> effect (fs_tick s))"

text \<open>The empty path names nothing. A chain of more than 40 links is not followed (\<open>ELOOP\<close>).\<close>

definition entry :: "fsys \<Rightarrow> path \<Rightarrow> node option" where
  "entry s p = (if p = [] then None else fs_nodes s p)"

fun follow :: "fsys \<Rightarrow> nat \<Rightarrow> path \<Rightarrow> path option" where
  "follow s 0 p = None"
| "follow s (Suc n) p = (case entry s p of Some (Symlink target) \<Rightarrow> follow s n target | _ \<Rightarrow> Some p)"

definition MAX_LINKS :: nat where "MAX_LINKS = 40"

definition resolve :: "fsys \<Rightarrow> path \<Rightarrow> path option" where
  "resolve s p = follow s (Suc MAX_LINKS) p"

definition stat :: "fsys \<Rightarrow> path \<Rightarrow> node option" where
  "stat s p = (case resolve s p of None \<Rightarrow> None | Some q \<Rightarrow> entry s q)"

definition put_node :: "path \<Rightarrow> node \<Rightarrow> fsys \<Rightarrow> fsys" where
  "put_node p n s = s\<lparr>fs_nodes := (fs_nodes s)(p := Some n)\<rparr>"

definition is_symlink :: "node \<Rightarrow> bool" where
  "is_symlink n = (case n of Symlink _ \<Rightarrow> True | _ \<Rightarrow> False)"

definition is_file :: "node \<Rightarrow> bool" where
  "is_file n = (case n of Regular _ _ \<Rightarrow> True | _ \<Rightarrow> False)"

definition is_directory :: "node \<Rightarrow> bool" where
  "is_directory n = (case n of Directory _ \<Rightarrow> True | _ \<Rightarrow> False)"

text \<open>A link itself reads as mode 777.\<close>

definition node_mode :: "node \<Rightarrow> u32" where
  "node_mode n = (case n of Regular _ m \<Rightarrow> m | Directory m \<Rightarrow> m | Symlink _ \<Rightarrow> 0x1FF)"

definition GROUP_OTHERS :: u32 where "GROUP_OTHERS = 0x3F"

definition private_mode :: "u32 \<Rightarrow> bool" where
  "private_mode m \<longleftrightarrow> and m GROUP_OTHERS = 0"

definition symlink_metadata :: "path \<Rightarrow> node fio" where
  "symlink_metadata p = fs_call (\<lambda>s. (ok_or IoError (entry s p), s))"

definition metadata :: "path \<Rightarrow> node fio" where
  "metadata p = fs_call (\<lambda>s. (ok_or IoError (stat s p), s))"

definition path_exists :: "path \<Rightarrow> bool fio" where
  "path_exists p = abind (acatch (metadata p)) (\<lambda>found. areturn (found \<noteq> None))"

text \<open>\<open>create_dir_all\<close> makes the missing prefixes, the shortest first, and stops at a failure.\<close>

definition prefixes_of :: "path \<Rightarrow> path list" where
  "prefixes_of p = map (\<lambda>n. take (Suc n) p) [0..<length p]"

fun make_dirs :: "path list \<Rightarrow> fsys \<Rightarrow> unit vault_result \<times> fsys" where
  "make_dirs [] s = (Inr (), s)"
| "make_dirs (q # qs) s =
     (case stat s q of
        Some n \<Rightarrow> if is_directory n then make_dirs qs s else (Inl IoError, s)
      | None \<Rightarrow>
          if entry s q = None
          then make_dirs qs (put_node q (Directory (and 0x1FF (not (fs_umask s)))) s)
          else (Inl IoError, s))"

definition fs_create_dir_all :: "path \<Rightarrow> unit fio" where
  "fs_create_dir_all p = (\<lambda>s.
     case fs_plan s (fs_clock s) of
       IoOk \<Rightarrow> make_dirs (prefixes_of p) (fs_tick s)
     | IoErr n \<Rightarrow> (Inl IoError, snd (make_dirs (take n (prefixes_of p)) (fs_tick s))))"

definition with_mode :: "u32 \<Rightarrow> node \<Rightarrow> node" where
  "with_mode m n =
     (case n of Regular c _ \<Rightarrow> Regular c m | Directory _ \<Rightarrow> Directory m | Symlink t \<Rightarrow> Symlink t)"

definition fs_set_permissions :: "path \<Rightarrow> u32 \<Rightarrow> unit fio" where
  "fs_set_permissions p m = fs_call (\<lambda>s.
     case resolve s p of
       None \<Rightarrow> (Inl IoError, s)
     | Some q \<Rightarrow>
         (case entry s q of
            None \<Rightarrow> (Inl IoError, s)
          | Some n \<Rightarrow> (Inr (), put_node q (with_mode m n) s)))"

definition parent_dir_ok :: "fsys \<Rightarrow> path \<Rightarrow> bool" where
  "parent_dir_ok s p =
     (case path_parent p of
        None \<Rightarrow> False
      | Some d \<Rightarrow> d = [] \<or> (case stat s d of None \<Rightarrow> False | Some n \<Rightarrow> is_directory n))"

text \<open>
  \<open>write(true).create_new(true)\<close> and \<open>write(true).create(true).truncate(true)\<close>, both with a mode
  for a new file; the handle is the path of the opened file.
\<close>

definition fs_open_new :: "path \<Rightarrow> u32 \<Rightarrow> path fio" where
  "fs_open_new p m = fs_call (\<lambda>s.
     if entry s p \<noteq> None \<or> \<not> parent_dir_ok s p then (Inl IoError, s)
     else (Inr p, put_node p (Regular [] (and m (not (fs_umask s)))) s))"

definition fs_open_truncate :: "path \<Rightarrow> u32 \<Rightarrow> path fio" where
  "fs_open_truncate p m = fs_call (\<lambda>s.
     case resolve s p of
       None \<Rightarrow> (Inl IoError, s)
     | Some q \<Rightarrow>
         (case entry s q of
            Some (Regular _ old) \<Rightarrow> (Inr q, put_node q (Regular [] old) s)
          | Some _ \<Rightarrow> (Inl IoError, s)
          | None \<Rightarrow>
              if parent_dir_ok s q
              then (Inr q, put_node q (Regular [] (and m (not (fs_umask s)))) s)
              else (Inl IoError, s)))"

definition append_to :: "path \<Rightarrow> bytes \<Rightarrow> fsys \<Rightarrow> fsys" where
  "append_to q bs s =
     (case entry s q of Some (Regular c m) \<Rightarrow> put_node q (Regular (c @ bs) m) s | _ \<Rightarrow> s)"

definition fs_write_all :: "path \<Rightarrow> bytes \<Rightarrow> unit fio" where
  "fs_write_all q bs = (\<lambda>s.
     case fs_plan s (fs_clock s) of
       IoOk \<Rightarrow> (Inr (), append_to q bs (fs_tick s))
     | IoErr n \<Rightarrow> (Inl IoError, append_to q (take n bs) (fs_tick s)))"

definition fs_sync_all :: "path \<Rightarrow> unit fio" where
  "fs_sync_all q = fs_call (\<lambda>s. (Inr (), s))"

text \<open>\<open>read_to_string\<close>: bytes that are not UTF-8 are an I/O error too.\<close>

definition fs_read_to_string :: "path \<Rightarrow> string fio" where
  "fs_read_to_string p = fs_call (\<lambda>s.
     (case stat s p of Some (Regular c _) \<Rightarrow> ok_or IoError (from_utf8 c) | _ \<Rightarrow> Inl IoError, s))"

end
