(* ===== verification/Keys.thy ===== *)
theory Keys
  imports Files Descriptor
begin

text \<open>
  Key material (\<open>src/keys.rs\<close>): roles, the three WIF files, reading and writing one of them, and
  the generation of a vault's keys. A private key is an opaque byte string; its text form, fresh
  secrets and public keys come from the \<open>bitcoin\<close> crate and the random generator (parameters).
\<close>

section \<open>The code\<close>

datatype key_role = PrimaryKey | OverrideKey | AgentKey

definition role_str :: "key_role \<Rightarrow> string" where
  "role_str role =
     (case role of PrimaryKey \<Rightarrow> ''primary'' | OverrideKey \<Rightarrow> ''override'' | AgentKey \<Rightarrow> ''agent'')"

definition role_filename :: "key_role \<Rightarrow> string" where
  "role_filename role =
     (case role of
        PrimaryKey \<Rightarrow> ''primary.wif'' | OverrideKey \<Rightarrow> ''override.wif'' | AgentKey \<Rightarrow> ''agent.wif'')"

record vault_key =
  vk_role :: key_role
  vk_inner :: bytes

record key_lib =
  private_key_new :: "bytes \<Rightarrow> network \<Rightarrow> bytes"
  private_from_wif :: "string \<Rightarrow> bytes option"
  private_to_wif :: "bytes \<Rightarrow> string"

text \<open>\<open>SecretKey::new(&mut rng)\<close>: the secrets the generator yields for the three roles.\<close>

definition generate_key :: "key_lib \<Rightarrow> (key_role \<Rightarrow> bytes) \<Rightarrow> key_role \<Rightarrow> network \<Rightarrow> vault_key" where
  "generate_key K rng role network =
     \<lparr>vk_role = role, vk_inner = private_key_new K (rng role) network\<rparr>"

definition from_wif :: "key_lib \<Rightarrow> key_role \<Rightarrow> string \<Rightarrow> vault_key vault_result" where
  "from_wif K role wif =
     rbind (ok_or (KeyError InvalidWif) (private_from_wif K (trim wif))) (\<lambda>inner.
     Inr \<lparr>vk_role = role, vk_inner = inner\<rparr>)"

definition public_key_of :: "('desc, 'addr) vault_lib \<Rightarrow> vault_key \<Rightarrow> public_key" where
  "public_key_of V self = public_of_private V (vk_inner self)"

definition from_file :: "key_lib \<Rightarrow> key_role \<Rightarrow> path \<Rightarrow> vault_key fio" where
  "from_file K role p =
     abind (symlink_metadata p) (\<lambda>meta.
     if is_symlink meta then araise (KeyError KeyReadSymlink)
     else if \<not> private_mode (node_mode meta) then araise (KeyError KeyAccessible)
     else abind (fs_read_to_string p) (\<lambda>wif. alift (from_wif K role wif)))"

text \<open>Octal 600 and 700.\<close>

definition KEY_FILE_MODE :: u32 where "KEY_FILE_MODE = 0x180"

definition KEY_DIR_MODE :: u32 where "KEY_DIR_MODE = 0x1C0"

definition prepare_key_dir :: "path \<Rightarrow> unit fio" where
  "prepare_key_dir parent =
     abind (path_exists parent) (\<lambda>parent_existed.
     abind (fs_create_dir_all parent) (\<lambda>_.
     abind (if \<not> parent_existed then fs_set_permissions parent KEY_DIR_MODE else areturn ()) (\<lambda>_.
     abind (metadata parent) (\<lambda>meta.
     if \<not> private_mode (node_mode meta) then araise (KeyError KeyDirPermissive)
     else areturn ()))))"

definition write_new_private :: "path \<Rightarrow> bytes \<Rightarrow> unit fio" where
  "write_new_private p contents =
     abind (fs_open_new p KEY_FILE_MODE) (\<lambda>f.
     abind (fs_set_permissions p KEY_FILE_MODE) (\<lambda>_.
     abind (fs_write_all f contents) (\<lambda>_.
     fs_sync_all f)))"

definition write_wif_file :: "key_lib \<Rightarrow> vault_key \<Rightarrow> path \<Rightarrow> unit fio" where
  "write_wif_file K self p =
     abind (acatch (symlink_metadata p)) (\<lambda>found.
     case found of
       Some meta \<Rightarrow>
         if is_symlink meta then araise (KeyError KeyWriteSymlink) else araise (KeyError KeyExists)
     | None \<Rightarrow>
         abind (case path_parent p of Some parent \<Rightarrow> prepare_key_dir parent | None \<Rightarrow> areturn ())
           (\<lambda>_. write_new_private p (ascii (private_to_wif K (vk_inner self) @ newline))))"

record public_vault_keys =
  pvk_primary :: string
  pvk_override_key :: string
  pvk_agent :: string

definition parse_pubkey :: "('desc, 'addr) vault_lib \<Rightarrow> string \<Rightarrow> public_key vault_result" where
  "parse_pubkey V s = ok_or (KeyError (InvalidPubkey s)) (public_key_from_str V s)"

definition parse_public_keys ::
    "('desc, 'addr) vault_lib \<Rightarrow> public_vault_keys \<Rightarrow>
     (public_key \<times> public_key \<times> public_key) vault_result" where
  "parse_public_keys V self =
     rbind (parse_pubkey V (pvk_primary self)) (\<lambda>primary.
     rbind (parse_pubkey V (pvk_override_key self)) (\<lambda>override_key.
     rbind (parse_pubkey V (pvk_agent self)) (\<lambda>agent.
     Inr (primary, override_key, agent))))"

definition KEY_ROLES :: "key_role list" where
  "KEY_ROLES = [PrimaryKey, OverrideKey, AgentKey]"

definition key_path :: "path \<Rightarrow> key_role \<Rightarrow> path" where
  "key_path keys_dir role = path_join keys_dir (role_filename role)"

definition refuse_existing_key :: "path \<Rightarrow> key_role \<Rightarrow> unit fio" where
  "refuse_existing_key keys_dir role =
     abind (acatch (symlink_metadata (key_path keys_dir role))) (\<lambda>found.
     if found \<noteq> None then araise (KeyError KeySetExists) else areturn ())"

definition write_fresh_key ::
    "key_lib \<Rightarrow> ('pol, 'ms, 'desc) miniscript_lib \<Rightarrow> ('desc, 'addr) vault_lib \<Rightarrow>
     (key_role \<Rightarrow> bytes) \<Rightarrow> path \<Rightarrow> network \<Rightarrow> key_role \<Rightarrow> string fio" where
  "write_fresh_key K M V rng keys_dir network role =
     (let key = generate_key K rng role network
      in abind (write_wif_file K key (key_path keys_dir role)) (\<lambda>_.
         areturn (public_key_to_string M (public_key_of V key))))"

definition generate_vault_keys ::
    "key_lib \<Rightarrow> ('pol, 'ms, 'desc) miniscript_lib \<Rightarrow> ('desc, 'addr) vault_lib \<Rightarrow>
     (key_role \<Rightarrow> bytes) \<Rightarrow> path \<Rightarrow> network \<Rightarrow> public_vault_keys fio" where
  "generate_vault_keys K M V rng keys_dir network =
     (if network \<notin> {Regtest, Testnet, Signet} then araise (KeyError (KeygenDisabled network))
      else abind (amap_each (refuse_existing_key keys_dir) KEY_ROLES) (\<lambda>_.
           abind (amap_each (write_fresh_key K M V rng keys_dir network) KEY_ROLES) (\<lambda>pubs.
           areturn \<lparr>pvk_primary = pubs ! 0, pvk_override_key = pubs ! 1, pvk_agent = pubs ! 2\<rparr>)))"

definition load_key :: "key_lib \<Rightarrow> path \<Rightarrow> key_role \<Rightarrow> vault_key fio" where
  "load_key K keys_dir role = from_file K role (path_join keys_dir (role_filename role))"

end
