(* ===== verification/Spend.thy ===== *)
theory Spend
  imports Coin_Selection Structure Keys
begin

text \<open>
  The spend builder, the validator of a built spend and the broadcast (\<open>src/spend.rs\<close>), each stage
  in the code's order. Signing, sighash, serialisation and the RPC client are parameters.
\<close>

section \<open>Requests\<close>

record spend_request =
  sq_destination :: string
  sq_amount_sats :: u64
  sq_fee_sats :: u64
  sq_path :: spend_path

record built_spend =
  bs_tx_hex :: string
  bs_txid :: string
  bs_path :: spend_path
  bs_fee_sats :: u64
  bs_amount_sats :: u64
  bs_change_sats :: u64

text \<open>\<open>Sequence::ENABLE_RBF_NO_LOCKTIME\<close>.\<close>

definition ENABLE_RBF_NO_LOCKTIME :: u32 where "ENABLE_RBF_NO_LOCKTIME = 0xFFFFFFFD"

definition path_sequence :: "bitcoin_lib \<Rightarrow> vault_descriptor \<Rightarrow> spend_path \<Rightarrow> u32" where
  "path_sequence L vault path =
     (case path of
        Primary \<Rightarrow> ENABLE_RBF_NO_LOCKTIME
      | Recovery \<Rightarrow> sequence_from_height L (ucast (vd_csv_blocks vault)))"

text \<open>\<open>u64::try_from(vsize).ok().and_then(|v| v.checked_mul(..))\<close>.\<close>

definition maximum_fee :: "('desc, 'addr) vault_lib \<Rightarrow> transaction \<Rightarrow> u64 option" where
  "maximum_fee V tx =
     (if tx_vsize V tx < 2 ^ 64 then checked_mul (of_nat (tx_vsize V tx)) MAX_FEE_RATE_SAT_PER_VB
      else None)"

section \<open>The builder\<close>

text \<open>Everything up to the unsigned transaction: the selected coins, the change and the draft.\<close>

definition assemble ::
    "bitcoin_lib \<Rightarrow> ('pol, 'ms, 'desc) miniscript_lib \<Rightarrow> ('desc, 'addr) vault_lib \<Rightarrow>
     vault_descriptor \<Rightarrow> network \<Rightarrow> vault_utxo list \<Rightarrow> spend_request \<Rightarrow>
     (vault_utxo list \<times> u64 \<times> transaction) vault_result" where
  "assemble L M V vault network utxos req =
     rbind (require_network M V vault network) (\<lambda>_.
     if sq_amount_sats req = 0 then build_err AmountZero
     else if MAX_FEE_SATS < sq_fee_sats req then build_err (FeeAboveCap (sq_fee_sats req))
     else if sq_amount_sats req < sq_fee_sats req then build_err FeeAboveAmount
     else rbind (ok_or (SpendError (Building TargetOverflow))
                   (checked_add (sq_amount_sats req) (sq_fee_sats req))) (\<lambda>target.
     rbind (ok_or (SpendError (Building InvalidDestination))
              (address_from_str V (sq_destination req))) (\<lambda>unchecked.
     rbind (ok_or (SpendError (Building DestinationNetworkMismatch))
              (address_require_network V unchecked network)) (\<lambda>dest.
     let destination_script = address_script_pubkey V dest;
         minimum_destination = minimal_non_dust L destination_script
     in if sq_amount_sats req < minimum_destination
        then build_err (DestinationDust (sq_amount_sats req) minimum_destination)
        else rbind (select_coins utxos target (sq_path req)) (\<lambda>selected.
     rbind (checked_sum (SpendError (Building InputTotalOverflow)) utxo_sats 0 selected) (\<lambda>total_in.
     if total_in < target then build_err (InsufficientFunds total_in target)
     else rbind (ok_or (SpendError (Building InputBelowTarget)) (checked_sub total_in target)) (\<lambda>change.
     rbind (address M V vault) (\<lambda>change_addr.
     let change_script = address_script_pubkey V change_addr;
         minimum_change = minimal_non_dust L change_script
     in if 0 < change \<and> change < minimum_change then build_err (ChangeDust change minimum_change)
        else Inr (selected, change,
          \<lparr>tx_version = 2,
           tx_lock_time = LOCK_TIME_ZERO,
           tx_input = map (\<lambda>u. \<lparr>previous_output = vu_outpoint u, script_sig = [],
                                 tx_sequence = path_sequence L vault (sq_path req),
                                 tx_witness = []\<rparr>) selected,
           tx_output = \<lparr>txo_value = sq_amount_sats req, txo_script_pubkey = destination_script\<rparr> #
             (if 0 < change then [\<lparr>txo_value = change, txo_script_pubkey = change_script\<rparr>] else [])\<rparr>)
     ))))))))"

text \<open>The signature map of one input: a later key with the same public key replaces an earlier one.\<close>

definition key_signatures ::
    "('desc, 'addr) vault_lib \<Rightarrow> vault_key list \<Rightarrow> bytes \<Rightarrow> public_key \<Rightarrow> ecdsa_signature option" where
  "key_signatures V keys msg =
     foldl (\<lambda>sigs key. sigs(public_key_of V key \<mapsto>
              \<lparr>ecdsa_bytes = sign_ecdsa V msg (vk_inner key), ecdsa_sighash = SighashAll\<rparr>))
       (\<lambda>_. None) keys"

definition set_witness :: "nat \<Rightarrow> bytes list \<Rightarrow> transaction \<Rightarrow> transaction" where
  "set_witness vin w tx =
     tx\<lparr>tx_input := (tx_input tx)[vin := (tx_input tx ! vin)\<lparr>tx_witness := w\<rparr>]\<rparr>"

definition sign_step ::
    "('desc, 'addr) vault_lib \<Rightarrow> 'desc \<Rightarrow> script \<Rightarrow> spend_path \<Rightarrow> vault_key list \<Rightarrow>
     transaction \<Rightarrow> nat \<times> vault_utxo \<Rightarrow> transaction vault_result" where
  "sign_step V desc ws path keys tx = (\<lambda>(vin, utxo).
     rbind (ok_or (SpendError (Building SighashFailed))
              (p2wsh_sighash V tx vin ws (utxo_sats utxo) SighashAll)) (\<lambda>sighash.
     case desc_satisfaction V desc (key_signatures V keys sighash) (path = Recovery) of
       Some (wit, sig) \<Rightarrow>
         if sig \<noteq> [] then build_err NonEmptyScriptSig else Inr (set_witness vin wit tx)
     | None \<Rightarrow> build_err CouldNotSatisfy))"

definition sign_inputs ::
    "('desc, 'addr) vault_lib \<Rightarrow> 'desc \<Rightarrow> script \<Rightarrow> spend_path \<Rightarrow> vault_key list \<Rightarrow>
     vault_utxo list \<Rightarrow> transaction \<Rightarrow> transaction vault_result" where
  "sign_inputs V desc ws path keys selected draft =
     try_fold (sign_step V desc ws path keys) draft (enumerate 0 selected)"

definition build_signed ::
    "bitcoin_lib \<Rightarrow> ('pol, 'ms, 'desc) miniscript_lib \<Rightarrow> ('desc, 'addr) vault_lib \<Rightarrow>
     vault_descriptor \<Rightarrow> network \<Rightarrow> vault_utxo list \<Rightarrow> spend_request \<Rightarrow> vault_key list \<Rightarrow>
     (u64 \<times> transaction) vault_result" where
  "build_signed L M V vault network utxos req keys =
     rbind (assemble L M V vault network utxos req) (\<lambda>(selected, change, draft).
     rbind (parsed V vault) (\<lambda>desc.
     rbind (ok_or (SpendError (Building WitnessScriptFailed)) (descriptor_explicit_script M desc))
       (\<lambda>ws.
     rbind (sign_inputs V desc ws (sq_path req) keys selected draft) (\<lambda>tx.
     Inr (change, tx)))))"

definition build_and_sign ::
    "bitcoin_lib \<Rightarrow> ('pol, 'ms, 'desc) miniscript_lib \<Rightarrow> ('desc, 'addr) vault_lib \<Rightarrow>
     vault_descriptor \<Rightarrow> network \<Rightarrow> vault_utxo list \<Rightarrow> spend_request \<Rightarrow> vault_key list \<Rightarrow>
     built_spend vault_result" where
  "build_and_sign L M V vault network utxos req keys =
     rbind (build_signed L M V vault network utxos req keys) (\<lambda>(change, tx).
     rbind (ok_or (SpendError (Building FeeRateOverflow)) (maximum_fee V tx)) (\<lambda>maximum.
     if maximum < sq_fee_sats req then build_err (FeeRateAboveCap (sq_fee_sats req))
     else Inr \<lparr>bs_tx_hex = bytes_to_hex V (tx_serialize V tx),
               bs_txid = txid_to_string V (compute_txid L tx),
               bs_path = sq_path req,
               bs_fee_sats = sq_fee_sats req,
               bs_amount_sats = sq_amount_sats req,
               bs_change_sats = change\<rparr>))"

definition sign_recovery_with_keys ::
    "bitcoin_lib \<Rightarrow> ('pol, 'ms, 'desc) miniscript_lib \<Rightarrow> ('desc, 'addr) vault_lib \<Rightarrow>
     vault_descriptor \<Rightarrow> network \<Rightarrow> vault_utxo list \<Rightarrow> spend_request \<Rightarrow> vault_key list \<Rightarrow>
     built_spend vault_result" where
  "sign_recovery_with_keys L M V vault network utxos req keys =
     build_and_sign L M V vault network utxos (req\<lparr>sq_path := Recovery\<rparr>) keys"

section \<open>The validator\<close>

text \<open>The map of available coins: of two coins with one outpoint, the later one is kept.\<close>

definition available_coin :: "vault_utxo list \<Rightarrow> out_point \<Rightarrow> vault_utxo option" where
  "available_coin utxos = map_of (rev (map (\<lambda>u. (vu_outpoint u, u)) utxos))"

definition check_input ::
    "bitcoin_lib \<Rightarrow> vault_descriptor \<Rightarrow> script \<Rightarrow> vault_utxo list \<Rightarrow> spend_path \<Rightarrow>
     out_point list \<times> u64 \<Rightarrow> tx_in \<Rightarrow> (out_point list \<times> u64) vault_result" where
  "check_input L vault vault_script utxos path = (\<lambda>(seen, total_in) input.
     if previous_output input \<in> set seen then check_err DuplicateInput
     else rbind (ok_or (SpendError (Checking UnknownInput))
                   (available_coin utxos (previous_output input))) (\<lambda>utxo.
     if txo_script_pubkey (vu_txout utxo) \<noteq> vault_script then check_err InputNotVault
     else if \<not> spendable_on path utxo then check_err InputNotSpendable
     else if tx_sequence input \<noteq> path_sequence L vault path then check_err SequenceMismatch
     else if tx_witness input = [] then check_err MissingWitness
     else rbind (ok_or (SpendError (Checking InputSumOverflow))
                   (checked_add total_in (utxo_sats utxo))) (\<lambda>total_in.
     Inr (previous_output input # seen, total_in))))"

definition check_outputs ::
    "bitcoin_lib \<Rightarrow> built_spend \<Rightarrow> spend_request \<Rightarrow> script \<Rightarrow> script \<Rightarrow> u64 \<Rightarrow> transaction \<Rightarrow>
     transaction vault_result" where
  "check_outputs L built req destination_script vault_script total_in tx =
     (if length (tx_output tx) \<noteq> (if 0 < bs_change_sats built then 2 else 1)
      then check_err UnexpectedOutputs
      else if txo_value (tx_output tx ! 0) \<noteq> sq_amount_sats req \<or>
              txo_script_pubkey (tx_output tx ! 0) \<noteq> destination_script
      then check_err DestinationMismatch
      else if 0 < bs_change_sats built \<and>
              (bs_change_sats built < minimal_non_dust L vault_script \<or>
               txo_value (tx_output tx ! 1) \<noteq> bs_change_sats built \<or>
               txo_script_pubkey (tx_output tx ! 1) \<noteq> vault_script)
      then check_err ChangeMismatch
      else rbind (checked_sum (SpendError (Checking OutputSumOverflow)) txo_value 0 (tx_output tx))
             (\<lambda>total_out.
      rbind (ok_or (SpendError (Checking OutputsExceedInputs)) (checked_sub total_in total_out))
             (\<lambda>actual_fee.
      if actual_fee \<noteq> sq_fee_sats req then check_err (FeeMismatch actual_fee (sq_fee_sats req))
      else rbind (ok_or (SpendError (Checking AmountFeeOverflow))
                    (checked_add (sq_amount_sats req) (sq_fee_sats req))) (\<lambda>target.
      rbind (ok_or (SpendError (Checking InputsBelowTarget)) (checked_sub total_in target))
             (\<lambda>expected_change.
      if bs_change_sats built \<noteq> expected_change then check_err ReportedChangeMismatch
      else Inr tx)))))"

definition validate_built_spend ::
    "bitcoin_lib \<Rightarrow> ('pol, 'ms, 'desc) miniscript_lib \<Rightarrow> ('desc, 'addr) vault_lib \<Rightarrow> built_spend \<Rightarrow>
     vault_descriptor \<Rightarrow> network \<Rightarrow> vault_utxo list \<Rightarrow> spend_request \<Rightarrow> transaction vault_result" where
  "validate_built_spend L M V built vault network utxos req =
     rbind (require_network M V vault network) (\<lambda>_.
     if sq_amount_sats req = 0 \<or> MAX_FEE_SATS < sq_fee_sats req \<or>
        sq_amount_sats req < sq_fee_sats req then check_err RequestViolatesLimits
     else if bs_path built \<noteq> sq_path req \<or> bs_amount_sats built \<noteq> sq_amount_sats req \<or>
             bs_fee_sats built \<noteq> sq_fee_sats req then check_err MetadataMismatch
     else rbind (ok_or (SpendError (Checking InvalidTxHex)) (hex_to_bytes V (bs_tx_hex built))) (\<lambda>raw.
     rbind (ok_or (SpendError (Checking TxDecodeFailed)) (tx_deserialize V raw)) (\<lambda>tx.
     if txid_to_string V (compute_txid L tx) \<noteq> bs_txid built then check_err TxidMismatch
     else if tx_input tx = [] then check_err NoInputs
     else if MAX_SELECTED_INPUTS < length (tx_input tx) then check_err InputCountExceeded
     else if tx_version tx \<noteq> 2 \<or> tx_lock_time tx \<noteq> LOCK_TIME_ZERO then check_err VersionOrLocktime
     else rbind (ok_or (SpendError (Checking VsizeOverflow)) (maximum_fee V tx)) (\<lambda>maximum.
     if maximum < sq_fee_sats req then check_err FeeRateExceeded
     else rbind (address M V vault) (\<lambda>vault_addr.
     let vault_script = address_script_pubkey V vault_addr
     in rbind (try_fold (check_input L vault vault_script utxos (sq_path req)) ([], 0) (tx_input tx))
          (\<lambda>(seen, total_in).
     rbind (ok_or (SpendError (Checking BadDestination)) (address_from_str V (sq_destination req)))
          (\<lambda>unchecked.
     rbind (ok_or (SpendError (Checking WrongDestinationNetwork))
              (address_require_network V unchecked network)) (\<lambda>destination.
     let destination_script = address_script_pubkey V destination
     in if sq_amount_sats req < minimal_non_dust L destination_script
        then check_err DestinationIsDust
        else check_outputs L built req destination_script vault_script total_in tx))))))))"

section \<open>The broadcast\<close>

record mempool_result =
  mr_txid :: bytes
  mr_allowed :: bool
  mr_reject_reason :: "string option"

record core_client =
  test_mempool_accept :: "transaction \<Rightarrow> string + mempool_result list"
  send_raw_transaction :: "transaction \<Rightarrow> string + bytes"

text \<open>The calls a broadcast makes, in order.\<close>

datatype core_call = TestMempoolAccept transaction | SendRawTransaction transaction

definition broadcast ::
    "bitcoin_lib \<Rightarrow> ('desc, 'addr) vault_lib \<Rightarrow> core_client \<Rightarrow> transaction \<Rightarrow>
     string vault_result \<times> core_call list" where
  "broadcast L V client tx =
     (case test_mempool_accept client tx of
        Inl e \<Rightarrow> (Inl (RpcError e), [TestMempoolAccept tx])
      | Inr results \<Rightarrow>
          if length results \<noteq> 1
          then (broadcast_err (MempoolResultCount (length results)), [TestMempoolAccept tx])
          else (case results of
            [] \<Rightarrow> (broadcast_err MempoolResultMissing, [TestMempoolAccept tx])
          | result # _ \<Rightarrow>
              if mr_txid result \<noteq> compute_txid L tx
              then (broadcast_err MempoolTxidMismatch, [TestMempoolAccept tx])
              else if \<not> mr_allowed result
              then (broadcast_err (MempoolRejected (mr_reject_reason result)), [TestMempoolAccept tx])
              else (case send_raw_transaction client tx of
                  Inl e \<Rightarrow> (Inl (RpcError e), [TestMempoolAccept tx, SendRawTransaction tx])
                | Inr txid \<Rightarrow> (Inr (txid_to_string V txid),
                                [TestMempoolAccept tx, SendRawTransaction tx]))))"

end
