(* ===== verification/Spend_Correct.thy ===== *)
theory Spend_Correct
  imports Spend
begin

text \<open>
  Correctness of the spend path: what a validated spend pays and to whom, that the validator
  accepts what the builder makes, that recovery spends carry a sequence the policy crate accepts,
  and that nothing is sent before Bitcoin Core agreed.
\<close>

section \<open>The input loop of the validator\<close>

definition input_accepted ::
    "bitcoin_lib \<Rightarrow> vault_descriptor \<Rightarrow> script \<Rightarrow> vault_utxo list \<Rightarrow> spend_path \<Rightarrow> tx_in \<Rightarrow> bool" where
  "input_accepted L vault vault_script utxos path input \<longleftrightarrow>
     (\<exists>u. available_coin utxos (previous_output input) = Some u \<and>
        txo_script_pubkey (vu_txout u) = vault_script \<and> spendable_on path u) \<and>
     tx_sequence input = path_sequence L vault path \<and> tx_witness input \<noteq> []"

definition coin_sats :: "vault_utxo list \<Rightarrow> tx_in \<Rightarrow> nat" where
  "coin_sats utxos input =
     (case available_coin utxos (previous_output input) of
        None \<Rightarrow> 0 | Some u \<Rightarrow> unat (utxo_sats u))"

lemma check_inputs_Inr:
  "try_fold (check_input L vault vs utxos path) (seen, t) ins = Inr (seen', t') \<longleftrightarrow>
     seen' = rev (map previous_output ins) @ seen \<and>
     distinct (map previous_output ins) \<and> set (map previous_output ins) \<inter> set seen = {} \<and>
     (\<forall>i\<in>set ins. input_accepted L vault vs utxos path i) \<and>
     unat t' = unat t + (\<Sum>i\<leftarrow>ins. coin_sats utxos i)"
proof (induction ins arbitrary: seen t)
  case Nil
  then show ?case by (auto simp: word_eq_unat_iff)
next
  case (Cons i ins)
  have step: "check_input L vault vs utxos path (seen, t) i = Inr (seen1, t1) \<longleftrightarrow>
      previous_output i \<notin> set seen \<and> input_accepted L vault vs utxos path i \<and>
      seen1 = previous_output i # seen \<and> unat t1 = unat t + coin_sats utxos i" for seen1 t1
    by (auto simp: check_input_def input_accepted_def coin_sats_def if_Inl_eq_Inr rbind_Inr_iff
        ok_or_Inr_iff checked_add_Some_iff)
  show ?case (is "?run \<longleftrightarrow> ?spec")
  proof
    assume ?run
    then obtain seen1 t1 where 1: "check_input L vault vs utxos path (seen, t) i = Inr (seen1, t1)"
      "try_fold (check_input L vault vs utxos path) (seen1, t1) ins = Inr (seen', t')"
      by (auto simp: rbind_Inr_iff)
    from 1(1) 1(2) [unfolded Cons.IH] show ?spec by (auto simp: step)
  next
    assume spec: ?spec
    define t1 :: u64 where "t1 = of_nat (unat t + coin_sats utxos i)"
    have "unat t + coin_sats utxos i < 2 ^ 64"
      using spec unat_lt [of t'] by simp
    then have t1: "unat t1 = unat t + coin_sats utxos i"
      unfolding t1_def by (simp only: unat_of_nat) simp
    with spec have "check_input L vault vs utxos path (seen, t) i = Inr (previous_output i # seen, t1)"
      by (simp add: step)
    moreover have "try_fold (check_input L vault vs utxos path) (previous_output i # seen, t1) ins =
        Inr (seen', t')"
      unfolding Cons.IH using spec t1 by auto
    ultimately show ?run by simp
  qed
qed

section \<open>What a validated spend does\<close>

lemma check_outputs_Inr:
  assumes "check_outputs L built req ds vs total_in tx = Inr tx'"
  shows "tx' = tx \<and>
    tx_output tx = \<lparr>txo_value = sq_amount_sats req, txo_script_pubkey = ds\<rparr> #
      (if 0 < bs_change_sats built
       then [\<lparr>txo_value = bs_change_sats built, txo_script_pubkey = vs\<rparr>] else []) \<and>
    unat total_in = unat (sq_amount_sats req) + unat (sq_fee_sats req) + unat (bs_change_sats built)"
proof -
  from assms obtain target where
    len: "length (tx_output tx) = (if 0 < bs_change_sats built then 2 else 1)" and
    dest: "txo_value (tx_output tx ! 0) = sq_amount_sats req"
      "txo_script_pubkey (tx_output tx ! 0) = ds" and
    chg: "0 < bs_change_sats built \<Longrightarrow> txo_value (tx_output tx ! 1) = bs_change_sats built \<and>
      txo_script_pubkey (tx_output tx ! 1) = vs" and
    target: "checked_add (sq_amount_sats req) (sq_fee_sats req) = Some target"
      "checked_sub total_in target = Some (bs_change_sats built)" and tx': "tx' = tx"
    unfolding check_outputs_def if_Inl_eq_Inr rbind_Inr_iff ok_or_Inr_iff by auto
  have out: "out = \<lparr>txo_value = txo_value out, txo_script_pubkey = txo_script_pubkey out\<rparr>" for out :: tx_out
    by simp
  have "tx_output tx = \<lparr>txo_value = sq_amount_sats req, txo_script_pubkey = ds\<rparr> #
      (if 0 < bs_change_sats built
       then [\<lparr>txo_value = bs_change_sats built, txo_script_pubkey = vs\<rparr>] else [])"
  proof (cases "0 < bs_change_sats built")
    case True
    with len obtain o1 o2 where "tx_output tx = [o1, o2]"
      by (auto simp: numeral_2_eq_2 length_Suc_conv)
    with True dest chg show ?thesis by (cases o1; cases o2) auto
  next
    case False
    with len obtain o1 where "tx_output tx = [o1]" by (auto simp: length_Suc_conv)
    with False dest show ?thesis by (cases o1) auto
  qed
  moreover have "unat total_in =
      unat (sq_amount_sats req) + unat (sq_fee_sats req) + unat (bs_change_sats built)"
    using target by (simp add: checked_add_Some_iff checked_sub_Some_iff)
  ultimately show ?thesis using tx' by blast
qed

lemma maximum_fee_Some:
  assumes "maximum_fee V tx = Some m"
  shows "unat m = 100 * tx_vsize V tx"
proof -
  from assms have small: "tx_vsize V tx < 2 ^ 64"
    and "checked_mul (of_nat (tx_vsize V tx)) MAX_FEE_RATE_SAT_PER_VB = Some m"
    by (auto simp: maximum_fee_def split: if_splits)
  then have "unat m = unat (of_nat (tx_vsize V tx) :: u64) * 100"
    by (simp add: checked_mul_Some_iff MAX_FEE_RATE_SAT_PER_VB_def)
  moreover have "unat (of_nat (tx_vsize V tx) :: u64) = tx_vsize V tx"
    using small by (simp only: unat_of_nat) simp
  ultimately show ?thesis by simp
qed

text \<open>What it means that a transaction does what a request asks.\<close>

definition pays_as_requested ::
    "bitcoin_lib \<Rightarrow> ('pol, 'ms, 'desc) miniscript_lib \<Rightarrow> ('desc, 'addr) vault_lib \<Rightarrow>
     vault_descriptor \<Rightarrow> network \<Rightarrow> vault_utxo list \<Rightarrow> spend_request \<Rightarrow> built_spend \<Rightarrow>
     transaction \<Rightarrow> bool" where
  "pays_as_requested L M V vault network utxos req built tx \<longleftrightarrow>
    (\<exists>raw addr addr0 dest.
     hex_to_bytes V (bs_tx_hex built) = Some raw \<and> tx_deserialize V raw = Some tx \<and>
     txid_to_string V (compute_txid L tx) = bs_txid built \<and>
     address M V vault = Inr addr \<and> address_from_str V (sq_destination req) = Some addr0 \<and>
     address_require_network V addr0 network = Some dest \<and>
     1 \<le> length (tx_input tx) \<and> length (tx_input tx) \<le> 100 \<and>
     distinct (map previous_output (tx_input tx)) \<and>
     (\<forall>i\<in>set (tx_input tx).
        input_accepted L vault (address_script_pubkey V addr) utxos (sq_path req) i) \<and>
     tx_output tx =
       \<lparr>txo_value = sq_amount_sats req, txo_script_pubkey = address_script_pubkey V dest\<rparr> #
       (if 0 < bs_change_sats built
        then [\<lparr>txo_value = bs_change_sats built,
               txo_script_pubkey = address_script_pubkey V addr\<rparr>] else []) \<and>
     (\<Sum>i\<leftarrow>tx_input tx. coin_sats utxos i) =
       unat (sq_amount_sats req) + unat (sq_fee_sats req) + unat (bs_change_sats built) \<and>
     unat (sq_fee_sats req) \<le> 1000000 \<and> unat (sq_fee_sats req) \<le> unat (sq_amount_sats req) \<and>
     unat (sq_fee_sats req) \<le> 100 * tx_vsize V tx)"

lemma validate_built_spend_pays:
  assumes "validate_built_spend L M V built vault network utxos req = Inr tx"
  shows "pays_as_requested L M V vault network utxos req built tx"
proof -
  from assms obtain raw t m addr seen total_in addr0 dest where
    lim: "\<not> MAX_FEE_SATS < sq_fee_sats req" "\<not> sq_amount_sats req < sq_fee_sats req" and
    raw: "hex_to_bytes V (bs_tx_hex built) = Some raw" "tx_deserialize V raw = Some t"
      "txid_to_string V (compute_txid L t) = bs_txid built" and
    ins: "tx_input t \<noteq> []" "\<not> MAX_SELECTED_INPUTS < length (tx_input t)" and
    fee: "maximum_fee V t = Some m" "\<not> m < sq_fee_sats req" and
    addr: "address M V vault = Inr addr" and
    loop: "try_fold (check_input L vault (address_script_pubkey V addr) utxos (sq_path req))
      ([], 0) (tx_input t) = Inr (seen, total_in)" and
    dest: "address_from_str V (sq_destination req) = Some addr0"
      "address_require_network V addr0 network = Some dest" and
    outs: "check_outputs L built req (address_script_pubkey V dest) (address_script_pubkey V addr)
      total_in t = Inr tx"
    unfolding validate_built_spend_def Let_def if_Inl_eq_Inr rbind_Inr_iff ok_or_Inr_iff
    by (auto simp: rbind_Inr_iff if_Inl_eq_Inr ok_or_Inr_iff)
  from check_outputs_Inr [OF outs] have out: "tx = t"
    "tx_output t = \<lparr>txo_value = sq_amount_sats req,
        txo_script_pubkey = address_script_pubkey V dest\<rparr> #
      (if 0 < bs_change_sats built
       then [\<lparr>txo_value = bs_change_sats built, txo_script_pubkey = address_script_pubkey V addr\<rparr>]
       else [])"
    "unat total_in = unat (sq_amount_sats req) + unat (sq_fee_sats req) + unat (bs_change_sats built)"
    by blast+
  note loop = loop [unfolded check_inputs_Inr]
  have "1 \<le> length (tx_input t)" "length (tx_input t) \<le> 100"
    using ins by (auto simp: MAX_SELECTED_INPUTS_def Suc_le_eq)
  moreover have "unat (sq_fee_sats req) \<le> 1000000"
    "unat (sq_fee_sats req) \<le> unat (sq_amount_sats req)"
    "unat (sq_fee_sats req) \<le> 100 * tx_vsize V t"
    using lim fee(2) maximum_fee_Some [OF fee(1)]
    by (simp_all add: MAX_FEE_SATS_def word_less_nat_alt)
  ultimately show ?thesis unfolding pays_as_requested_def
    using raw addr dest loop out
    by (intro exI [of _ raw] exI [of _ addr] exI [of _ addr0] exI [of _ dest]) auto
qed

text \<open>
  C14: a validated spend does what was asked. The decoded transaction has the reported txid, spends
  1 to 100 distinct vault coins that the path may spend, with the path's sequence and a witness;
  pays exactly the amount to the destination and exactly the change to the vault, and nothing else;
  inputs, outputs and fee balance, and the fee is at most 1,000,000 satoshis, the amount, and 100
  satoshis per virtual byte.
\<close>

theorem validated_spend_pays_as_requested:
  assumes "validate_built_spend L M V built vault network utxos req = Inr tx"
  shows "\<exists>raw addr addr0 dest.
    hex_to_bytes V (bs_tx_hex built) = Some raw \<and> tx_deserialize V raw = Some tx \<and>
    txid_to_string V (compute_txid L tx) = bs_txid built \<and>
    address M V vault = Inr addr \<and> address_from_str V (sq_destination req) = Some addr0 \<and>
    address_require_network V addr0 network = Some dest \<and>
    1 \<le> length (tx_input tx) \<and> length (tx_input tx) \<le> 100 \<and>
    distinct (map previous_output (tx_input tx)) \<and>
    (\<forall>i\<in>set (tx_input tx).
       input_accepted L vault (address_script_pubkey V addr) utxos (sq_path req) i) \<and>
    tx_output tx =
      \<lparr>txo_value = sq_amount_sats req, txo_script_pubkey = address_script_pubkey V dest\<rparr> #
      (if 0 < bs_change_sats built
       then [\<lparr>txo_value = bs_change_sats built,
              txo_script_pubkey = address_script_pubkey V addr\<rparr>] else []) \<and>
    (\<Sum>i\<leftarrow>tx_input tx. coin_sats utxos i) =
      unat (sq_amount_sats req) + unat (sq_fee_sats req) + unat (bs_change_sats built) \<and>
    unat (sq_fee_sats req) \<le> 1000000 \<and> unat (sq_fee_sats req) \<le> unat (sq_amount_sats req) \<and>
    unat (sq_fee_sats req) \<le> 100 * tx_vsize V tx"
  using validate_built_spend_pays [OF assms] by (simp only: pays_as_requested_def)

section \<open>What the builder makes\<close>

lemma assemble_Inr:
  assumes "assemble L M V vault network utxos req = Inr (selected, change, draft)"
  obtains addr addr0 dest target where
    "require_network M V vault network = Inr ()"
    "sq_amount_sats req \<noteq> 0" "\<not> MAX_FEE_SATS < sq_fee_sats req"
    "\<not> sq_amount_sats req < sq_fee_sats req"
    "checked_add (sq_amount_sats req) (sq_fee_sats req) = Some target"
    "address_from_str V (sq_destination req) = Some addr0"
    "address_require_network V addr0 network = Some dest"
    "\<not> sq_amount_sats req < minimal_non_dust L (address_script_pubkey V dest)"
    "select_coins utxos target (sq_path req) = Inr selected"
    "total_sats selected = unat target + unat change" "total_sats selected < 2 ^ 64"
    "address M V vault = Inr addr"
    "\<not> (0 < change \<and> change < minimal_non_dust L (address_script_pubkey V addr))"
    "draft = \<lparr>tx_version = 2, tx_lock_time = LOCK_TIME_ZERO,
       tx_input = map (\<lambda>u. \<lparr>previous_output = vu_outpoint u, script_sig = [],
         tx_sequence = path_sequence L vault (sq_path req), tx_witness = []\<rparr>) selected,
       tx_output = \<lparr>txo_value = sq_amount_sats req,
           txo_script_pubkey = address_script_pubkey V dest\<rparr> #
         (if 0 < change then [\<lparr>txo_value = change,
            txo_script_pubkey = address_script_pubkey V addr\<rparr>] else [])\<rparr>"
proof -
  from assms obtain target addr0 dest total_in addr where
    1: "require_network M V vault network = Inr ()"
    "sq_amount_sats req \<noteq> 0" "\<not> MAX_FEE_SATS < sq_fee_sats req"
    "\<not> sq_amount_sats req < sq_fee_sats req"
    "checked_add (sq_amount_sats req) (sq_fee_sats req) = Some target"
    "address_from_str V (sq_destination req) = Some addr0"
    "address_require_network V addr0 network = Some dest"
    "\<not> sq_amount_sats req < minimal_non_dust L (address_script_pubkey V dest)"
    "select_coins utxos target (sq_path req) = Inr selected"
    "checked_sum (SpendError (Building InputTotalOverflow)) utxo_sats 0 selected = Inr total_in"
    "checked_sub total_in target = Some change"
    "address M V vault = Inr addr"
    "\<not> (0 < change \<and> change < minimal_non_dust L (address_script_pubkey V addr))"
    "draft = \<lparr>tx_version = 2, tx_lock_time = LOCK_TIME_ZERO,
       tx_input = map (\<lambda>u. \<lparr>previous_output = vu_outpoint u, script_sig = [],
         tx_sequence = path_sequence L vault (sq_path req), tx_witness = []\<rparr>) selected,
       tx_output = \<lparr>txo_value = sq_amount_sats req,
           txo_script_pubkey = address_script_pubkey V dest\<rparr> #
         (if 0 < change then [\<lparr>txo_value = change,
            txo_script_pubkey = address_script_pubkey V addr\<rparr>] else [])\<rparr>"
    unfolding assemble_def Let_def if_Inl_eq_Inr rbind_Inr_iff ok_or_Inr_iff
    by (auto simp: rbind_Inr_iff if_Inl_eq_Inr ok_or_Inr_iff)
  have "total_sats selected = unat total_in"
    using 1(10) by (simp add: checked_sum_Inr_iff total_sats_def)
  then have "total_sats selected = unat target + unat change" "total_sats selected < 2 ^ 64"
    using 1(11) unat_lt [of total_in] by (simp_all add: checked_sub_Some_iff)
  with 1 show ?thesis by (intro that)
qed

text \<open>Signing changes witnesses and nothing else, and leaves none of the signed inputs without one.\<close>

definition resigned :: "transaction \<Rightarrow> transaction \<Rightarrow> bool" where
  "resigned tx tx' \<longleftrightarrow>
     tx_version tx' = tx_version tx \<and> tx_lock_time tx' = tx_lock_time tx \<and>
     tx_output tx' = tx_output tx \<and> length (tx_input tx') = length (tx_input tx) \<and>
     (\<forall>j<length (tx_input tx).
        previous_output (tx_input tx' ! j) = previous_output (tx_input tx ! j) \<and>
        script_sig (tx_input tx' ! j) = script_sig (tx_input tx ! j) \<and>
        tx_sequence (tx_input tx' ! j) = tx_sequence (tx_input tx ! j))"

lemma resigned_trans: "resigned tx tx' \<Longrightarrow> resigned tx' tx'' \<Longrightarrow> resigned tx tx''"
  by (simp add: resigned_def)

lemma set_witness_nth:
  "j < length (tx_input tx) \<Longrightarrow> tx_input (set_witness k w tx) ! j =
     (if j = k then (tx_input tx ! j)\<lparr>tx_witness := w\<rparr> else tx_input tx ! j)"
  by (cases "j = k") (simp_all add: set_witness_def)

lemma resigned_set_witness: "resigned tx (set_witness k w tx)"
  by (simp add: resigned_def set_witness_nth) (simp add: set_witness_def)

definition witnessed :: "('desc, 'addr) vault_lib \<Rightarrow> bool" where
  "witnessed V \<longleftrightarrow> (\<forall>d sigs older w s. desc_satisfaction V d sigs older = Some (w, s) \<longrightarrow> w \<noteq> [])"

lemma sign_step_Inr:
  assumes "sign_step V desc ws path keys tx (k, u) = Inr tx'"
  shows "\<exists>w sigs. desc_satisfaction V desc sigs (path = Recovery) = Some (w, []) \<and>
     tx' = set_witness k w tx"
proof -
  from assms obtain sighash where 1:
    "(case desc_satisfaction V desc (key_signatures V keys sighash) (path = Recovery) of
       Some (wit, sig) \<Rightarrow>
         if sig \<noteq> [] then build_err NonEmptyScriptSig else Inr (set_witness k wit tx)
     | None \<Rightarrow> build_err CouldNotSatisfy) = Inr tx'"
    unfolding sign_step_def by (auto simp: rbind_Inr_iff simp del: split_paired_Ex)
  then obtain w where
    "desc_satisfaction V desc (key_signatures V keys sighash) (path = Recovery) = Some (w, [])"
    "tx' = set_witness k w tx"
    by (cases "desc_satisfaction V desc (key_signatures V keys sighash) (path = Recovery)")
      (auto split: if_splits)
  then show ?thesis by blast
qed

lemma sign_fold:
  assumes "try_fold (sign_step V desc ws path keys) tx (enumerate k us) = Inr tx'"
    and "witnessed V" and "k + length us \<le> length (tx_input tx)"
  shows "resigned tx tx' \<and>
    (\<forall>j<length (tx_input tx). tx_witness (tx_input tx' ! j) \<noteq> [] \<or>
       \<not> (k \<le> j \<and> j < k + length us) \<and> tx_witness (tx_input tx' ! j) = tx_witness (tx_input tx ! j))"
  using assms(1,3)
proof (induction us arbitrary: k tx)
  case Nil
  then show ?case by (simp add: resigned_def)
next
  case (Cons u us)
  from Cons.prems(1) obtain tx1 where "sign_step V desc ws path keys tx (k, u) = Inr tx1"
    and rest: "try_fold (sign_step V desc ws path keys) tx1 (enumerate (Suc k) us) = Inr tx'"
    by (auto simp: rbind_Inr_iff)
  from sign_step_Inr [OF this(1)] obtain w sigs where
    "desc_satisfaction V desc sigs (path = Recovery) = Some (w, [])" and
    tx1: "tx1 = set_witness k w tx" by blast
  then have "w \<noteq> []" using assms(2) unfolding witnessed_def by blast
  have len: "length (tx_input tx1) = length (tx_input tx)" by (simp add: tx1 set_witness_def)
  from Cons.IH [OF rest] Cons.prems(2) len have IH: "resigned tx1 tx'"
    "\<forall>j<length (tx_input tx). tx_witness (tx_input tx' ! j) \<noteq> [] \<or>
       \<not> (Suc k \<le> j \<and> j < Suc k + length us) \<and>
       tx_witness (tx_input tx' ! j) = tx_witness (tx_input tx1 ! j)" by auto
  have "tx_witness (tx_input tx' ! j) \<noteq> [] \<or> \<not> (k \<le> j \<and> j < k + length (u # us)) \<and>
       tx_witness (tx_input tx' ! j) = tx_witness (tx_input tx ! j)"
    if "j < length (tx_input tx)" for j
    using IH(2) [rule_format, OF that] set_witness_nth [OF that, of k w] \<open>w \<noteq> []\<close>
    by (auto simp: tx1 split: if_splits)
  with resigned_trans [OF resigned_set_witness IH(1) [unfolded tx1]] show ?case by blast
qed

lemma sign_inputs_Inr:
  assumes "sign_inputs V desc ws path keys selected draft = Inr tx" and "witnessed V"
    and "length (tx_input draft) = length selected"
  shows "resigned draft tx \<and> (\<forall>i\<in>set (tx_input tx). tx_witness i \<noteq> [])"
proof -
  from sign_fold [OF assms(1) [unfolded sign_inputs_def] assms(2)] assms(3)
  have 1: "resigned draft tx" and "\<forall>j<length (tx_input draft). tx_witness (tx_input tx ! j) \<noteq> []"
    by auto
  moreover from 1 have "length (tx_input tx) = length (tx_input draft)" by (simp add: resigned_def)
  ultimately show ?thesis by (auto simp: in_set_conv_nth)
qed

lemma build_signed_Inr:
  assumes "build_signed L M V vault network utxos req keys = Inr (change, tx)"
  shows "\<exists>selected draft desc ws.
    assemble L M V vault network utxos req = Inr (selected, change, draft) \<and>
    sign_inputs V desc ws (sq_path req) keys selected draft = Inr tx"
  using assms by (auto simp: build_signed_def rbind_Inr_iff)

lemma resigned_previous_outputs:
  "resigned t t' \<Longrightarrow> map previous_output (tx_input t') = map previous_output (tx_input t)"
  by (auto simp: resigned_def intro: nth_equalityI)

text \<open>The selected coins.\<close>

lemma selected_coins:
  assumes "select_coins utxos target path = Inr selected"
  shows "set selected \<subseteq> {u \<in> set utxos. spendable_on path u}"
    and "distinct (map vu_outpoint utxos) \<longrightarrow> distinct (map vu_outpoint selected)"
    and "0 < length selected" and "length selected \<le> 100"
proof -
  from select_coins_Inr [OF assms] obtain n where n: "0 < n" "length selected = n" "n \<le> 100"
    "selected = take n (sorted_candidates utxos path)" by blast
  then show "0 < length selected" "length selected \<le> 100" by simp_all
  have "mset selected \<subseteq># mset (filter (spendable_on path) utxos)"
    using n(4) mset_take_subset [of n "sorted_candidates utxos path"] by (simp add: mset_candidates)
  then show "set selected \<subseteq> {u \<in> set utxos. spendable_on path u}" using set_mset_mono by fastforce
  show "distinct (map vu_outpoint utxos) \<longrightarrow> distinct (map vu_outpoint selected)"
  proof
    assume "distinct (map vu_outpoint utxos)"
    then have "distinct (map vu_outpoint (sorted_candidates utxos path))"
      by (simp add: sorted_candidates_def distinct_map inj_on_def)
    then show "distinct (map vu_outpoint selected)" unfolding n(4) by (metis distinct_take take_map)
  qed
qed

lemma sign_resigned:
  "try_fold (sign_step V desc ws path keys) t us = Inr t' \<Longrightarrow> resigned t t'"
proof (induction us arbitrary: t)
  case (Cons x us)
  obtain k u where "x = (k, u)" by fastforce
  with Cons obtain t1 where "sign_step V desc ws path keys t (k, u) = Inr t1" "resigned t1 t'"
    by (auto simp: rbind_Inr_iff)
  then show ?case using sign_step_Inr resigned_set_witness resigned_trans by metis
qed (simp add: resigned_def)

text \<open>What a built and signed transaction looks like, whichever path it takes.\<close>

definition signed_spend ::
    "bitcoin_lib \<Rightarrow> ('pol, 'ms, 'desc) miniscript_lib \<Rightarrow> ('desc, 'addr) vault_lib \<Rightarrow>
     vault_descriptor \<Rightarrow> network \<Rightarrow> vault_utxo list \<Rightarrow> spend_request \<Rightarrow> u64 \<Rightarrow> transaction \<Rightarrow>
     vault_utxo list \<Rightarrow> 'addr \<Rightarrow> 'addr \<Rightarrow> bool" where
  "signed_spend L M V vault network utxos req change tx selected addr dest \<longleftrightarrow>
     require_network M V vault network = Inr () \<and> sq_amount_sats req \<noteq> 0 \<and>
     \<not> MAX_FEE_SATS < sq_fee_sats req \<and> \<not> sq_amount_sats req < sq_fee_sats req \<and>
     (\<exists>target. checked_add (sq_amount_sats req) (sq_fee_sats req) = Some target) \<and>
     (\<exists>addr0. address_from_str V (sq_destination req) = Some addr0 \<and>
        address_require_network V addr0 network = Some dest) \<and>
     \<not> sq_amount_sats req < minimal_non_dust L (address_script_pubkey V dest) \<and>
     address M V vault = Inr addr \<and>
     \<not> (0 < change \<and> change < minimal_non_dust L (address_script_pubkey V addr)) \<and>
     set selected \<subseteq> {u \<in> set utxos. spendable_on (sq_path req) u} \<and>
     (distinct (map vu_outpoint utxos) \<longrightarrow> distinct (map vu_outpoint selected)) \<and>
     0 < length selected \<and> length selected \<le> 100 \<and>
     total_sats selected = unat (sq_amount_sats req) + unat (sq_fee_sats req) + unat change \<and>
     total_sats selected < 2 ^ 64 \<and>
     tx_version tx = 2 \<and> tx_lock_time tx = LOCK_TIME_ZERO \<and>
     map previous_output (tx_input tx) = map vu_outpoint selected \<and>
     (\<forall>i\<in>set (tx_input tx). tx_sequence i = path_sequence L vault (sq_path req)) \<and>
     (witnessed V \<longrightarrow> (\<forall>i\<in>set (tx_input tx). tx_witness i \<noteq> [])) \<and>
     tx_output tx =
       \<lparr>txo_value = sq_amount_sats req, txo_script_pubkey = address_script_pubkey V dest\<rparr> #
       (if 0 < change
        then [\<lparr>txo_value = change, txo_script_pubkey = address_script_pubkey V addr\<rparr>] else [])"

lemma build_signed_spend:
  assumes "build_signed L M V vault network utxos req keys = Inr (change, tx)"
  shows "\<exists>selected addr dest. signed_spend L M V vault network utxos req change tx selected addr dest"
proof -
  from build_signed_Inr [OF assms] obtain selected draft desc ws where
    a: "assemble L M V vault network utxos req = Inr (selected, change, draft)" and
    s: "sign_inputs V desc ws (sq_path req) keys selected draft = Inr tx" by blast
  from s have r: "resigned draft tx" unfolding sign_inputs_def by (rule sign_resigned)
  from a show ?thesis
  proof (rule assemble_Inr, goal_cases)
    case (1 addr addr0 dest target)
    note draft = 1(14)
    have "map previous_output (tx_input tx) = map vu_outpoint selected"
      using resigned_previous_outputs [OF r] by (simp add: draft comp_def)
    moreover have "\<forall>i\<in>set (tx_input tx). tx_sequence i = path_sequence L vault (sq_path req)"
      using r by (auto simp: resigned_def draft in_set_conv_nth)
    moreover have "witnessed V \<longrightarrow> (\<forall>i\<in>set (tx_input tx). tx_witness i \<noteq> [])"
      using sign_inputs_Inr [OF s] draft by auto
    moreover have "total_sats selected = unat (sq_amount_sats req) + unat (sq_fee_sats req) + unat change"
      using 1(5,10) by (simp add: checked_add_Some_iff)
    ultimately have "signed_spend L M V vault network utxos req change tx selected addr dest"
      using 1 r selected_coins [OF 1(9)] unfolding signed_spend_def
      by (intro conjI) (auto simp: resigned_def)
    then show ?case by blast
  qed
qed

lemma path_sequence_recovery:
  assumes "bip68_documented L" and "1 \<le> unat (vd_csv_blocks vault)"
    and "unat (vd_csv_blocks vault) \<le> 65535"
  shows "sequence_satisfies_older_csv L (path_sequence L vault Recovery) (vd_csv_blocks vault)"
proof -
  let ?h = "ucast (vd_csv_blocks vault) :: u16"
  have s: "path_sequence L vault Recovery = ucast ?h"
    using assms(1) by (simp add: path_sequence_def bip68_documented_def)
  have h: "unat ?h = unat (vd_csv_blocks vault)"
    using assms(3) by (simp only: unat_ucast_low16) simp
  have "unat (ucast ?h :: u32) = unat ?h" by (simp add: unat_ucast_widen)
  moreover have "\<not> bit (ucast ?h :: u32) 31" "\<not> bit (ucast ?h :: u32) 22"
    by (auto simp: bit_ucast_iff dest: bit_imp_le_length)
  ultimately show ?thesis
    unfolding sequence_satisfies_older_csv_iff [OF assms(1)] s
    using h assms(2,3) by simp
qed

text \<open>
  The CLI's recovery spends are the policy crate's recovery spends. Every input of a transaction
  the builder signs for the recovery path carries a sequence that \<open>require_recovery_sequence\<close> of
  the policy crate accepts for the vault's \<open>csv_blocks\<close>: the 16-bit cast loses nothing.\<close>

theorem recovery_build_passes_policy_sequence:
  assumes "build_signed L M V vault network utxos req keys = Inr (change, tx)"
    and "sq_path req = Recovery" and "bip68_documented L"
  shows "try_each (\<lambda>i. require_recovery_sequence L (tx_sequence i) (vd_csv_blocks vault))
    (tx_input tx) = Inr ()"
proof -
  from build_signed_spend [OF assms(1)] obtain selected addr dest where
    b: "signed_spend L M V vault network utxos req change tx selected addr dest" by blast
  then have "validate M V vault = Inr ()" by (simp add: signed_spend_def require_network_Inr_iff)
  from path_sequence_recovery [OF assms(3)] validate_csv [OF this]
  have "sequence_satisfies_older_csv L (path_sequence L vault Recovery) (vd_csv_blocks vault)" by simp
  with b assms(2) show ?thesis
    by (simp add: signed_spend_def try_each_Inr_iff require_recovery_sequence_Inr_iff)
qed

section \<open>The validator accepts what the builder makes\<close>

lemma available_coin_distinct:
  assumes "distinct (map vu_outpoint utxos)" and "u \<in> set utxos"
  shows "available_coin utxos (vu_outpoint u) = Some u"
proof -
  have "distinct (map fst (rev (map (\<lambda>u. (vu_outpoint u, u)) utxos)))"
    using assms(1) by (simp add: rev_map comp_def distinct_map)
  then show ?thesis unfolding available_coin_def using assms(2) by (simp add: map_of_eq_Some_iff)
qed

lemma coin_sats_selected:
  assumes "distinct (map vu_outpoint utxos)" and "set selected \<subseteq> set utxos"
    and "map previous_output ins = map vu_outpoint selected"
  shows "(\<Sum>i\<leftarrow>ins. coin_sats utxos i) = total_sats selected"
proof -
  have "map (coin_sats utxos) ins = map (\<lambda>u. unat (utxo_sats u)) selected"
  proof (rule nth_equalityI)
    show "length (map (coin_sats utxos) ins) = length (map (\<lambda>u. unat (utxo_sats u)) selected)"
      using assms(3) by (metis length_map)
    fix j assume j: "j < length (map (coin_sats utxos) ins)"
    moreover have "length ins = length selected" using assms(3) by (metis length_map)
    ultimately have "previous_output (ins ! j) = vu_outpoint (selected ! j)"
      using assms(3) by (metis length_map nth_map)
    moreover have "selected ! j \<in> set utxos"
      using j \<open>length ins = length selected\<close> assms(2) by auto
    ultimately show "map (coin_sats utxos) ins ! j = map (\<lambda>u. unat (utxo_sats u)) selected ! j"
      using j \<open>length ins = length selected\<close> available_coin_distinct [OF assms(1)]
      by (simp add: coin_sats_def)
  qed
  then show ?thesis by (simp add: total_sats_def)
qed

lemma built_input_accepted:
  assumes "distinct (map vu_outpoint utxos)" and "vault_coins M V vault utxos"
    and "address M V vault = Inr addr" and "set selected \<subseteq> {u \<in> set utxos. spendable_on path u}"
    and "map previous_output ins = map vu_outpoint selected" and "i \<in> set ins"
    and "tx_sequence i = path_sequence L vault path" and "tx_witness i \<noteq> []"
  shows "input_accepted L vault (address_script_pubkey V addr) utxos path i"
proof -
  from assms(6) have "previous_output i \<in> set (map vu_outpoint selected)"
    unfolding assms(5) [symmetric] by simp
  then obtain u where "u \<in> set selected" and u: "vu_outpoint u = previous_output i" by auto
  with assms(4) have "u \<in> set utxos" "spendable_on path u" by auto
  moreover from this have "txo_script_pubkey (vu_txout u) = address_script_pubkey V addr"
    using assms(2,3) by (simp add: vault_coins_def)
  moreover have "available_coin utxos (previous_output i) = Some u"
    using available_coin_distinct [OF assms(1)] calculation(1) u by metis
  ultimately show ?thesis using assms(7,8) by (auto simp: input_accepted_def)
qed

lemma check_outputs_accepts:
  assumes "tx_output tx = \<lparr>txo_value = sq_amount_sats req, txo_script_pubkey = ds\<rparr> #
      (if 0 < bs_change_sats built
       then [\<lparr>txo_value = bs_change_sats built, txo_script_pubkey = vs\<rparr>] else [])"
    and "unat total_in =
      unat (sq_amount_sats req) + unat (sq_fee_sats req) + unat (bs_change_sats built)"
    and "\<not> (0 < bs_change_sats built \<and> bs_change_sats built < minimal_non_dust L vs)"
    and "checked_add (sq_amount_sats req) (sq_fee_sats req) = Some target"
  shows "check_outputs L built req ds vs total_in tx = Inr tx"
proof -
  let ?a = "sq_amount_sats req" and ?c = "bs_change_sats built" and ?f = "sq_fee_sats req"
  have fits: "unat ?a + unat ?c + unat ?f < 2 ^ 64" using assms(2) unat_lt [of total_in] by simp
  have sum: "(\<Sum>out\<leftarrow>tx_output tx. unat (txo_value out)) = unat ?a + unat ?c"
    using assms(1) by (simp add: word_gt_0)
  obtain out where out: "checked_sum (SpendError (Checking OutputSumOverflow)) txo_value 0
      (tx_output tx) = Inr out" "unat out = unat ?a + unat ?c"
  proof (cases rule: checked_sum_cases [of "SpendError (Checking OutputSumOverflow)" txo_value 0
        "tx_output tx"])
    case (fits s)
    with that sum show ?thesis by simp
  next
    case overflows
    with sum fits show ?thesis by simp
  qed
  have "checked_sub total_in out = Some ?f" "checked_sub total_in target = Some ?c"
    using assms(2,4) out(2) by (simp_all add: checked_sub_Some_iff checked_add_Some_iff)
  then show ?thesis
    using assms(1,3,4) out(1) by (auto simp: check_outputs_def)
qed

text \<open>
  C13: builder and validator agree. If the wallet's coins are distinct and on the vault's script, a
  satisfaction is never an empty witness, and the serialised transaction decodes to itself, then the
  validator accepts every spend that the builder makes for the same request and returns the
  transaction that was signed.
\<close>

theorem validator_accepts_built_spend:
  assumes "build_signed L M V vault network utxos req keys = Inr (change, tx)"
    and "build_and_sign L M V vault network utxos req keys = Inr built"
    and "distinct (map vu_outpoint utxos)" and "vault_coins M V vault utxos" and "witnessed V"
    and "hex_to_bytes V (bytes_to_hex V (tx_serialize V tx)) = Some (tx_serialize V tx)"
    and "tx_deserialize V (tx_serialize V tx) = Some tx"
  shows "validate_built_spend L M V built vault network utxos req = Inr tx"
proof -
  from assms(1,2) obtain maxfee where maxfee: "maximum_fee V tx = Some maxfee"
    "\<not> maxfee < sq_fee_sats req" and
    built: "built = \<lparr>bs_tx_hex = bytes_to_hex V (tx_serialize V tx),
      bs_txid = txid_to_string V (compute_txid L tx), bs_path = sq_path req,
      bs_fee_sats = sq_fee_sats req, bs_amount_sats = sq_amount_sats req, bs_change_sats = change\<rparr>"
    by (auto simp: build_and_sign_def rbind_Inr_iff ok_or_Inr_iff if_Inl_eq_Inr)
  from build_signed_spend [OF assms(1)] obtain selected addr dest where
    "signed_spend L M V vault network utxos req change tx selected addr dest" by blast
  note b = this [unfolded signed_spend_def]
  from b have prev: "map previous_output (tx_input tx) = map vu_outpoint selected" by simp
  from prev have len: "length (tx_input tx) = length selected" by (metis length_map)
  have accepted: "input_accepted L vault (address_script_pubkey V addr) utxos (sq_path req) i"
    if "i \<in> set (tx_input tx)" for i
    using built_input_accepted [OF assms(3,4) _ _ prev that] b assms(5) that by blast
  define total_in :: u64 where "total_in = of_nat (total_sats selected)"
  have total_in: "unat total_in = total_sats selected"
    using b unfolding total_in_def by (simp only: unat_of_nat) simp
  have sum: "(\<Sum>i\<leftarrow>tx_input tx. coin_sats utxos i) = total_sats selected"
    using coin_sats_selected [OF assms(3) _ prev] b by blast
  have loop: "try_fold (check_input L vault (address_script_pubkey V addr) utxos (sq_path req))
      ([], 0) (tx_input tx) = Inr (rev (map previous_output (tx_input tx)), total_in)"
    unfolding check_inputs_Inr using accepted b assms(3) prev sum total_in by auto
  from b obtain goal where "checked_add (sq_amount_sats req) (sq_fee_sats req) = Some goal" by blast
  then have "check_outputs L built req (address_script_pubkey V dest) (address_script_pubkey V addr)
      total_in tx = Inr tx"
    by (rule check_outputs_accepts [rotated 3]) (use b total_in built in auto)
  moreover have "tx_input tx \<noteq> []" using len b by auto
  ultimately show ?thesis
    using b loop maxfee assms(6,7) len
    by (auto simp: validate_built_spend_def built Let_def MAX_SELECTED_INPUTS_def)
qed

lemma broadcast_sends_iff:
  "SendRawTransaction t \<in> set (snd (broadcast L V client tx)) \<longleftrightarrow>
     t = tx \<and> (\<exists>r. test_mempool_accept client tx = Inr [r] \<and> mr_txid r = compute_txid L tx \<and>
       mr_allowed r)"
  by (auto simp: broadcast_def length_Suc_conv split: sum.splits list.splits)

text \<open>
  Nothing is sent unseen. A broadcast sends a transaction only after Bitcoin Core answered the
  mempool test with exactly one result, for this txid, allowed; and it reports success only if the
  transaction was sent.\<close>

theorem broadcast_only_after_acceptance:
  "(SendRawTransaction t \<in> set (snd (broadcast L V client tx)) \<longleftrightarrow>
      t = tx \<and> (\<exists>r. test_mempool_accept client tx = Inr [r] \<and> mr_txid r = compute_txid L tx \<and>
        mr_allowed r)) \<and>
   (fst (broadcast L V client tx) = Inr shown \<longleftrightarrow>
      SendRawTransaction tx \<in> set (snd (broadcast L V client tx)) \<and>
      (\<exists>txid. send_raw_transaction client tx = Inr txid \<and> shown = txid_to_string V txid))"
  by (auto simp: broadcast_def length_Suc_conv split: sum.splits list.splits)

section \<open>A concrete recovery spend\<close>

definition toy_request :: spend_request where
  "toy_request =
     \<lparr>sq_destination = ''Q'', sq_amount_sats = 60000, sq_fee_sats = 500, sq_path = Recovery\<rparr>"

definition toy_tx :: transaction where
  "toy_tx =
     \<lparr>tx_version = 2, tx_lock_time = Blocks 0,
      tx_input = [\<lparr>previous_output = \<lparr>op_txid = [1], op_vout = 0\<rparr>, script_sig = [],
                   tx_sequence = 10, tx_witness = [[1]]\<rparr>],
      tx_output = [\<lparr>txo_value = 60000, txo_script_pubkey = [81]\<rparr>,
                   \<lparr>txo_value = 9500, txo_script_pubkey = [82]\<rparr>]\<rparr>"

definition toy_spend_lib :: "(string, bytes) vault_lib" where
  "toy_spend_lib = toy_vault_lib\<lparr>tx_serialize := \<lambda>_. [7], tx_deserialize := \<lambda>_. Some toy_tx\<rparr>"

definition toy_coins :: "vault_utxo list" where
  "toy_coins = [toy_coin 1 0 70000 12, toy_coin 2 1 50000 3]"

definition toy_keys :: "vault_key list" where
  "toy_keys = [\<lparr>vk_role = PrimaryKey, vk_inner = [1]\<rparr>, \<lparr>vk_role = AgentKey, vk_inner = [3]\<rparr>]"

definition toy_spend :: built_spend where
  "toy_spend =
     \<lparr>bs_tx_hex = [char_of (7 :: nat)], bs_txid = [], bs_path = Recovery, bs_fee_sats = 500,
      bs_amount_sats = 60000, bs_change_sats = 9500\<rparr>"

lemma toy_fields:
  "address_from_str toy_spend_lib = (\<lambda>s. Some (map (\<lambda>c. of_nat (of_char c)) s))"
  "address_require_network toy_spend_lib = (\<lambda>a _. Some a)"
  "address_script_pubkey toy_spend_lib = (\<lambda>a. a)"
  "desc_satisfaction toy_spend_lib = (\<lambda>_ sigs older.
     if sigs \<lparr>pk_compressed = True, pk_inner = [1]\<rparr> = None then None else Some ([[1]], []))"
  "p2wsh_sighash toy_spend_lib = (\<lambda>_ _ _ _ _. Some [])"
  "public_of_private toy_spend_lib = (\<lambda>k. \<lparr>pk_compressed = True, pk_inner = k\<rparr>)"
  "tx_vsize toy_spend_lib = (\<lambda>_. 200)" "tx_serialize toy_spend_lib = (\<lambda>_. [7])"
  "tx_deserialize toy_spend_lib = (\<lambda>_. Some toy_tx)"
  "bytes_to_hex toy_spend_lib = map (\<lambda>b. char_of (unat b))"
  "hex_to_bytes toy_spend_lib = (\<lambda>s. Some (map (\<lambda>c. of_nat (of_char c)) s))"
  "txid_to_string toy_spend_lib = map (\<lambda>b. char_of (unat b))"
  "descriptor_from_str toy_spend_lib = Some"
  "descriptor_explicit_script toy_miniscript = (\<lambda>_. Some [83])"
  "compute_txid bip68_lib = (\<lambda>_. [])" "minimal_non_dust bip68_lib = (\<lambda>_. 330)"
  "sequence_from_height bip68_lib = (\<lambda>h. ucast h)" "vd_csv_blocks toy_vault = 10"
  by (simp_all add: toy_spend_lib_def toy_vault_lib_def toy_miniscript_def bip68_lib_def toy_vault_def)

lemma toy_spend_documented: "vault_documented toy_miniscript toy_spend_lib"
  using toy_documented by (simp add: vault_documented_def toy_spend_lib_def)

lemma toy_spend_vault:
  "build toy_miniscript toy_spend_lib (toy_key 1) (toy_key 2) (toy_key 3) 10 Regtest = Inr toy_vault"
  by (simp add: build_Inr_iff compile_vault_descriptor_Inr_iff toy_vault_def)
    (simp add: toy_miniscript_def toy_spend_lib_def toy_vault_lib_def toy_net_to_string_def)

lemma toy_spend_network:
  "require_network toy_miniscript toy_spend_lib toy_vault Regtest = Inr ()"
  "address toy_miniscript toy_spend_lib toy_vault = Inr [82]"
  using built_validates [OF toy_spend_documented toy_spend_vault]
  by (simp_all add: require_network_def address_def stored_network_def parsed_def toy_spend_lib_def
      toy_vault_lib_def toy_vault_def toy_net_from_str_def toy_net_to_string_def)

lemma toy_signed:
  "build_signed bip68_lib toy_miniscript toy_spend_lib toy_vault Regtest toy_coins toy_request toy_keys
    = Inr (9500, toy_tx)"
proof -
  have "select_coins toy_coins 60500 Recovery = Inr [toy_coin 1 0 70000 12]"
    by (simp add: select_coins_def sorted_candidates_def toy_coins_def toy_coin_def spendable_on_def
        checked_add_def MAX_SELECTED_INPUTS_def)
  moreover have "checked_add 60000 500 = Some (60500 :: u64)" by (simp add: checked_add_def)
  moreover have "checked_sum e utxo_sats 0 [toy_coin 1 0 70000 12] = Inr 70000" for e :: error
    by (simp add: checked_add_def toy_coin_def)
  moreover have "checked_sub 70000 60500 = Some (9500 :: u64)" by (simp add: checked_sub_def)
  ultimately have a: "assemble bip68_lib toy_miniscript toy_spend_lib toy_vault Regtest toy_coins
      toy_request = Inr ([toy_coin 1 0 70000 12], 9500,
        toy_tx\<lparr>tx_input := [(tx_input toy_tx ! 0)\<lparr>tx_witness := []\<rparr>]\<rparr>)"
    by (simp add: assemble_def toy_request_def toy_spend_network MAX_FEE_SATS_def Let_def toy_fields
        toy_tx_def toy_coin_def path_sequence_def LOCK_TIME_ZERO_def)
  show ?thesis
    by (simp add: build_signed_def a parsed_def sign_inputs_def sign_step_def toy_fields
        key_signatures_def public_key_of_def toy_keys_def set_witness_def)
      (simp add: toy_tx_def)
qed

lemma toy_build_and_sign:
  "build_and_sign bip68_lib toy_miniscript toy_spend_lib toy_vault Regtest toy_coins toy_request
    toy_keys = Inr toy_spend"
  by (simp add: build_and_sign_def toy_signed maximum_fee_def toy_fields checked_mul_def
      MAX_FEE_RATE_SAT_PER_VB_def)
    (simp add: toy_request_def toy_spend_def)

lemma toy_side_conditions:
  "distinct (map vu_outpoint toy_coins)" "vault_coins toy_miniscript toy_spend_lib toy_vault toy_coins"
  "witnessed toy_spend_lib"
  by (auto simp: toy_coins_def toy_coin_def vault_coins_def toy_spend_network witnessed_def
      toy_fields split: if_splits)

theorem validator_accepts_built_spend_witness:
  "validate_built_spend bip68_lib toy_miniscript toy_spend_lib toy_spend toy_vault Regtest toy_coins
    toy_request = Inr toy_tx"
  by (rule validator_accepts_built_spend [OF toy_signed toy_build_and_sign toy_side_conditions])
    (simp_all add: toy_fields)

lemma toy_validated:
  "validate_built_spend bip68_lib toy_miniscript toy_spend_lib toy_spend toy_vault Regtest toy_coins
    toy_request = Inr toy_tx"
proof -
  have "available_coin toy_coins \<lparr>op_txid = [1], op_vout = 0\<rparr> = Some (toy_coin 1 0 70000 12)"
    by (simp add: available_coin_def toy_coins_def toy_coin_def)
  moreover have "checked_add 0 70000 = Some (70000 :: u64)" "checked_add 60000 500 = Some (60500 :: u64)"
    "checked_add 0 60000 = Some (60000 :: u64)" "checked_add 60000 9500 = Some (69500 :: u64)"
    "checked_sub 70000 69500 = Some (500 :: u64)" "checked_sub 70000 60500 = Some (9500 :: u64)"
    "checked_mul 200 100 = Some (20000 :: u64)"
    by (simp_all add: checked_add_def checked_sub_def checked_mul_def)
  ultimately show ?thesis
    by (simp add: validate_built_spend_def toy_request_def toy_spend_def toy_spend_network
        MAX_FEE_SATS_def Let_def maximum_fee_def MAX_FEE_RATE_SAT_PER_VB_def toy_fields toy_tx_def
        check_input_def check_outputs_def path_sequence_def LOCK_TIME_ZERO_def toy_coin_def
        spendable_on_def MAX_SELECTED_INPUTS_def)
qed

theorem validated_spend_pays_as_requested_witness:
  "(\<Sum>i\<leftarrow>tx_input toy_tx. coin_sats toy_coins i) = 60000 + 500 + 9500 \<and>
   distinct (map previous_output (tx_input toy_tx))"
  using validated_spend_pays_as_requested [OF toy_validated]
  by (auto simp: toy_request_def toy_spend_def)

theorem recovery_build_passes_policy_sequence_witness:
  "try_each (\<lambda>i. require_recovery_sequence bip68_lib (tx_sequence i) 10) (tx_input toy_tx) = Inr ()"
  using recovery_build_passes_policy_sequence [OF toy_signed _ bip68_lib_documented]
  by (simp add: toy_request_def toy_vault_def)

end
