(* ===== verification/Policy_Agreement.thy ===== *)
theory Policy_Agreement
  imports Evaluate_Safety Spend_Correct
begin

text \<open>
  The command line tool and the policy of the agent, together: which of the recovery spends that the
  tool builds the agent would sign. The two crates have separate rules for fees, dust, sequences,
  input counts and amounts; here they meet on one transaction.
\<close>

section \<open>The PSBT of a built spend\<close>

definition stripped :: "transaction \<Rightarrow> transaction" where
  "stripped tx = tx\<lparr>tx_input := map (\<lambda>i. i\<lparr>tx_witness := []\<rparr>) (tx_input tx)\<rparr>"

definition carries_coin :: "bitcoin_lib \<Rightarrow> agent_pin \<Rightarrow> vault_utxo \<Rightarrow> psbt_input \<Rightarrow> bool" where
  "carries_coin L pin u input \<longleftrightarrow>
     witness_utxo input = Some (vu_txout u) \<and> non_witness_utxo input = None \<and>
     witness_script input = Some (pin_witness_script pin) \<and> redeem_script input = None \<and>
     psbt_sighash_type input = Some (psbt_sighash_from L SighashAll) \<and>
     partial_sigs input = [] \<and> bip32_derivation input = [] \<and>
     final_script_sig input = None \<and> final_script_witness input = None"

definition cosigning_psbt ::
    "bitcoin_lib \<Rightarrow> agent_pin \<Rightarrow> vault_utxo list \<Rightarrow> transaction \<Rightarrow> psbt \<Rightarrow> bool" where
  "cosigning_psbt L pin utxos tx psbt \<longleftrightarrow>
     psbt_version psbt = 0 \<and> unsigned_tx psbt = stripped tx \<and> no_unknown_fields psbt \<and>
     length (psbt_outputs psbt) = length (tx_output tx) \<and>
     list_all2 (\<lambda>i input. \<exists>u\<in>set utxos. vu_outpoint u = previous_output i \<and> carries_coin L pin u input)
       (tx_input tx) (psbt_inputs psbt)"

text \<open>Core B knows the spent coins as the wallet does, and they are old enough for the policy.\<close>

definition core_confirms ::
    "agent_pin \<Rightarrow> chain_view \<Rightarrow> vault_utxo list \<Rightarrow> transaction \<Rightarrow> bool" where
  "core_confirms pin chain utxos tx \<longleftrightarrow>
     chain_genesis_hash chain = pin_genesis_hash pin \<and>
     (\<forall>i\<in>set (tx_input tx). \<forall>u\<in>set utxos. vu_outpoint u = previous_output i \<longrightarrow>
        (\<exists>fact. find_fact chain i = Some fact \<and> visible_unspent fact \<and>
           fact_script_pubkey fact = txo_script_pubkey (vu_txout u) \<and>
           fact_value fact = txo_value (vu_txout u) \<and> matured pin chain fact))"

definition same_vault ::
    "('pol, 'ms, 'desc) miniscript_lib \<Rightarrow> ('desc, 'addr) vault_lib \<Rightarrow> vault_descriptor \<Rightarrow>
     agent_pin \<Rightarrow> bool" where
  "same_vault M V vault pin \<longleftrightarrow>
     locked_pin pin \<and> pin_csv_blocks pin = vd_csv_blocks vault \<and>
     (\<forall>addr. address M V vault = Inr addr \<longrightarrow> address_script_pubkey V addr = pin_script_pubkey pin)"

lemma stripped_fields [simp]:
  "tx_version (stripped tx) = tx_version tx" "tx_lock_time (stripped tx) = tx_lock_time tx"
  "tx_output (stripped tx) = tx_output tx" "length (tx_input (stripped tx)) = length (tx_input tx)"
  "map previous_output (tx_input (stripped tx)) = map previous_output (tx_input tx)"
  "k < length (tx_input tx) \<Longrightarrow> tx_input (stripped tx) ! k = (tx_input tx ! k)\<lparr>tx_witness := []\<rparr>"
  by (simp_all add: stripped_def comp_def)

lemma find_fact_stripped [simp]: "find_fact chain (i\<lparr>tx_witness := w\<rparr>) = find_fact chain i"
  by (simp add: find_fact_def)

section \<open>What the policy sees\<close>

lemma carried_input_permitted:
  assumes "carries_coin L pin u input" and "txo_script_pubkey (vu_txout u) = pin_script_pubkey pin"
    and "sequence_satisfies_older_csv L (tx_sequence i) (pin_csv_blocks pin)"
    and "find_fact chain i = Some pf" and "visible_unspent pf"
    and "fact_script_pubkey pf = txo_script_pubkey (vu_txout u)"
    and "fact_value pf = txo_value (vu_txout u)" and "matured pin chain pf"
  shows "permitted_input L pin chain (i\<lparr>tx_witness := []\<rparr>) input (vu_txout u)"
  using assms
  by (simp add: permitted_input_def input_prevout_def input_is_sighash_all_def pinned_input_def
      confirmed_prevout_def on_recovery_path_def has_sig_def carries_coin_def)

lemma permitted_inputs_unique:
  "permitted_inputs L pin chain psbt ps \<Longrightarrow> permitted_inputs L pin chain psbt qs \<Longrightarrow> ps = qs"
  by (auto simp: permitted_inputs_def permitted_input_def intro!: nth_equalityI)

text \<open>The amounts of a spend with one payment and at most one change output.\<close>

lemma built_amounts:
  assumes "tx_output tx = \<lparr>txo_value = amount, txo_script_pubkey = ds\<rparr> #
      (if 0 < change then [\<lparr>txo_value = change, txo_script_pubkey = pin_script_pubkey pin\<rparr>] else [])"
    and "(\<Sum>out\<leftarrow>prevs. unat (txo_value out)) = unat amount + unat fee + unat change"
    and "unat amount + unat fee + unat change < 2 ^ 64"
  shows "amounts_spec pin tx prevs a \<longleftrightarrow> ds \<noteq> pin_script_pubkey pin \<and>
    a = \<lparr>ab_external_sats = amount, ab_external_script = ds, ab_change_sats = change,
         ab_fee_sats = fee, ab_input_sats = amount + fee + change\<rparr>" (is "_ \<longleftrightarrow> _ \<and> a = ?a")
proof (cases "ds = pin_script_pubkey pin")
  case True
  then show ?thesis using assms(1) by (simp add: amounts_spec_def)
next
  case False
  have "unat (amount + fee) = unat amount + unat fee"
    using assms(3) by (intro unat_add_lem [THEN iffD1]) simp
  moreover from this have "unat (amount + fee + change) = unat (amount + fee) + unat change"
    using assms(3) by (intro unat_add_lem [THEN iffD1]) simp
  ultimately have "amounts_spec pin tx prevs ?a"
    using False assms(1,2) by (simp add: amounts_spec_def word_gt_0)
  with False amounts_spec_unique [of pin tx prevs] show ?thesis by blast
qed


section \<open>The two halves agree\<close>

text \<open>The coins of a spend for the policy: every input is permitted, with its coin as previous output.\<close>

lemma cosigned_inputs:
  assumes "signed_spend L M V vault network utxos req change tx selected addr dest"
    and "sq_path req = Recovery" and "bip68_documented L"
    and "distinct (map vu_outpoint utxos)" and "vault_coins M V vault utxos"
    and "same_vault M V vault pin" and "cosigning_psbt L pin utxos tx psbt"
    and "core_confirms pin chain utxos tx"
  shows "permitted_inputs L pin chain psbt (map vu_txout selected)"
  unfolding permitted_inputs_def
proof (intro conjI allI impI)
  from assms(1) have prev: "map previous_output (tx_input tx) = map vu_outpoint selected"
    and sel: "set selected \<subseteq> set utxos" and addr: "address M V vault = Inr addr"
    and "validate M V vault = Inr ()"
    by (auto simp: signed_spend_def require_network_Inr_iff)
  then have older: "sequence_satisfies_older_csv L (path_sequence L vault Recovery)
      (vd_csv_blocks vault)"
    using path_sequence_recovery [OF assms(3)] validate_csv by blast
  have psbt: "unsigned_tx psbt = stripped tx" "length (psbt_inputs psbt) = length (tx_input tx)"
    using assms(7) by (auto simp: cosigning_psbt_def dest: list_all2_lengthD)
  have len: "length (tx_input tx) = length selected" using prev by (metis length_map)
  show "length (map vu_txout selected) = length (psbt_inputs psbt)" using psbt(2) len by simp
  fix k assume "k < length (psbt_inputs psbt)"
  then have k: "k < length selected" "k < length (tx_input tx)" using psbt(2) len by simp_all
  let ?i = "tx_input tx ! k" and ?u = "selected ! k"
  have u: "?u \<in> set utxos" using sel k(1) by (meson nth_mem subsetD)
  have "map previous_output (tx_input tx) ! k = map vu_outpoint selected ! k" by (simp only: prev)
  then have same: "vu_outpoint ?u = previous_output ?i" using k by simp
  from assms(7) k obtain v where "v \<in> set utxos" "vu_outpoint v = previous_output ?i"
    "carries_coin L pin v (psbt_inputs psbt ! k)"
    by (auto simp: cosigning_psbt_def list_all2_conv_all_nth)
  moreover from this(1,2) u same assms(4) have "v = ?u" unfolding distinct_map inj_on_def by metis
  moreover obtain pf where "find_fact chain ?i = Some pf" "visible_unspent pf"
    "fact_script_pubkey pf = txo_script_pubkey (vu_txout ?u)"
    "fact_value pf = txo_value (vu_txout ?u)" "matured pin chain pf"
    using assms(8) u same nth_mem [OF k(2)] unfolding core_confirms_def by blast
  moreover have "txo_script_pubkey (vu_txout ?u) = pin_script_pubkey pin"
    using assms(5,6) u addr by (simp add: vault_coins_def same_vault_def)
  moreover have "tx_sequence ?i = path_sequence L vault Recovery" "pin_csv_blocks pin = vd_csv_blocks vault"
    using assms(1,2,6) nth_mem [OF k(2)] by (auto simp: signed_spend_def same_vault_def)
  ultimately show "permitted_input L pin chain (tx_input (unsigned_tx psbt) ! k)
      (psbt_inputs psbt ! k) (map vu_txout selected ! k)"
    using carried_input_permitted [of L pin ?u "psbt_inputs psbt ! k" ?i chain pf] older k
    by (simp add: psbt(1))
qed

definition spend_amounts_of :: "spend_request \<Rightarrow> u64 \<Rightarrow> transaction \<Rightarrow> amount_breakdown" where
  "spend_amounts_of req change tx =
     \<lparr>ab_external_sats = sq_amount_sats req,
      ab_external_script = txo_script_pubkey (tx_output tx ! 0), ab_change_sats = change,
      ab_fee_sats = sq_fee_sats req,
      ab_input_sats = sq_amount_sats req + sq_fee_sats req + change\<rparr>"

text \<open>What only the policy asks for.\<close>

definition policy_demands ::
    "bitcoin_lib \<Rightarrow> agent_pin \<Rightarrow> policy_request \<Rightarrow> chain_view \<Rightarrow> velocity_sample list \<Rightarrow> psbt \<Rightarrow>
     spend_request \<Rightarrow> bool" where
  "policy_demands L pin request chain samples psbt req \<longleftrightarrow>
     txo_script_pubkey (tx_output (unsigned_tx psbt) ! 0) \<noteq> pin_script_pubkey pin \<and>
     sq_fee_sats req \<noteq> 0 \<and> req_claimed_external_sats request = sq_amount_sats req \<and>
     within_velocity pin chain samples Fresh (sq_amount_sats req) \<and>
     confirmed_spend L pin request psbt (sq_amount_sats req)"

lemma built_spend_permitted:
  assumes "signed_spend L M V vault network utxos req change tx selected addr dest"
    and "sq_path req = Recovery" and "bip68_documented L"
    and "distinct (map vu_outpoint utxos)" and "vault_coins M V vault utxos"
    and "same_vault M V vault pin" and "cosigning_psbt L pin utxos tx psbt"
    and "core_confirms pin chain utxos tx"
  shows "permits L pin request chain samples psbt Fresh a \<longleftrightarrow>
    a = spend_amounts_of req change tx \<and> policy_demands L pin request chain samples psbt req"
proof -
  let ?prevs = "map vu_txout selected"
  note b = assms(1) [unfolded signed_spend_def]
  have pin: "address_script_pubkey V addr = pin_script_pubkey pin" "locked_pin pin"
    using assms(6) b by (auto simp: same_vault_def)
  have psbt: "unsigned_tx psbt = stripped tx" "length (psbt_inputs psbt) = length (tx_input tx)"
    using assms(7) by (auto simp: cosigning_psbt_def dest: list_all2_lengthD)
  have len: "length (psbt_inputs psbt) \<le> 100" using b psbt(2) by (metis length_map)
  have "(\<Sum>out\<leftarrow>?prevs. unat (txo_value out)) =
      unat (sq_amount_sats req) + unat (sq_fee_sats req) + unat change"
    using b by (simp add: total_sats_def comp_def)
  from built_amounts [OF _ this, of "stripped tx" "address_script_pubkey V dest" pin a] b pin(1)
  have amounts: "amounts_spec pin (stripped tx) ?prevs a \<longleftrightarrow>
      txo_script_pubkey (tx_output tx ! 0) \<noteq> pin_script_pubkey pin \<and>
      a = spend_amounts_of req change tx"
    by (simp add: spend_amounts_of_def)
  have once: "(\<exists>ps. permitted_inputs L pin chain psbt ps \<and> amounts_spec pin (stripped tx) ps a) \<longleftrightarrow>
      amounts_spec pin (stripped tx) ?prevs a"
    using cosigned_inputs [OF assms] permitted_inputs_unique by blast
  have dust: "no_dust L pin (spend_amounts_of req change tx)"
    using b pin(1) by (auto simp: no_dust_def spend_amounts_of_def word_gt_0)
  have fee: "unat (sq_fee_sats req) \<le> 1000000"
    using b by (simp add: MAX_FEE_SATS_def not_less word_le_nat_alt)
  have form: "tx_lock_time tx = Blocks 0" "tx_version tx = 2"
    using b by (simp_all add: LOCK_TIME_ZERO_def)
  have chain: "chain_genesis_hash chain = pin_genesis_hash pin"
    "pin_wall_clock_seconds_per_block pin = WALL_CLOCK_SECONDS_PER_BLOCK"
    using assms(8) pin(2) by (simp_all add: core_confirms_def locked_pin_def)
  have fields: "ab_fee_sats (spend_amounts_of req change tx) = sq_fee_sats req"
    "ab_external_sats (spend_amounts_of req change tx) = sq_amount_sats req"
    by (simp_all add: spend_amounts_of_def)
  show ?thesis
    unfolding permits_def psbt(1) once amounts policy_demands_def
    by (cases "a = spend_amounts_of req change tx")
      (auto simp: dust fee form chain fields len unat_gt_0)
qed

text \<open>
  C15: the policy accepts the CLI's recovery spends, up to exactly what only the policy asks for. Take
  any spend that the builder signs for the recovery path, its PSBT without witnesses, coins that
  Core B confirms as old enough, and a store without a record of this request or these coins. Then
  \<open>evaluate\<close> validates it, with the amounts of the request, exactly if the fee is not zero, the
  destination is not the vault itself, the claimed amount is the real one, and the velocity caps
  and the confirm token allow the amount. Version, locktime, sequences, input count, fee cap, dust
  and scripts are never the reason of a refusal.
\<close>

theorem recovery_spend_meets_policy:
  assumes "build_signed L M V vault network utxos req keys = Inr (change, tx)"
    and "sq_path req = Recovery" and "bip68_documented L"
    and "distinct (map vu_outpoint utxos)" and "vault_coins M V vault utxos"
    and "same_vault M V vault pin" and "cosigning_psbt L pin utxos tx psbt"
    and "core_confirms pin chain utxos tx" and "auth_ok auth"
    and "psbt_deserialize L (req_psbt_bytes request) = Some psbt"
    and "from_pin L pin (req_request_id request) psbt (req_psbt_bytes request) = Inr c"
    and "\<forall>r\<in>set (records store). rr_request_id r \<noteq> req_request_id request \<and>
      set (rr_outpoints r) \<inter> previous_output ` set (tx_input tx) = {}"
  shows "evaluate L pin request auth chain store samples = Inr (ValidatedUnsigned v r a) \<longleftrightarrow>
    v = Fresh \<and> r = c \<and> a = spend_amounts_of req change tx \<and>
    policy_demands L pin request chain samples psbt req"
proof -
  from build_signed_spend [OF assms(1)] obtain selected addr dest where
    s: "signed_spend L M V vault network utxos req change tx selected addr dest" by blast
  note permits = built_spend_permitted [OF s assms(2-8), of request samples a]
  have p: "unsigned_tx psbt = stripped tx" "no_unknown_fields psbt" "psbt_version psbt = 0"
    "length (psbt_outputs psbt) = length (tx_output tx)"
    "length (psbt_inputs psbt) = length (tx_input tx)"
    using assms(7) by (auto simp: cosigning_psbt_def dest: list_all2_lengthD)
  have "tx_output tx \<noteq> []" "tx_input tx \<noteq> []" using s by (auto simp: signed_spend_def)
  then have parse: "parse_psbt_v0 L (req_psbt_bytes request) = Inr psbt"
    using assms(10) p by (auto simp: parse_psbt_v0_Inr_iff stripped_def)
  have "rr_outpoints c = map previous_output (tx_input tx)" "rr_request_id c = req_request_id request"
    using from_pin_fields [OF assms(11)] p(1) by simp_all
  then have fresh: "preflight store c = Inr Fresh"
    using assms(12) by (auto simp: preflight_fresh_iff outpoints_overlap_def)
  show ?thesis
    using assms(9,11) parse p(2) fresh concludes_validated_iff [OF parse assms(11) fresh] permits
    unfolding evaluate_Inr_iff by auto
qed

section \<open>A co-signed payment\<close>

text \<open>The pin of the toy vault, its PSBT and Core B's view of the spent coin.\<close>

definition agreed_pin :: agent_pin where
  "agreed_pin =
     spend_pin\<lparr>pin_csv_blocks := 10, pin_network := Regtest, pin_script_pubkey := [82],
       pin_witness_script := [83]\<rparr>"

definition agreed_input :: psbt_input where
  "agreed_input =
     spend_input\<lparr>witness_utxo := Some (vu_txout (toy_coin 1 0 70000 12)), witness_script := Some [83],
       psbt_sighash_type := Some 1\<rparr>"

definition agreed_psbt :: psbt where
  "agreed_psbt = spend_psbt\<lparr>unsigned_tx := stripped toy_tx, psbt_inputs := [agreed_input]\<rparr>"

definition agreed_lib :: bitcoin_lib where
  "agreed_lib =
     bip68_lib\<lparr>psbt_deserialize := \<lambda>_. Some agreed_psbt,
       consensus_encode := \<lambda>out. Some (txo_script_pubkey out)\<rparr>"

definition agreed_chain :: chain_view where
  "agreed_chain =
     spend_chain\<lparr>chain_prevouts := [\<lparr>fact_outpoint = \<lparr>op_txid = [1], op_vout = 0\<rparr>, fact_value = 70000,
       fact_script_pubkey = [82], confirm_height = 1000, header_time_unix = 1600000000,
       visible_unspent = True\<rparr>]\<rparr>"

definition agreed_request :: policy_request where
  "agreed_request =
     spend_request\<lparr>req_confirm_token := None, req_claimed_external_sats := 60000\<rparr>"

lemma agreed_signed:
  "build_signed agreed_lib toy_miniscript toy_spend_lib toy_vault Regtest toy_coins toy_request toy_keys
    = Inr (9500, toy_tx)"
proof -
  have same: "path_sequence agreed_lib = path_sequence bip68_lib"
    "minimal_non_dust agreed_lib = minimal_non_dust bip68_lib"
    by (simp_all add: fun_eq_iff path_sequence_def agreed_lib_def split: spend_path.split)
  have "build_signed agreed_lib toy_miniscript toy_spend_lib = build_signed bip68_lib toy_miniscript
      toy_spend_lib"
    by (intro ext) (simp only: build_signed_def assemble_def same)
  then show ?thesis using toy_signed by simp
qed

lemma agreed_facts:
  "bip68_documented agreed_lib" "same_vault toy_miniscript toy_spend_lib toy_vault agreed_pin"
  "cosigning_psbt agreed_lib agreed_pin toy_coins toy_tx agreed_psbt"
  "core_confirms agreed_pin agreed_chain toy_coins toy_tx"
proof -
  show "bip68_documented agreed_lib"
    using bip68_lib_documented by (simp add: bip68_documented_def agreed_lib_def)
  show "same_vault toy_miniscript toy_spend_lib toy_vault agreed_pin"
    using spend_pin_locked
    by (auto simp: same_vault_def locked_pin_def agreed_pin_def toy_fields toy_spend_network)
  show "cosigning_psbt agreed_lib agreed_pin toy_coins toy_tx agreed_psbt"
    by (simp add: cosigning_psbt_def carries_coin_def no_unknown_fields_def input_has_unknown_fields_def
        output_has_unknown_fields_def agreed_psbt_def agreed_input_def agreed_lib_def agreed_pin_def
        bip68_lib_def spend_psbt_def spend_input_def spend_output_def toy_tx_def toy_coins_def)
      (simp add: toy_coin_def)
  show "core_confirms agreed_pin agreed_chain toy_coins toy_tx"
    by (simp add: core_confirms_def find_fact_def agreed_chain_def spend_chain_def agreed_pin_def
        spend_pin_def toy_tx_def toy_coins_def matured_def csv_mature_def toy_coin_def)
qed

theorem recovery_spend_meets_policy_witness:
  "\<exists>c. evaluate agreed_lib agreed_pin agreed_request \<lparr>auth_ok = True\<rparr> agreed_chain \<lparr>records = []\<rparr> [] =
     Inr (ValidatedUnsigned Fresh c
       \<lparr>ab_external_sats = 60000, ab_external_script = [81], ab_change_sats = 9500, ab_fee_sats = 500,
        ab_input_sats = 70000\<rparr>)"
proof -
  obtain c where c: "from_pin agreed_lib agreed_pin (req_request_id agreed_request) agreed_psbt
      (req_psbt_bytes agreed_request) = Inr c"
    by (simp add: from_pin_def outputs_commitment_def agreed_lib_def agreed_psbt_def spend_psbt_def
        stripped_def toy_tx_def Let_def)
  have d: "psbt_deserialize agreed_lib (req_psbt_bytes agreed_request) = Some agreed_psbt"
    by (simp add: agreed_lib_def)
  have "sq_path toy_request = Recovery" by (simp add: toy_request_def)
  note * = recovery_spend_meets_policy [OF agreed_signed this agreed_facts(1) toy_side_conditions(1,2)
      agreed_facts(2-4) _ d c, of "\<lparr>auth_ok = True\<rparr>" "\<lparr>records = []\<rparr>" "[]"]
  have "within_velocity agreed_pin agreed_chain [] Fresh 60000"
    by (simp add: within_velocity_def window_sum_def agreed_pin_def spend_pin_def)
  moreover have "confirmed_spend agreed_lib agreed_pin agreed_request agreed_psbt 60000"
    by (simp add: confirmed_spend_def agreed_pin_def spend_pin_def)
  ultimately show ?thesis
    using * by (simp add: spend_amounts_of_def policy_demands_def toy_request_def toy_tx_def
        agreed_request_def agreed_pin_def agreed_psbt_def)
qed

end
