(* ===== verification/Config.thy ===== *)
theory Config
  imports Descriptor Text
begin

text \<open>
  The configuration of the CLI (\<open>src/config.rs\<close>): network, RPC endpoint, wallet name and vault
  settings, their validation, and the generated example. A Rust string is the list of its UTF-8
  bytes. The theorems give the exact language of accepted RPC endpoints and settings. Reading the
  file and the TOML parser are in \<open>State_Files\<close>.
\<close>

section \<open>Strings\<close>

definition strip_prefix :: "string \<Rightarrow> string \<Rightarrow> string option" where
  "strip_prefix p s = (if take (length p) s = p then Some (drop (length p) s) else None)"

lemma strip_prefix_Some_iff: "strip_prefix p s = Some rest \<longleftrightarrow> s = p @ rest"
  by (auto simp: strip_prefix_def) (metis append_take_drop_id)

definition is_ascii_digit :: "char \<Rightarrow> bool" where
  "is_ascii_digit c \<longleftrightarrow> (of_char c :: nat) \<in> {48..57}"

definition is_ascii_alphanumeric :: "char \<Rightarrow> bool" where
  "is_ascii_alphanumeric c \<longleftrightarrow>
     is_ascii_digit c \<or> (of_char c :: nat) \<in> {65..90} \<or> (of_char c :: nat) \<in> {97..122}"

definition ascii_lower :: "char \<Rightarrow> char" where
  "ascii_lower c = (if (of_char c :: nat) \<in> {65..90} then char_of ((of_char c :: nat) + 32) else c)"

definition eq_ignore_ascii_case :: "string \<Rightarrow> string \<Rightarrow> bool" where
  "eq_ignore_ascii_case a b \<longleftrightarrow> map ascii_lower a = map ascii_lower b"

section \<open>The code\<close>

record bitcoin_config =
  bc_network :: string
  bc_cookie_path :: "string option"
  bc_rpc_url :: string
  bc_rpc_user :: "string option"
  bc_rpc_password :: "string option"
  bc_wallet_name :: string

record vault_config =
  vc_state_path :: string
  vc_csv_blocks :: u32
  vc_keys_dir :: string

record config =
  cfg_bitcoin :: bitcoin_config
  cfg_vault :: vault_config

definition config_network ::
    "('desc, 'addr) vault_lib \<Rightarrow> bitcoin_config \<Rightarrow> network vault_result" where
  "config_network V self =
     (if eq_ignore_ascii_case (bc_network self) ''mainnet'' then Inr Bitcoin
      else ok_or (ConfigError (NetworkUnknown (bc_network self)))
             (network_from_str V (bc_network self)))"

definition is_loopback_rpc_url :: "string \<Rightarrow> bool" where
  "is_loopback_rpc_url url =
     (case strip_prefix ''http://'' url of
        None \<Rightarrow> False
      | Some after \<Rightarrow>
          let authority = takeWhile (\<lambda>c. c \<noteq> CHR ''/'') after
          in if authority = [] \<or> CHR ''@'' \<in> set authority then False
             else list_ex (\<lambda>host.
               authority = host \<or>
               (case strip_prefix host authority of
                  None \<Rightarrow> False
                | Some rest \<Rightarrow>
                    (case strip_prefix '':'' rest of
                       None \<Rightarrow> False
                     | Some port \<Rightarrow> port \<noteq> [] \<and> list_all is_ascii_digit port)))
               [''127.0.0.1'', ''[::1]''])"

definition validate_bitcoin ::
    "('desc, 'addr) vault_lib \<Rightarrow> bitcoin_config \<Rightarrow> unit vault_result" where
  "validate_bitcoin V self =
     rbind (config_network V self) (\<lambda>network.
     if network = Bitcoin then config_err NetworkMainnet
     else if network \<notin> {Regtest, Testnet, Signet} then config_err (NetworkDisabled network)
     else if \<not> is_loopback_rpc_url (bc_rpc_url self) then config_err NotLoopbackUrl
     else if bc_wallet_name self = [] \<or>
             \<not> list_all (\<lambda>byte. is_ascii_alphanumeric byte \<or> byte \<in> {CHR ''-'', CHR ''_'', CHR ''.''})
                 (bc_wallet_name self)
     then config_err BadWalletName
     else if (bc_rpc_user self \<noteq> None) \<noteq> (bc_rpc_password self \<noteq> None)
     then config_err RpcUserWithoutPassword
     else Inr ())"

definition default_rpc_url :: string where
  "default_rpc_url = ''http://127.0.0.1:18443''"

definition default_wallet_name :: string where
  "default_wallet_name = ''tesaurus''"

definition default_csv_blocks :: u32 where
  "default_csv_blocks = 10"

definition validate_config :: "('desc, 'addr) vault_lib \<Rightarrow> config \<Rightarrow> unit vault_result" where
  "validate_config V self =
     rbind (validate_bitcoin V (cfg_bitcoin self)) (\<lambda>_.
     if vc_csv_blocks (cfg_vault self) = 0 then config_err CsvBlocksZero
     else if 65535 < vc_csv_blocks (cfg_vault self) then config_err CsvBlocksTooLarge
     else if vc_state_path (cfg_vault self) = [] then config_err EmptyStatePath
     else if vc_keys_dir (cfg_vault self) = [] then config_err EmptyKeysDir
     else Inr ())"

definition quoted :: "string \<Rightarrow> string" where
  "quoted s = [char_of (34 :: nat)] @ s @ [char_of (34 :: nat)]"

definition example_port :: "network \<Rightarrow> nat" where
  "example_port network =
     (case network of Regtest \<Rightarrow> 18443 | Signet \<Rightarrow> 38332 | _ \<Rightarrow> 18332)"

definition example_rpc_url :: "network \<Rightarrow> string" where
  "example_rpc_url network = ''http://127.0.0.1:'' @ show_nat (example_port network)"

definition example_text :: "('desc, 'addr) vault_lib \<Rightarrow> network \<Rightarrow> string" where
  "example_text V network =
     ''# Tesaurus configuration'' @ newline @ newline @
     ''[bitcoin]'' @ newline @
     ''network = '' @ quoted (network_to_string V network) @ newline @
     ''rpc_url = '' @ quoted (example_rpc_url network) @ newline @
     ''wallet_name = '' @ quoted ''tesaurus'' @ newline @
     ''# Prefer Bitcoin Core cookie authentication:'' @ newline @
     ''# cookie_path = '' @ quoted ''/absolute/path/to/bitcoin/.cookie'' @ newline @
     ''# Alternatively set rpc_user and rpc_password locally. Never commit real credentials.'' @ newline @
     newline @
     ''[vault]'' @ newline @
     ''state_path = '' @ quoted ''./data/vault.json'' @ newline @
     ''keys_dir = '' @ quoted ''./keys'' @ newline @
     ''csv_blocks = 10'' @ newline"

definition example_toml :: "('desc, 'addr) vault_lib \<Rightarrow> string \<Rightarrow> string vault_result" where
  "example_toml V network_name =
     (if eq_ignore_ascii_case network_name ''mainnet'' then config_err ExampleMainnet
      else rbind (ok_or (ConfigError (NetworkUnknown network_name))
                    (network_from_str V network_name)) (\<lambda>network.
           if network = Bitcoin then config_err ExampleMainnet
           else if network \<notin> {Regtest, Testnet, Signet} then config_err (NetworkDisabled network)
           else Inr (example_text V network)))"

section \<open>The language of accepted endpoints\<close>

lemma takeWhile_slash:
  "takeWhile (\<lambda>c. c \<noteq> s) xs = ys \<longleftrightarrow>
     s \<notin> set ys \<and> (\<exists>rest. xs = ys @ rest \<and> (rest = [] \<or> hd rest = s))"
proof
  assume "takeWhile (\<lambda>c. c \<noteq> s) xs = ys"
  then have "xs = ys @ dropWhile (\<lambda>c. c \<noteq> s) xs" "s \<notin> set ys"
    by (metis takeWhile_dropWhile_id, metis (mono_tags, lifting) set_takeWhileD)
  moreover have "dropWhile (\<lambda>c. c \<noteq> s) xs = [] \<or> hd (dropWhile (\<lambda>c. c \<noteq> s) xs) = s"
    using hd_dropWhile [of "\<lambda>c. c \<noteq> s" xs] by auto
  ultimately show "s \<notin> set ys \<and> (\<exists>rest. xs = ys @ rest \<and> (rest = [] \<or> hd rest = s))" by blast
next
  assume "s \<notin> set ys \<and> (\<exists>rest. xs = ys @ rest \<and> (rest = [] \<or> hd rest = s))"
  then obtain rest where r: "s \<notin> set ys" "xs = ys @ rest" "rest = [] \<or> hd rest = s" by blast
  have "takeWhile (\<lambda>c. c \<noteq> s) rest = []" using r(3) by (cases rest) auto
  moreover have "\<forall>c\<in>set ys. c \<noteq> s" using r(1) by auto
  ultimately show "takeWhile (\<lambda>c. c \<noteq> s) xs = ys"
    using r(2) takeWhile_append2 [of ys "\<lambda>c. c \<noteq> s" rest] by simp
qed

lemma strip_prefix_None: "strip_prefix p s = None \<Longrightarrow> s \<noteq> p @ x"
  by (auto simp: strip_prefix_def split: if_splits)

definition loopback_authority :: "string \<Rightarrow> bool" where
  "loopback_authority a \<longleftrightarrow>
     (\<exists>host port. host \<in> {''127.0.0.1'', ''[::1]''} \<and> a = host @ port \<and>
        (port = [] \<or> (\<exists>ds. port = CHR '':'' # ds \<and> ds \<noteq> [] \<and> list_all is_ascii_digit ds)))"

lemma is_loopback_rpc_url_iff:
  "is_loopback_rpc_url url \<longleftrightarrow>
     (\<exists>authority rest. url = ''http://'' @ authority @ rest \<and> loopback_authority authority \<and>
        (rest = [] \<or> hd rest = CHR ''/''))"
proof -
  have code: "list_ex (\<lambda>host. a = host \<or>
      (case strip_prefix host a of None \<Rightarrow> False
       | Some rest \<Rightarrow> (case strip_prefix '':'' rest of None \<Rightarrow> False
           | Some port \<Rightarrow> port \<noteq> [] \<and> list_all is_ascii_digit port)))
      [''127.0.0.1'', ''[::1]''] \<longleftrightarrow> loopback_authority a" for a
  proof -
    have "(case strip_prefix host a of None \<Rightarrow> False
       | Some rest \<Rightarrow> (case strip_prefix '':'' rest of None \<Rightarrow> False
           | Some port \<Rightarrow> port \<noteq> [] \<and> list_all is_ascii_digit port)) \<longleftrightarrow>
      (\<exists>ds. a = host @ CHR '':'' # ds \<and> ds \<noteq> [] \<and> list_all is_ascii_digit ds)" for host
      by (cases "strip_prefix host a")
        (auto simp: strip_prefix_Some_iff split: option.splits
          dest: strip_prefix_None)
    then show ?thesis unfolding loopback_authority_def by auto
  qed
  have clean: "a \<noteq> [] \<and> CHR ''@'' \<notin> set a \<and> CHR ''/'' \<notin> set a" if "loopback_authority a" for a
  proof -
    have "c \<noteq> CHR ''@'' \<and> c \<noteq> CHR ''/''" if "is_ascii_digit c" for c
      using that by (auto simp: is_ascii_digit_def)
    then have "CHR ''@'' \<notin> set ds \<and> CHR ''/'' \<notin> set ds" if "list_all is_ascii_digit ds" for ds
      using that by (auto simp: list_all_iff)
    with that show ?thesis by (auto simp: loopback_authority_def)
  qed
  show ?thesis
  proof (cases "strip_prefix ''http://'' url")
    case None
    then have "url \<noteq> ''http://'' @ x" for x by (rule strip_prefix_None)
    with None show ?thesis by (simp add: is_loopback_rpc_url_def)
  next
    case (Some after)
    then have url: "url = ''http://'' @ after" by (simp add: strip_prefix_Some_iff)
    have "is_loopback_rpc_url url \<longleftrightarrow> loopback_authority (takeWhile (\<lambda>c. c \<noteq> CHR ''/'') after)"
      unfolding is_loopback_rpc_url_def Some option.case Let_def code
      using clean by auto
    also have "\<dots> \<longleftrightarrow> (\<exists>a rest. after = a @ rest \<and> loopback_authority a \<and>
        (rest = [] \<or> hd rest = CHR ''/''))"
      using takeWhile_slash [of "CHR ''/''" after] clean by metis
    finally show ?thesis unfolding url by simp
  qed
qed

text \<open>
  C37: no credentials leave the machine. The accepted RPC endpoints are exactly \<open>http://\<close>, then
  \<open>127.0.0.1\<close> or \<open>[::1]\<close>, then nothing or a colon and decimal digits, then nothing or a slash
  and anything: no user part, no other host, no other scheme.
\<close>

theorem loopback_url_language:
  "is_loopback_rpc_url url \<longleftrightarrow>
     (\<exists>authority rest. url = ''http://'' @ authority @ rest \<and> loopback_authority authority \<and>
        (rest = [] \<or> hd rest = CHR ''/''))"
  by (rule is_loopback_rpc_url_iff)

section \<open>Accepted settings\<close>

lemma validate_bitcoin_Inr_iff:
  "validate_bitcoin V c = Inr () \<longleftrightarrow>
     (\<exists>net\<in>{Regtest, Testnet, Signet}. config_network V c = Inr net) \<and>
     is_loopback_rpc_url (bc_rpc_url c) \<and> bc_wallet_name c \<noteq> [] \<and>
     list_all (\<lambda>byte. is_ascii_alphanumeric byte \<or> byte \<in> {CHR ''-'', CHR ''_'', CHR ''.''})
       (bc_wallet_name c) \<and>
     (bc_rpc_user c = None \<longleftrightarrow> bc_rpc_password c = None)"
  by (auto simp: validate_bitcoin_def rbind_Inr_iff if_Inl_eq_Inr)

text \<open>
  A valid configuration is a research configuration. Validation accepts exactly regtest, testnet
  and signet, a loopback endpoint, a nonempty wallet name of letters, digits, dots, dashes and
  underscores, both or neither RPC credential, a CSV in \<open>1..=65535\<close> and nonempty paths.
\<close>

theorem validate_config_exact:
  "validate_config V c = Inr () \<longleftrightarrow>
     (\<exists>net\<in>{Regtest, Testnet, Signet}. config_network V (cfg_bitcoin c) = Inr net) \<and>
     is_loopback_rpc_url (bc_rpc_url (cfg_bitcoin c)) \<and>
     bc_wallet_name (cfg_bitcoin c) \<noteq> [] \<and>
     set (bc_wallet_name (cfg_bitcoin c))
       \<subseteq> {byte. is_ascii_alphanumeric byte} \<union> {CHR ''-'', CHR ''_'', CHR ''.''} \<and>
     (bc_rpc_user (cfg_bitcoin c) = None \<longleftrightarrow> bc_rpc_password (cfg_bitcoin c) = None) \<and>
     1 \<le> unat (vc_csv_blocks (cfg_vault c)) \<and> unat (vc_csv_blocks (cfg_vault c)) \<le> 65535 \<and>
     vc_state_path (cfg_vault c) \<noteq> [] \<and> vc_keys_dir (cfg_vault c) \<noteq> []"
proof -
  have parts: "validate_config V c = Inr () \<longleftrightarrow> validate_bitcoin V (cfg_bitcoin c) = Inr () \<and>
      vc_csv_blocks (cfg_vault c) \<noteq> 0 \<and> \<not> 65535 < vc_csv_blocks (cfg_vault c) \<and>
      vc_state_path (cfg_vault c) \<noteq> [] \<and> vc_keys_dir (cfg_vault c) \<noteq> []"
    by (auto simp: validate_config_def rbind_Inr_iff if_Inl_eq_Inr)
  have csv: "vc_csv_blocks (cfg_vault c) \<noteq> 0 \<and> \<not> 65535 < vc_csv_blocks (cfg_vault c) \<longleftrightarrow>
      1 \<le> unat (vc_csv_blocks (cfg_vault c)) \<and> unat (vc_csv_blocks (cfg_vault c)) \<le> 65535"
    by (auto simp: word_less_nat_alt unat_eq_0 Suc_le_eq unat_gt_0)
  have chars: "list_all (\<lambda>byte. is_ascii_alphanumeric byte \<or> byte \<in> {CHR ''-'', CHR ''_'', CHR ''.''}) w
      \<longleftrightarrow> set w \<subseteq> {byte. is_ascii_alphanumeric byte} \<union> {CHR ''-'', CHR ''_'', CHR ''.''}" for w
    by (auto simp: list_all_iff)
  show ?thesis unfolding parts validate_bitcoin_Inr_iff chars using csv by argo
qed

lemma digits_show_nat: "show_nat n \<noteq> [] \<and> list_all is_ascii_digit (show_nat n)"
proof (induction n rule: show_nat.induct)
  case (1 n)
  have "is_ascii_digit (char_of (48 + k :: nat))" if "k < 10" for k
    using that by (simp add: is_ascii_digit_def)
  with 1 show ?case
    by (subst (1 2) show_nat.simps) simp
qed

text \<open>
  The generated example is accepted. Whatever network name \<open>example_toml\<close> accepts, the settings
  it writes (network, endpoint, wallet name, CSV and paths) pass validation for that network.\<close>

theorem example_settings_validate:
  assumes "example_toml V name = Inr text" and "\<forall>net. network_from_str V (network_to_string V net) = Some net"
    and "\<forall>net. \<not> eq_ignore_ascii_case (network_to_string V net) ''mainnet''"
  shows "\<exists>net. network_from_str V name = Some net \<and> text = example_text V net \<and>
    validate_config V
      \<lparr>cfg_bitcoin = \<lparr>bc_network = network_to_string V net, bc_cookie_path = None,
         bc_rpc_url = example_rpc_url net, bc_rpc_user = None, bc_rpc_password = None,
         bc_wallet_name = ''tesaurus''\<rparr>,
       cfg_vault = \<lparr>vc_state_path = ''./data/vault.json'', vc_csv_blocks = 10,
         vc_keys_dir = ''./keys''\<rparr>\<rparr> = Inr ()"
proof -
  from assms(1) obtain net where net: "network_from_str V name = Some net"
    "net \<in> {Regtest, Testnet, Signet}" "text = example_text V net"
    by (auto simp: example_toml_def if_Inl_eq_Inr rbind_Inr_iff ok_or_Inr_iff)
  have "loopback_authority (''127.0.0.1'' @ CHR '':'' # show_nat (example_port net))"
    unfolding loopback_authority_def using digits_show_nat by blast
  then have "is_loopback_rpc_url (example_rpc_url net)"
    unfolding example_rpc_url_def is_loopback_rpc_url_iff
    by (intro exI [of _ "''127.0.0.1'' @ CHR '':'' # show_nat (example_port net)"] exI [of _ "[]"]) simp
  with net assms(2,3) show ?thesis
    by (auto simp: validate_config_def validate_bitcoin_def config_network_def
        is_ascii_alphanumeric_def is_ascii_digit_def)
qed

theorem example_settings_validate_witness:
  "\<exists>net. network_from_str toy_vault_lib ''signet'' = Some net \<and>
     validate_config toy_vault_lib
      \<lparr>cfg_bitcoin = \<lparr>bc_network = network_to_string toy_vault_lib net, bc_cookie_path = None,
         bc_rpc_url = example_rpc_url net, bc_rpc_user = None, bc_rpc_password = None,
         bc_wallet_name = ''tesaurus''\<rparr>,
       cfg_vault = \<lparr>vc_state_path = ''./data/vault.json'', vc_csv_blocks = 10,
         vc_keys_dir = ''./keys''\<rparr>\<rparr> = Inr ()"
proof -
  have "\<forall>net. network_from_str toy_vault_lib (network_to_string toy_vault_lib net) = Some net"
    using toy_documented by (simp add: vault_documented_def)
  moreover have "\<forall>net. \<not> eq_ignore_ascii_case (network_to_string toy_vault_lib net) ''mainnet''"
    by (simp add: toy_vault_lib_def toy_net_to_string_def eq_ignore_ascii_case_def ascii_lower_def
        split: network.split)
  moreover have "example_toml toy_vault_lib ''signet'' = Inr (example_text toy_vault_lib Signet)"
    by (simp add: example_toml_def toy_vault_lib_def toy_net_from_str_def toy_net_to_string_def
        eq_ignore_ascii_case_def ascii_lower_def)
  ultimately show ?thesis using example_settings_validate by blast
qed

end
