(* ===== verification/State_Files.thy ===== *)
theory State_Files
  imports Keys Wallet Config
begin

text \<open>
  The other files of the CLI: loading the configuration (\<open>src/config.rs\<close>), loading and saving the
  vault state (\<open>src/wallet.rs\<close>) and writing the example configuration (\<open>src/bin/tesaurus.rs\<close>). The
  JSON and TOML codecs are parameters.
\<close>

record file_lib =
  state_to_json :: "vault_state \<Rightarrow> string option"
  state_from_json :: "string \<Rightarrow> vault_state option"
  toml_from_str :: "string \<Rightarrow> config option"

section \<open>Loading\<close>

definition load_config :: "('desc, 'addr) vault_lib \<Rightarrow> file_lib \<Rightarrow> path \<Rightarrow> config fio" where
  "load_config V J p =
     abind (symlink_metadata p) (\<lambda>meta.
     if is_symlink meta \<or> \<not> is_file meta then araise (ConfigError ConfigNotRegular)
     else if \<not> private_mode (node_mode meta) then araise (ConfigError ConfigAccessible)
     else abind (fs_read_to_string p) (\<lambda>raw.
          abind (alift (ok_or (ConfigError InvalidToml) (toml_from_str J raw))) (\<lambda>cfg.
          abind (alift (validate_config V cfg)) (\<lambda>_.
          areturn cfg))))"

definition load_vault_state ::
    "('pol, 'ms, 'desc) miniscript_lib \<Rightarrow> ('desc, 'addr) vault_lib \<Rightarrow> file_lib \<Rightarrow> path \<Rightarrow>
     vault_state fio" where
  "load_vault_state M V J p =
     abind (symlink_metadata p) (\<lambda>meta.
     if is_symlink meta \<or> \<not> is_file meta then araise (WalletError StateNotRegular)
     else if \<not> private_mode (node_mode meta) then araise (WalletError StateAccessible)
     else abind (fs_read_to_string p) (\<lambda>raw.
          abind (alift (ok_or JsonError (state_from_json J raw))) (\<lambda>state.
          if vs_version state \<noteq> 1
          then araise (WalletError (UnsupportedStateVersion (vs_version state)))
          else abind (alift (validate M V (vs_vault state))) (\<lambda>_.
               areturn state))))"

section \<open>Saving\<close>

definition PRIVATE_FILE_MODE :: u32 where "PRIVATE_FILE_MODE = 0x180"

text \<open>Open, make private, write, sync: the end of both writers, after the way they open the file.\<close>

definition fill_private :: "path \<Rightarrow> path fio \<Rightarrow> bytes \<Rightarrow> unit fio" where
  "fill_private p opener contents =
     abind opener (\<lambda>f.
     abind (fs_set_permissions p PRIVATE_FILE_MODE) (\<lambda>_.
     abind (fs_write_all f contents) (\<lambda>_.
     fs_sync_all f)))"

definition make_parent :: "path \<Rightarrow> unit fio" where
  "make_parent p =
     (case path_parent p of Some parent \<Rightarrow> fs_create_dir_all parent | None \<Rightarrow> areturn ())"

definition is_link_entry :: "node option \<Rightarrow> bool" where
  "is_link_entry found = (case found of Some meta \<Rightarrow> is_symlink meta | None \<Rightarrow> False)"

definition save_vault_state ::
    "('pol, 'ms, 'desc) miniscript_lib \<Rightarrow> ('desc, 'addr) vault_lib \<Rightarrow> file_lib \<Rightarrow> vault_state \<Rightarrow>
     path \<Rightarrow> unit fio" where
  "save_vault_state M V J self p =
     abind (alift (validate M V (vs_vault self))) (\<lambda>_.
     abind (acatch (symlink_metadata p)) (\<lambda>found.
     if is_link_entry found then araise (WalletError StateSymlink)
     else abind (make_parent p) (\<lambda>_.
          abind (alift (ok_or JsonError (state_to_json J self))) (\<lambda>raw.
          fill_private p (fs_open_truncate p PRIVATE_FILE_MODE) (ascii raw)))))"

text \<open>The errors of a command: a \<open>bail!\<close> of the binary itself, or an error of the library.\<close>

datatype bail_reason =
    FileExists | StateExists | WriteThroughSymlink | AgentDisabled | TotalOverflow
  | RecoverableOverflow

datatype cli_error = Bail bail_reason | Failed error

type_synonym 'a cli_fio = "(fsys, cli_error, 'a) action"

definition lib_call :: "('s, error, 'a) action \<Rightarrow> ('s, cli_error, 'a) action" where
  "lib_call m = (\<lambda>s. case m s of (Inl e, s') \<Rightarrow> (Inl (Failed e), s') | (Inr x, s') \<Rightarrow> (Inr x, s'))"

definition write_private_file :: "path \<Rightarrow> string \<Rightarrow> bool \<Rightarrow> unit cli_fio" where
  "write_private_file p contents overwrite =
     abind (lib_call (path_exists p)) (\<lambda>there.
     if there \<and> \<not> overwrite then araise (Bail FileExists)
     else abind (lib_call (acatch (symlink_metadata p))) (\<lambda>found.
          if is_link_entry found then araise (Bail WriteThroughSymlink)
          else abind (lib_call (make_parent p)) (\<lambda>_.
               lib_call (fill_private p
                 (if overwrite then fs_open_truncate p PRIVATE_FILE_MODE
                  else fs_open_new p PRIVATE_FILE_MODE) (ascii contents)))))"

end
