(* ===== verification/Rpc.thy ===== *)
theory Rpc
  imports Config Wallet
begin

text \<open>
  The Bitcoin Core helpers (\<open>src/rpc.rs\<close>): connecting to a node, making sure its wallet exists, and
  importing the watch-only descriptor. The node is a parameter with a state that its calls pass on.
\<close>

section \<open>The node and its replies\<close>

text \<open>\<open>serde_json::Value\<close>, as far as the import reply is inspected.\<close>

datatype json =
    JNull | JBool bool | JNumber int | JString string | JArray "json list"
  | JObject "(string \<times> json) list"

definition as_array :: "json \<Rightarrow> json list option" where
  "as_array v = (case v of JArray items \<Rightarrow> Some items | _ \<Rightarrow> None)"

definition get_field :: "json \<Rightarrow> string \<Rightarrow> json option" where
  "get_field v key = (case v of JObject members \<Rightarrow> map_of members key | _ \<Rightarrow> None)"

definition as_bool :: "json \<Rightarrow> bool option" where
  "as_bool v = (case v of JBool b \<Rightarrow> Some b | _ \<Rightarrow> None)"

datatype rpc_auth = CookieFile string | UserPass string string

record 'n core_node =
  client_new :: "string \<Rightarrow> rpc_auth \<Rightarrow> bool"
  get_blockchain_chain :: "'n \<Rightarrow> string + network"
  load_wallet :: "string \<Rightarrow> 'n \<Rightarrow> (string + unit) \<times> 'n"
  create_wallet :: "string \<Rightarrow> 'n \<Rightarrow> (string + unit) \<times> 'n"
  import_descriptors :: "json \<Rightarrow> 'n \<Rightarrow> (string + json) \<times> 'n"

record bitcoin_rpc =
  rpc_client_url :: string
  rpc_client_auth :: rpc_auth

definition contains_str :: "string \<Rightarrow> string \<Rightarrow> bool" where
  "contains_str hay needle \<longleftrightarrow>
     list_ex (\<lambda>i. take (length needle) (drop i hay) = needle) [0..<Suc (length hay)]"

section \<open>The code\<close>

definition wallet_rpc_url :: "string \<Rightarrow> string \<Rightarrow> string" where
  "wallet_rpc_url base wallet =
     (let base = rev (dropWhile (\<lambda>c. c = CHR ''/'') (rev base))
      in base @ ''/wallet/'' @ wallet)"

definition ensure_wallet :: "'n core_node \<Rightarrow> string \<Rightarrow> 'n \<Rightarrow> unit vault_result \<times> 'n" where
  "ensure_wallet N name s =
     (case load_wallet N name s of
        (Inr _, s1) \<Rightarrow> (Inr (), s1)
      | (Inl msg, s1) \<Rightarrow>
          if contains_str msg ''already loaded'' then (Inr (), s1)
          else (case create_wallet N name s1 of
              (Inr _, s2) \<Rightarrow> (Inr (), s2)
            | (Inl msg2, s2) \<Rightarrow>
                if contains_str msg2 ''already exists''
                then (case load_wallet N name s2 of
                    (Inr _, s3) \<Rightarrow> (Inr (), s3)
                  | (Inl msg3, s3) \<Rightarrow> (Inl (RpcError msg3), s3))
                else (Inl (RpcError msg2), s2)))"

definition rpc_auth_of :: "bitcoin_config \<Rightarrow> rpc_auth vault_result" where
  "rpc_auth_of cfg =
     (case bc_cookie_path cfg of
        Some cookie \<Rightarrow> Inr (CookieFile cookie)
      | None \<Rightarrow>
          (case (bc_rpc_user cfg, bc_rpc_password cfg) of
             (Some user, Some pass) \<Rightarrow> Inr (UserPass user pass)
           | _ \<Rightarrow> config_err AuthRequired))"

definition connect ::
    "('desc, 'addr) vault_lib \<Rightarrow> 'n core_node \<Rightarrow> bitcoin_config \<Rightarrow> 'n \<Rightarrow>
     bitcoin_rpc vault_result \<times> 'n" where
  "connect V N cfg s =
     (case rbind (validate_bitcoin V cfg) (\<lambda>_.
           rbind (config_network V cfg) (\<lambda>expected.
           if expected \<notin> {Regtest, Testnet, Signet} then config_err ConnectionDisabled
           else rbind (rpc_auth_of cfg) (\<lambda>auth.
                if \<not> client_new N (bc_rpc_url cfg) auth then wallet_err ConnectFailed
                else rbind (rpc_result (get_blockchain_chain N s)) (\<lambda>actual.
                     if actual \<noteq> expected then wallet_err (CoreNetworkMismatch actual expected)
                     else Inr auth)))) of
        Inl e \<Rightarrow> (Inl e, s)
      | Inr auth \<Rightarrow>
          (case ensure_wallet N (bc_wallet_name cfg) s of
             (Inl e, s1) \<Rightarrow> (Inl e, s1)
           | (Inr _, s1) \<Rightarrow>
               let url = wallet_rpc_url (bc_rpc_url cfg) (bc_wallet_name cfg)
               in if \<not> client_new N url auth then (wallet_err WalletConnectFailed, s1)
                  else (Inr \<lparr>rpc_client_url = url, rpc_client_auth = auth\<rparr>, s1)))"

definition import_request :: "string \<Rightarrow> string \<Rightarrow> json" where
  "import_request descriptor label =
     JArray [JObject [(''desc'', JString descriptor), (''active'', JBool False),
       (''timestamp'', JNumber 0), (''internal'', JBool False), (''label'', JString label)]]"

definition import_watch_descriptor ::
    "'n core_node \<Rightarrow> string \<Rightarrow> string \<Rightarrow> 'n \<Rightarrow> unit vault_result \<times> 'n" where
  "import_watch_descriptor N descriptor label s =
     (case import_descriptors N (import_request descriptor label) s of
        (Inl msg, s1) \<Rightarrow> (Inl (RpcError msg), s1)
      | (Inr res, s1) \<Rightarrow>
          (rbind (ok_or (WalletError UnexpectedImportResponse) (as_array res)) (\<lambda>arr.
           try_each (\<lambda>(i, item).
               if Option.bind (get_field item ''success'') as_bool = Some True then Inr ()
               else wallet_err (ImportFailed i))
             (enumerate 0 arr)), s1))"

definition import_watch_only ::
    "('pol, 'ms, 'desc) miniscript_lib \<Rightarrow> ('desc, 'addr) vault_lib \<Rightarrow> 'n core_node \<Rightarrow>
     vault_state \<Rightarrow> 'n \<Rightarrow> unit vault_result \<times> 'n" where
  "import_watch_only M V N state s =
     (case validate M V (vs_vault state) of
        Inl e \<Rightarrow> (Inl e, s)
      | Inr _ \<Rightarrow> import_watch_descriptor N (vd_descriptor (vs_vault state)) ''tesaurus-vault'' s)"

section \<open>Connections stay local\<close>

lemma trim_slashes:
  assumes "a \<noteq> []" and "last a \<noteq> CHR ''/''"
  shows "\<exists>r. rev (dropWhile (\<lambda>c. c = CHR ''/'') (rev (a @ rest))) = a @ r \<and>
    (r = [] \<or> rest \<noteq> [] \<and> hd r = hd rest)"
proof (induction rest rule: rev_induct)
  case Nil
  from assms show ?case by (cases a rule: rev_cases) auto
next
  case (snoc c cs)
  show ?case
  proof (cases "c = CHR ''/''")
    case True
    with snoc obtain r where "rev (dropWhile (\<lambda>c. c = CHR ''/'') (rev (a @ cs))) = a @ r"
      "r = [] \<or> cs \<noteq> [] \<and> hd r = hd cs" by blast
    moreover have "dropWhile (\<lambda>c. c = CHR ''/'') (rev (a @ cs @ [c])) =
        dropWhile (\<lambda>c. c = CHR ''/'') (rev (a @ cs))"
      using True by simp
    ultimately show ?thesis by (intro exI [of _ r]) auto
  next
    case False
    then have "rev (dropWhile (\<lambda>c. c = CHR ''/'') (rev (a @ cs @ [c]))) = a @ cs @ [c]" by simp
    then show ?thesis by auto
  qed
qed

lemma wallet_url_local:
  assumes "is_loopback_rpc_url url"
  shows "is_loopback_rpc_url (wallet_rpc_url url name)"
proof -
  from assms obtain a rest where url: "url = ''http://'' @ a @ rest" "loopback_authority a"
    "rest = [] \<or> hd rest = CHR ''/''" by (auto simp: is_loopback_rpc_url_iff)
  have "a \<noteq> [] \<and> last a \<noteq> CHR ''/''"
  proof -
    from url(2) obtain host ds where "host \<in> {''127.0.0.1'', ''[::1]''}"
      "a = host \<or> a = host @ CHR '':'' # ds \<and> ds \<noteq> [] \<and> list_all is_ascii_digit ds"
      by (auto simp: loopback_authority_def)
    moreover have "last ds \<noteq> CHR ''/''" if "ds \<noteq> []" "list_all is_ascii_digit ds"
    proof -
      from that have "is_ascii_digit (last ds)" by (simp add: list_all_iff)
      then show ?thesis by (auto simp: is_ascii_digit_def)
    qed
    ultimately show ?thesis by auto
  qed
  then have "''http://'' @ a \<noteq> []" "last (''http://'' @ a) \<noteq> CHR ''/''" by auto
  from trim_slashes [OF this, of rest] obtain r where
    r: "rev (dropWhile (\<lambda>c. c = CHR ''/'') (rev url)) = (''http://'' @ a) @ r"
    "r = [] \<or> rest \<noteq> [] \<and> hd r = hd rest"
    unfolding url(1) by (metis append_assoc)
  have "hd (r @ ''/wallet/'' @ name) = CHR ''/''"
    using r(2) url(3) by (cases r) auto
  then show ?thesis
    unfolding is_loopback_rpc_url_iff wallet_rpc_url_def Let_def r(1)
    by (intro exI [of _ a] exI [of _ "r @ ''/wallet/'' @ name"]) (simp add: url(2))
qed

lemma rpc_auth_ok:
  "rpc_auth_of cfg = Inr auth \<longleftrightarrow>
     (case bc_cookie_path cfg of
        Some cookie \<Rightarrow> auth = CookieFile cookie
      | None \<Rightarrow> \<exists>user pass. bc_rpc_user cfg = Some user \<and> bc_rpc_password cfg = Some pass \<and>
          auth = UserPass user pass)"
  by (auto simp: rpc_auth_of_def split: option.splits)

lemma connect_Inr:
  assumes "connect V N cfg s = (Inr rpc, s')"
  shows "validate_bitcoin V cfg = Inr ()"
    and "\<exists>net\<in>{Regtest, Testnet, Signet}. config_network V cfg = Inr net \<and>
       get_blockchain_chain N s = Inr net"
    and "ensure_wallet N (bc_wallet_name cfg) s = (Inr (), s')"
    and "rpc_client_url rpc = wallet_rpc_url (bc_rpc_url cfg) (bc_wallet_name cfg)"
    and "rpc_auth_of cfg = Inr (rpc_client_auth rpc)"
  using assms
  by (auto simp: connect_def Let_def rbind_Inr_iff if_Inl_eq_Inr rpc_result_Inr_iff
      split: sum.splits prod.splits if_splits)

text \<open>
  C38: a connection is a local research connection. If \<open>connect\<close> succeeds, the configuration is
  valid, the node runs the configured regtest, testnet or signet chain, both clients talk to a
  loopback endpoint with the configured credentials, and the wallet step succeeded.
\<close>

theorem connect_is_local:
  assumes "connect V N cfg s = (Inr rpc, s')"
  shows "validate_bitcoin V cfg = Inr () \<and>
    (\<exists>net\<in>{Regtest, Testnet, Signet}. config_network V cfg = Inr net \<and>
       get_blockchain_chain N s = Inr net) \<and>
    ensure_wallet N (bc_wallet_name cfg) s = (Inr (), s') \<and>
    is_loopback_rpc_url (bc_rpc_url cfg) \<and> is_loopback_rpc_url (rpc_client_url rpc) \<and>
    rpc_auth_of cfg = Inr (rpc_client_auth rpc)"
proof -
  note 1 = connect_Inr [OF assms]
  then have "is_loopback_rpc_url (bc_rpc_url cfg)" by (simp add: validate_bitcoin_Inr_iff)
  with 1 wallet_url_local show ?thesis by simp
qed

section \<open>The wallet is loaded\<close>

text \<open>What Bitcoin Core documents of its wallet calls, for a predicate "this wallet is loaded".\<close>

definition wallet_calls_documented :: "'n core_node \<Rightarrow> (string \<Rightarrow> 'n \<Rightarrow> bool) \<Rightarrow> bool" where
  "wallet_calls_documented N loaded \<longleftrightarrow>
     (\<forall>name s s'. load_wallet N name s = (Inr (), s') \<longrightarrow> loaded name s') \<and>
     (\<forall>name s s' msg. load_wallet N name s = (Inl msg, s') \<longrightarrow>
        contains_str msg ''already loaded'' \<longrightarrow> loaded name s') \<and>
     (\<forall>name s s'. create_wallet N name s = (Inr (), s') \<longrightarrow> loaded name s')"

text \<open>
  \<open>ensure_wallet\<close> keeps its promise. On a node whose wallet calls behave as documented, success
  means the named wallet is loaded, whichever of the paths (load, already loaded, create, load after
  \<open>already exists\<close>) was taken.\<close>

theorem ensure_wallet_loads:
  assumes "ensure_wallet N name s = (Inr (), s')" and "wallet_calls_documented N loaded"
  shows "loaded name s'"
  using assms unfolding ensure_wallet_def wallet_calls_documented_def
  by (auto split: prod.splits sum.splits if_splits)

lemma as_bool_Some: "as_bool y = Some b \<longleftrightarrow> y = JBool b"
  by (cases y) (simp_all add: as_bool_def)

text \<open>
  An import is complete or refused. \<open>import_watch_descriptor\<close> succeeds exactly if the node
  answers with an array whose every entry says \<open>success: true\<close>; the request is for this
  descriptor, inactive and watch-only.\<close>

theorem import_succeeds_exactly:
  "fst (import_watch_descriptor N descriptor label s) = Inr () \<longleftrightarrow>
     (\<exists>items s'. import_descriptors N (import_request descriptor label) s = (Inr (JArray items), s') \<and>
        list_all (\<lambda>item. \<exists>members. item = JObject members \<and>
          map_of members ''success'' = Some (JBool True)) items)"
proof -
  have item: "Option.bind (get_field v ''success'') as_bool = Some True \<longleftrightarrow>
      (\<exists>members. v = JObject members \<and> map_of members ''success'' = Some (JBool True))" for v
    using as_bool_Some by (cases v) (auto simp: get_field_def Option.bind_eq_Some_conv)
  have each: "try_each (\<lambda>(i, v). if P v then Inr () else wallet_err (ImportFailed i))
      (enumerate n items) = Inr () \<longleftrightarrow> list_all P items" for P and items :: "json list" and n
    by (induction items arbitrary: n) (auto simp: rbind_Inr_iff)
  show ?thesis
  proof (cases "import_descriptors N (import_request descriptor label) s")
    case (Pair reply s1)
    then show ?thesis
      unfolding import_watch_descriptor_def
      by (cases reply; cases "projr reply")
        (auto simp: as_array_def each item rbind_Inr_iff ok_or_Inr_iff split: json.splits)
  qed
qed

section \<open>A concrete node\<close>

text \<open>Its state is the list of its loaded wallets; it runs regtest and finds no wallet on disk.\<close>

definition toy_node :: "string list core_node" where
  "toy_node =
     \<lparr>client_new = (\<lambda>_ _. True), get_blockchain_chain = (\<lambda>_. Inr Regtest),
      load_wallet = (\<lambda>name s. if name \<in> set s then (Inl ''already loaded'', s)
                              else (Inl ''not found'', s)),
      create_wallet = (\<lambda>name s. (Inr (), name # s)),
      import_descriptors = (\<lambda>_ s. (Inr (JArray []), s))\<rparr>"

definition toy_bitcoin_config :: bitcoin_config where
  "toy_bitcoin_config =
     \<lparr>bc_network = ''regtest'', bc_cookie_path = None, bc_rpc_url = ''http://[::1]:18443/'',
      bc_rpc_user = Some ''u'', bc_rpc_password = Some ''p'', bc_wallet_name = ''tesaurus''\<rparr>"

lemma contains_str_examples:
  "contains_str ''already loaded'' ''already loaded''" "\<not> contains_str ''not found'' ''already loaded''"
  by (simp_all add: contains_str_def upt_rec)

lemma toy_node_documented: "wallet_calls_documented toy_node (\<lambda>name s. name \<in> set s)"
  by (auto simp: wallet_calls_documented_def toy_node_def contains_str_examples split: if_splits)

lemma toy_ensures:
  "ns \<in> {[], [''tesaurus'']} \<Longrightarrow> ensure_wallet toy_node ''tesaurus'' ns = (Inr (), [''tesaurus''])"
  by (auto simp: ensure_wallet_def toy_node_def contains_str_examples)

lemma toy_connects:
  assumes "ns \<in> {[], [''tesaurus'']}"
  shows "connect toy_vault_lib toy_node toy_bitcoin_config ns =
     (Inr \<lparr>rpc_client_url = ''http://[::1]:18443/wallet/tesaurus'',
           rpc_client_auth = UserPass ''u'' ''p''\<rparr>, [''tesaurus''])"
proof -
  have "config_network toy_vault_lib toy_bitcoin_config = Inr Regtest"
    by (simp add: config_network_def toy_bitcoin_config_def eq_ignore_ascii_case_def ascii_lower_def
        toy_vault_lib_def toy_net_from_str_def toy_net_to_string_def)
  moreover have "validate_bitcoin toy_vault_lib toy_bitcoin_config = Inr ()"
    using calculation
    by (simp add: validate_bitcoin_def is_loopback_rpc_url_def strip_prefix_def is_ascii_digit_def
        is_ascii_alphanumeric_def toy_bitcoin_config_def)
  moreover have "client_new toy_node = (\<lambda>_ _. True)"
    "get_blockchain_chain toy_node = (\<lambda>_. Inr Regtest)"
    by (simp_all add: toy_node_def)
  moreover have "bc_wallet_name toy_bitcoin_config = ''tesaurus''"
    "wallet_rpc_url (bc_rpc_url toy_bitcoin_config) ''tesaurus'' =
       ''http://[::1]:18443/wallet/tesaurus''"
    "rpc_auth_of toy_bitcoin_config = Inr (UserPass ''u'' ''p'')"
    by (simp_all add: toy_bitcoin_config_def wallet_rpc_url_def rpc_auth_of_def)
  ultimately show ?thesis by (simp add: connect_def Let_def toy_ensures [OF assms] rpc_result_def)
qed

theorem connect_is_local_witness:
  "is_loopback_rpc_url ''http://[::1]:18443/wallet/tesaurus'' \<and>
   get_blockchain_chain toy_node [] = Inr Regtest"
  using connect_is_local [OF toy_connects [of "[]"]] by (simp add: toy_node_def)

theorem ensure_wallet_loads_witness: "''tesaurus'' \<in> set [''tesaurus'']"
  by (rule ensure_wallet_loads [OF toy_ensures [of "[]"] toy_node_documented]) simp

end
