(* ===== verification/Cli.thy ===== *)
theory Cli
  imports State_Files Spend Rpc
begin

text \<open>
  The command line (\<open>src/bin/tesaurus.rs\<close>) and the disabled agent (\<open>tesaurus-agent/src/main.rs\<close>). A
  command runs in a world of the file system, the state of Bitcoin Core, the calls of broadcasts and
  the printed output. The crates, the node, the random generator and the configuration path are one
  environment record. Argument parsing is done by \<open>clap\<close>: a command is its parsed value.
\<close>

section \<open>World and environment\<close>

datatype printed =
    Wrote path
  | KeysShown path public_vault_keys
  | VaultShown vault_descriptor path
  | AddressShown string string
  | ImportShown string
  | StatusShown string u64 string u32 u64 u64 "vault_utxo list"
  | SpendShown string spend_path u64 u64 "string option"
  | BroadcastShown string

record 'n world =
  w_fs :: fsys
  w_node :: 'n
  w_calls :: "core_call list"
  w_out :: "printed list"

record ('n, 'addr) cli_node =
  cn_core :: "'n core_node"
  cn_list_unspent :: "'n \<Rightarrow> 'addr list_unspent_rpc"
  cn_block_count :: "'n \<Rightarrow> string + u64"
  cn_client :: "'n \<Rightarrow> core_client"

record ('pol, 'ms, 'desc, 'addr, 'n) cli_env =
  e_bitcoin :: bitcoin_lib
  e_miniscript :: "('pol, 'ms, 'desc) miniscript_lib"
  e_vault :: "('desc, 'addr) vault_lib"
  e_keys :: key_lib
  e_files :: file_lib
  e_node :: "('n, 'addr) cli_node"
  e_rng :: "key_role \<Rightarrow> bytes"
  e_config :: path

type_synonym ('n, 'a) command_action = "('n world, cli_error, 'a) action"

definition on_fs :: "'a cli_fio \<Rightarrow> ('n, 'a) command_action" where
  "on_fs m = (\<lambda>w. let (r, s') = m (w_fs w) in (r, w\<lparr>w_fs := s'\<rparr>))"

definition on_node :: "('n \<Rightarrow> 'a vault_result \<times> 'n) \<Rightarrow> ('n, 'a) command_action" where
  "on_node m = lib_call (\<lambda>w. let (r, n') = m (w_node w) in (r, w\<lparr>w_node := n'\<rparr>))"

definition on_result :: "'a vault_result \<Rightarrow> ('n, 'a) command_action" where
  "on_result r = lib_call (alift r)"

definition print :: "printed \<Rightarrow> ('n, unit) command_action" where
  "print line = (\<lambda>w. (Inr (), w\<lparr>w_out := w_out w @ [line]\<rparr>))"

section \<open>Commands\<close>

datatype path_arg = PathPrimary | PathRecovery

definition spend_path_of :: "path_arg \<Rightarrow> spend_path" where
  "spend_path_of p = (case p of PathPrimary \<Rightarrow> Primary | PathRecovery \<Rightarrow> Recovery)"

text \<open>\<open>Spend to amount_sats fee_sats path broadcast show_transaction via_agent\<close>.\<close>

datatype command =
    InitConfig path string bool
  | KeysGenerate
  | InitVault bool
  | Address
  | ImportWatch
  | Status
  | Spend string u64 u64 path_arg bool bool bool

definition ensure_network_agent_disabled :: "bool \<Rightarrow> ('n, unit) command_action" where
  "ensure_network_agent_disabled via_agent =
     (if via_agent then araise (Bail AgentDisabled) else areturn ())"

definition read_config ::
    "('pol, 'ms, 'desc, 'addr, 'n) cli_env \<Rightarrow> ('n, config) command_action" where
  "read_config E = on_fs (lib_call (load_config (e_vault E) (e_files E) (e_config E)))"

definition network_of ::
    "('pol, 'ms, 'desc, 'addr, 'n) cli_env \<Rightarrow> config \<Rightarrow> ('n, network) command_action" where
  "network_of E cfg = on_result (config_network (e_vault E) (cfg_bitcoin cfg))"

definition load_state ::
    "('pol, 'ms, 'desc, 'addr, 'n) cli_env \<Rightarrow> config \<Rightarrow> network \<Rightarrow>
     ('n, vault_state) command_action" where
  "load_state E cfg network =
     abind (on_fs (lib_call (load_vault_state (e_miniscript E) (e_vault E) (e_files E)
              (components (vc_state_path (cfg_vault cfg)))))) (\<lambda>state.
     abind (on_result (require_network (e_miniscript E) (e_vault E) (vs_vault state) network)) (\<lambda>_.
     areturn state))"

definition read_key ::
    "('pol, 'ms, 'desc, 'addr, 'n) cli_env \<Rightarrow> config \<Rightarrow> key_role \<Rightarrow> ('n, vault_key) command_action" where
  "read_key E cfg role =
     on_fs (lib_call (load_key (e_keys E) (components (vc_keys_dir (cfg_vault cfg))) role))"

definition open_rpc ::
    "('pol, 'ms, 'desc, 'addr, 'n) cli_env \<Rightarrow> config \<Rightarrow> ('n, bitcoin_rpc) command_action" where
  "open_rpc E cfg = on_node (connect (e_vault E) (cn_core (e_node E)) (cfg_bitcoin cfg))"

definition wallet_coins ::
    "('pol, 'ms, 'desc, 'addr, 'n) cli_env \<Rightarrow> vault_state \<Rightarrow> ('n, vault_utxo list) command_action" where
  "wallet_coins E state = on_node (\<lambda>n.
     (list_utxos (e_miniscript E) (e_vault E) (cn_list_unspent (e_node E) n) state, n))"

definition block_count ::
    "('pol, 'ms, 'desc, 'addr, 'n) cli_env \<Rightarrow> ('n, u64) command_action" where
  "block_count E = on_node (\<lambda>n. (rpc_result (cn_block_count (e_node E) n), n))"

definition init_config ::
    "('pol, 'ms, 'desc, 'addr, 'n) cli_env \<Rightarrow> path \<Rightarrow> string \<Rightarrow> bool \<Rightarrow>
     ('n, unit) command_action" where
  "init_config E p network force =
     abind (on_result (example_toml (e_vault E) network)) (\<lambda>contents.
     abind (on_fs (write_private_file p contents force)) (\<lambda>_.
     print (Wrote p)))"

definition keys_generate ::
    "('pol, 'ms, 'desc, 'addr, 'n) cli_env \<Rightarrow> ('n, unit) command_action" where
  "keys_generate E =
     abind (read_config E) (\<lambda>cfg.
     abind (network_of E cfg) (\<lambda>network.
     let dir = components (vc_keys_dir (cfg_vault cfg))
     in abind (on_fs (lib_call (generate_vault_keys (e_keys E) (e_miniscript E) (e_vault E)
                 (e_rng E) dir network))) (\<lambda>pubs.
        print (KeysShown dir pubs))))"

definition init_vault ::
    "('pol, 'ms, 'desc, 'addr, 'n) cli_env \<Rightarrow> bool \<Rightarrow> ('n, unit) command_action" where
  "init_vault E force =
     abind (read_config E) (\<lambda>cfg.
     let state_path = components (vc_state_path (cfg_vault cfg))
     in abind (on_fs (lib_call (path_exists state_path))) (\<lambda>there.
     if there \<and> \<not> force then araise (Bail StateExists)
     else abind (network_of E cfg) (\<lambda>network.
     abind (read_key E cfg PrimaryKey) (\<lambda>primary.
     abind (read_key E cfg OverrideKey) (\<lambda>override_key.
     abind (read_key E cfg AgentKey) (\<lambda>agent.
     abind (on_result (build (e_miniscript E) (e_vault E) (public_key_of (e_vault E) primary)
              (public_key_of (e_vault E) override_key) (public_key_of (e_vault E) agent)
              (vc_csv_blocks (cfg_vault cfg)) network)) (\<lambda>vault.
     abind (on_fs (lib_call (save_vault_state (e_miniscript E) (e_vault E) (e_files E)
              (new_state vault) state_path))) (\<lambda>_.
     print (VaultShown vault state_path)))))))))"

definition show_address ::
    "('pol, 'ms, 'desc, 'addr, 'n) cli_env \<Rightarrow> ('n, unit) command_action" where
  "show_address E =
     abind (read_config E) (\<lambda>cfg.
     abind (network_of E cfg) (\<lambda>network.
     abind (load_state E cfg network) (\<lambda>state.
     print (AddressShown (vd_receive_address (vs_vault state)) (vd_descriptor (vs_vault state))))))"

definition import_watch ::
    "('pol, 'ms, 'desc, 'addr, 'n) cli_env \<Rightarrow> ('n, unit) command_action" where
  "import_watch E =
     abind (read_config E) (\<lambda>cfg.
     abind (network_of E cfg) (\<lambda>network.
     abind (load_state E cfg network) (\<lambda>state.
     abind (open_rpc E cfg) (\<lambda>_.
     abind (on_node (import_watch_only (e_miniscript E) (e_vault E) (cn_core (e_node E)) state)) (\<lambda>_.
     print (ImportShown (bc_wallet_name (cfg_bitcoin cfg))))))))"

definition show_status ::
    "('pol, 'ms, 'desc, 'addr, 'n) cli_env \<Rightarrow> ('n, unit) command_action" where
  "show_status E =
     abind (read_config E) (\<lambda>cfg.
     abind (network_of E cfg) (\<lambda>network.
     abind (load_state E cfg network) (\<lambda>state.
     abind (open_rpc E cfg) (\<lambda>_.
     abind (block_count E) (\<lambda>tip.
     abind (wallet_coins E state) (\<lambda>utxos.
     abind (alift (checked_sum (Bail TotalOverflow) utxo_sats 0 utxos)) (\<lambda>balance.
     abind (alift (checked_sum (Bail RecoverableOverflow) utxo_sats 0
              (filter vu_spendable_recovery utxos))) (\<lambda>recoverable.
     print (StatusShown (bc_network (cfg_bitcoin cfg)) tip (vd_receive_address (vs_vault state))
       (vd_csv_blocks (vs_vault state)) balance recoverable utxos)))))))))"

definition spend_local_recovery ::
    "('pol, 'ms, 'desc, 'addr, 'n) cli_env \<Rightarrow> config \<Rightarrow> network \<Rightarrow> vault_state \<Rightarrow> vault_utxo list \<Rightarrow>
     spend_request \<Rightarrow> ('n, built_spend) command_action" where
  "spend_local_recovery E cfg network state utxos req =
     abind (read_key E cfg PrimaryKey) (\<lambda>primary.
     abind (read_key E cfg AgentKey) (\<lambda>agent.
     on_result (build_and_sign (e_bitcoin E) (e_miniscript E) (e_vault E) (vs_vault state) network
       utxos (req\<lparr>sq_path := Recovery\<rparr>) [primary, agent])))"

definition build_requested ::
    "('pol, 'ms, 'desc, 'addr, 'n) cli_env \<Rightarrow> config \<Rightarrow> network \<Rightarrow> vault_state \<Rightarrow> vault_utxo list \<Rightarrow>
     spend_request \<Rightarrow> ('n, built_spend) command_action" where
  "build_requested E cfg network state utxos req =
     (if sq_path req = Recovery then spend_local_recovery E cfg network state utxos req
      else abind (read_key E cfg PrimaryKey) (\<lambda>primary.
           abind (read_key E cfg OverrideKey) (\<lambda>override_key.
           on_result (build_and_sign (e_bitcoin E) (e_miniscript E) (e_vault E) (vs_vault state)
             network utxos req [primary, override_key]))))"

definition send ::
    "('pol, 'ms, 'desc, 'addr, 'n) cli_env \<Rightarrow> transaction \<Rightarrow> ('n, string) command_action" where
  "send E tx = lib_call (\<lambda>w.
     let (r, calls) = broadcast (e_bitcoin E) (e_vault E) (cn_client (e_node E) (w_node w)) tx
     in (r, w\<lparr>w_calls := w_calls w @ calls\<rparr>))"

definition spend ::
    "('pol, 'ms, 'desc, 'addr, 'n) cli_env \<Rightarrow> spend_request \<Rightarrow> bool \<Rightarrow> bool \<Rightarrow> bool \<Rightarrow>
     ('n, unit) command_action" where
  "spend E req do_broadcast show_transaction via_agent =
     abind (ensure_network_agent_disabled via_agent) (\<lambda>_.
     abind (read_config E) (\<lambda>cfg.
     abind (network_of E cfg) (\<lambda>network.
     abind (load_state E cfg network) (\<lambda>state.
     abind (open_rpc E cfg) (\<lambda>_.
     abind (wallet_coins E state) (\<lambda>utxos.
     abind (build_requested E cfg network state utxos req) (\<lambda>built.
     abind (on_result (validate_built_spend (e_bitcoin E) (e_miniscript E) (e_vault E) built
              (vs_vault state) network utxos req)) (\<lambda>tx.
     abind (print (SpendShown (bs_txid built) (bs_path built) (bs_fee_sats built)
              (bs_change_sats built) (if show_transaction then Some (bs_tx_hex built) else None))) (\<lambda>_.
     if do_broadcast
     then abind (open_rpc E cfg) (\<lambda>_.
          abind (send E tx) (\<lambda>txid.
          print (BroadcastShown txid)))
     else areturn ())))))))))"

definition run_command ::
    "('pol, 'ms, 'desc, 'addr, 'n) cli_env \<Rightarrow> command \<Rightarrow> ('n, unit) command_action" where
  "run_command E cmd =
     (case cmd of
        InitConfig p network force \<Rightarrow> init_config E p network force
      | KeysGenerate \<Rightarrow> keys_generate E
      | InitVault force \<Rightarrow> init_vault E force
      | Address \<Rightarrow> show_address E
      | ImportWatch \<Rightarrow> import_watch E
      | Status \<Rightarrow> show_status E
      | Spend to amount_sats fee_sats p do_broadcast show_transaction via_agent \<Rightarrow>
          spend E \<lparr>sq_destination = to, sq_amount_sats = amount_sats, sq_fee_sats = fee_sats,
                   sq_path = spend_path_of p\<rparr> do_broadcast show_transaction via_agent)"

section \<open>The agent binary\<close>

definition disabled_message :: string where
  "disabled_message =
     ''tesaurus-agent is disabled: the legacy HTTP protocol could expose primary key material; '' @
     ''use only local regtest/testnet signing until a reviewed PSBT-only protocol ships''"

definition agent_main :: "string + unit" where
  "agent_main = Inl disabled_message"

end
