(* ===== verification/File_Frames.thy ===== *)
theory File_Frames
  imports Files
begin

text \<open>
  Laws of the file system calls. The locale \<open>fs_frame\<close> is the interface of every statement of the
  form "whatever fails, the files change only so": a reflexive and transitive relation that allows
  new directories with the mode of the umask, and closing the directories \<open>closes\<close> to their owner.
  Its lemmas carry the relation through the read-only calls, \<open>create_dir_all\<close> and sequencing. The second part runs call sequences whose calls all succeed.
\<close>

section \<open>Ticks, entries and links\<close>

lemma tick_fields [simp]:
  "fs_nodes (fs_tick s) = fs_nodes s" "fs_umask (fs_tick s) = fs_umask s"
  "fs_plan (fs_tick s) = fs_plan s" "entry (fs_tick s) = entry s"
  by (auto simp: fs_tick_def entry_def)

lemma put_node_fields [simp]:
  "fs_umask (put_node p n s) = fs_umask s" "fs_plan (put_node p n s) = fs_plan s"
  "fs_clock (put_node p n s) = fs_clock s"
  by (simp_all add: put_node_def)

lemma entry_put_node:
  "entry (put_node p n s) q = (if q = p \<and> p \<noteq> [] then Some n else entry s q)"
  by (auto simp: entry_def put_node_def)

lemma entry_Nil [simp]: "entry s [] = None"
  by (simp add: entry_def)

lemma stat_cong: "entry s = entry s' \<Longrightarrow> stat s = stat s'"
proof -
  assume eq: "entry s = entry s'"
  have "follow s n q = follow s' n q" for n q
    by (induction n arbitrary: q) (auto simp: eq split: option.splits node.splits)
  then show ?thesis by (intro ext) (simp add: stat_def resolve_def eq del: follow.simps split: option.split)
qed

lemma stat_tick [simp]: "stat (fs_tick s) = stat s"
  by (rule stat_cong) simp

lemma resolve_tick [simp]: "resolve (fs_tick s) p = resolve s p"
proof -
  have "follow (fs_tick s) n q = follow s n q" for n q
    by (induction n arbitrary: q) (auto split: option.splits node.splits)
  then show ?thesis by (simp add: resolve_def del: follow.simps)
qed

lemma resolve_no_link:
  "\<not> (\<exists>t. entry s p = Some (Symlink t)) \<Longrightarrow> resolve s p = Some p"
  by (auto simp: resolve_def split: option.splits node.splits)

lemma stat_no_link: "\<not> (\<exists>t. entry s p = Some (Symlink t)) \<Longrightarrow> stat s p = entry s p"
  by (simp add: stat_def resolve_no_link)

lemma stat_resolve: "stat s p = Some n \<Longrightarrow> \<exists>q. resolve s p = Some q \<and> entry s q = Some n"
  by (auto simp: stat_def split: option.splits)

lemma resolve_same_links:
  assumes "\<And>q t. entry s' q = Some (Symlink t) \<longleftrightarrow> entry s q = Some (Symlink t)"
  shows "resolve s' p = resolve s p"
proof -
  have "follow s' n q = follow s n q" for n q
  proof (induction n arbitrary: q)
    case (Suc n)
    show ?case
    proof (cases "\<exists>t. entry s q = Some (Symlink t)")
      case True
      then obtain t where "entry s q = Some (Symlink t)" "entry s' q = Some (Symlink t)"
        using assms by blast
      with Suc show ?thesis by simp
    next
      case False
      with assms [of q] show ?thesis
        by (auto split: option.splits node.splits)
    qed
  qed simp
  then show ?thesis by (simp add: resolve_def del: follow.simps)
qed

section \<open>Frames\<close>

text \<open>
  How a step may change the entry at a path to a directory: a new one gets the mode that the umask
  leaves of octal 777, and a directory that may be closed, new or not, gets octal 700.
\<close>

definition dir_step :: "u32 \<Rightarrow> bool \<Rightarrow> node option \<Rightarrow> node option \<Rightarrow> bool" where
  "dir_step umask closing n n' \<longleftrightarrow>
     n = None \<and> n' = Some (Directory (and 0x1FF (not umask))) \<or>
     closing \<and> (n = None \<or> (\<exists>m. n = Some (Directory m))) \<and> n' = Some (Directory 0x1C0)"

locale fs_frame =
  fixes R :: "fsys \<Rightarrow> fsys \<Rightarrow> bool" and closes :: "fsys \<Rightarrow> path \<Rightarrow> bool"
  assumes same_nodes: "fs_nodes s' = fs_nodes s \<Longrightarrow> fs_umask s' = fs_umask s \<Longrightarrow> R s s'"
    and trans: "R s t \<Longrightarrow> R t u \<Longrightarrow> R s u"
    and new_dir: "entry s p = None \<Longrightarrow> p \<noteq> [] \<Longrightarrow>
      R s (put_node p (Directory (and 0x1FF (not (fs_umask s)))) s)"
    and dir_mode: "entry s p = Some (Directory m) \<Longrightarrow> closes s p \<Longrightarrow>
      R s (put_node p (Directory 0x1C0) s)"
    and closes_tick: "closes (fs_tick s) p = closes s p"
begin

lemma refl [simp, intro]: "R s s"
  by (rule same_nodes) simp_all

lemma tick [simp, intro]: "R s (fs_tick s)"
  by (rule same_nodes) simp_all

lemma bind:
  assumes "R s (snd (m s))" and "\<And>x s'. m s = (Inr x, s') \<Longrightarrow> R s' (snd (f x s'))"
  shows "R s (snd (abind m f s))"
proof (cases "m s")
  case (Pair r s')
  with assms show ?thesis by (cases r) (auto simp: abind_def intro: trans)
qed

lemma call: "R s (snd (eff (fs_tick s))) \<Longrightarrow> R s (snd (fs_call eff s))"
  by (auto simp: fs_call_def split: io_outcome.splits)

lemma each: "(\<And>x s. x \<in> set xs \<Longrightarrow> R s (snd (f x s))) \<Longrightarrow> R s (snd (amap_each f xs s))"
proof (induction xs arbitrary: s)
  case (Cons x xs)
  then show ?case by (auto intro!: bind)
qed simp

lemma read_only [simp, intro]:
  "R s (snd (symlink_metadata p s))" "R s (snd (metadata p s))" "R s (snd (path_exists p s))"
  "R s (snd (fs_read_to_string p s))" "R s (snd (fs_sync_all p s))"
  by (auto simp: symlink_metadata_def metadata_def path_exists_def fs_read_to_string_def
      fs_sync_all_def intro!: bind call)

lemma make_dirs: "[] \<notin> set qs \<Longrightarrow> R s (snd (make_dirs qs s))"
proof (induction qs arbitrary: s)
  case (Cons q qs)
  then show ?case
    by (auto split: option.splits intro: trans [OF new_dir])
qed simp

lemma prefixes_not_Nil: "[] \<notin> set (prefixes_of p)"
  by (auto simp: prefixes_of_def)

lemma create_dir_all [simp, intro]: "R s (snd (fs_create_dir_all p s))"
proof -
  have "[] \<notin> set (take n (prefixes_of p))" for n
    using prefixes_not_Nil in_set_takeD by metis
  then show ?thesis
    using trans [OF tick make_dirs] prefixes_not_Nil
    by (simp add: fs_create_dir_all_def split: io_outcome.splits)
qed

lemma set_dir_permissions:
  assumes "stat s p = Some n" and "is_directory n" and "\<And>q. resolve s p = Some q \<Longrightarrow> closes s q"
  shows "R s (snd (fs_set_permissions p 0x1C0 s))"
proof -
  obtain q d where q: "resolve s p = Some q" "entry s q = Some (Directory d)"
    using stat_resolve [OF assms(1)] assms(2) by (auto simp: is_directory_def split: node.splits)
  then have "R (fs_tick s) (put_node q (Directory 0x1C0) (fs_tick s))"
    using assms(3) by (intro dir_mode) (simp_all add: closes_tick)
  then have "R s (put_node q (Directory 0x1C0) (fs_tick s))"
    by (rule trans [OF tick])
  with q show ?thesis by (auto simp: fs_set_permissions_def with_mode_def intro!: call)
qed

end

text \<open>After a successful \<open>create_dir_all\<close> the path is a directory.\<close>

lemma make_dirs_last:
  "make_dirs (qs @ [p]) s = (Inr u, s') \<Longrightarrow> p \<noteq> [] \<Longrightarrow>
   \<exists>n. stat s' p = Some n \<and> is_directory n"
proof (induction qs arbitrary: s)
  case Nil
  then show ?case
    by (auto simp: entry_put_node stat_no_link is_directory_def split: option.splits if_splits)
next
  case (Cons q qs)
  then show ?case by (auto split: option.splits if_splits)
qed

lemma prefixes_of_snoc: "p \<noteq> [] \<Longrightarrow> prefixes_of p = prefixes_of (butlast p) @ [p]"
  by (cases p rule: rev_cases) (auto simp: prefixes_of_def)

lemma create_dir_all_dir:
  assumes "fs_create_dir_all p s = (Inr u, s')" and "p \<noteq> []"
  shows "\<exists>n. stat s' p = Some n \<and> is_directory n"
  using assms make_dirs_last [of "prefixes_of (butlast p)" p "fs_tick s"]
  by (auto simp: fs_create_dir_all_def prefixes_of_snoc split: io_outcome.splits)

section \<open>Runs whose calls all succeed\<close>

definition calls_succeed :: "fsys \<Rightarrow> bool" where
  "calls_succeed s \<longleftrightarrow> fs_plan s = (\<lambda>_. IoOk)"

definition next_ok :: "fsys \<Rightarrow> bool" where
  "next_ok s \<longleftrightarrow> fs_plan s (fs_clock s) = IoOk"

lemma calls_succeed_next [simp]: "calls_succeed s \<Longrightarrow> next_ok s"
  by (simp add: calls_succeed_def next_ok_def)

lemma ok_call: "next_ok s \<Longrightarrow> fs_call eff s = eff (fs_tick s)"
  by (simp add: next_ok_def fs_call_def)

lemma calls_succeed_simps [simp]:
  "calls_succeed (fs_tick s) = calls_succeed s"
  "calls_succeed (put_node p n s) = calls_succeed s"
  by (simp_all add: calls_succeed_def)

lemma ok_symlink_metadata:
  "next_ok s \<Longrightarrow> symlink_metadata p s = (ok_or IoError (entry s p), fs_tick s)"
  by (simp add: symlink_metadata_def ok_call)

lemma make_dirs_ok:
  assumes "[] \<notin> set qs" and "\<forall>q\<in>set qs. entry s q = None \<or> (\<exists>m. entry s q = Some (Directory m))"
  shows "\<exists>s'. make_dirs qs s = (Inr (), s') \<and> fs_plan s' = fs_plan s \<and>
    fs_clock s' = fs_clock s \<and>
    (\<forall>q\<in>set qs. \<exists>m. entry s' q = Some (Directory m)) \<and>
    (\<forall>q. entry s q \<noteq> None \<or> q \<notin> set qs \<longrightarrow> entry s' q = entry s q)"
  using assms
proof (induction qs arbitrary: s)
  case (Cons q qs)
  show ?case
  proof (cases "entry s q")
    case None
    let ?t = "put_node q (Directory (and 0x1FF (not (fs_umask s)))) s"
    have "\<forall>p\<in>set qs. entry ?t p = None \<or> (\<exists>m. entry ?t p = Some (Directory m))"
      using Cons.prems by (auto simp: entry_put_node)
    then obtain s' where "make_dirs qs ?t = (Inr (), s')" "fs_plan s' = fs_plan ?t"
      "fs_clock s' = fs_clock ?t"
      "\<forall>q\<in>set qs. \<exists>m. entry s' q = Some (Directory m)"
      "\<forall>q. entry ?t q \<noteq> None \<or> q \<notin> set qs \<longrightarrow> entry s' q = entry ?t q"
      using Cons.IH [of ?t] Cons.prems(1) by auto
    with None Cons.prems(1) show ?thesis
      by (intro exI [of _ s']) (auto simp: stat_no_link entry_put_node split: if_splits)
  next
    case (Some n)
    then obtain m where n: "n = Directory m" using Cons.prems(2) by auto
    with Some obtain s' where "make_dirs qs s = (Inr (), s')" "fs_plan s' = fs_plan s"
      "fs_clock s' = fs_clock s"
      "\<forall>q\<in>set qs. \<exists>m. entry s' q = Some (Directory m)"
      "\<forall>q. entry s q \<noteq> None \<or> q \<notin> set qs \<longrightarrow> entry s' q = entry s q"
      using Cons.IH [of s] Cons.prems by auto
    with Some n show ?thesis by (auto simp: stat_no_link is_directory_def)
  qed
qed auto

lemma dir_in_prefixes: "dir \<noteq> [] \<Longrightarrow> dir \<in> set (prefixes_of dir)"
  by (simp add: prefixes_of_snoc)

lemma ok_path_exists:
  "next_ok s \<Longrightarrow> path_exists p s = (Inr (stat s p \<noteq> None), fs_tick s)"
  by (simp add: path_exists_def metadata_def ok_call abind_def acatch_def areturn_def ok_or_def
      split: option.splits)

lemma ok_metadata: "next_ok s \<Longrightarrow> metadata p s = (ok_or IoError (stat s p), fs_tick s)"
  by (simp add: metadata_def ok_call)

lemma ok_create_dir_all:
  "next_ok s \<Longrightarrow> fs_create_dir_all p s = make_dirs (prefixes_of p) (fs_tick s)"
  by (simp add: fs_create_dir_all_def next_ok_def)

lemma ok_set_permissions:
  "next_ok s \<Longrightarrow> entry s p = Some n \<Longrightarrow> \<not> is_symlink n \<Longrightarrow>
   fs_set_permissions p m s = (Inr (), put_node p (with_mode m n) (fs_tick s))"
  by (simp add: fs_set_permissions_def ok_call resolve_no_link is_symlink_def split: node.splits)

lemma clock_tick [simp]: "fs_clock (fs_tick s) = Suc (fs_clock s)"
  by (simp add: fs_tick_def)

lemma parent_dir_ok_tick [simp]: "parent_dir_ok (fs_tick s) p = parent_dir_ok s p"
  by (simp add: parent_dir_ok_def split: option.split)

lemma parent_not_longer: "path_parent p = Some d \<Longrightarrow> p \<notin> set (prefixes_of d) \<and> p \<noteq> []"
proof
  assume d: "path_parent p = Some d"
  then show "p \<noteq> []" by (auto simp: path_parent_def)
  have "length d < length p" using d by (auto simp: path_parent_def split: if_splits)
  moreover have "length q \<le> length d" if "q \<in> set (prefixes_of d)" for q
    using that by (auto simp: prefixes_of_def)
  ultimately show "p \<notin> set (prefixes_of d)" by (meson not_less)
qed

lemma parent_dir_ok_made:
  assumes "path_parent p = Some d" and "\<forall>q\<in>set (prefixes_of d). \<exists>m. entry s q = Some (Directory m)"
  shows "parent_dir_ok s p"
proof (cases "d = []")
  case False
  then obtain m where "entry s d = Some (Directory m)" using assms(2) dir_in_prefixes by blast
  with assms(1) show ?thesis by (simp add: parent_dir_ok_def stat_no_link is_directory_def)
qed (use assms in \<open>simp add: parent_dir_ok_def\<close>)

text \<open>A path at which a file can be made or replaced: no links, and a parent that exists or can.\<close>

definition writable_path :: "path \<Rightarrow> fsys \<Rightarrow> bool" where
  "writable_path p s \<longleftrightarrow>
     (\<exists>d. path_parent p = Some d \<and>
        (\<forall>q\<in>set (prefixes_of d). entry s q = None \<or> (\<exists>m. entry s q = Some (Directory m)))) \<and>
     (entry s p = None \<or> (\<exists>c m. entry s p = Some (Regular c m)))"

section \<open>A concrete file system\<close>

definition toy_fs :: fsys where
  "toy_fs = \<lparr>fs_nodes = (\<lambda>_. None), fs_umask = 0x12, fs_plan = (\<lambda>_. IoOk), fs_clock = 0\<rparr>"

lemma toy_fs_empty: "calls_succeed toy_fs" "entry (toy_fs\<lparr>fs_plan := plan\<rparr>) p = None" "entry toy_fs p = None"
  by (simp_all add: calls_succeed_def toy_fs_def entry_def)

end
