(* ===== verification/Keys_Correct.thy ===== *)
theory Keys_Correct
  imports Keys File_Frames
begin

text \<open>
  What key generation does to the file system: it never changes an existing file, every file it
  makes is private from its first byte, and the keys it reports are the keys that are loaded.
\<close>

section \<open>Only new private files\<close>

text \<open>
  How the entry at one path may change: not at all, as a directory may (\<open>dir_step\<close>), and at the
  paths \<open>P\<close> also from nothing to a private file. Only the directory that \<open>dir\<close> leads to is closed.
\<close>

definition entry_step :: "u32 \<Rightarrow> bool \<Rightarrow> bool \<Rightarrow> node option \<Rightarrow> node option \<Rightarrow> bool" where
  "entry_step umask closing new n n' \<longleftrightarrow>
     n' = n \<or> dir_step umask closing n n' \<or>
     new \<and> n = None \<and> (\<exists>c m. n' = Some (Regular c m) \<and> private_mode m)"

definition only_new_private :: "path \<Rightarrow> path set \<Rightarrow> fsys \<Rightarrow> fsys \<Rightarrow> bool" where
  "only_new_private dir P s s' \<longleftrightarrow> fs_umask s' = fs_umask s \<and>
     (\<forall>q. entry_step (fs_umask s) (resolve s dir = Some q) (q \<in> P) (entry s q) (entry s' q))"

lemma entry_step_trans:
  "entry_step u c b n n1 \<Longrightarrow> entry_step u c b n1 n2 \<Longrightarrow> entry_step u c b n n2"
  by (auto simp: entry_step_def dir_step_def)

lemma only_new_private_resolve:
  assumes "only_new_private dir P s s'"
  shows "resolve s' p = resolve s p"
proof (rule resolve_same_links)
  fix q t
  have "entry_step (fs_umask s) (resolve s dir = Some q) (q \<in> P) (entry s q) (entry s' q)"
    using assms by (simp add: only_new_private_def)
  then show "entry s' q = Some (Symlink t) \<longleftrightarrow> entry s q = Some (Symlink t)"
    by (auto simp: entry_step_def dir_step_def)
qed

lemma only_new_private_trans:
  assumes "only_new_private dir P s t" and "only_new_private dir P t u"
  shows "only_new_private dir P s u"
  using assms only_new_private_resolve [OF assms(1), of dir]
  unfolding only_new_private_def by (metis entry_step_trans)

interpretation new_private: fs_frame "only_new_private dir P" "\<lambda>s q. resolve s dir = Some q" for dir P
proof
  show "only_new_private dir P s s'" if "fs_nodes s' = fs_nodes s" "fs_umask s' = fs_umask s" for s s'
    using that by (simp add: only_new_private_def entry_step_def entry_def)
qed (erule (1) only_new_private_trans,
    auto simp: only_new_private_def entry_step_def dir_step_def entry_put_node)

lemma only_new_private_mono:
  "only_new_private dir P s s' \<Longrightarrow> P \<subseteq> P' \<Longrightarrow> only_new_private dir P' s s'"
  unfolding only_new_private_def entry_step_def by blast

context fs_frame
begin

lemma prepare_key_dir:
  assumes "\<And>t q. resolve t p = Some q \<Longrightarrow> closes t q"
  shows "R s (snd (prepare_key_dir p s))"
  unfolding prepare_key_dir_def
proof (intro bind)
  fix existed s1 u s2
  assume "fs_create_dir_all p s1 = (Inr u, s2)"
  then show "R s2 (snd ((if \<not> existed then fs_set_permissions p KEY_DIR_MODE else areturn ()) s2))"
  proof (cases "p = []")
    case True
    then have "resolve t p = Some []" for t by (simp add: resolve_no_link)
    with True show ?thesis by (auto simp: fs_set_permissions_def intro!: call)
  next
    case False
    with create_dir_all_dir [OF \<open>fs_create_dir_all p s1 = (Inr u, s2)\<close>] show ?thesis
      using assms by (auto simp: KEY_DIR_MODE_def intro: set_dir_permissions)
  qed
qed auto

end

lemma private_masked: "private_mode (and KEY_FILE_MODE m)"
proof -
  have "and (and KEY_FILE_MODE m) GROUP_OTHERS = and m (and KEY_FILE_MODE GROUP_OTHERS)"
    by (simp add: and.assoc and.commute and.left_commute)
  then show ?thesis by (simp add: private_mode_def KEY_FILE_MODE_def GROUP_OTHERS_def)
qed

lemma private_key_modes [simp]: "private_mode KEY_FILE_MODE" "private_mode KEY_DIR_MODE"
  by (simp_all add: private_mode_def KEY_FILE_MODE_def KEY_DIR_MODE_def GROUP_OTHERS_def)

text \<open>The file a sequence of calls on a fresh handle leaves is one private file or none.\<close>

definition fresh_file :: "path \<Rightarrow> fsys \<Rightarrow> fsys \<Rightarrow> bool" where
  "fresh_file p s s' \<longleftrightarrow> fs_umask s' = fs_umask s \<and>
     (\<exists>c m. private_mode m \<and> entry s' = (entry s)(p := Some (Regular c m)))"

lemma fresh_file_only_new:
  "fresh_file p s s' \<Longrightarrow> entry s p = None \<Longrightarrow> only_new_private dir {p} s s'"
  by (auto simp: fresh_file_def only_new_private_def entry_step_def split: if_splits)

lemma fresh_file_steps:
  assumes "fresh_file p s t" and "p \<noteq> []"
  shows "fresh_file p s (snd (fs_set_permissions p KEY_FILE_MODE t))"
    and "fresh_file p s (snd (fs_write_all p bs t))"
    and "fresh_file p s (snd (fs_sync_all p t))"
proof -
  obtain c m where e: "entry t = (entry s)(p := Some (Regular c m))" "private_mode m"
    and u: "fs_umask t = fs_umask s"
    using assms(1) by (auto simp: fresh_file_def)
  then have r: "resolve t p = Some p" by (simp add: resolve_no_link)
  show "fresh_file p s (snd (fs_set_permissions p KEY_FILE_MODE t))"
    using e u r assms(2)
    by (auto simp: fs_set_permissions_def fs_call_def fresh_file_def with_mode_def entry_put_node
        fun_eq_iff split: io_outcome.splits)
  show "fresh_file p s (snd (fs_write_all p bs t))"
    using e u assms(2)
    by (auto simp: fs_write_all_def append_to_def fresh_file_def entry_put_node fun_eq_iff
        split: io_outcome.splits)
  show "fresh_file p s (snd (fs_sync_all p t))"
    using assms(1) by (auto simp: fs_sync_all_def fs_call_def fresh_file_def split: io_outcome.splits)
qed

lemma fs_open_new_cases:
  assumes "fs_open_new p m s = (r, s')"
  obtains (opened) "r = Inr p" "entry s p = None" "p \<noteq> []"
      "s' = put_node p (Regular [] (and m (not (fs_umask s)))) (fs_tick s)"
  | (refused) "r = Inl IoError" "s' = fs_tick s"
  using assms
  by (auto simp: fs_open_new_def fs_call_def parent_dir_ok_def path_parent_def
      split: io_outcome.splits if_splits)

lemma write_new_private_frame: "only_new_private dir {p} s (snd (write_new_private p bs s))"
proof (cases "fs_open_new p KEY_FILE_MODE s")
  case (Pair r t)
  then show ?thesis
  proof (cases rule: fs_open_new_cases)
    case opened
    then have t: "fresh_file p s t"
      by (auto simp: fresh_file_def entry_put_node private_masked fun_eq_iff)
    have w: "fresh_file p s (snd (abind (fs_write_all p bs) (\<lambda>_. fs_sync_all p) u))"
      if "fresh_file p s u" for u
      using fresh_file_steps(2) [OF that opened(3), of bs] fresh_file_steps(3) [OF _ opened(3)]
      by (cases "fs_write_all p bs u") (auto simp: abind_def split: sum.splits)
    have "fresh_file p s (snd (abind (fs_set_permissions p KEY_FILE_MODE)
        (\<lambda>_. abind (fs_write_all p bs) (\<lambda>_. fs_sync_all p)) t))"
      using fresh_file_steps(1) [OF t opened(3)] w
      by (cases "fs_set_permissions p KEY_FILE_MODE t") (auto simp: abind_def split: sum.splits)
    with Pair opened show ?thesis
      by (simp add: write_new_private_def abind_apply fresh_file_only_new)
  next
    case refused
    with Pair show ?thesis by (simp add: write_new_private_def abind_apply)
  qed
qed

lemma write_wif_file_frame:
  assumes "path_parent p = Some dir"
  shows "only_new_private dir {p} s (snd (write_wif_file K key p s))"
  unfolding write_wif_file_def using assms
  by (auto intro!: new_private.bind new_private.prepare_key_dir write_new_private_frame
      split: option.splits)

section \<open>Generation\<close>

lemma refuse_existing_key_frame: "only_new_private dir P s (snd (refuse_existing_key dir role s))"
  unfolding refuse_existing_key_def by (auto intro!: new_private.bind)

lemma key_path_parent [simp]: "path_parent (key_path dir role) = Some dir"
  by (cases role) (simp_all add: key_path_def path_parent_def path_join_def role_filename_def)

lemma write_fresh_key_frame:
  "only_new_private dir {key_path dir role} s (snd (write_fresh_key K M V rng dir net role s))"
  unfolding write_fresh_key_def Let_def by (auto intro!: new_private.bind write_wif_file_frame)

lemma generate_vault_keys_frame:
  "only_new_private dir (range (key_path dir)) s (snd (generate_vault_keys K M V rng dir net s))"
proof -
  have "only_new_private dir (range (key_path dir)) t (snd (write_fresh_key K M V rng dir net role t))"
    for t role
    by (rule only_new_private_mono [OF write_fresh_key_frame]) simp
  then show ?thesis
    unfolding generate_vault_keys_def
    by (auto intro!: new_private.bind new_private.each refuse_existing_key_frame)
qed

text \<open>The refusal before anything is written.\<close>

lemma ok_refuse_existing_key:
  assumes "calls_succeed s"
  shows "refuse_existing_key dir role s =
    (if entry s (key_path dir role) = None then Inr () else Inl (KeyError KeySetExists), fs_tick s)"
  using assms
  by (simp add: refuse_existing_key_def abind_def acatch_def ok_symlink_metadata areturn_def
      araise_def ok_or_def split: option.splits)

lemma existing_key_refused:
  assumes "calls_succeed s" and "entry s (key_path dir role) \<noteq> None" and "role \<in> set roles"
  shows "\<exists>s'. amap_each (refuse_existing_key dir) roles s = (Inl (KeyError KeySetExists), s') \<and>
    entry s' = entry s"
  using assms
proof (induction roles arbitrary: s)
  case (Cons r roles)
  show ?case
  proof (cases "entry s (key_path dir r) = None")
    case True
    with Cons.prems have "role \<in> set roles" by auto
    with Cons.IH [of "fs_tick s"] Cons.prems
    obtain s' where "amap_each (refuse_existing_key dir) roles (fs_tick s)
        = (Inl (KeyError KeySetExists), s')" "entry s' = entry s"
      by auto
    with Cons.prems(1) True show ?thesis by (simp add: abind_def ok_refuse_existing_key)
  next
    case False
    then obtain n where "entry s (key_path dir r) = Some n" by blast
    with Cons.prems(1) show ?thesis by (simp add: abind_def ok_refuse_existing_key)
  qed
qed simp

text \<open>
  C17: key generation destroys nothing and leaks nothing. Whatever system calls fail, and wherever
  it stops, no existing file or link has changed, and every file it made is one of the three key
  files and closed to group and others, also while it is still empty. When the calls succeed and
  any of the three exists, generation refuses and changes nothing.
\<close>

theorem key_generation_safe:
  assumes "generate_vault_keys K M V rng dir net s = (r, s')"
  shows "(\<forall>q n. entry s q = Some n \<and> (is_file n \<or> is_symlink n) \<longrightarrow> entry s' q = Some n) \<and>
    (\<forall>q c m. entry s q = None \<and> entry s' q = Some (Regular c m) \<longrightarrow>
       q \<in> key_path dir ` {PrimaryKey, OverrideKey, AgentKey} \<and> private_mode m) \<and>
    (calls_succeed s \<and> net \<in> {Regtest, Testnet, Signet} \<and>
     (\<exists>role. entry s (key_path dir role) \<noteq> None) \<longrightarrow>
       r = Inl (KeyError KeySetExists) \<and> entry s' = entry s)"
proof -
  have roles: "range (key_path dir) = key_path dir ` {PrimaryKey, OverrideKey, AgentKey}"
  proof -
    have "role \<in> {PrimaryKey, OverrideKey, AgentKey}" for role by (cases role) simp_all
    then have "UNIV = {PrimaryKey, OverrideKey, AgentKey}" by blast
    then show ?thesis by simp
  qed
  have step: "entry_step (fs_umask s) (resolve s dir = Some q) (q \<in> range (key_path dir))
      (entry s q) (entry s' q)" for q
    using generate_vault_keys_frame [of dir s K M V rng net] assms
    by (simp add: only_new_private_def)
  have "entry s' q = Some n" if "entry s q = Some n" "is_file n \<or> is_symlink n" for q n
    using step [of q] that by (auto simp: entry_step_def dir_step_def is_file_def is_symlink_def)
  moreover have "q \<in> range (key_path dir) \<and> private_mode m"
    if "entry s q = None" "entry s' q = Some (Regular c m)" for q c m
    using step [of q] that by (auto simp: entry_step_def dir_step_def)
  moreover have "r = Inl (KeyError KeySetExists) \<and> entry s' = entry s"
    if "calls_succeed s" "net \<in> {Regtest, Testnet, Signet}" "entry s (key_path dir role) \<noteq> None"
    for role
  proof -
    note refused = existing_key_refused [OF that(1,3)] and net = that(2)
    have "role \<in> set KEY_ROLES" by (cases role) (simp_all add: KEY_ROLES_def)
    then obtain t where "amap_each (refuse_existing_key dir) KEY_ROLES s
        = (Inl (KeyError KeySetExists), t)" "entry t = entry s"
      using refused by blast
    with net assms show ?thesis by (auto simp: generate_vault_keys_def abind_apply)
  qed
  ultimately show ?thesis unfolding roles by blast
qed

section \<open>Generated keys are the keys that load\<close>

definition key_dir_ready :: "path \<Rightarrow> fsys \<Rightarrow> bool" where
  "key_dir_ready dir s \<longleftrightarrow> dir \<noteq> [] \<and>
     (\<forall>q\<in>set (prefixes_of dir). entry s q = None \<or> (\<exists>m. entry s q = Some (Directory m))) \<and>
     (\<forall>m. entry s dir = Some (Directory m) \<longrightarrow> private_mode m)"

lemma ok_prepare_key_dir:
  assumes "calls_succeed s" and "key_dir_ready dir s"
  shows "\<exists>s'. prepare_key_dir dir s = (Inr (), s') \<and> calls_succeed s' \<and>
    (\<exists>m. entry s' dir = Some (Directory m) \<and> private_mode m) \<and>
    (\<forall>q\<in>set (prefixes_of dir). \<exists>m. entry s' q = Some (Directory m)) \<and>
    (\<forall>q. q \<notin> set (prefixes_of dir) \<longrightarrow> entry s' q = entry s q)"
proof -
  from assms(2) have dir: "dir \<noteq> []" "dir \<in> set (prefixes_of dir)"
    by (simp_all add: key_dir_ready_def dir_in_prefixes)
  obtain t where t: "make_dirs (prefixes_of dir) (fs_tick (fs_tick s)) = (Inr (), t)"
    "fs_plan t = fs_plan s" "\<forall>q\<in>set (prefixes_of dir). \<exists>m. entry t q = Some (Directory m)"
    "\<forall>q. entry s q \<noteq> None \<or> q \<notin> set (prefixes_of dir) \<longrightarrow> entry t q = entry s q"
    using make_dirs_ok [of "prefixes_of dir" "fs_tick (fs_tick s)"] assms(2)
    by (auto simp: key_dir_ready_def new_private.prefixes_not_Nil)
  then have ok: "calls_succeed t" using assms(1) by (simp add: calls_succeed_def)
  obtain m where m: "entry t dir = Some (Directory m)" using t(3) dir(2) by auto
  have old: "stat s dir = entry s dir"
    using assms(2) dir by (intro stat_no_link) (auto simp: key_dir_ready_def)
  have run: "prepare_key_dir dir s =
      abind (if entry s dir = None then fs_set_permissions dir KEY_DIR_MODE else areturn ()) (\<lambda>_.
      abind (metadata dir) (\<lambda>meta.
      if \<not> private_mode (node_mode meta) then araise (KeyError KeyDirPermissive)
      else areturn ())) t"
    using assms(1) t(1) old
    by (simp add: prepare_key_dir_def abind_apply ok_path_exists ok_create_dir_all)
  show ?thesis
  proof (cases "entry s dir")
    case None
    let ?u = "put_node dir (Directory KEY_DIR_MODE) (fs_tick t)"
    have "stat ?u dir = Some (Directory KEY_DIR_MODE)"
      using dir by (simp add: stat_no_link entry_put_node)
    with None m ok dir have "prepare_key_dir dir s = (Inr (), fs_tick ?u)"
      by (simp add: run abind_apply ok_set_permissions is_symlink_def with_mode_def ok_metadata
          node_mode_def)
    with t ok dir show ?thesis by (auto simp: entry_put_node)
  next
    case (Some n)
    then have "private_mode m" "entry s dir = Some (Directory m)"
      using t(4) m assms(2) by (auto simp: key_dir_ready_def)
    moreover from m have "stat t dir = Some (Directory m)" by (simp add: stat_no_link)
    ultimately have "prepare_key_dir dir s = (Inr (), fs_tick t)"
      using ok by (simp add: run abind_apply ok_metadata node_mode_def)
    with t ok m \<open>private_mode m\<close> show ?thesis by auto
  qed
qed

lemma ok_write_new_private:
  assumes "calls_succeed s" and "entry s p = None" and "parent_dir_ok s p" and "p \<noteq> []"
  shows "\<exists>s'. write_new_private p bs s = (Inr (), s') \<and> calls_succeed s' \<and>
    entry s' = (entry s)(p := Some (Regular bs KEY_FILE_MODE))"
proof -
  let ?t = "put_node p (Regular [] (and KEY_FILE_MODE (not (fs_umask s)))) (fs_tick s)"
  let ?u = "put_node p (Regular [] KEY_FILE_MODE) (fs_tick ?t)"
  let ?v = "put_node p (Regular bs KEY_FILE_MODE) (fs_tick ?u)"
  have "fs_open_new p KEY_FILE_MODE s = (Inr p, ?t)"
    using assms by (simp add: fs_open_new_def ok_call)
  moreover have "fs_set_permissions p KEY_FILE_MODE ?t = (Inr (), ?u)"
    using assms by (simp add: ok_set_permissions entry_put_node is_symlink_def with_mode_def)
  moreover have "fs_write_all p bs ?u = (Inr (), ?v)"
  proof -
    have "fs_plan ?u (fs_clock ?u) = IoOk" using assms(1) by (simp add: calls_succeed_def)
    then show ?thesis using assms(4) by (simp add: fs_write_all_def append_to_def entry_put_node)
  qed
  moreover have "fs_sync_all p ?v = (Inr (), fs_tick ?v)"
    using assms(1) by (simp add: fs_sync_all_def ok_call)
  ultimately have "write_new_private p bs s = (Inr (), fs_tick ?v)"
    by (simp add: write_new_private_def abind_apply)
  with assms show ?thesis by (auto simp: entry_put_node fun_eq_iff)
qed

lemma key_path_not_prefix: "key_path dir role \<notin> set (prefixes_of dir)"
proof
  assume "key_path dir role \<in> set (prefixes_of dir)"
  then obtain n where "key_path dir role = take (Suc n) dir" by (auto simp: prefixes_of_def)
  then have "length (key_path dir role) \<le> length dir" by simp
  then show False by (simp add: key_path_def path_join_def)
qed

lemma ok_write_wif_file:
  assumes "calls_succeed s" and "key_dir_ready dir s" and "entry s (key_path dir role) = None"
  shows "\<exists>s'. write_wif_file K key (key_path dir role) s = (Inr (), s') \<and> calls_succeed s' \<and>
    key_dir_ready dir s' \<and>
    entry s' (key_path dir role) =
      Some (Regular (ascii (private_to_wif K (vk_inner key) @ newline)) KEY_FILE_MODE) \<and>
    (\<forall>q. q \<notin> set (prefixes_of dir) \<and> q \<noteq> key_path dir role \<longrightarrow> entry s' q = entry s q)"
proof -
  let ?p = "key_path dir role"
  from assms(2) have dir: "dir \<noteq> []" by (simp add: key_dir_ready_def)
  have parent: "path_parent ?p = Some dir" by simp
  have "key_dir_ready dir (fs_tick s)" using assms(2) by (simp add: key_dir_ready_def)
  then obtain t where t: "prepare_key_dir dir (fs_tick s) = (Inr (), t)" "calls_succeed t"
    "\<exists>m. entry t dir = Some (Directory m) \<and> private_mode m"
    "\<forall>q\<in>set (prefixes_of dir). \<exists>m. entry t q = Some (Directory m)"
    "\<forall>q. q \<notin> set (prefixes_of dir) \<longrightarrow> entry t q = entry s q"
    using ok_prepare_key_dir [of "fs_tick s" dir] assms(1) by auto
  have "parent_dir_ok t ?p"
    using t(3) parent dir by (auto simp: parent_dir_ok_def stat_no_link is_directory_def)
  moreover have "entry t ?p = None" using t(5) assms(3) key_path_not_prefix by simp
  moreover have "?p \<noteq> []" by (simp add: key_path_def)
  ultimately obtain u where u: "write_new_private ?p
      (ascii (private_to_wif K (vk_inner key) @ newline)) t = (Inr (), u)" "calls_succeed u"
    "entry u = (entry t)(?p :=
      Some (Regular (ascii (private_to_wif K (vk_inner key) @ newline)) KEY_FILE_MODE))"
    using ok_write_new_private [OF t(2)] by blast
  have "write_wif_file K key ?p s = (Inr (), u)"
    using assms(1,3) t(1) u(1) parent
    by (simp add: write_wif_file_def abind_def acatch_def ok_symlink_metadata)
  moreover have "key_dir_ready dir u"
  proof -
    have "dir \<noteq> ?p" using key_path_not_prefix dir_in_prefixes [OF dir] by metis
    moreover have "\<forall>q\<in>set (prefixes_of dir). q \<noteq> ?p" using key_path_not_prefix by metis
    ultimately show ?thesis using t dir by (auto simp: key_dir_ready_def u(3))
  qed
  ultimately show ?thesis using u t by auto
qed

text \<open>The documented WIF codec: printable, and parsed back to the key.\<close>

definition key_documented :: "key_lib \<Rightarrow> bool" where
  "key_documented K \<longleftrightarrow>
     (\<forall>k. private_from_wif K (private_to_wif K k) = Some k \<and> private_to_wif K k \<noteq> [] \<and>
        (\<forall>b\<in>set (ascii (private_to_wif K k)). visible b))"

lemma ok_load_key:
  assumes "key_documented K" and "calls_succeed s"
    and "entry s (key_path dir role) =
      Some (Regular (ascii (private_to_wif K inner @ newline)) KEY_FILE_MODE)"
  shows "fst (load_key K dir role s) = Inr \<lparr>vk_role = role, vk_inner = inner\<rparr>"
proof -
  let ?wif = "private_to_wif K inner"
  have w: "private_from_wif K ?wif = Some inner" "?wif \<noteq> []" "\<forall>b\<in>set (ascii ?wif). visible b"
    using assms(1) by (auto simp: key_documented_def)
  have "\<forall>b\<in>set (ascii (?wif @ newline)). b < 0x80"
    using w(3) visible_low by (auto simp: newline_def ascii_def)
  then have "from_utf8 (ascii (?wif @ newline)) = Some (?wif @ newline)"
    by (simp add: from_utf8_def utf8_valid_low del: ascii_append)
  moreover have "stat s (key_path dir role) = entry s (key_path dir role)"
    using assms(3) by (simp add: stat_no_link)
  moreover have "from_wif K role (?wif @ newline) = Inr \<lparr>vk_role = role, vk_inner = inner\<rparr>"
    using w by (simp add: from_wif_def trim_visible_line)
  ultimately show ?thesis
    using assms(2,3)
    by (simp add: load_key_def from_file_def abind_apply ok_symlink_metadata is_symlink_def
        node_mode_def fs_read_to_string_def ok_call alift_def
        del: ascii_append flip: key_path_def)
qed

lemma ok_refuse_none:
  "calls_succeed s \<Longrightarrow> \<forall>role\<in>set roles. entry s (key_path dir role) = None \<Longrightarrow>
   \<exists>xs s'. amap_each (refuse_existing_key dir) roles s = (Inr xs, s') \<and> calls_succeed s' \<and>
     entry s' = entry s"
proof (induction roles arbitrary: s)
  case (Cons r roles)
  then have "refuse_existing_key dir r s = (Inr (), fs_tick s)" by (simp add: ok_refuse_existing_key)
  with Cons.IH [of "fs_tick s"] Cons.prems show ?case by (auto simp: abind_apply)
qed simp

lemma key_path_eq_iff [simp]: "key_path dir r = key_path dir r' \<longleftrightarrow> r = r'"
  by (cases r; cases r') (simp_all add: key_path_def role_filename_def)

lemma ok_write_fresh_keys:
  assumes "calls_succeed s" and "key_dir_ready dir s" and "distinct roles"
    and "\<forall>role\<in>set roles. entry s (key_path dir role) = None"
  shows "\<exists>s'. amap_each (write_fresh_key K M V rng dir net) roles s =
      (Inr (map (\<lambda>role. public_key_to_string M (public_key_of V (generate_key K rng role net))) roles),
       s') \<and> calls_succeed s' \<and>
    (\<forall>role\<in>set roles. entry s' (key_path dir role) = Some (Regular
        (ascii (private_to_wif K (vk_inner (generate_key K rng role net)) @ newline)) KEY_FILE_MODE)) \<and>
    (\<forall>role. role \<notin> set roles \<longrightarrow> entry s' (key_path dir role) = entry s (key_path dir role))"
  using assms
proof (induction roles arbitrary: s)
  case (Cons r roles)
  let ?key = "generate_key K rng r net"
  obtain t where t: "write_wif_file K ?key (key_path dir r) s = (Inr (), t)" "calls_succeed t"
    "key_dir_ready dir t"
    "entry t (key_path dir r) =
      Some (Regular (ascii (private_to_wif K (vk_inner ?key) @ newline)) KEY_FILE_MODE)"
    "\<forall>q. q \<notin> set (prefixes_of dir) \<and> q \<noteq> key_path dir r \<longrightarrow> entry t q = entry s q"
    using ok_write_wif_file [OF Cons.prems(1,2), of r K ?key] Cons.prems(4) by auto
  then have others: "entry t (key_path dir r') = entry s (key_path dir r')" if "r' \<noteq> r" for r'
    using that key_path_not_prefix by simp
  have fresh: "\<forall>role\<in>set roles. entry t (key_path dir role) = None"
    using Cons.prems(3,4) others by (metis distinct.simps(2) list.set_intros(2))
  obtain u where u: "amap_each (write_fresh_key K M V rng dir net) roles t =
      (Inr (map (\<lambda>role. public_key_to_string M (public_key_of V (generate_key K rng role net))) roles),
       u)" "calls_succeed u"
    "\<forall>role\<in>set roles. entry u (key_path dir role) = Some (Regular
        (ascii (private_to_wif K (vk_inner (generate_key K rng role net)) @ newline)) KEY_FILE_MODE)"
    "\<forall>role. role \<notin> set roles \<longrightarrow> entry u (key_path dir role) = entry t (key_path dir role)"
    using Cons.IH [OF t(2,3) _ fresh] Cons.prems(3) by auto
  have "amap_each (write_fresh_key K M V rng dir net) (r # roles) s =
      (Inr (map (\<lambda>role. public_key_to_string M (public_key_of V (generate_key K rng role net)))
        (r # roles)), u)"
    using t(1) u(1) by (simp add: write_fresh_key_def Let_def abind_apply)
  with u t(4) others Cons.prems(3) show ?case by (intro exI [of _ u]) auto
qed simp

definition published :: "public_vault_keys \<Rightarrow> key_role \<Rightarrow> string" where
  "published pubs role =
     (case role of
        PrimaryKey \<Rightarrow> pvk_primary pubs | OverrideKey \<Rightarrow> pvk_override_key pubs | AgentKey \<Rightarrow> pvk_agent pubs)"

text \<open>
  C31: the generated keys are the keys that load. Into a usable key directory without the three files,
  with system calls that succeed and a WIF codec that parses what it prints, generation succeeds,
  and afterwards each role's file loads as the key whose public key was reported for that role.
\<close>

theorem generated_keys_load:
  assumes "key_documented K" and "calls_succeed s" and "key_dir_ready dir s"
    and "\<forall>role. entry s (key_path dir role) = None" and "net \<in> {Regtest, Testnet, Signet}"
  shows "\<exists>pubs s'. generate_vault_keys K M V rng dir net s = (Inr pubs, s') \<and>
    (\<forall>role. \<exists>key. fst (load_key K dir role s') = Inr key \<and> vk_role key = role \<and>
       vk_inner key = private_key_new K (rng role) net \<and>
       published pubs role = public_key_to_string M (public_key_of V key))"
proof -
  obtain xs t where t: "amap_each (refuse_existing_key dir) KEY_ROLES s = (Inr xs, t)"
    "calls_succeed t" "entry t = entry s"
    using ok_refuse_none [OF assms(2), of KEY_ROLES dir] assms(4) by auto
  have ready: "key_dir_ready dir t" using assms(3) t(3) by (simp add: key_dir_ready_def)
  obtain u where u: "amap_each (write_fresh_key K M V rng dir net) KEY_ROLES t =
      (Inr (map (\<lambda>role. public_key_to_string M (public_key_of V (generate_key K rng role net)))
        KEY_ROLES), u)" "calls_succeed u"
    "\<forall>role\<in>set KEY_ROLES. entry u (key_path dir role) = Some (Regular
        (ascii (private_to_wif K (vk_inner (generate_key K rng role net)) @ newline)) KEY_FILE_MODE)"
    using ok_write_fresh_keys [OF t(2) ready, of KEY_ROLES K M V rng net] assms(4) t(3)
    by (auto simp: KEY_ROLES_def)
  have in_roles: "role \<in> set KEY_ROLES" for role by (cases role) (simp_all add: KEY_ROLES_def)
  let ?pubs = "\<lparr>pvk_primary = public_key_to_string M (public_key_of V (generate_key K rng PrimaryKey net)),
    pvk_override_key = public_key_to_string M (public_key_of V (generate_key K rng OverrideKey net)),
    pvk_agent = public_key_to_string M (public_key_of V (generate_key K rng AgentKey net))\<rparr>"
  have "generate_vault_keys K M V rng dir net s = (Inr ?pubs, u)"
    using assms(5) t(1) u(1)
    by (auto simp: generate_vault_keys_def abind_apply KEY_ROLES_def)
  moreover have "fst (load_key K dir role u) = Inr (generate_key K rng role net)" for role
    using ok_load_key [OF assms(1) u(2)] u(3) in_roles [of role] by (simp add: generate_key_def)
  moreover have "published ?pubs role =
      public_key_to_string M (public_key_of V (generate_key K rng role net))" for role
    by (cases role) (simp_all add: published_def)
  ultimately show ?thesis by (auto simp: generate_key_def)
qed

section \<open>Concrete runs\<close>

text \<open>A WIF codec with two letters per byte.\<close>

definition nibble_char :: "nat \<Rightarrow> char" where
  "nibble_char n = char_of (65 + n)"

definition toy_to_wif :: "bytes \<Rightarrow> string" where
  "toy_to_wif k = CHR ''K'' #
     concat (map (\<lambda>b. [nibble_char (unat b div 16), nibble_char (unat b mod 16)]) k)"

fun toy_letters :: "string \<Rightarrow> bytes" where
  "toy_letters (c # d # rest) = of_nat ((of_char c - 65) * 16 + (of_char d - 65)) # toy_letters rest"
| "toy_letters _ = []"

definition toy_from_wif :: "string \<Rightarrow> bytes option" where
  "toy_from_wif s = (case s of [] \<Rightarrow> None | _ # rest \<Rightarrow> Some (toy_letters rest))"

definition toy_key_lib :: key_lib where
  "toy_key_lib =
     \<lparr>private_key_new = (\<lambda>secret net. secret), private_from_wif = toy_from_wif,
      private_to_wif = toy_to_wif\<rparr>"

lemma toy_key_documented: "key_documented toy_key_lib"
proof -
  have of_nibble: "(of_char (nibble_char n) :: nat) = 65 + n" if "n < 16" for n
    using that by (simp add: nibble_char_def)
  have small: "unat b div 16 < 16" for b :: u8
    using unat_lt [of b] by (simp add: less_mult_imp_div_less)
  have "toy_letters (concat (map (\<lambda>b. [nibble_char (unat b div 16), nibble_char (unat b mod 16)]) k)) = k"
    for k
  proof (induction k)
    case (Cons b k)
    have "(of_nat (unat b div 16 * 16 + unat b mod 16) :: u8) = b"
      by (simp only: div_mult_mod_eq) simp
    with Cons show ?case by (simp add: of_nibble small del: of_nat_add of_nat_mult)
  qed simp
  moreover have "visible b" if "b \<in> set (ascii (toy_to_wif k))" for b k
  proof -
    have vis: "visible (word_of_nat (of_char c))" if "65 \<le> (of_char c :: nat)" "(of_char c :: nat) < 81"
      for c
      using that by (simp add: visible_def word_less_nat_alt unat_of_nat)
    have "65 \<le> (of_char c :: nat) \<and> (of_char c :: nat) < 81" if "c \<in> set (toy_to_wif k)" for c
      using that small by (auto simp: toy_to_wif_def of_nibble)
    with that vis show ?thesis by (auto simp: ascii_def)
  qed
  ultimately show ?thesis
    by (simp add: key_documented_def toy_key_lib_def toy_from_wif_def toy_to_wif_def)
qed

definition toy_dir :: path where
  "toy_dir = components ''./keys''"

definition toy_rng :: "key_role \<Rightarrow> bytes" where
  "toy_rng role = (case role of PrimaryKey \<Rightarrow> [1] | OverrideKey \<Rightarrow> [2] | AgentKey \<Rightarrow> [3])"

lemma toy_dir_components: "toy_dir = [''.'', ''keys'']"
  by (simp add: toy_dir_def components_def)

lemma toy_fs_ready: "key_dir_ready toy_dir toy_fs"
  by (auto simp: toy_fs_empty key_dir_ready_def toy_dir_components)

theorem generated_keys_load_witness:
  "\<exists>pubs s' key. generate_vault_keys toy_key_lib toy_miniscript toy_vault_lib toy_rng toy_dir Regtest
      toy_fs = (Inr pubs, s') \<and> fst (load_key toy_key_lib toy_dir AgentKey s') = Inr key \<and>
    vk_role key = AgentKey \<and> vk_inner key = [3] \<and>
    pvk_agent pubs = public_key_to_string toy_miniscript (public_key_of toy_vault_lib key)"
proof -
  have "\<forall>role. entry toy_fs (key_path toy_dir role) = None" by (simp add: toy_fs_empty)
  from generated_keys_load [OF toy_key_documented toy_fs_empty(1) toy_fs_ready this, of Regtest toy_miniscript
      toy_vault_lib toy_rng]
  obtain pubs s' where run: "generate_vault_keys toy_key_lib toy_miniscript toy_vault_lib toy_rng
      toy_dir Regtest toy_fs = (Inr pubs, s')"
    and keys: "\<forall>role. \<exists>key. fst (load_key toy_key_lib toy_dir role s') = Inr key \<and>
      vk_role key = role \<and> vk_inner key = private_key_new toy_key_lib (toy_rng role) Regtest \<and>
      published pubs role = public_key_to_string toy_miniscript (public_key_of toy_vault_lib key)"
    by auto
  from keys obtain key where "fst (load_key toy_key_lib toy_dir AgentKey s') = Inr key"
    "vk_role key = AgentKey" "vk_inner key = private_key_new toy_key_lib (toy_rng AgentKey) Regtest"
    "published pubs AgentKey = public_key_to_string toy_miniscript (public_key_of toy_vault_lib key)"
    by blast
  with run show ?thesis by (auto simp: toy_key_lib_def toy_rng_def published_def)
qed

theorem key_generation_safe_witness:
  "fst (generate_vault_keys toy_key_lib toy_miniscript toy_vault_lib toy_rng toy_dir Regtest
     (put_node [''.'', ''keys'', ''agent.wif''] (Regular [1] 0x180) toy_fs)) =
     Inl (KeyError KeySetExists) \<and>
   entry (snd (generate_vault_keys toy_key_lib toy_miniscript toy_vault_lib toy_rng toy_dir Regtest
     (put_node [''.'', ''keys'', ''agent.wif''] (Regular [1] 0x180) toy_fs)))
     [''.'', ''keys'', ''agent.wif''] = Some (Regular [1] 0x180)"
proof -
  let ?s = "put_node [''.'', ''keys'', ''agent.wif''] (Regular [1] 0x180) toy_fs"
  have e: "entry ?s [''.'', ''keys'', ''agent.wif''] = Some (Regular [1] 0x180)"
    by (simp add: entry_put_node)
  then have "\<exists>role. entry ?s (key_path toy_dir role) \<noteq> None"
    by (intro exI [of _ AgentKey])
      (simp add: key_path_def path_join_def toy_dir_components role_filename_def)
  moreover obtain r s' where run: "generate_vault_keys toy_key_lib toy_miniscript toy_vault_lib
      toy_rng toy_dir Regtest ?s = (r, s')" by (rule prod.exhaust)
  ultimately show ?thesis
    using key_generation_safe [OF run] e toy_fs_empty(1) by (simp add: is_file_def)
qed

end
