(* ===== verification/State_Correct.thy ===== *)
theory State_Correct
  imports State_Files File_Frames
begin

text \<open>
  What saving and loading the vault state does: a save that succeeds is read back, new content is
  never readable by others, and a save that fails half way has already destroyed the old state.
\<close>

section \<open>Content only in private files\<close>

text \<open>
  How the entry at one path may change: not at all, as a directory may (\<open>dir_step\<close>), and at the
  target also from nothing or a file to a file that is empty or private.
\<close>

definition update_step :: "u32 \<Rightarrow> bool \<Rightarrow> bool \<Rightarrow> node option \<Rightarrow> node option \<Rightarrow> bool" where
  "update_step umask closing target n n' \<longleftrightarrow>
     n' = n \<or> dir_step umask closing n n' \<or>
     target \<and> (n = None \<or> (\<exists>c m. n = Some (Regular c m))) \<and>
       (\<exists>c m. n' = Some (Regular c m) \<and> (c = [] \<or> private_mode m))"

definition private_update :: "path set \<Rightarrow> fsys \<Rightarrow> fsys \<Rightarrow> bool" where
  "private_update P s s' \<longleftrightarrow>
     fs_umask s' = fs_umask s \<and>
     (\<forall>q. update_step (fs_umask s) False (q \<in> P) (entry s q) (entry s' q))"

lemma update_step_trans:
  "update_step u c b n n1 \<Longrightarrow> update_step u c b n1 n2 \<Longrightarrow> update_step u c b n n2"
  by (auto simp: update_step_def dir_step_def)

lemma private_update_trans:
  "private_update P s t \<Longrightarrow> private_update P t u \<Longrightarrow> private_update P s u"
  unfolding private_update_def by (metis update_step_trans)

interpretation in_place: fs_frame "private_update P" "\<lambda>_ _. False" for P
proof
  show "private_update P s s'" if "fs_nodes s' = fs_nodes s" "fs_umask s' = fs_umask s" for s s'
    using that by (simp add: private_update_def update_step_def entry_def)
qed (erule (1) private_update_trans,
    auto simp: private_update_def update_step_def dir_step_def entry_put_node)

lemma private_update_links:
  "private_update P s s' \<Longrightarrow> entry s' q = Some (Symlink t) \<longleftrightarrow> entry s q = Some (Symlink t)"
  unfolding private_update_def update_step_def dir_step_def by (metis node.distinct(4,6) option.inject option.distinct(1) node.distinct(3,5))

lemma open_truncate_cases:
  assumes "fs_open_truncate p m s = (r, s')"
  obtains (opened) q old where "r = Inr q" "resolve s p = Some q" "q \<noteq> []"
      "entry s q = None \<or> (\<exists>c m. entry s q = Some (Regular c m))"
      "s' = put_node q (Regular [] old) (fs_tick s)"
  | (refused) "r = Inl IoError" "s' = fs_tick s"
proof (cases "r = Inl IoError \<and> s' = fs_tick s")
  case True
  then show ?thesis using refused by simp
next
  case False
  with assms have "\<exists>q old. r = Inr q \<and> resolve s p = Some q \<and>
      (entry s q = None \<and> parent_dir_ok s q \<or> (\<exists>c m. entry s q = Some (Regular c m))) \<and>
      s' = put_node q (Regular [] old) (fs_tick s)"
    by (auto simp: fs_open_truncate_def fs_call_def
        split: io_outcome.splits option.splits node.splits if_splits)
  then obtain q old where q: "r = Inr q" "resolve s p = Some q"
      "entry s q = None \<and> parent_dir_ok s q \<or> (\<exists>c m. entry s q = Some (Regular c m))"
      "s' = put_node q (Regular [] old) (fs_tick s)" by blast
  then have "q \<noteq> []" by (auto simp: parent_dir_ok_def path_parent_def)
  with q opened show ?thesis by blast
qed

text \<open>Once the file is open, its target is a regular file that becomes private before it is filled.\<close>

definition being_filled :: "path \<Rightarrow> fsys \<Rightarrow> fsys \<Rightarrow> bool" where
  "being_filled q s t \<longleftrightarrow> fs_umask t = fs_umask s \<and>
     (\<exists>c m. (c = [] \<or> private_mode m) \<and> entry t = (entry s)(q := Some (Regular c m)))"

lemma being_filled_update:
  "being_filled q s t \<Longrightarrow> entry s q = None \<or> (\<exists>c m. entry s q = Some (Regular c m)) \<Longrightarrow>
   private_update {q} s t"
  by (auto simp: being_filled_def private_update_def update_step_def split: if_splits)

lemma private_file_mode [simp]: "private_mode PRIVATE_FILE_MODE"
  by (simp add: private_mode_def PRIVATE_FILE_MODE_def GROUP_OTHERS_def)

lemma fill_after_open:
  assumes "resolve s p = Some q" and "q \<noteq> []" and "being_filled q s t"
    and "entry s q = None \<or> (\<exists>c m. entry s q = Some (Regular c m))"
  shows "being_filled q s (snd (abind (fs_set_permissions p PRIVATE_FILE_MODE) (\<lambda>_.
    abind (fs_write_all q bs) (\<lambda>_. fs_sync_all q)) t))"
proof -
  obtain c m where t: "entry t = (entry s)(q := Some (Regular c m))" "fs_umask t = fs_umask s"
    using assms(3) by (auto simp: being_filled_def)
  have "resolve (fs_tick t) p = resolve s p"
    by (rule resolve_same_links) (use t assms(4) in auto)
  with t assms(1) have chmod: "fs_set_permissions p PRIVATE_FILE_MODE t =
      (if fs_plan t (fs_clock t) = IoOk
       then (Inr (), put_node q (Regular c PRIVATE_FILE_MODE) (fs_tick t))
       else (Inl IoError, fs_tick t))"
    by (auto simp: fs_set_permissions_def fs_call_def with_mode_def split: io_outcome.splits)
  let ?u = "put_node q (Regular c PRIVATE_FILE_MODE) (fs_tick t)"
  have writes: "\<exists>r c'. fs_write_all q bs ?u =
      (r, put_node q (Regular c' PRIVATE_FILE_MODE) (fs_tick ?u))"
    using assms(2)
    by (auto simp: fs_write_all_def append_to_def entry_put_node split: io_outcome.splits)
  have filled: "being_filled q s v" if "entry v = (entry s)(q := Some (Regular c' PRIVATE_FILE_MODE))"
    "fs_umask v = fs_umask s" for v c'
    using that private_file_mode unfolding being_filled_def by blast
  have sync: "being_filled q s (snd (fs_sync_all q v))" if "being_filled q s v" for v
    using that by (auto simp: fs_sync_all_def fs_call_def being_filled_def split: io_outcome.splits)
  obtain r c' where w: "fs_write_all q bs ?u =
      (r, put_node q (Regular c' PRIVATE_FILE_MODE) (fs_tick ?u))"
    using writes by blast
  have e: "being_filled q s (put_node q (Regular c' PRIVATE_FILE_MODE) (fs_tick ?u))"
    by (rule filled) (use t assms(2) in \<open>auto simp: entry_put_node fun_eq_iff\<close>)
  show ?thesis
  proof (cases "fs_plan t (fs_clock t) = IoOk")
    case True
    with chmod w e sync show ?thesis by (cases r) (simp_all add: abind_apply)
  next
    case False
    with chmod assms(3) show ?thesis by (simp add: abind_apply being_filled_def)
  qed
qed

lemma fill_truncate_update:
  "private_update {q. resolve s p = Some q} s
     (snd (fill_private p (fs_open_truncate p PRIVATE_FILE_MODE) bs s))"
proof (cases "fs_open_truncate p PRIVATE_FILE_MODE s")
  case (Pair r t)
  then show ?thesis
  proof (cases rule: open_truncate_cases)
    case (opened q old)
    then have "being_filled q s t"
      by (auto simp: being_filled_def entry_put_node fun_eq_iff)
    from being_filled_update [OF fill_after_open [OF opened(2,3) this opened(4)] opened(4)]
    have "private_update {q} s (snd (abind (fs_set_permissions p PRIVATE_FILE_MODE) (\<lambda>_.
        abind (fs_write_all q bs) (\<lambda>_. fs_sync_all q)) t))" .
    moreover have "{q'. resolve s p = Some q'} = {q}" using opened(2) by auto
    ultimately show ?thesis using Pair opened(1) by (simp add: fill_private_def abind_apply)
  next
    case refused
    with Pair show ?thesis by (simp add: fill_private_def abind_apply)
  qed
qed

text \<open>
  The frame of a writer: whatever fails, only the file that the path leads to has changed. Links stay
  as they are, so the path leads to the same file throughout.
\<close>

definition updates_file :: "path \<Rightarrow> fsys \<Rightarrow> fsys \<Rightarrow> bool" where
  "updates_file p s s' \<longleftrightarrow> private_update {q. resolve s p = Some q} s s'"

interpretation rewriting: fs_frame "updates_file p" "\<lambda>_ _. False" for p
proof
  fix s t u assume "updates_file p s t" "updates_file p t u"
  moreover from this(1) have "resolve t p = resolve s p"
    unfolding updates_file_def by (intro resolve_same_links private_update_links)
  ultimately show "updates_file p s u" unfolding updates_file_def by (auto intro: private_update_trans)
qed (auto simp: updates_file_def intro: in_place.same_nodes in_place.new_dir in_place.dir_mode)

lemma make_parent_updates: "updates_file p s (snd (make_parent q s))"
  by (simp add: make_parent_def split: option.splits)

lemma fill_updates:
  "updates_file p s (snd (fill_private p (fs_open_truncate p PRIVATE_FILE_MODE) bs s))"
  unfolding updates_file_def by (rule fill_truncate_update)

lemma save_updates: "updates_file p s (snd (save_vault_state M V J state p s))"
  unfolding save_vault_state_def
  by (auto intro!: rewriting.bind make_parent_updates fill_updates)

lemma save_vault_state_update:
  "private_update {q. resolve s p = Some q} s (snd (save_vault_state M V J state p s))"
  using save_updates by (simp add: updates_file_def)

text \<open>
  C30: a save never exposes the vault state. Whatever calls fail, and wherever the save stops, only
  the file that the path leads to has changed (directories apart); its content is then empty or
  closed to group and others, also when the file was open to them before.
\<close>

theorem state_save_private:
  assumes "save_vault_state M V J state p s = (r, s')"
  shows "(\<forall>q n. entry s q = Some n \<and> resolve s p \<noteq> Some q \<and> \<not> is_directory n \<longrightarrow>
      entry s' q = Some n) \<and>
    (\<forall>q c m. resolve s p = Some q \<and> entry s' q = Some (Regular c m) \<longrightarrow>
      entry s' q = entry s q \<or> c = [] \<or> private_mode m) \<and>
    (\<forall>q. entry s q = None \<and> resolve s p \<noteq> Some q \<longrightarrow>
      entry s' q = None \<or> (\<exists>m. entry s' q = Some (Directory m)))"
proof -
  have step: "update_step (fs_umask s) False (resolve s p = Some q) (entry s q) (entry s' q)" for q
    using save_vault_state_update [of s p M V J state] assms by (simp add: private_update_def)
  have "entry s' q = Some n"
    if "entry s q = Some n" "resolve s p \<noteq> Some q" "\<not> is_directory n" for q n
    using step [of q] that by (auto simp: update_step_def dir_step_def is_directory_def)
  moreover have "entry s' q = entry s q \<or> c = [] \<or> private_mode m"
    if "entry s' q = Some (Regular c m)" for q c m
    using step [of q] that by (auto simp: update_step_def dir_step_def)
  moreover have "entry s' q = None \<or> (\<exists>m. entry s' q = Some (Directory m))"
    if "entry s q = None" "resolve s p \<noteq> Some q" for q
    using step [of q] that by (auto simp: update_step_def dir_step_def)
  ultimately show ?thesis by blast
qed

section \<open>Round trip and failure\<close>

text \<open>The run of a save up to the point where the file is open, empty and private.\<close>

lemma save_reaches_write:
  assumes plan: "\<forall>k < fs_clock s + 4. fs_plan s k = IoOk" and "writable_path p s"
    and "validate M V (vs_vault state) = Inr ()" and "state_to_json J state = Some raw"
  shows "\<exists>t. fs_clock t = fs_clock s + 4 \<and> fs_plan t = fs_plan s \<and>
    entry t p = Some (Regular [] PRIVATE_FILE_MODE) \<and>
    save_vault_state M V J state p s = abind (fs_write_all p (ascii raw)) (\<lambda>_. fs_sync_all p) t"
proof -
  obtain d where d: "path_parent p = Some d"
    "\<forall>q\<in>set (prefixes_of d). entry s q = None \<or> (\<exists>m. entry s q = Some (Directory m))"
    and p: "entry s p = None \<or> (\<exists>c m. entry s p = Some (Regular c m))"
    using assms(2) by (auto simp: writable_path_def)
  note np = parent_not_longer [OF d(1)]
  let ?s1 = "fs_tick s"
  have ok: "next_ok s" "next_ok ?s1" using plan by (simp_all add: next_ok_def)
  obtain t where t: "make_dirs (prefixes_of d) (fs_tick ?s1) = (Inr (), t)" "fs_plan t = fs_plan s"
    "fs_clock t = Suc (Suc (fs_clock s))"
    "\<forall>q\<in>set (prefixes_of d). \<exists>m. entry t q = Some (Directory m)"
    "\<forall>q. entry s q \<noteq> None \<or> q \<notin> set (prefixes_of d) \<longrightarrow> entry t q = entry s q"
    using make_dirs_ok [of "prefixes_of d" "fs_tick ?s1"] d(2)
    by (auto simp: in_place.prefixes_not_Nil)
  have tp: "entry t p = None \<or> (\<exists>c m. entry t p = Some (Regular c m))" using t(5) p np by auto
  have tok: "next_ok t" using plan t(2,3) by (simp add: next_ok_def)
  have "resolve (fs_tick t) p = Some p" using tp by (intro resolve_no_link) auto
  moreover have "parent_dir_ok (fs_tick t) p" using parent_dir_ok_made [OF d(1) t(4)] by simp
  ultimately obtain m where opened: "fs_open_truncate p PRIVATE_FILE_MODE t =
      (Inr p, put_node p (Regular [] m) (fs_tick t))"
    using tp tok by (auto simp: fs_open_truncate_def ok_call)
  let ?u = "put_node p (Regular [] m) (fs_tick t)"
  let ?v = "put_node p (Regular [] PRIVATE_FILE_MODE) (fs_tick ?u)"
  have uok: "next_ok ?u" using plan t(2,3) by (simp add: next_ok_def)
  have chmod: "fs_set_permissions p PRIVATE_FILE_MODE ?u = (Inr (), ?v)"
    using uok np by (simp add: ok_set_permissions entry_put_node is_symlink_def with_mode_def)
  have link: "\<not> is_link_entry (entry s p)" using p by (auto simp: is_link_entry_def is_symlink_def)
  have lstat: "acatch (symlink_metadata p) s = (Inr (entry s p), ?s1)"
    using ok p by (auto simp: acatch_def ok_symlink_metadata)
  have "make_parent p ?s1 = (Inr (), t)"
    using d(1) ok(2) t(1) by (simp add: make_parent_def ok_create_dir_all)
  then have "save_vault_state M V J state p s =
      abind (fs_write_all p (ascii raw)) (\<lambda>_. fs_sync_all p) ?v"
    using assms(3,4) lstat link opened chmod
    by (simp add: save_vault_state_def abind_apply alift_def fill_private_def)
  moreover have "entry ?v p = Some (Regular [] PRIVATE_FILE_MODE)"
    using np by (simp add: entry_put_node)
  ultimately show ?thesis using t(2,3) by (intro exI [of _ ?v]) simp
qed

lemma fs_write_all_regular:
  assumes "entry t p = Some (Regular c m)"
  shows "fs_write_all p bs t =
    (case fs_plan t (fs_clock t) of
       IoOk \<Rightarrow> (Inr (), put_node p (Regular (c @ bs) m) (fs_tick t))
     | IoErr n \<Rightarrow> (Inl IoError, put_node p (Regular (c @ take n bs) m) (fs_tick t)))"
  using assms by (simp add: fs_write_all_def append_to_def split: io_outcome.splits)

lemma entry_not_Nil: "entry s p = Some n \<Longrightarrow> p \<noteq> []"
  by auto

lemma ok_load_vault_state:
  assumes "next_ok s" and "next_ok (fs_tick s)" and "entry s p = Some (Regular c PRIVATE_FILE_MODE)"
  shows "fst (load_vault_state M V J p s) =
    rbind (ok_or IoError (from_utf8 c)) (\<lambda>raw.
    rbind (ok_or JsonError (state_from_json J raw)) (\<lambda>state.
    if vs_version state \<noteq> 1 then wallet_err (UnsupportedStateVersion (vs_version state))
    else rbind (validate M V (vs_vault state)) (\<lambda>_. Inr state)))"
proof -
  have "stat s p = Some (Regular c PRIVATE_FILE_MODE)" using assms(3) by (simp add: stat_no_link)
  with assms show ?thesis
    by (simp add: load_vault_state_def abind_apply ok_symlink_metadata is_symlink_def is_file_def
        node_mode_def fs_read_to_string_def ok_call alift_def abind_def ok_or_def rbind_def
        split: option.split sum.split)
qed

text \<open>After a successful save: the file has the text, everything else is as before.\<close>

lemma ok_save_vault_state:
  assumes "calls_succeed s" and "writable_path p s" and "validate M V (vs_vault state) = Inr ()"
    and "state_to_json J state = Some raw"
  shows "\<exists>s'. save_vault_state M V J state p s = (Inr (), s') \<and> calls_succeed s' \<and>
    entry s' p = Some (Regular (ascii raw) PRIVATE_FILE_MODE)"
proof -
  have "\<forall>k < fs_clock s + 4. fs_plan s k = IoOk" using assms(1) by (simp add: calls_succeed_def)
  from save_reaches_write [OF this assms(2-4)] obtain t where t: "fs_plan t = fs_plan s"
    "entry t p = Some (Regular [] PRIVATE_FILE_MODE)"
    "save_vault_state M V J state p s = abind (fs_write_all p (ascii raw)) (\<lambda>_. fs_sync_all p) t"
    by blast
  let ?u = "put_node p (Regular (ascii raw) PRIVATE_FILE_MODE) (fs_tick t)"
  have ok: "calls_succeed ?u" using assms(1) t(1) by (simp add: calls_succeed_def)
  have "fs_write_all p (ascii raw) t = (Inr (), ?u)"
    using assms(1) t(1) by (simp add: fs_write_all_regular [OF t(2)] calls_succeed_def)
  then have "save_vault_state M V J state p s = (Inr (), fs_tick ?u)"
    using ok by (simp add: t(3) abind_apply fs_sync_all_def ok_call)
  moreover have "entry (fs_tick ?u) p = Some (Regular (ascii raw) PRIVATE_FILE_MODE)"
    using entry_not_Nil [OF t(2)] by (simp add: entry_put_node)
  ultimately show ?thesis using ok by auto
qed

lemma saved_state_readable:
  assumes "calls_succeed s" and "entry s p = Some (Regular (ascii raw) PRIVATE_FILE_MODE)"
    and "validate M V (vs_vault state) = Inr ()" and "vs_version state = 1"
    and "utf8_valid (ascii raw)" and "state_from_json J raw = Some state"
  shows "fst (load_vault_state M V J p s) = Inr state"
  using ok_load_vault_state [of s p "ascii raw" M V J] assms by (simp add: from_utf8_def)

text \<open>
  What is saved is loaded. With calls that succeed, a path without links, and a JSON codec that
  parses what it prints for this state, saving a version-1 state with a valid vault succeeds, and
  loading the file gives back the state.\<close>

theorem saved_state_loads:
  assumes "calls_succeed s" and "writable_path p s" and "validate M V (vs_vault state) = Inr ()"
    and "vs_version state = 1" and "state_to_json J state = Some raw" and "utf8_valid (ascii raw)"
    and "state_from_json J raw = Some state"
  shows "\<exists>s'. save_vault_state M V J state p s = (Inr (), s') \<and>
    fst (load_vault_state M V J p s') = Inr state"
proof -
  obtain s' where "save_vault_state M V J state p s = (Inr (), s')" "calls_succeed s'"
    "entry s' p = Some (Regular (ascii raw) PRIVATE_FILE_MODE)"
    using ok_save_vault_state [OF assms(1-3,5)] by blast
  with saved_state_readable [OF this(2,3)] assms show ?thesis by blast
qed

text \<open>
  C33: a save is not atomic. If the write of a save fails after \<open>n\<close> bytes, the error is reported, but
  the file now holds just these bytes: with a JSON text none of whose proper prefixes parses, the
  state that was there before is gone and nothing loads any more.
\<close>

theorem failed_save_loses_state:
  assumes "writable_path p s" and "validate M V (vs_vault state) = Inr ()"
    and "state_to_json J state = Some raw" and "n < length raw"
    and "fs_plan s = (\<lambda>k. if k = fs_clock s + 4 then IoErr n else IoOk)"
    and "\<forall>k < length raw. state_from_json J (take k raw) = None"
  shows "\<exists>s' e. save_vault_state M V J state p s = (Inl IoError, s') \<and>
    entry s' p = Some (Regular (ascii (take n raw)) PRIVATE_FILE_MODE) \<and>
    fst (load_vault_state M V J p s') = Inl e"
proof -
  have "\<forall>k < fs_clock s + 4. fs_plan s k = IoOk" using assms(5) by simp
  from save_reaches_write [OF this assms(1-3)] obtain t where t: "fs_clock t = fs_clock s + 4"
    "fs_plan t = fs_plan s" "entry t p = Some (Regular [] PRIVATE_FILE_MODE)"
    "save_vault_state M V J state p s = abind (fs_write_all p (ascii raw)) (\<lambda>_. fs_sync_all p) t"
    by blast
  let ?u = "put_node p (Regular (ascii (take n raw)) PRIVATE_FILE_MODE) (fs_tick t)"
  have "take n (ascii raw) = ascii (take n raw)" by (simp add: ascii_def take_map)
  then have run: "save_vault_state M V J state p s = (Inl IoError, ?u)"
    using t(1,2) assms(5) by (simp add: t(4) fs_write_all_regular [OF t(3)] abind_apply)
  have e: "entry ?u p = Some (Regular (ascii (take n raw)) PRIVATE_FILE_MODE)"
    using entry_not_Nil [OF t(3)] by (simp add: entry_put_node)
  have ok: "next_ok ?u" "next_ok (fs_tick ?u)"
    using t(1,2) assms(5) by (simp_all add: next_ok_def)
  have "\<exists>err. fst (load_vault_state M V J p ?u) = Inl err"
    using assms(4,6) by (simp add: ok_load_vault_state [OF ok e] from_utf8_def)
  with run e show ?thesis by blast
qed

section \<open>Concrete runs\<close>

text \<open>A codec that knows one state, and a path in a directory that does not exist yet.\<close>

definition toy_file_lib :: file_lib where
  "toy_file_lib =
     \<lparr>state_to_json = (\<lambda>state. if state = toy_state then Some ''{}'' else None),
      state_from_json = (\<lambda>raw. if raw = ''{}'' then Some toy_state else None),
      toml_from_str = (\<lambda>_. None)\<rparr>"

definition toy_state_path :: path where
  "toy_state_path = components ''./data/vault.json''"

lemma toy_state_path_parts: "toy_state_path = [''.'', ''data'', ''vault.json'']"
  by (simp add: toy_state_path_def components_def)

lemma toy_state_facts:
  "vs_version toy_state = 1" "validate toy_miniscript toy_vault_lib (vs_vault toy_state) = Inr ()"
  "state_to_json toy_file_lib toy_state = Some ''{}''"
  "state_from_json toy_file_lib raw = (if raw = ''{}'' then Some toy_state else None)"
  using built_validates [OF toy_documented toy_built]
  by (simp_all add: toy_state_def new_state_def toy_file_lib_def)

lemma toy_state_text: "utf8_valid (ascii ''{}'')"
  by (rule utf8_valid_low) (simp add: ascii_def)

lemma toy_state_writable: "(\<And>q. entry s q = None) \<Longrightarrow> writable_path toy_state_path s"
  by (simp add: writable_path_def toy_state_path_parts path_parent_def)

theorem saved_state_loads_witness:
  "\<exists>s'. save_vault_state toy_miniscript toy_vault_lib toy_file_lib toy_state toy_state_path toy_fs =
      (Inr (), s') \<and>
    fst (load_vault_state toy_miniscript toy_vault_lib toy_file_lib toy_state_path s') = Inr toy_state"
  by (rule saved_state_loads [OF toy_fs_empty(1) toy_state_writable toy_state_facts(2,1,3)
        toy_state_text])
    (simp_all add: toy_fs_empty toy_state_facts)

theorem failed_save_loses_state_witness:
  "\<exists>s' e. save_vault_state toy_miniscript toy_vault_lib toy_file_lib toy_state toy_state_path
      (toy_fs\<lparr>fs_plan := \<lambda>k. if k = 4 then IoErr 1 else IoOk\<rparr>) = (Inl IoError, s') \<and>
    entry s' toy_state_path = Some (Regular (ascii ''{'') PRIVATE_FILE_MODE) \<and>
    fst (load_vault_state toy_miniscript toy_vault_lib toy_file_lib toy_state_path s') = Inl e"
  using failed_save_loses_state [OF toy_state_writable toy_state_facts(2,3), of
      "toy_fs\<lparr>fs_plan := \<lambda>k. if k = 4 then IoErr 1 else IoOk\<rparr>" 1]
  by (simp add: entry_def toy_state_facts(4) toy_fs_def less_Suc_eq numeral_2_eq_2)

text \<open>A file that others could read is replaced by a private one; a neighbour is left alone.\<close>

definition toy_open_fs :: fsys where
  "toy_open_fs =
     put_node [''other''] (Regular [9] 0x1A4) (put_node toy_state_path (Regular [1] 0x1A4) toy_fs)"

theorem state_save_private_witness:
  "entry (snd (save_vault_state toy_miniscript toy_vault_lib toy_file_lib toy_state toy_state_path
     toy_open_fs)) [''other''] = Some (Regular [9] 0x1A4)"
proof -
  have "resolve toy_open_fs toy_state_path = Some toy_state_path"
    by (rule resolve_no_link) (simp add: toy_open_fs_def entry_put_node toy_state_path_parts)
  moreover have "entry toy_open_fs [''other''] = Some (Regular [9] 0x1A4)"
    by (simp add: toy_open_fs_def entry_put_node toy_state_path_parts)
  moreover obtain r s' where "save_vault_state toy_miniscript toy_vault_lib toy_file_lib toy_state
      toy_state_path toy_open_fs = (r, s')" by (rule prod.exhaust)
  ultimately show ?thesis
    using state_save_private [of toy_miniscript toy_vault_lib toy_file_lib toy_state toy_state_path
        toy_open_fs r s'] by (simp add: toy_state_path_parts is_directory_def)
qed

end
