(* ===== verification/Cli_Steps.thy ===== *)
theory Cli_Steps
  imports Cli Spend_Correct Keys_Correct State_Correct
begin

text \<open>
  The steps of the commands: how a result of a file, node or library call reads in the world of a
  command, that loading changes no file, and a concrete session for the examples.
\<close>

section \<open>Steps of a command\<close>

lemma lib_call_Inr [simp]: "lib_call m s = (Inr x, s') \<longleftrightarrow> m s = (Inr x, s')"
  by (auto simp: lib_call_def split: prod.splits sum.splits)

lemma snd_lib_call [simp]: "snd (lib_call m s) = snd (m s)"
  by (auto simp: lib_call_def split: prod.splits sum.splits)

lemma on_fs_Inr: "on_fs m w = (Inr x, w') \<longleftrightarrow> (\<exists>s'. m (w_fs w) = (Inr x, s') \<and> w' = w\<lparr>w_fs := s'\<rparr>)"
  by (auto simp: on_fs_def split: prod.splits)

lemma on_node_Inr:
  "on_node m w = (Inr x, w') \<longleftrightarrow> (\<exists>n'. m (w_node w) = (Inr x, n') \<and> w' = w\<lparr>w_node := n'\<rparr>)"
  by (auto simp: on_node_def split: prod.splits)

lemma on_result_Inr [simp]: "on_result r w = (Inr x, w') \<longleftrightarrow> r = Inr x \<and> w' = w"
  by (auto simp: on_result_def alift_def)

section \<open>Loading changes no file\<close>

definition reads_only :: "'a fio \<Rightarrow> bool" where
  "reads_only m \<longleftrightarrow> (\<forall>s. entry (snd (m s)) = entry s \<and> fs_umask (snd (m s)) = fs_umask s \<and>
     fs_plan (snd (m s)) = fs_plan s)"

lemma reads_only_basic:
  "reads_only (symlink_metadata p)" "reads_only (fs_read_to_string p)" "reads_only (metadata p)"
  "reads_only (areturn x)" "reads_only (araise e)" "reads_only (alift q)"
  by (auto simp: reads_only_def symlink_metadata_def metadata_def fs_read_to_string_def fs_call_def
      split: io_outcome.splits)

lemma reads_only_acatch: "reads_only m \<Longrightarrow> reads_only (acatch m)"
  by (simp add: reads_only_def)

lemma reads_only_abind: "reads_only m \<Longrightarrow> (\<And>x. reads_only (f x)) \<Longrightarrow> reads_only (abind m f)"
  by (auto simp: reads_only_def abind_def split: prod.splits sum.splits) (metis snd_conv)+

lemma reads_only_if: "reads_only m \<Longrightarrow> reads_only n \<Longrightarrow> reads_only (if b then m else n)"
  by simp

lemma reads_only_loads:
  "reads_only (load_config V J p)" "reads_only (load_vault_state M V J p)"
  "reads_only (load_key K dir role)" "reads_only (path_exists p)"
  unfolding load_config_def load_vault_state_def load_key_def from_file_def path_exists_def
  by (intro reads_only_basic reads_only_acatch reads_only_abind reads_only_if)+

lemma reads_onlyD:
  assumes "reads_only m" and "m s = (r, s')"
  shows "entry s' = entry s" and "calls_succeed s' \<longleftrightarrow> calls_succeed s"
  using assms unfolding reads_only_def calls_succeed_def by (metis snd_conv)+

lemma ok_load_config:
  assumes "calls_succeed s"
  shows "fst (load_config V J p s) =
    (case entry s p of
       Some (Regular c m) \<Rightarrow>
         if private_mode m
         then rbind (ok_or IoError (from_utf8 c)) (\<lambda>raw.
              rbind (ok_or (ConfigError InvalidToml) (toml_from_str J raw)) (\<lambda>cfg.
              rbind (validate_config V cfg) (\<lambda>_. Inr cfg)))
         else config_err ConfigAccessible
     | Some _ \<Rightarrow> config_err ConfigNotRegular
     | None \<Rightarrow> Inl IoError)"
  using assms
  by (auto simp: load_config_def abind_def ok_symlink_metadata is_symlink_def is_file_def
      node_mode_def fs_read_to_string_def ok_call stat_no_link alift_def ok_or_def rbind_def araise_def
      areturn_def split: option.split node.split sum.split)

definition state_json_documented :: "file_lib \<Rightarrow> bool" where
  "state_json_documented J \<longleftrightarrow>
     (\<forall>state raw. state_to_json J state = Some raw \<longrightarrow>
        utf8_valid (ascii raw) \<and> state_from_json J raw = Some state)"

definition state_path_of :: "config \<Rightarrow> path" where
  "state_path_of cfg = components (vc_state_path (cfg_vault cfg))"

lemma on_fs_reads:
  assumes "on_fs (lib_call m) w = (Inr x, w')" and "reads_only m"
  shows "entry (w_fs w') = entry (w_fs w)" and "calls_succeed (w_fs w') \<longleftrightarrow> calls_succeed (w_fs w)"
    and "w_out w' = w_out w"
  using assms(1) reads_onlyD [OF assms(2)] by (auto simp: on_fs_Inr)

lemma writable_path_cong: "entry s' = entry s \<Longrightarrow> writable_path p s' = writable_path p s"
  by (simp add: writable_path_def)

section \<open>What the steps keep\<close>

text \<open>A step keeps a part of the world: it sends nothing (\<open>quiet\<close>), or changes no file (\<open>reads\<close>).\<close>

definition keeps :: "('n world \<Rightarrow> 'x) \<Rightarrow> ('n, 'a) command_action \<Rightarrow> bool" where
  "keeps part m \<longleftrightarrow> (\<forall>w. part (snd (m w)) = part w)"

abbreviation quiet :: "('n, 'a) command_action \<Rightarrow> bool" where
  "quiet \<equiv> keeps w_calls"

abbreviation reads :: "('n, 'a) command_action \<Rightarrow> bool" where
  "reads \<equiv> keeps (\<lambda>w. (entry (w_fs w), fs_umask (w_fs w)))"

named_theorems keeps_rules \<open>steps that keep a part of the world\<close>

lemma keeps_basic [keeps_rules]:
  "keeps part (on_result r)" "keeps part (areturn x)" "keeps part (araise e)" "keeps part (alift q)"
  by (auto simp: keeps_def on_result_def lib_call_def alift_def split: sum.splits)

lemma keeps_abind [keeps_rules]:
  "keeps part m \<Longrightarrow> (\<And>x. keeps part (f x)) \<Longrightarrow> keeps part (abind m f)"
  by (auto simp: keeps_def abind_def split: prod.splits sum.splits) (metis snd_conv)+

lemma keeps_if [keeps_rules]: "keeps part m \<Longrightarrow> keeps part n \<Longrightarrow> keeps part (if b then m else n)"
  by simp

lemma quiet_calls [keeps_rules]: "quiet (on_fs m)" "quiet (on_node k)" "quiet (print line)"
  by (auto simp: keeps_def on_fs_def on_node_def print_def lib_call_def split: prod.splits sum.splits)

lemma reads_calls [keeps_rules]:
  "reads (on_node k)" "reads (print line)" "reads (send E tx)"
  by (auto simp: keeps_def on_node_def print_def send_def lib_call_def split: prod.splits sum.splits)

lemma reads_fs [keeps_rules]: "reads_only m \<Longrightarrow> reads (on_fs (lib_call m))"
  by (simp add: keeps_def on_fs_def reads_only_def split: prod.splits) (metis snd_conv snd_lib_call)

lemma keeps_steps [keeps_rules]:
  "keeps part (ensure_network_agent_disabled v)" "keeps part (network_of E cfg)"
  "quiet (read_config E)" "quiet (load_state E cfg network)" "quiet (read_key E cfg role)"
  "quiet (open_rpc E cfg)" "quiet (wallet_coins E state)" "quiet (block_count E)"
  "reads (read_config E)" "reads (load_state E cfg network)" "reads (read_key E cfg role)"
  "reads (open_rpc E cfg)" "reads (wallet_coins E state)" "reads (block_count E)"
  unfolding ensure_network_agent_disabled_def read_config_def network_of_def load_state_def
    read_key_def open_rpc_def wallet_coins_def block_count_def
  by (intro keeps_rules reads_only_loads)+

lemma keeps_build [keeps_rules]:
  "quiet (build_requested E cfg network state utxos req)"
  "reads (build_requested E cfg network state utxos req)"
  unfolding build_requested_def spend_local_recovery_def by (intro keeps_rules)+

lemma quiet_commands:
  "quiet (init_config E p network force)" "quiet (keys_generate E)" "quiet (init_vault E force)"
  "quiet (show_address E)" "quiet (import_watch E)" "quiet (show_status E)"
  unfolding init_config_def keys_generate_def init_vault_def show_address_def import_watch_def
    show_status_def Let_def
  by (intro keeps_rules)+

lemma reads_commands:
  "reads (show_address E)" "reads (import_watch E)" "reads (show_status E)"
  "reads (spend E req b show_tx via)"
  unfolding show_address_def import_watch_def show_status_def spend_def
  by (intro keeps_rules)+

section \<open>What a loaded file satisfies\<close>

lemma load_config_Inr:
  "load_config V J p s = (Inr cfg, s') \<Longrightarrow> validate_config V cfg = Inr ()"
  by (auto simp: load_config_def alift_def elim!: abind_Inr split: if_splits)

lemma read_config_Inr:
  assumes "read_config E w = (Inr cfg, w1)"
  shows "fst (load_config (e_vault E) (e_files E) (e_config E) (w_fs w)) = Inr cfg"
    and "validate_config (e_vault E) cfg = Inr ()"
    and "entry (w_fs w1) = entry (w_fs w)" and "w_node w1 = w_node w"
proof -
  from assms obtain s' where s': "load_config (e_vault E) (e_files E) (e_config E) (w_fs w) = (Inr cfg, s')"
    "w1 = w\<lparr>w_fs := s'\<rparr>"
    by (auto simp: read_config_def on_fs_Inr)
  then show "fst (load_config (e_vault E) (e_files E) (e_config E) (w_fs w)) = Inr cfg"
    "validate_config (e_vault E) cfg = Inr ()" "w_node w1 = w_node w"
    by (simp_all add: load_config_Inr)
  show "entry (w_fs w1) = entry (w_fs w)"
    using s'(2) reads_onlyD(1) [OF reads_only_loads(1) s'(1)] by simp
qed

lemma load_state_Inr:
  assumes "load_state E cfg network w = (Inr state, w1)"
  shows "fst (load_vault_state (e_miniscript E) (e_vault E) (e_files E)
      (components (vc_state_path (cfg_vault cfg))) (w_fs w)) = Inr state"
    and "require_network (e_miniscript E) (e_vault E) (vs_vault state) network = Inr ()"
    and "w_node w1 = w_node w"
  using assms by (auto simp: load_state_def on_fs_Inr elim!: abind_Inr)

section \<open>A concrete session\<close>

text \<open>A regtest node that accepts everything; configuration, key and state files of one vault.\<close>

definition toy_vault_config :: vault_config where
  "toy_vault_config =
     \<lparr>vc_state_path = ''./data/vault.json'', vc_csv_blocks = 10, vc_keys_dir = ''./keys''\<rparr>"

definition toy_config :: config where
  "toy_config = \<lparr>cfg_bitcoin = toy_bitcoin_config, cfg_vault = toy_vault_config\<rparr>"

definition toy_client :: core_client where
  "toy_client =
     \<lparr>test_mempool_accept =
        (\<lambda>_. Inr [\<lparr>mr_txid = [], mr_allowed = True, mr_reject_reason = None\<rparr>]),
      send_raw_transaction = (\<lambda>_. Inr [])\<rparr>"

definition toy_cli_node :: "(string list, bytes) cli_node" where
  "toy_cli_node =
     \<lparr>cn_core = toy_node, cn_list_unspent = (\<lambda>_. toy_unspent), cn_block_count = (\<lambda>_. Inr 100),
      cn_client = (\<lambda>_. toy_client)\<rparr>"

definition toy_env :: "(string, string, string, bytes, string list) cli_env" where
  "toy_env =
     \<lparr>e_bitcoin = bip68_lib, e_miniscript = toy_miniscript, e_vault = toy_spend_lib,
      e_keys = toy_key_lib, e_files = toy_file_lib\<lparr>toml_from_str := \<lambda>_. Some toy_config\<rparr>,
      e_node = toy_cli_node, e_rng = toy_rng, e_config = [''config.toml'']\<rparr>"

definition toy_key_path :: "key_role \<Rightarrow> path" where
  "toy_key_path role = key_path toy_dir role"

text \<open>The files: the configuration, the three keys and, for a spend, the state.\<close>

definition toy_keys_fs :: fsys where
  "toy_keys_fs =
     put_node [''config.toml''] (Regular [] PRIVATE_FILE_MODE)
       (put_node (toy_key_path PrimaryKey) (Regular (ascii (toy_to_wif [1] @ newline)) KEY_FILE_MODE)
       (put_node (toy_key_path OverrideKey) (Regular (ascii (toy_to_wif [2] @ newline)) KEY_FILE_MODE)
       (put_node (toy_key_path AgentKey) (Regular (ascii (toy_to_wif [3] @ newline)) KEY_FILE_MODE) toy_fs)))"

definition toy_full_fs :: fsys where
  "toy_full_fs = put_node toy_state_path (Regular (ascii ''{}'') PRIVATE_FILE_MODE) toy_keys_fs"

definition toy_world :: "fsys \<Rightarrow> string list world" where
  "toy_world s = \<lparr>w_fs = s, w_node = [], w_calls = [], w_out = []\<rparr>"

lemma toy_env_fields:
  "e_bitcoin toy_env = bip68_lib" "e_miniscript toy_env = toy_miniscript"
  "e_vault toy_env = toy_spend_lib" "e_keys toy_env = toy_key_lib"
  "e_node toy_env = toy_cli_node" "e_config toy_env = [''config.toml'']"
  "state_from_json (e_files toy_env) = state_from_json toy_file_lib"
  "state_to_json (e_files toy_env) = state_to_json toy_file_lib"
  "toml_from_str (e_files toy_env) = (\<lambda>_. Some toy_config)"
  "cn_core toy_cli_node = toy_node" "cn_list_unspent toy_cli_node = (\<lambda>_. toy_unspent)"
  "cn_client toy_cli_node = (\<lambda>_. toy_client)" "e_rng toy_env = toy_rng"
  "cfg_bitcoin toy_config = toy_bitcoin_config" "cfg_vault toy_config = toy_vault_config"
  by (simp_all add: toy_env_def toy_cli_node_def toy_config_def)

lemma toy_network_of: "config_network toy_spend_lib toy_bitcoin_config = Inr Regtest"
  by (simp add: config_network_def toy_bitcoin_config_def eq_ignore_ascii_case_def ascii_lower_def
      toy_spend_lib_def toy_vault_lib_def toy_net_from_str_def toy_net_to_string_def)

lemma toy_config_valid: "validate_config toy_spend_lib toy_config = Inr ()"
  by (simp add: validate_config_def validate_bitcoin_def toy_env_fields toy_network_of)
    (simp add: toy_vault_config_def toy_bitcoin_config_def is_loopback_rpc_url_def strip_prefix_def
      is_ascii_digit_def is_ascii_alphanumeric_def)

lemma toy_connected:
  "connect toy_spend_lib toy_node toy_bitcoin_config ns = connect toy_vault_lib toy_node toy_bitcoin_config ns"
  by (simp add: connect_def validate_bitcoin_def config_network_def toy_spend_lib_def)

lemma toy_state_valid: "validate toy_miniscript toy_spend_lib (vs_vault toy_state) = Inr ()"
  using built_validates [OF toy_spend_documented toy_spend_vault]
  by (simp add: toy_state_def new_state_def)

lemma toy_wallet_coins:
  "list_utxos toy_miniscript toy_spend_lib toy_unspent toy_state = Inr toy_coins"
  by (simp add: list_utxos_Inr_iff toy_state_def new_state_def toy_spend_network toy_unspent_def)
    (simp add: toy_coins_def toy_coin_def toy_spend_lib_def toy_vault_lib_def toy_vault_def)

text \<open>Reading works in every state with these files.\<close>

definition toy_ready :: "bool \<Rightarrow> fsys \<Rightarrow> bool" where
  "toy_ready stored s \<longleftrightarrow>
     calls_succeed s \<and> entry s = entry (if stored then toy_full_fs else toy_keys_fs)"

lemma toy_key_paths [simp]:
  "toy_key_path role \<noteq> []" "toy_key_path role \<noteq> [''config.toml'']" "toy_key_path role \<noteq> toy_state_path"
  "toy_state_path \<noteq> []" "toy_state_path \<noteq> [''config.toml'']" "[''config.toml''] \<noteq> toy_state_path"
  "[''config.toml''] \<noteq> toy_key_path role" "toy_state_path \<noteq> toy_key_path role"
  by (auto simp: toy_key_path_def key_path_def path_join_def toy_dir_components toy_state_path_parts
      role_filename_def split: key_role.splits)

lemma toy_key_path_eq [simp]: "toy_key_path role = toy_key_path role' \<longleftrightarrow> role = role'"
  by (simp add: toy_key_path_def)

lemma toy_entries:
  "toy_ready stored s \<Longrightarrow> entry s [''config.toml''] = Some (Regular [] PRIVATE_FILE_MODE)"
  "toy_ready stored s \<Longrightarrow> entry s (toy_key_path role) =
     Some (Regular (ascii (toy_to_wif (toy_rng role) @ newline)) KEY_FILE_MODE)"
  "toy_ready True s \<Longrightarrow> entry s toy_state_path = Some (Regular (ascii ''{}'') PRIVATE_FILE_MODE)"
  by (auto simp: toy_ready_def toy_full_fs_def toy_keys_fs_def entry_put_node toy_rng_def
      split: key_role.split)

lemma toy_read:
  assumes "reads_only m" and "fst (m (w_fs w)) = Inr x" and "toy_ready stored (w_fs w)"
  shows "\<exists>s. on_fs (lib_call m) w = (Inr x, w\<lparr>w_fs := s\<rparr>) \<and> toy_ready stored s"
proof -
  have "m (w_fs w) = (Inr x, snd (m (w_fs w)))" using assms(2) by (metis prod.collapse)
  with reads_onlyD [OF assms(1) this] assms(3) show ?thesis by (auto simp: on_fs_Inr toy_ready_def)
qed

lemma toy_read_config:
  assumes "toy_ready stored (w_fs w)"
  shows "fst (load_config toy_spend_lib (e_files toy_env) [''config.toml''] (w_fs w)) = Inr toy_config"
    and "\<exists>s. read_config toy_env w = (Inr toy_config, w\<lparr>w_fs := s\<rparr>) \<and> toy_ready stored s"
proof -
  show *: "fst (load_config toy_spend_lib (e_files toy_env) [''config.toml''] (w_fs w)) = Inr toy_config"
    using assms toy_entries(1) [OF assms]
    by (simp add: ok_load_config toy_ready_def from_utf8_def toy_env_fields toy_config_valid)
  show "\<exists>s. read_config toy_env w = (Inr toy_config, w\<lparr>w_fs := s\<rparr>) \<and> toy_ready stored s"
    using toy_read [OF reads_only_loads(1) * assms] by (simp add: read_config_def toy_env_fields)
qed

lemma toy_read_key:
  assumes "toy_ready stored (w_fs w)"
  shows "\<exists>s. read_key toy_env toy_config role w =
    (Inr \<lparr>vk_role = role, vk_inner = toy_rng role\<rparr>, w\<lparr>w_fs := s\<rparr>) \<and> toy_ready stored s"
proof -
  have "entry (w_fs w) (key_path toy_dir role) = Some (Regular
      (ascii (private_to_wif toy_key_lib (toy_rng role) @ newline)) KEY_FILE_MODE)"
    using toy_entries(2) [OF assms, of role] by (simp add: toy_key_path_def toy_key_lib_def)
  from ok_load_key [OF toy_key_documented _ this] assms
  have "fst (load_key toy_key_lib toy_dir role (w_fs w)) = Inr \<lparr>vk_role = role, vk_inner = toy_rng role\<rparr>"
    by (simp add: toy_ready_def)
  from toy_read [OF reads_only_loads(3) this assms] show ?thesis
    by (simp add: read_key_def toy_env_fields toy_dir_def toy_vault_config_def)
qed

lemma toy_load_state:
  assumes "toy_ready True (w_fs w)"
  shows "\<exists>s. load_state toy_env toy_config Regtest w = (Inr toy_state, w\<lparr>w_fs := s\<rparr>) \<and>
    toy_ready True s"
proof -
  have "fst (load_vault_state toy_miniscript toy_spend_lib (e_files toy_env) toy_state_path (w_fs w))
      = Inr toy_state"
    by (rule saved_state_readable [OF _ toy_entries(3) [OF assms] toy_state_valid])
      (use assms in \<open>simp_all add: toy_ready_def toy_state_facts toy_state_text toy_env_fields\<close>)
  from toy_read [OF reads_only_loads(2) this assms] obtain s where
    "on_fs (lib_call (load_vault_state toy_miniscript toy_spend_lib (e_files toy_env) toy_state_path)) w
      = (Inr toy_state, w\<lparr>w_fs := s\<rparr>)" "toy_ready True s" by blast
  moreover have "vs_vault toy_state = toy_vault" by (simp add: toy_state_def new_state_def)
  ultimately show ?thesis
    by (intro exI [of _ s]) (simp add: load_state_def abind_apply toy_env_fields toy_vault_config_def
        toy_spend_network flip: toy_state_path_def)
qed

end
