(* ===== verification/Cli_Correct.thy ===== *)
theory Cli_Correct
  imports Cli_Steps
begin

text \<open>
  What a command may send to the network: nothing, or the payment that was asked for.
\<close>

section \<open>Sending\<close>

definition sends :: "('n, 'a) command_action \<Rightarrow> 'n world \<Rightarrow> core_call \<Rightarrow> bool" where
  "sends m w c \<longleftrightarrow> c \<in> set (drop (length (w_calls w)) (w_calls (snd (m w))))"

lemma quiet_sends: "quiet m \<Longrightarrow> \<not> sends m w c"
  by (simp add: keeps_def sends_def)

lemma sends_abind:
  "quiet m \<Longrightarrow> sends (abind m f) w c \<longleftrightarrow> (\<exists>x w1. m w = (Inr x, w1) \<and> sends (f x) w1 c)"
proof (cases "m w")
  case (Pair r w1)
  assume "quiet m"
  with Pair have "w_calls w1 = w_calls w" by (metis keeps_def snd_conv)
  with Pair show ?thesis by (cases r) (auto simp: sends_def abind_apply)
qed

lemma sends_abind_last:
  assumes "\<And>x. quiet (f x)"
  shows "sends (abind m f) w c \<longleftrightarrow> sends m w c"
proof (cases "m w")
  case (Pair r w1)
  show ?thesis
  proof (cases r)
    case (Inr x)
    with assms [of x] have "w_calls (snd (f x w1)) = w_calls w1" by (simp add: keeps_def)
    with Pair Inr show ?thesis by (simp add: sends_def abind_apply)
  qed (use Pair in \<open>simp add: sends_def abind_apply\<close>)
qed

section \<open>What reaches the network\<close>

definition state_on_disk ::
    "('pol, 'ms, 'desc, 'addr, 'n) cli_env \<Rightarrow> fsys \<Rightarrow> config \<Rightarrow> vault_state \<Rightarrow> bool" where
  "state_on_disk E s cfg state \<longleftrightarrow>
     (\<exists>t. entry t = entry s \<and> fst (load_vault_state (e_miniscript E) (e_vault E) (e_files E)
        (components (vc_state_path (cfg_vault cfg))) t) = Inr state)"

lemma sends_send:
  "sends (send E tx) w c \<longleftrightarrow>
     c \<in> set (snd (broadcast (e_bitcoin E) (e_vault E) (cn_client (e_node E) (w_node w)) tx))"
  by (simp add: sends_def send_def split: prod.splits)

lemma spend_sends:
  assumes "sends (spend E req b show_tx via) w (SendRawTransaction t)"
  shows "b \<and> \<not> via \<and>
    (\<exists>cfg network state utxos built n n' m.
       fst (load_config (e_vault E) (e_files E) (e_config E) (w_fs w)) = Inr cfg \<and>
       validate_config (e_vault E) cfg = Inr () \<and>
       config_network (e_vault E) (cfg_bitcoin cfg) = Inr network \<and>
       get_blockchain_chain (cn_core (e_node E)) (w_node w) = Inr network \<and>
       state_on_disk E (w_fs w) cfg state \<and>
       require_network (e_miniscript E) (e_vault E) (vs_vault state) network = Inr () \<and>
       list_utxos (e_miniscript E) (e_vault E) (cn_list_unspent (e_node E) n) state = Inr utxos \<and>
       pays_as_requested (e_bitcoin E) (e_miniscript E) (e_vault E) (vs_vault state) network utxos
         req built t \<and>
       test_mempool_accept (cn_client (e_node E) n') t = Inr [m] \<and>
       mr_txid m = compute_txid (e_bitcoin E) t \<and> mr_allowed m)"
proof -
  from assms obtain u w1 cfg w2 network w3 state w4 rpc w5 utxos w6 built w7 tx w8 u9 w9
    where 1: "ensure_network_agent_disabled via w = (Inr u, w1)"
    and 2: "read_config E w1 = (Inr cfg, w2)" and 3: "network_of E cfg w2 = (Inr network, w3)"
    and 4: "load_state E cfg network w3 = (Inr state, w4)" and 5: "open_rpc E cfg w4 = (Inr rpc, w5)"
    and 6: "wallet_coins E state w5 = (Inr utxos, w6)"
    and 8: "validate_built_spend (e_bitcoin E) (e_miniscript E) (e_vault E) built (vs_vault state)
      network utxos req = Inr tx"
    and 9: "sends (if b then abind (open_rpc E cfg)
      (\<lambda>_. abind (send E tx) (\<lambda>txid. print (BroadcastShown txid))) else areturn ()) w9
      (SendRawTransaction t)"
    unfolding spend_def by (auto simp: sends_abind keeps_rules)
  have b: "b"
  proof (rule ccontr)
    assume "\<not> b"
    with 9 have "sends (areturn ()) w9 (SendRawTransaction t)" by simp
    then show False by (simp add: quiet_sends keeps_rules)
  qed
  with 9 obtain n10 where "SendRawTransaction t \<in> set (snd (broadcast (e_bitcoin E) (e_vault E)
      (cn_client (e_node E) n10) tx))"
    by (auto simp: sends_abind sends_abind_last keeps_rules sends_send)
  then obtain m where m: "t = tx" "test_mempool_accept (cn_client (e_node E) n10) tx = Inr [m]"
    "mr_txid m = compute_txid (e_bitcoin E) tx" "mr_allowed m"
    by (auto simp: broadcast_sends_iff)
  from 1 have via: "\<not> via" "w1 = w"
    by (auto simp: ensure_network_agent_disabled_def split: if_splits)
  note cfg = read_config_Inr [OF 2]
  from 3 have net: "config_network (e_vault E) (cfg_bitcoin cfg) = Inr network" "w3 = w2"
    by (simp_all add: network_of_def)
  note state = load_state_Inr [OF 4]
  from 5 obtain n' where "connect (e_vault E) (cn_core (e_node E)) (cfg_bitcoin cfg) (w_node w4)
      = (Inr rpc, n')"
    by (auto simp: open_rpc_def on_node_Inr)
  from connect_Inr(2) [OF this] net(1) state(3) cfg(4) net(2) via(2)
  have chain: "get_blockchain_chain (cn_core (e_node E)) (w_node w) = Inr network" by auto
  from 6 have coins: "list_utxos (e_miniscript E) (e_vault E)
      (cn_list_unspent (e_node E) (w_node w5)) state = Inr utxos"
    by (auto simp: wallet_coins_def on_node_Inr)
  have disk: "state_on_disk E (w_fs w) cfg state"
    unfolding state_on_disk_def using state(1) cfg(3) net(2) via(2) by auto
  from validate_built_spend_pays [OF 8] m(1)
  have "pays_as_requested (e_bitcoin E) (e_miniscript E) (e_vault E) (vs_vault state) network utxos
      req built t" by simp
  with b via cfg net state(2) chain coins disk m show ?thesis by blast
qed

text \<open>
  C16: the only transaction the CLI ever sends is the payment its user asked for. If a command sends
  \<open>t\<close>, it is a \<open>spend --broadcast\<close> without \<open>--via-agent\<close>, under a valid configuration of a research
  network that the node also runs; the vault on disk is canonical for that network; \<open>t\<close> spends only
  its coins as the node listed them, pays exactly the amount to the destination, the rest but the
  fee back to the vault; and the node accepted \<open>t\<close> in its mempool test.
\<close>

theorem cli_sends_only_the_requested_payment:
  assumes "run_command E cmd w = (r, w')"
    and "SendRawTransaction t \<in> set (drop (length (w_calls w)) (w_calls w'))"
  shows "\<exists>to amount fee p show_tx cfg network state utxos built n n' m.
    cmd = Spend to amount fee p True show_tx False \<and>
    fst (load_config (e_vault E) (e_files E) (e_config E) (w_fs w)) = Inr cfg \<and>
    validate_config (e_vault E) cfg = Inr () \<and>
    config_network (e_vault E) (cfg_bitcoin cfg) = Inr network \<and>
    get_blockchain_chain (cn_core (e_node E)) (w_node w) = Inr network \<and>
    state_on_disk E (w_fs w) cfg state \<and>
    require_network (e_miniscript E) (e_vault E) (vs_vault state) network = Inr () \<and>
    list_utxos (e_miniscript E) (e_vault E) (cn_list_unspent (e_node E) n) state = Inr utxos \<and>
    pays_as_requested (e_bitcoin E) (e_miniscript E) (e_vault E) (vs_vault state) network utxos
      \<lparr>sq_destination = to, sq_amount_sats = amount, sq_fee_sats = fee, sq_path = spend_path_of p\<rparr>
      built t \<and>
    test_mempool_accept (cn_client (e_node E) n') t = Inr [m] \<and>
    mr_txid m = compute_txid (e_bitcoin E) t \<and> mr_allowed m"
proof -
  have s: "sends (run_command E cmd) w (SendRawTransaction t)" using assms by (simp add: sends_def)
  show ?thesis
  proof (cases cmd)
    case (Spend to amount fee p b show_tx via)
    with s have "sends (spend E \<lparr>sq_destination = to, sq_amount_sats = amount, sq_fee_sats = fee,
        sq_path = spend_path_of p\<rparr> b show_tx via) w (SendRawTransaction t)"
      by (simp add: run_command_def)
    from spend_sends [OF this] Spend show ?thesis by simp
  qed (use s in \<open>simp_all add: run_command_def quiet_commands [THEN quiet_sends]\<close>)
qed

section \<open>A payment that is sent\<close>

definition toy_command :: command where
  "toy_command = Spend ''Q'' 60000 500 PathRecovery True False False"

text \<open>The first connection loads the wallet; a second one finds it loaded.\<close>

lemma toy_open_rpc:
  assumes "w_node w \<in> {[], [''tesaurus'']}"
  shows "\<exists>rpc. open_rpc toy_env toy_config w = (Inr rpc, w\<lparr>w_node := [''tesaurus'']\<rparr>)"
  using toy_connects [OF assms]
  by (simp add: open_rpc_def on_node_Inr toy_env_fields toy_connected)

lemma toy_build:
  assumes "toy_ready True (w_fs w)"
  shows "\<exists>s. build_requested toy_env toy_config Regtest toy_state toy_coins toy_request w =
    (Inr toy_spend, w\<lparr>w_fs := s\<rparr>) \<and> toy_ready True s"
proof -
  obtain s1 where s1: "read_key toy_env toy_config PrimaryKey w =
      (Inr \<lparr>vk_role = PrimaryKey, vk_inner = [1]\<rparr>, w\<lparr>w_fs := s1\<rparr>)" "toy_ready True s1"
    using toy_read_key [OF assms, of PrimaryKey] by (auto simp: toy_rng_def)
  obtain s2 where s2: "read_key toy_env toy_config AgentKey (w\<lparr>w_fs := s1\<rparr>) =
      (Inr \<lparr>vk_role = AgentKey, vk_inner = [3]\<rparr>, w\<lparr>w_fs := s2\<rparr>)" "toy_ready True s2"
    using toy_read_key [of True "w\<lparr>w_fs := s1\<rparr>" AgentKey] s1(2) by (auto simp: toy_rng_def)
  have "build_and_sign bip68_lib toy_miniscript toy_spend_lib (vs_vault toy_state) Regtest toy_coins
      (toy_request\<lparr>sq_path := Recovery\<rparr>) toy_keys = Inr toy_spend"
    using toy_build_and_sign by (simp add: toy_request_def toy_state_def new_state_def)
  moreover have "sq_path toy_request = Recovery" by (simp add: toy_request_def)
  ultimately show ?thesis using s1(1) s2
    by (intro exI [of _ s2])
      (simp add: build_requested_def spend_local_recovery_def abind_apply toy_env_fields toy_keys_def)
qed

lemma toy_payment_sent:
  "w_calls (snd (run_command toy_env toy_command (toy_world toy_full_fs))) =
     [TestMempoolAccept toy_tx, SendRawTransaction toy_tx]"
proof -
  let ?w = "toy_world toy_full_fs"
  have "toy_ready True (w_fs ?w)"
    by (simp add: toy_ready_def toy_world_def toy_full_fs_def toy_keys_fs_def toy_fs_empty)
  from toy_read_config(2) [OF this] obtain s1 where
    s1: "read_config toy_env ?w = (Inr toy_config, ?w\<lparr>w_fs := s1\<rparr>)" "toy_ready True s1" by blast
  obtain s2 where s2: "load_state toy_env toy_config Regtest (?w\<lparr>w_fs := s1\<rparr>) =
      (Inr toy_state, ?w\<lparr>w_fs := s2\<rparr>)" "toy_ready True s2"
    using toy_load_state [of "?w\<lparr>w_fs := s1\<rparr>"] s1(2) by auto
  let ?w3 = "?w\<lparr>w_fs := s2, w_node := [''tesaurus'']\<rparr>"
  obtain rpc where s3: "open_rpc toy_env toy_config (?w\<lparr>w_fs := s2\<rparr>) = (Inr rpc, ?w3)"
    using toy_open_rpc [of "?w\<lparr>w_fs := s2\<rparr>"] by (auto simp: toy_world_def)
  have s4: "wallet_coins toy_env toy_state ?w3 = (Inr toy_coins, ?w3)"
    by (simp add: wallet_coins_def on_node_Inr toy_env_fields toy_wallet_coins)
  obtain s5 where s5: "build_requested toy_env toy_config Regtest toy_state toy_coins toy_request ?w3 =
      (Inr toy_spend, ?w3\<lparr>w_fs := s5\<rparr>)"
    using toy_build [of ?w3] s2(2) by auto
  let ?w5 = "?w3\<lparr>w_fs := s5\<rparr>"
  have net: "network_of toy_env toy_config (?w\<lparr>w_fs := s1\<rparr>) = (Inr Regtest, ?w\<lparr>w_fs := s1\<rparr>)"
    by (simp add: network_of_def toy_env_fields toy_network_of)
  have s6: "on_result (validate_built_spend bip68_lib toy_miniscript toy_spend_lib toy_spend
      (vs_vault toy_state) Regtest toy_coins toy_request) ?w5 = (Inr toy_tx, ?w5)"
    using toy_validated by (simp add: toy_state_def new_state_def)
  let ?shown = "SpendShown (bs_txid toy_spend) (bs_path toy_spend) (bs_fee_sats toy_spend)
    (bs_change_sats toy_spend) None"
  let ?w7 = "?w5\<lparr>w_out := [?shown]\<rparr>"
  have s7: "print ?shown ?w5 = (Inr (), ?w7)" by (simp add: print_def toy_world_def)
  obtain rpc2 where s8: "open_rpc toy_env toy_config ?w7 = (Inr rpc2, ?w7)"
    using toy_open_rpc [of ?w7] by auto
  have s9: "w_calls (snd (abind (send toy_env toy_tx) (\<lambda>txid. print (BroadcastShown txid)) ?w7)) =
      [TestMempoolAccept toy_tx, SendRawTransaction toy_tx]"
    by (simp add: send_def lib_call_def broadcast_def toy_env_fields toy_client_def toy_fields
        abind_def print_def toy_world_def)
  have "\<lparr>sq_destination = ''Q'', sq_amount_sats = 60000, sq_fee_sats = 500,
      sq_path = spend_path_of PathRecovery\<rparr> = toy_request"
    by (simp add: toy_request_def spend_path_of_def)
  then show ?thesis
    using s1(1) net s2(1) s3 s4 s5 s6 s7 s8 s9
    by (simp add: toy_command_def run_command_def spend_def ensure_network_agent_disabled_def
        abind_apply toy_env_fields)
qed

theorem cli_sends_only_the_requested_payment_witness:
  "\<exists>state utxos built. state_on_disk toy_env toy_full_fs toy_config state \<and>
    pays_as_requested bip68_lib toy_miniscript toy_spend_lib (vs_vault state) Regtest utxos
      toy_request built toy_tx"
proof -
  let ?w = "toy_world toy_full_fs"
  obtain r w' where run: "run_command toy_env toy_command ?w = (r, w')" by (rule prod.exhaust)
  have "SendRawTransaction toy_tx \<in> set (drop (length (w_calls ?w)) (w_calls w'))"
    using toy_payment_sent run by (simp add: toy_world_def)
  moreover have "fst (load_config toy_spend_lib (e_files toy_env) [''config.toml''] (w_fs ?w)) =
      Inr toy_config"
    by (rule toy_read_config(1) [of True])
      (simp add: toy_ready_def toy_world_def toy_full_fs_def toy_keys_fs_def toy_fs_empty)
  ultimately show ?thesis
    using cli_sends_only_the_requested_payment [OF run, of toy_tx]
    by (fastforce simp: toy_env_fields toy_network_of toy_command_def toy_request_def
        spend_path_of_def toy_world_def)
qed

end
