(* ===== verification/Cli_Files.thy ===== *)
theory Cli_Files
  imports Cli_Steps
begin

text \<open>
  What the commands write: each command has its files, they are private, and nothing else changes.
\<close>


section \<open>The example configuration\<close>

lemma fill_new_frame:
  "only_new_private dir {p} s (snd (fill_private p (fs_open_new p PRIVATE_FILE_MODE) bs s))"
proof -
  have "fill_private p (fs_open_new p PRIVATE_FILE_MODE) bs = write_new_private p bs"
    by (simp add: fill_private_def write_new_private_def PRIVATE_FILE_MODE_def KEY_FILE_MODE_def)
  then show ?thesis by (simp add: write_new_private_frame)
qed

lemma make_parent_new: "only_new_private dir P s (snd (make_parent p s))"
  by (simp add: make_parent_def split: option.splits)

text \<open>In the root of the name space there is no directory to close.\<close>

lemma new_is_update: "only_new_private [] {p} s s' \<Longrightarrow> updates_file p s s'"
proof -
  assume *: "only_new_private [] {p} s s'"
  have "update_step (fs_umask s) False (resolve s p = Some q) (entry s q) (entry s' q)" for q
  proof -
    have "resolve s [] = Some []" by (simp add: resolve_no_link)
    then have "entry_step (fs_umask s) False (q = p) (entry s q) (entry s' q)" if "q \<noteq> []"
      using * that by (auto simp: only_new_private_def dest: spec [of _ q])
    moreover have "resolve s p = Some p" if "entry s p = None" using that by (simp add: resolve_no_link)
    ultimately show ?thesis
      by (cases "q = []") (auto simp: entry_step_def update_step_def)
  qed
  with * show ?thesis by (simp add: updates_file_def private_update_def only_new_private_def)
qed

lemma write_private_file_frame:
  "updates_file p s (snd (write_private_file p contents overwrite s))"
  "only_new_private [] {p} s (snd (write_private_file p contents False s))"
  unfolding write_private_file_def
  by (auto intro!: rewriting.bind new_private.bind make_parent_updates make_parent_new fill_updates
      fill_new_frame new_is_update [OF fill_new_frame])


section \<open>What a command may write\<close>

definition may_write ::
    "('pol, 'ms, 'desc, 'addr, 'n) cli_env \<Rightarrow> fsys \<Rightarrow> command \<Rightarrow> path set" where
  "may_write E s cmd =
     (case cmd of
        InitConfig p network force \<Rightarrow>
          {q. if force then resolve s p = Some q else q = p \<and> entry s q = None}
      | KeysGenerate \<Rightarrow>
          {q. entry s q = None \<and>
             (\<exists>cfg role. fst (load_config (e_vault E) (e_files E) (e_config E) s) = Inr cfg \<and>
                q = key_path (components (vc_keys_dir (cfg_vault cfg))) role)}
      | InitVault force \<Rightarrow>
          {q. \<exists>cfg. fst (load_config (e_vault E) (e_files E) (e_config E) s) = Inr cfg \<and>
             resolve s (state_path_of cfg) = Some q}
      | _ \<Rightarrow> {})"

text \<open>Only \<open>keys generate\<close> closes a directory: the one that the configured path leads to.\<close>

definition may_close ::
    "('pol, 'ms, 'desc, 'addr, 'n) cli_env \<Rightarrow> fsys \<Rightarrow> command \<Rightarrow> path set" where
  "may_close E s cmd =
     (case cmd of
        KeysGenerate \<Rightarrow>
          {q. \<exists>cfg. fst (load_config (e_vault E) (e_files E) (e_config E) s) = Inr cfg \<and>
             resolve s (components (vc_keys_dir (cfg_vault cfg))) = Some q}
      | _ \<Rightarrow> {})"

definition file_steps ::
    "u32 \<Rightarrow> path set \<Rightarrow> path set \<Rightarrow> (path \<Rightarrow> node option) \<Rightarrow> (path \<Rightarrow> node option) \<Rightarrow> bool" where
  "file_steps umask D P e e' \<longleftrightarrow> (\<forall>q. update_step umask (q \<in> D) (q \<in> P) (e q) (e' q))"

lemma file_steps_refl [simp]: "file_steps u D P e e"
  by (simp add: file_steps_def update_step_def)

lemma reads_entry: "reads m \<Longrightarrow> entry (w_fs (snd (m w))) = entry (w_fs w)"
  by (simp add: keeps_def)

lemma file_steps_abind:
  assumes "reads m"
    and "\<And>x w1. m w = (Inr x, w1) \<Longrightarrow> entry (w_fs w1) = entry (w_fs w) \<Longrightarrow>
      fs_umask (w_fs w1) = fs_umask (w_fs w) \<Longrightarrow>
      file_steps u D P (entry (w_fs w1)) (entry (w_fs (snd (f x w1))))"
  shows "file_steps u D P (entry (w_fs w)) (entry (w_fs (snd (abind m f w))))"
proof (cases "m w")
  case (Pair r w1)
  have "(entry (w_fs (snd (m w))), fs_umask (w_fs (snd (m w)))) =
      (entry (w_fs w), fs_umask (w_fs w))"
    using assms(1) unfolding keeps_def by (rule spec)
  with Pair have "entry (w_fs w1) = entry (w_fs w)" "fs_umask (w_fs w1) = fs_umask (w_fs w)"
    by simp_all
  with Pair assms(2) show ?thesis by (cases r) (simp_all add: abind_apply)
qed

lemma write_then_read:
  assumes "\<And>x. reads (f x)"
  shows "entry (w_fs (snd (abind (on_fs m) f w))) = entry (snd (m (w_fs w)))"
proof (cases "m (w_fs w)")
  case (Pair r s)
  then have step: "on_fs m w = (r, w\<lparr>w_fs := s\<rparr>)" by (simp add: on_fs_def)
  show ?thesis
  proof (cases r)
    case (Inr x)
    have "entry (w_fs (snd (f x (w\<lparr>w_fs := s\<rparr>)))) = entry s"
      using assms [of x] by (simp add: keeps_def)
    with step Inr Pair show ?thesis by (simp add: abind_apply)
  qed (use step Pair in \<open>simp add: abind_apply\<close>)
qed

lemma file_steps_mono:
  "file_steps u D P e e' \<Longrightarrow> D \<subseteq> D' \<Longrightarrow> P \<subseteq> P' \<Longrightarrow> file_steps u D' P' e e'"
  unfolding file_steps_def update_step_def dir_step_def by blast

lemma updates_steps:
  "updates_file p s s' \<Longrightarrow> file_steps (fs_umask s) {} {q. resolve s p = Some q} (entry s) (entry s')"
  by (simp add: updates_file_def private_update_def file_steps_def)

lemma new_steps:
  "only_new_private dir P s s' \<Longrightarrow> file_steps (fs_umask s) {q. resolve s dir = Some q}
     {q \<in> P. entry s q = None} (entry s) (entry s')"
  by (auto simp: only_new_private_def file_steps_def entry_step_def update_step_def)

text \<open>There is no entry at the root of the name space that could be closed.\<close>

lemma file_steps_no_root: "file_steps u {[]} P (entry s) (entry s') \<Longrightarrow> file_steps u {} P (entry s) (entry s')"
  unfolding file_steps_def update_step_def dir_step_def by auto

lemma resolve_entry: "entry s' = entry s \<Longrightarrow> resolve s' = resolve s"
  by (intro ext resolve_same_links) simp

lemma init_config_writes:
  "file_steps (fs_umask (w_fs w)) {} (may_write E (w_fs w) (InitConfig p network force))
     (entry (w_fs w)) (entry (w_fs (snd (init_config E p network force w))))"
  unfolding init_config_def
proof (rule file_steps_abind)
  fix contents w1 assume "on_result (example_toml (e_vault E) network) w = (Inr contents, w1)"
  then have w1: "w1 = w" by simp
  let ?s' = "snd (write_private_file p contents force (w_fs w))"
  have "file_steps (fs_umask (w_fs w)) {} (may_write E (w_fs w) (InitConfig p network force))
      (entry (w_fs w)) (entry ?s')"
  proof (cases force)
    case True
    with updates_steps [OF write_private_file_frame(1) [of p "w_fs w" contents force]]
    show ?thesis by (simp add: may_write_def)
  next
    case False
    have "{q. resolve (w_fs w) [] = Some q} = {[]}" by (auto simp: resolve_no_link)
    with False file_steps_no_root new_steps [OF write_private_file_frame(2) [of p "w_fs w" contents]]
    show ?thesis by (simp add: may_write_def)
  qed
  then show "file_steps (fs_umask (w_fs w)) {} (may_write E (w_fs w) (InitConfig p network force))
      (entry (w_fs w1))
      (entry (w_fs (snd (abind (on_fs (write_private_file p contents force)) (\<lambda>_. print (Wrote p)) w1))))"
    by (simp add: w1 write_then_read keeps_rules)
qed (intro keeps_rules)

lemma keys_generate_writes:
  "file_steps (fs_umask (w_fs w)) (may_close E (w_fs w) KeysGenerate)
     (may_write E (w_fs w) KeysGenerate) (entry (w_fs w)) (entry (w_fs (snd (keys_generate E w))))"
  unfolding keys_generate_def Let_def
proof (rule file_steps_abind)
  fix cfg w1 assume cfg: "read_config E w = (Inr cfg, w1)" and w1: "entry (w_fs w1) = entry (w_fs w)"
    and u1: "fs_umask (w_fs w1) = fs_umask (w_fs w)"
  let ?dir = "components (vc_keys_dir (cfg_vault cfg))"
  have fine: "{q \<in> range (key_path ?dir). entry (w_fs w1) q = None} \<subseteq> may_write E (w_fs w) KeysGenerate"
    "{q. resolve (w_fs w1) ?dir = Some q} \<subseteq> may_close E (w_fs w) KeysGenerate"
    using read_config_Inr(1) [OF cfg] w1 resolve_entry [OF w1]
    by (auto simp: may_write_def may_close_def)
  show "file_steps (fs_umask (w_fs w)) (may_close E (w_fs w) KeysGenerate)
      (may_write E (w_fs w) KeysGenerate) (entry (w_fs w1))
      (entry (w_fs (snd (abind (network_of E cfg) (\<lambda>network.
         abind (on_fs (lib_call (generate_vault_keys (e_keys E) (e_miniscript E) (e_vault E) (e_rng E)
           ?dir network))) (\<lambda>pubs. print (KeysShown ?dir pubs))) w1))))"
  proof (rule file_steps_abind, goal_cases)
    case (2 network w2)
    then show ?case
      using file_steps_mono [OF new_steps [OF generate_vault_keys_frame [where s = "w_fs w2"]]
          fine(2) [folded resolve_entry [OF 2(2)]] fine(1) [folded 2(2)]] u1
      by (simp add: write_then_read keeps_rules)
  qed (intro keeps_rules)
qed (intro keeps_rules)

lemma file_steps_if:
  "file_steps u D P e (entry (w_fs (snd (m w)))) \<Longrightarrow> file_steps u D P e (entry (w_fs (snd (n w)))) \<Longrightarrow>
   file_steps u D P e (entry (w_fs (snd ((if b then m else n) w))))"
  by simp

lemma init_vault_writes:
  "file_steps (fs_umask (w_fs w)) {} (may_write E (w_fs w) (InitVault force)) (entry (w_fs w))
     (entry (w_fs (snd (init_vault E force w))))"
proof -
  let ?W = "may_write E (w_fs w) (InitVault force)"
  have saved: "file_steps (fs_umask (w_fs w)) {} ?W (entry (w_fs u)) (entry (w_fs (snd (abind (on_fs (lib_call
      (save_vault_state (e_miniscript E) (e_vault E) (e_files E) state
        (components (vc_state_path (cfg_vault cfg)))))) (\<lambda>_. print line) u))))"
    if "entry (w_fs u) = entry (w_fs w)" "fs_umask (w_fs u) = fs_umask (w_fs w)"
      "read_config E w = (Inr cfg, w1)" for u cfg state line w1
  proof -
    have "{q. resolve (w_fs u) (state_path_of cfg) = Some q} \<subseteq> ?W"
      using read_config_Inr(1) [OF that(3)] resolve_entry [OF that(1)] by (auto simp: may_write_def)
    from file_steps_mono [OF updates_steps [OF save_updates] subset_refl this] that(2)
    show ?thesis by (simp add: write_then_read keeps_rules state_path_of_def)
  qed
  show ?thesis
    unfolding init_vault_def Let_def
    apply (rule file_steps_abind, intro keeps_rules)
    apply (rule file_steps_abind, intro keeps_rules reads_only_loads)
    apply (rule file_steps_if, simp)
    apply (rule file_steps_abind, intro keeps_rules)
    apply (rule file_steps_abind, intro keeps_rules)
    apply (rule file_steps_abind, intro keeps_rules)
    apply (rule file_steps_abind, intro keeps_rules)
    apply (rule file_steps_abind, intro keeps_rules)
    apply (rule saved)
    apply simp_all
    done
qed

text \<open>
  C29: each command writes its own files, and nothing leaks. Whatever system calls fail and wherever
  a command stops, \<open>address\<close>, \<open>status\<close>, \<open>import-watch\<close> and \<open>spend\<close> change no file at all;
  \<open>init-config\<close> changes only its target, and without \<open>--force\<close> only creates it; \<open>keys generate\<close>
  only creates the three key files of the configured directory; \<open>init-vault\<close> changes only the
  configured state file. New content is never readable by group or others. Apart from that, an
  entry may become a new directory with the mode that the umask leaves of octal 777, and the one
  directory that the configured keys path leads to may get the mode octal 700 from \<open>keys generate\<close>.
\<close>

theorem commands_write_private_files:
  "let w' = snd (run_command E cmd w); before = entry (w_fs w); after = entry (w_fs w') in
   (case cmd of
      InitConfig _ _ _ \<Rightarrow> True | KeysGenerate \<Rightarrow> True | InitVault _ \<Rightarrow> True
    | _ \<Rightarrow> after = before) \<and>
   (\<forall>q. after q = before q \<or>
      before q = None \<and> after q = Some (Directory (and 0x1FF (not (fs_umask (w_fs w))))) \<or>
      (\<exists>cfg. cmd = KeysGenerate \<and>
         fst (load_config (e_vault E) (e_files E) (e_config E) (w_fs w)) = Inr cfg \<and>
         resolve (w_fs w) (components (vc_keys_dir (cfg_vault cfg))) = Some q) \<and>
        (before q = None \<or> (\<exists>m. before q = Some (Directory m))) \<and>
        after q = Some (Directory 0x1C0) \<or>
      q \<in> may_write E (w_fs w) cmd \<and> (before q = None \<or> (\<exists>c m. before q = Some (Regular c m))) \<and>
        (\<exists>c m. after q = Some (Regular c m) \<and> (c = [] \<or> private_mode m)))"
proof -
  note unchanged = reads_commands [THEN reads_entry]
  have "file_steps (fs_umask (w_fs w)) (may_close E (w_fs w) cmd) (may_write E (w_fs w) cmd)
      (entry (w_fs w)) (entry (w_fs (snd (run_command E cmd w))))"
    by (cases cmd) (simp_all add: run_command_def may_close_def init_config_writes
        keys_generate_writes [unfolded may_close_def command.case] init_vault_writes unchanged)
  then have step: "update_step (fs_umask (w_fs w)) (q \<in> may_close E (w_fs w) cmd)
      (q \<in> may_write E (w_fs w) cmd) (entry (w_fs w) q) (entry (w_fs (snd (run_command E cmd w))) q)"
    for q by (simp add: file_steps_def)
  have close: "q \<in> may_close E (w_fs w) cmd \<longleftrightarrow> (\<exists>cfg. cmd = KeysGenerate \<and>
      fst (load_config (e_vault E) (e_files E) (e_config E) (w_fs w)) = Inr cfg \<and>
      resolve (w_fs w) (components (vc_keys_dir (cfg_vault cfg))) = Some q)" for q
    by (cases cmd) (simp_all add: may_close_def)
  have "case cmd of
      InitConfig _ _ _ \<Rightarrow> True | KeysGenerate \<Rightarrow> True | InitVault _ \<Rightarrow> True
    | _ \<Rightarrow> entry (w_fs (snd (run_command E cmd w))) = entry (w_fs w)"
    by (cases cmd) (simp_all add: run_command_def unchanged)
  with step show ?thesis unfolding Let_def update_step_def dir_step_def close by blast
qed

end
