(* ===== verification/Cli_Vault.thy ===== *)
theory Cli_Vault
  imports Cli_Steps
begin

text \<open>
  The vault a user initialises is the vault that later commands work on: \<open>init-vault\<close> followed by
  \<open>address\<close>, over the whole configuration, key and state files.
\<close>

section \<open>The initialised vault is the vault in use\<close>

lemma init_vault_Inr:
  assumes "init_vault E force w = (Inr (), w')" and "calls_succeed (w_fs w)"
  obtains cfg network v s t primary override_key agent where
    "fst (load_config (e_vault E) (e_files E) (e_config E) (w_fs w)) = Inr cfg"
    "config_network (e_vault E) (cfg_bitcoin cfg) = Inr network"
    "build (e_miniscript E) (e_vault E) primary override_key agent (vc_csv_blocks (cfg_vault cfg))
      network = Inr v"
    "entry s = entry (w_fs w)" "calls_succeed s"
    "save_vault_state (e_miniscript E) (e_vault E) (e_files E) (new_state v) (state_path_of cfg) s
      = (Inr (), t)"
    "w_fs w' = t" "w_out w' = w_out w @ [VaultShown v (state_path_of cfg)]"
proof -
  from assms(1) obtain cfg w1 there w2 network w3 k1 w4 k2 w5 k3 w6 v w7 where
    1: "read_config E w = (Inr cfg, w1)"
    and 2: "on_fs (lib_call (path_exists (state_path_of cfg))) w1 = (Inr there, w2)"
    and 3: "network_of E cfg w2 = (Inr network, w3)"
    and 4: "read_key E cfg PrimaryKey w3 = (Inr k1, w4)"
    and 5: "read_key E cfg OverrideKey w4 = (Inr k2, w5)"
    and 6: "read_key E cfg AgentKey w5 = (Inr k3, w6)"
    and 7: "build (e_miniscript E) (e_vault E) (public_key_of (e_vault E) k1)
      (public_key_of (e_vault E) k2) (public_key_of (e_vault E) k3) (vc_csv_blocks (cfg_vault cfg))
      network = Inr v"
    and 8: "on_fs (lib_call (save_vault_state (e_miniscript E) (e_vault E) (e_files E) (new_state v)
      (state_path_of cfg))) w6 = (Inr (), w7)"
    and 9: "w' = w7\<lparr>w_out := w_out w7 @ [VaultShown v (state_path_of cfg)]\<rparr>"
    unfolding init_vault_def Let_def state_path_of_def
    by (auto simp: print_def elim!: abind_Inr split: if_splits)
  note r1 = on_fs_reads [OF 1 [unfolded read_config_def] reads_only_loads(1)]
  note r2 = on_fs_reads [OF 2 reads_only_loads(4)]
  from 3 have 3: "config_network (e_vault E) (cfg_bitcoin cfg) = Inr network" "w3 = w2"
    by (simp_all add: network_of_def)
  note r4 = on_fs_reads [OF 4 [unfolded read_key_def] reads_only_loads(3)]
  note r5 = on_fs_reads [OF 5 [unfolded read_key_def] reads_only_loads(3)]
  note r6 = on_fs_reads [OF 6 [unfolded read_key_def] reads_only_loads(3)]
  have "entry (w_fs w6) = entry (w_fs w)" "calls_succeed (w_fs w6)" "w_out w6 = w_out w"
    using r1 r2 r4 r5 r6 3(2) assms(2) by simp_all
  moreover from 8 obtain t where "save_vault_state (e_miniscript E) (e_vault E) (e_files E)
      (new_state v) (state_path_of cfg) (w_fs w6) = (Inr (), t)" "w7 = w6\<lparr>w_fs := t\<rparr>"
    by (auto simp: on_fs_Inr)
  ultimately show ?thesis
    using that [OF read_config_Inr(1) [OF 1] 3(1) 7] 9 by simp
qed

lemma show_address_run:
  assumes "calls_succeed (w_fs w)"
    and "fst (load_config (e_vault E) (e_files E) (e_config E) (w_fs w)) = Inr cfg"
    and "config_network (e_vault E) (cfg_bitcoin cfg) = Inr network"
    and "\<And>s. entry s = entry (w_fs w) \<Longrightarrow> calls_succeed s \<Longrightarrow>
      fst (load_vault_state (e_miniscript E) (e_vault E) (e_files E) (state_path_of cfg) s) = Inr state"
    and "require_network (e_miniscript E) (e_vault E) (vs_vault state) network = Inr ()"
  shows "\<exists>w'. show_address E w = (Inr (), w') \<and> w_out w' = w_out w @
    [AddressShown (vd_receive_address (vs_vault state)) (vd_descriptor (vs_vault state))]"
proof -
  obtain s1 where s1: "load_config (e_vault E) (e_files E) (e_config E) (w_fs w) = (Inr cfg, s1)"
    using assms(2) by (metis prod.collapse)
  note r1 = reads_onlyD [OF reads_only_loads(1) s1]
  obtain s2 where s2: "load_vault_state (e_miniscript E) (e_vault E) (e_files E) (state_path_of cfg) s1
      = (Inr state, s2)"
    using assms(4) [OF r1(1)] r1(2) assms(1) by (metis prod.collapse)
  have "read_config E w = (Inr cfg, w\<lparr>w_fs := s1\<rparr>)"
    using s1 by (simp add: read_config_def on_fs_Inr)
  moreover have "network_of E cfg (w\<lparr>w_fs := s1\<rparr>) = (Inr network, w\<lparr>w_fs := s1\<rparr>)"
    using assms(3) by (simp add: network_of_def)
  moreover have "load_state E cfg network (w\<lparr>w_fs := s1\<rparr>) = (Inr state, w\<lparr>w_fs := s2\<rparr>)"
  proof -
    have "on_fs (lib_call (load_vault_state (e_miniscript E) (e_vault E) (e_files E)
        (components (vc_state_path (cfg_vault cfg))))) (w\<lparr>w_fs := s1\<rparr>) = (Inr state, w\<lparr>w_fs := s2\<rparr>)"
      using s2 by (simp add: on_fs_Inr state_path_of_def)
    moreover have "on_result (require_network (e_miniscript E) (e_vault E) (vs_vault state) network)
        (w\<lparr>w_fs := s2\<rparr>) = (Inr (), w\<lparr>w_fs := s2\<rparr>)"
      using assms(5) by simp
    ultimately show ?thesis by (simp add: load_state_def abind_apply)
  qed
  ultimately show ?thesis by (simp add: show_address_def abind_apply print_def)
qed

text \<open>
  C32: the vault that was initialised is the vault in use. After a successful \<open>init-vault\<close>, with calls
  that succeed, codecs that parse what they print, and a state path that is no link and not the
  configuration itself, \<open>address\<close> succeeds and prints the address and descriptor of that very vault.
\<close>

theorem initialised_vault_is_used:
  assumes "run_command E (InitVault force) w = (Inr (), w1)" and "calls_succeed (w_fs w)"
    and "vault_documented (e_miniscript E) (e_vault E)" and "state_json_documented (e_files E)"
    and "fst (load_config (e_vault E) (e_files E) (e_config E) (w_fs w)) = Inr cfg"
    and "writable_path (state_path_of cfg) (w_fs w)" and "state_path_of cfg \<noteq> e_config E"
  shows "\<exists>v w2. w_out w1 = w_out w @ [VaultShown v (state_path_of cfg)] \<and>
    run_command E Address w1 = (Inr (), w2) \<and>
    w_out w2 = w_out w1 @ [AddressShown (vd_receive_address v) (vd_descriptor v)]"
proof -
  let ?p = "state_path_of cfg" and ?M = "e_miniscript E" and ?V = "e_vault E" and ?J = "e_files E"
  obtain network v s t primary override_key agent where
    net: "config_network ?V (cfg_bitcoin cfg) = Inr network" and
    v: "build ?M ?V primary override_key agent (vc_csv_blocks (cfg_vault cfg)) network = Inr v" and
    s: "entry s = entry (w_fs w)" "calls_succeed s" and
    saved: "save_vault_state ?M ?V ?J (new_state v) ?p s = (Inr (), t)" and
    w1: "w_fs w1 = t" "w_out w1 = w_out w @ [VaultShown v ?p]"
    using assms(1,2,5) by (auto simp: run_command_def elim: init_vault_Inr)
  have valid: "validate ?M ?V v = Inr ()" by (rule built_validates [OF assms(3) v])
  have wp: "writable_path ?p s" using assms(6) s(1) writable_path_cong by blast
  from saved obtain raw where raw: "state_to_json ?J (new_state v) = Some raw"
    by (auto simp: save_vault_state_def alift_def elim!: abind_Inr split: if_splits simp: ok_or_Inr_iff)
  have nv: "validate ?M ?V (vs_vault (new_state v)) = Inr ()" using valid by (simp add: new_state_def)
  have json: "utf8_valid (ascii raw)" "state_from_json ?J raw = Some (new_state v)"
    using assms(4) raw by (auto simp: state_json_documented_def)
  obtain s' where "save_vault_state ?M ?V ?J (new_state v) ?p s = (Inr (), s')" "calls_succeed s'"
    "entry s' ?p = Some (Regular (ascii raw) PRIVATE_FILE_MODE)"
    using ok_save_vault_state [OF s(2) wp nv raw] by blast
  with saved have t: "calls_succeed t" "entry t ?p = Some (Regular (ascii raw) PRIVATE_FILE_MODE)"
    by simp_all
  have config: "entry t (e_config E) = entry s (e_config E)"
  proof -
    have "resolve s ?p = Some ?p" using wp by (intro resolve_no_link) (auto simp: writable_path_def)
    moreover have "private_update {q. resolve s ?p = Some q} s t"
      using save_vault_state_update [of s ?p ?M ?V ?J "new_state v"] saved by simp
    moreover have "\<exists>c m. entry s (e_config E) = Some (Regular c m)"
      using assms(2,5) s(1)
      by (auto simp: ok_load_config split: option.splits node.splits)
    ultimately show ?thesis using assms(7) by (auto simp: private_update_def update_step_def dir_step_def)
  qed
  have load: "fst (load_config ?V ?J (e_config E) (w_fs w1)) = Inr cfg"
    using assms(2,5) t(1) config s(1) by (simp add: w1(1) ok_load_config)
  have state: "fst (load_vault_state ?M ?V ?J ?p u) = Inr (new_state v)"
    if "entry u = entry (w_fs w1)" "calls_succeed u" for u
    using saved_state_readable [OF that(2), of ?p raw ?M ?V "new_state v" ?J] that t(2) valid json
    by (simp add: w1(1) new_state_def)
  have req: "require_network ?M ?V (vs_vault (new_state v)) network = Inr ()"
    using built_require_network [OF assms(3) v] by (simp add: new_state_def)
  have "calls_succeed (w_fs w1)" using t(1) w1(1) by simp
  from show_address_run [OF this load net state req] w1(2)
  show ?thesis by (simp add: run_command_def) (auto simp: new_state_def)
qed

section \<open>A session\<close>

text \<open>The session starts with the configuration and the keys only.\<close>

lemma toy_state_json: "state_json_documented (e_files toy_env)"
  using toy_state_text
  by (auto simp: state_json_documented_def toy_env_fields toy_file_lib_def split: if_splits)

lemma toy_state_place: "state_path_of toy_config = toy_state_path"
  by (simp add: state_path_of_def toy_env_fields toy_vault_config_def toy_state_path_def)

lemma toy_place_writable:
  assumes "toy_ready False s"
  shows "writable_path toy_state_path s"
proof -
  have "entry s q = None" if "q \<in> {[''.''], [''.'', ''data''], toy_state_path}" for q
    using assms that by (auto simp: toy_ready_def toy_keys_fs_def entry_put_node toy_fs_empty toy_key_path_def
        key_path_def path_join_def toy_dir_components toy_state_path_parts role_filename_def)
  then show "writable_path toy_state_path s"
    by (auto simp: writable_path_def toy_state_path_parts path_parent_def prefixes_of_def
        less_Suc_eq numeral_2_eq_2)
qed


lemma toy_initialises:
  "\<exists>w'. run_command toy_env (InitVault False) (toy_world toy_keys_fs) = (Inr (), w')"
proof -
  let ?w = "toy_world toy_keys_fs"
  have "toy_ready False (w_fs ?w)"
    by (simp add: toy_ready_def toy_world_def toy_keys_fs_def toy_fs_empty)
  from toy_read_config(2) [OF this] obtain s1 where
    s1: "read_config toy_env ?w = (Inr toy_config, ?w\<lparr>w_fs := s1\<rparr>)" "toy_ready False s1" by blast
  have "entry s1 toy_state_path = None"
    using s1(2) by (simp add: toy_ready_def toy_keys_fs_def entry_put_node toy_fs_empty)
  then have "fst (path_exists toy_state_path s1) = Inr False"
    using s1(2) by (simp add: toy_ready_def ok_path_exists stat_no_link)
  then obtain s2 where s2: "on_fs (lib_call (path_exists toy_state_path)) (?w\<lparr>w_fs := s1\<rparr>) =
      (Inr False, ?w\<lparr>w_fs := s2\<rparr>)" "toy_ready False s2"
    using toy_read [OF reads_only_loads(4), of toy_state_path "?w\<lparr>w_fs := s1\<rparr>" False False] s1(2)
    by auto
  have keys: "\<exists>t. read_key toy_env toy_config role (?w\<lparr>w_fs := s\<rparr>) =
      (Inr \<lparr>vk_role = role, vk_inner = toy_rng role\<rparr>, ?w\<lparr>w_fs := t\<rparr>) \<and> toy_ready False t"
    if "toy_ready False s" for role s
    using toy_read_key [of False "?w\<lparr>w_fs := s\<rparr>" role] that by simp
  obtain s3 s4 s5 where
    s3: "read_key toy_env toy_config PrimaryKey (?w\<lparr>w_fs := s2\<rparr>) =
      (Inr \<lparr>vk_role = PrimaryKey, vk_inner = [1]\<rparr>, ?w\<lparr>w_fs := s3\<rparr>)" and
    s4: "read_key toy_env toy_config OverrideKey (?w\<lparr>w_fs := s3\<rparr>) =
      (Inr \<lparr>vk_role = OverrideKey, vk_inner = [2]\<rparr>, ?w\<lparr>w_fs := s4\<rparr>)" and
    s5: "read_key toy_env toy_config AgentKey (?w\<lparr>w_fs := s4\<rparr>) =
      (Inr \<lparr>vk_role = AgentKey, vk_inner = [3]\<rparr>, ?w\<lparr>w_fs := s5\<rparr>)" and r5: "toy_ready False s5"
    using keys [OF s2(2)] keys toy_rng_def by (metis key_role.simps(7,8,9))
  obtain s6 where s6: "save_vault_state toy_miniscript toy_spend_lib (e_files toy_env) toy_state
      toy_state_path s5 = (Inr (), s6)"
    using ok_save_vault_state [OF _ toy_place_writable [OF r5] toy_state_valid, of "e_files toy_env"]
      r5 by (auto simp: toy_ready_def toy_env_fields toy_state_facts)
  have pk: "public_key_of toy_spend_lib \<lparr>vk_role = role, vk_inner = [n]\<rparr> = toy_key n" for role n
    by (simp add: public_key_of_def toy_fields toy_key_def)
  have net: "network_of toy_env toy_config (?w\<lparr>w_fs := s2\<rparr>) = (Inr Regtest, ?w\<lparr>w_fs := s2\<rparr>)"
    by (simp add: network_of_def toy_env_fields toy_network_of)
  have built: "on_result (build toy_miniscript toy_spend_lib (toy_key 1) (toy_key 2) (toy_key 3) 10
      Regtest) (?w\<lparr>w_fs := s5\<rparr>) = (Inr toy_vault, ?w\<lparr>w_fs := s5\<rparr>)"
    using toy_spend_vault by simp
  have saved: "on_fs (lib_call (save_vault_state toy_miniscript toy_spend_lib (e_files toy_env)
      (new_state toy_vault) toy_state_path)) (?w\<lparr>w_fs := s5\<rparr>) = (Inr (), ?w\<lparr>w_fs := s6\<rparr>)"
    using s6 by (simp add: on_fs_Inr toy_state_def)
  have fields: "components (vc_state_path toy_vault_config) = toy_state_path"
    "vc_csv_blocks toy_vault_config = 10"
    by (simp_all add: toy_vault_config_def toy_state_path_def)
  have there: "abind (on_fs (lib_call (path_exists toy_state_path))) f (?w\<lparr>w_fs := s1\<rparr>) =
      f False (?w\<lparr>w_fs := s2\<rparr>)" for f :: "bool \<Rightarrow> (string list, unit) command_action"
    using s2(1) by (rule abind_apply(2))
  show ?thesis
    using s1(1) net s3 s4 s5 built saved
    by (simp add: run_command_def init_vault_def Let_def abind_apply there toy_env_fields fields pk print_def)
qed

theorem initialised_vault_is_used_witness:
  "\<exists>w1 v w2. run_command toy_env (InitVault False) (toy_world toy_keys_fs) = (Inr (), w1) \<and>
     w_out w1 = [VaultShown v toy_state_path] \<and>
     run_command toy_env Address w1 = (Inr (), w2) \<and>
     w_out w2 = [VaultShown v toy_state_path, AddressShown (vd_receive_address v) (vd_descriptor v)]"
proof -
  obtain w1 where run: "run_command toy_env (InitVault False) (toy_world toy_keys_fs) = (Inr (), w1)"
    using toy_initialises by blast
  have ready: "toy_ready False (w_fs (toy_world toy_keys_fs))"
    by (simp add: toy_ready_def toy_world_def toy_keys_fs_def toy_fs_empty)
  have "calls_succeed (w_fs (toy_world toy_keys_fs))" using ready by (simp add: toy_ready_def)
  moreover have "fst (load_config (e_vault toy_env) (e_files toy_env) (e_config toy_env)
      (w_fs (toy_world toy_keys_fs))) = Inr toy_config"
    using toy_read_config(1) [OF ready] by (simp add: toy_env_fields)
  moreover have "vault_documented (e_miniscript toy_env) (e_vault toy_env)"
    using toy_spend_documented by (simp add: toy_env_fields)
  ultimately show ?thesis
    using initialised_vault_is_used [OF run, of toy_config] toy_state_json run
      toy_place_writable [OF ready]
    by (auto simp: toy_state_place toy_env_fields(6) toy_world_def)
qed

end
