(* ===== verification/Tests_Checks.thy ===== *)
theory Tests_Checks
  imports Evaluate_Records
begin

text \<open>
  The unit tests of the single-file checks of the policy crate, run on the model: \<open>error.rs\<close>,
  \<open>csv.rs\<close>, \<open>velocity.rs\<close>, \<open>structure.rs\<close>, \<open>confirm.rs\<close>, \<open>pin.rs\<close> and \<open>facts.rs\<close>. A test is a
  boolean with the name of the Rust function, the conjunction of its assertions; that it holds is
  a lemma. The crates the tests use (hashes, signatures, serialisation) are instantiated by simple
  functions with the behaviour the test relies on.
\<close>

section \<open>Assertions\<close>

definition succeeds :: "'a policy_result \<Rightarrow> bool" where
  "succeeds r = (case r of Inr _ \<Rightarrow> True | Inl _ \<Rightarrow> False)"

definition fails_with :: "policy_error_code \<Rightarrow> 'a policy_result \<Rightarrow> bool" where
  "fails_with c r = (case r of Inl (Reject c') \<Rightarrow> c' = c | _ \<Rightarrow> False)"

definition gives :: "'a \<Rightarrow> 'a policy_result \<Rightarrow> bool" where
  "gives x r = (case r of Inr y \<Rightarrow> y = x | Inl _ \<Rightarrow> False)"

lemma assertions [simp]:
  "succeeds (Inr x)" "\<not> succeeds (Inl e)" "fails_with c (Inl (Reject c')) \<longleftrightarrow> c' = c"
  "\<not> fails_with c (Inr x)" "gives x (Inr y) \<longleftrightarrow> y = x" "\<not> gives x (Inl e)"
  by (simp_all add: succeeds_def fails_with_def gives_def)

section \<open>Error codes\<close>

definition required_codes :: "string list" where
  "required_codes =
     [''PSBT_PARSE'', ''UNKNOWN_FIELD'', ''SIGHASH'', ''DESCRIPTOR_MISMATCH'', ''KEY_SUBSTITUTION'',
      ''WRONG_NETWORK'', ''WRONG_GENESIS'', ''INPUT_SCRIPT'', ''FOREIGN_INPUT'', ''NOT_RECOVERY_PATH'',
      ''PREVOUT_MISSING'', ''PREVOUT_MISMATCH'', ''CSV_IMMATURE_DEPTH'', ''CSV_IMMATURE_WALLCLOCK'',
      ''SEQUENCE'', ''CHANGE'', ''FEE'', ''DUST'', ''LOCKTIME'', ''VELOCITY'', ''REPLAY'',
      ''REPLAY_CONFLICT'', ''CONFIRM_REQUIRED'', ''CONFIRM_INVALID'', ''AUTH'', ''INTERNAL'',
      ''FEE_BUMP_INVALID'']"

definition error_codes_are_stable_and_enumerable :: bool where
  "error_codes_are_stable_and_enumerable \<longleftrightarrow>
     length ALL_codes = 27 \<and> distinct (map as_str ALL_codes) \<and>
     list_all (\<lambda>code. gives code (from_str (as_str code))) ALL_codes \<and>
     list_all (\<lambda>required. required \<in> set (map as_str ALL_codes)) required_codes"

lemma error_tests: error_codes_are_stable_and_enumerable
proof -
  have "gives code (from_str (as_str code))" for code
    by (simp add: from_str_def find_as_str)
  moreover have "distinct (map as_str ALL_codes)"
    using ALL_codes_distinct as_str_inj by (simp add: distinct_map inj_on_def)
  ultimately show ?thesis
    by (simp add: error_codes_are_stable_and_enumerable_def list_all_iff required_codes_def)
      (simp add: ALL_codes_def)
qed

section \<open>CSV maturity\<close>

definition CSV :: u32 where "CSV = CSV_BLOCKS_DEFAULT"

definition MARGIN :: u32 where "MARGIN = SAFETY_MARGIN_BLOCKS"

definition NEED_DEPTH :: u32 where "NEED_DEPTH = CSV + MARGIN"

definition NEED_SECS :: u64 where
  "NEED_SECS = (ucast CSV + ucast MARGIN) * WALL_CLOCK_SECONDS_PER_BLOCK"

definition depth_off_by_one :: bool where
  "depth_off_by_one \<longleftrightarrow>
     gives 1 (csv_depth 100 100) \<and> gives 2 (csv_depth 100 99) \<and> \<not> succeeds (csv_depth 100 101) \<and>
     \<not> csv_depth_is_mature (NEED_DEPTH - 1) CSV MARGIN \<and>
     csv_depth_is_mature NEED_DEPTH CSV MARGIN \<and> csv_depth_is_mature (NEED_DEPTH + 1) CSV MARGIN"

definition wall_clock_off_by_one :: bool where
  "wall_clock_off_by_one \<longleftrightarrow>
     (let t0 = 1700000000
      in gives False (wall_clock_is_mature (t0 + NEED_SECS - 1) t0 CSV MARGIN) \<and>
         gives True (wall_clock_is_mature (t0 + NEED_SECS) t0 CSV MARGIN) \<and>
         gives True (wall_clock_is_mature (t0 + NEED_SECS + 1) t0 CSV MARGIN))"

definition depth_ok_wall_clock_fail :: bool where
  "depth_ok_wall_clock_fail \<longleftrightarrow>
     (let confirm_height = 1; tip = confirm_height + NEED_DEPTH - 1;
          t_confirm = 1700000000; now = t_confirm + NEED_SECS - 1
      in fails_with CsvImmatureWallclock
           (check_csv_maturity tip confirm_height now t_confirm CSV MARGIN) \<and>
         gives True (rbind (csv_depth tip confirm_height)
           (\<lambda>depth. Inr (csv_depth_is_mature depth CSV MARGIN))))"

definition wall_clock_ok_depth_fail :: bool where
  "wall_clock_ok_depth_fail \<longleftrightarrow>
     (let confirm_height = 10; tip = confirm_height + (NEED_DEPTH - 1) - 1;
          t_confirm = 1700000000; now = t_confirm + NEED_SECS + 86400
      in fails_with CsvImmatureDepth
           (check_csv_maturity tip confirm_height now t_confirm CSV MARGIN) \<and>
         gives True (wall_clock_is_mature now t_confirm CSV MARGIN))"

definition both_ok_at_exact_thresholds :: bool where
  "both_ok_at_exact_thresholds \<longleftrightarrow>
     (let confirm_height = 50; tip = confirm_height + NEED_DEPTH - 1;
          t_confirm = 1800000000; now = t_confirm + NEED_SECS
      in succeeds (check_csv_maturity tip confirm_height now t_confirm CSV MARGIN))"

definition thirty_seven_day_ux_bound :: bool where
  "thirty_seven_day_ux_bound \<longleftrightarrow>
     (let seconds = (ucast CSV + ucast MARGIN) * WALL_CLOCK_SECONDS_PER_BLOCK
      in seconds = (3196800 :: u64) \<and> seconds div 86400 = 37 \<and> NEED_SECS = 3196800 \<and>
         gives 3196800 (wall_clock_deadline_unix 0 CSV MARGIN))"

lemmas csv_test_constants = NEED_DEPTH_def NEED_SECS_def CSV_def MARGIN_def

lemma csv_tests:
  depth_off_by_one wall_clock_off_by_one depth_ok_wall_clock_fail wall_clock_ok_depth_fail
  both_ok_at_exact_thresholds thirty_seven_day_ux_bound
  by (simp_all add: depth_off_by_one_def wall_clock_off_by_one_def depth_ok_wall_clock_fail_def
      wall_clock_ok_depth_fail_def both_ok_at_exact_thresholds_def thirty_seven_day_ux_bound_def
      csv_test_constants csv_code checked_code)

section \<open>Velocity\<close>

definition per_signature_boundary :: bool where
  "per_signature_boundary \<longleftrightarrow>
     succeeds (check_velocity_per_signature VELOCITY_PER_SIG_SATS) \<and>
     succeeds (check_velocity_per_signature 0) \<and>
     fails_with Velocity (check_velocity_per_signature (VELOCITY_PER_SIG_SATS + 1))"

definition window_includes_this_external_and_trailing_144 :: bool where
  "window_includes_this_external_and_trailing_144 \<longleftrightarrow>
     (let tip = 10000;
          in_window = \<lparr>sample_tip_height = tip - 143, sample_external_sats = 40000000\<rparr>
      in succeeds (check_velocity_window [in_window] tip 10000000) \<and>
         fails_with Velocity (check_velocity_window [in_window] tip 10000001))"

definition samples_before_window_are_ignored :: bool where
  "samples_before_window_are_ignored \<longleftrightarrow>
     (let tip = 10000;
          old = \<lparr>sample_tip_height = tip - 144, sample_external_sats = 50000000\<rparr>
      in succeeds (check_velocity_window [old] tip 10000000))"

definition exact_50m_window_is_allowed :: bool where
  "exact_50m_window_is_allowed \<longleftrightarrow>
     (let tip = 200;
          samples = [\<lparr>sample_tip_height = tip, sample_external_sats = 20000000\<rparr>,
                     \<lparr>sample_tip_height = tip - 10, sample_external_sats = 20000000\<rparr>]
      in succeeds (check_velocity_window samples tip 10000000))"

lemma velocity_tests:
  per_signature_boundary window_includes_this_external_and_trailing_144
  samples_before_window_are_ignored exact_50m_window_is_allowed
  by (simp_all add: per_signature_boundary_def window_includes_this_external_and_trailing_144_def
      samples_before_window_are_ignored_def exact_50m_window_is_allowed_def
      check_velocity_per_signature_def check_velocity_window_def velocity_code checked_code
      saturating_sub_def)

section \<open>The crates of the tests\<close>

text \<open>
  A hash that keeps its input, transaction ids made of the output values, a checksum as the
  signature of the override key \<open>[2]\<close>, and for the serialised PSBTs of a test a table from their
  bytes: \<open>deserialize\<close> is the inverse of \<open>serialize\<close> and fails on all other bytes.
\<close>

definition OP_TRUE :: script where "OP_TRUE = [0x51]"

definition OP_RETURN :: script where "OP_RETURN = [0x6a]"

definition null_outpoint :: out_point where
  "null_outpoint = \<lparr>op_txid = replicate 32 0, op_vout = 0xFFFFFFFF\<rparr>"

definition test_sign :: "bytes \<Rightarrow> bytes" where
  "test_sign digest =
     map2 (+) (take 64 (digest @ replicate 64 0)) (take 64 (drop 64 digest @ replicate 64 0))"

definition sighash_consensus :: "ecdsa_sighash_type \<Rightarrow> u32" where
  "sighash_consensus ty =
     (case ty of SighashAll \<Rightarrow> 1 | SighashNone \<Rightarrow> 2 | SighashSingle \<Rightarrow> 3
      | AllPlusAnyoneCanPay \<Rightarrow> 0x81 | NonePlusAnyoneCanPay \<Rightarrow> 0x82 | SinglePlusAnyoneCanPay \<Rightarrow> 0x83)"

definition test_lib :: "(bytes \<times> psbt) list \<Rightarrow> bitcoin_lib" where
  "test_lib serialized =
     \<lparr>sha256 = (\<lambda>b. b), psbt_deserialize = map_of serialized,
      compute_txid = (\<lambda>tx. take 32 (concat (map (to_be_bytes \<circ> txo_value) (tx_output tx)) @ replicate 32 0)),
      consensus_encode = (\<lambda>out. Some (to_be_bytes (txo_value out) @ txo_script_pubkey out)),
      minimal_non_dust = (\<lambda>script. if length script = 22 then 294 else 330),
      to_relative_lock_time = bip68_lock, sequence_from_height = (\<lambda>h. ucast h),
      psbt_sighash_from = sighash_consensus, ecdsa_from_compact = Some,
      verify_ecdsa = (\<lambda>digest sig pk. pk = [2] \<and> sig = test_sign digest),
      genesis_block_hash = (\<lambda>network. replicate 31 0 @ [if network = Regtest then 6 else 7])\<rparr>"

text \<open>\<open>Psbt::from_unsigned_tx\<close> gives one empty map per input and output.\<close>

definition empty_input :: psbt_input where
  "empty_input =
     \<lparr>non_witness_utxo = None, witness_utxo = None, partial_sigs = [], psbt_sighash_type = None,
      redeem_script = None, witness_script = None, bip32_derivation = [], final_script_sig = None,
      final_script_witness = None, ripemd160_preimages = [], sha256_preimages = [],
      hash160_preimages = [], hash256_preimages = [], tap_key_sig = None, tap_script_sigs = [],
      tap_scripts = [], tap_key_origins = [], tap_internal_key = None, tap_merkle_root = None,
      in_proprietary = [], in_unknown = []\<rparr>"

definition from_unsigned_tx :: "transaction \<Rightarrow> psbt" where
  "from_unsigned_tx tx =
     \<lparr>psbt_version = 0, unsigned_tx = tx, psbt_inputs = map (\<lambda>_. empty_input) (tx_input tx),
      psbt_outputs = map (\<lambda>_. spend_output) (tx_output tx), psbt_xpub = [], psbt_proprietary = [],
      psbt_unknown = []\<rparr>"

lemmas test_crates =
  OP_TRUE_def OP_RETURN_def null_outpoint_def sighash_consensus_def test_lib_def empty_input_def
  from_unsigned_tx_def spend_output_def

section \<open>Structure\<close>

definition dummy_tx :: "lock_time \<Rightarrow> u32 \<Rightarrow> transaction" where
  "dummy_tx locktime sequence =
     \<lparr>tx_version = 2, tx_lock_time = locktime,
      tx_input = [\<lparr>previous_output = null_outpoint, script_sig = [], tx_sequence = sequence,
                   tx_witness = []\<rparr>],
      tx_output = [\<lparr>txo_value = 1000, txo_script_pubkey = OP_TRUE\<rparr>]\<rparr>"

definition psbt_from_tx :: "transaction \<Rightarrow> psbt" where
  "psbt_from_tx tx =
     (let psbt = from_unsigned_tx tx
      in psbt\<lparr>psbt_inputs := (psbt_inputs psbt)[0 := (psbt_inputs psbt ! 0)
           \<lparr>psbt_sighash_type := Some (psbt_sighash_from (test_lib []) SighashAll),
            witness_utxo := Some \<lparr>txo_value = 2000, txo_script_pubkey = OP_TRUE\<rparr>\<rparr>]\<rparr>)"

definition recovery_psbt :: psbt where
  "recovery_psbt =
     psbt_from_tx (dummy_tx LOCK_TIME_ZERO (sequence_from_height (test_lib []) 10))"

definition parse_psbt_v0_success :: bool where
  "parse_psbt_v0_success \<longleftrightarrow>
     (case parse_psbt_v0 (test_lib [([1], recovery_psbt)]) [1] of
        Inr parsed \<Rightarrow> psbt_version parsed = 0 \<and> length (tx_input (unsigned_tx parsed)) = 1
      | Inl _ \<Rightarrow> False)"

definition parse_rejects_malformed :: bool where
  "parse_rejects_malformed \<longleftrightarrow>
     fails_with PsbtParse (parse_psbt_v0 (test_lib []) (ascii ''not-a-psbt''))"

definition parse_rejects_non_v0 :: bool where
  "parse_rejects_non_v0 \<longleftrightarrow>
     fails_with PsbtParse
       (parse_psbt_v0 (test_lib [([1], recovery_psbt\<lparr>psbt_version := 2\<rparr>)]) [1])"

definition locktime_must_be_zero :: bool where
  "locktime_must_be_zero \<longleftrightarrow>
     succeeds (require_locktime_zero LOCK_TIME_ZERO) \<and>
     fails_with Locktime (require_locktime_zero (Blocks 1)) \<and>
     fails_with Locktime (require_locktime_zero (Seconds 500000000))"

definition sighash_all_only :: bool where
  "sighash_all_only \<longleftrightarrow>
     succeeds (require_sighash_all SighashAll) \<and>
     list_all (\<lambda>ty. fails_with Sighash (require_sighash_all ty))
       [SighashNone, SighashSingle, AllPlusAnyoneCanPay, NonePlusAnyoneCanPay,
        SinglePlusAnyoneCanPay]"

definition sighash_missing_on_psbt_is_rejected :: bool where
  "sighash_missing_on_psbt_is_rejected \<longleftrightarrow>
     (let input = psbt_inputs recovery_psbt ! 0;
          psbt = recovery_psbt\<lparr>psbt_inputs := [input\<lparr>psbt_sighash_type := None\<rparr>]\<rparr>
      in fails_with Sighash (require_sighash_all_on_psbt (test_lib []) psbt))"

definition sighash_none_on_psbt_is_rejected :: bool where
  "sighash_none_on_psbt_is_rejected \<longleftrightarrow>
     (let input = psbt_inputs recovery_psbt ! 0; ty = psbt_sighash_from (test_lib []) SighashNone;
          psbt = recovery_psbt\<lparr>psbt_inputs := [input\<lparr>psbt_sighash_type := Some ty\<rparr>]\<rparr>
      in fails_with Sighash (require_sighash_all_on_psbt (test_lib []) psbt))"

definition foreign_script_rejected :: bool where
  "foreign_script_rejected \<longleftrightarrow>
     (let vault = OP_TRUE; other = OP_RETURN
      in succeeds (require_all_vault_input_scripts [vault, vault] vault) \<and>
         fails_with ForeignInput (require_all_vault_input_scripts [vault, other] vault))"

definition recovery_sequence_must_cover_csv :: bool where
  "recovery_sequence_must_cover_csv \<longleftrightarrow>
     (let csv = 4320; L = test_lib []; height = sequence_from_height L
      in succeeds (require_recovery_sequence L (height (ucast csv)) csv) \<and>
         succeeds (require_recovery_sequence L (height (ucast csv + 1)) csv) \<and>
         fails_with NotRecoveryPath (require_recovery_sequence L (height (ucast csv - 1)) csv) \<and>
         fails_with NotRecoveryPath (require_recovery_sequence L 0xFFFFFFFF csv) \<and>
         fails_with NotRecoveryPath (require_recovery_sequence L (0x400000 + csv) csv))"

lemmas structure_test_defs =
  dummy_tx_def psbt_from_tx_def recovery_psbt_def parse_psbt_v0_success_def
  parse_rejects_malformed_def parse_rejects_non_v0_def locktime_must_be_zero_def
  sighash_all_only_def sighash_missing_on_psbt_is_rejected_def
  sighash_none_on_psbt_is_rejected_def foreign_script_rejected_def
  recovery_sequence_must_cover_csv_def require_all_vault_input_scripts_def

lemma structure_tests:
  parse_psbt_v0_success parse_rejects_malformed parse_rejects_non_v0 locktime_must_be_zero
  sighash_all_only sighash_missing_on_psbt_is_rejected sighash_none_on_psbt_is_rejected
  foreign_script_rejected recovery_sequence_must_cover_csv
  by (simp_all add: structure_test_defs structure_code test_crates checked_code)

section \<open>Confirmation tokens\<close>

definition test_key :: "u8 \<Rightarrow> public_key" where
  "test_key n = \<lparr>pk_compressed = True, pk_inner = [n]\<rparr>"

definition sign_compact :: "confirm_binding \<Rightarrow> bytes" where
  "sign_compact binding = test_sign (confirm_message (test_lib []) binding)"

abbreviation verify_override :: "bytes \<Rightarrow> confirm_binding \<Rightarrow> unit policy_result" where
  "verify_override token binding \<equiv> verify_confirm_token (test_lib []) token binding (test_key 2)"

definition confirm_keys_off_external_not_fee :: bool where
  "confirm_keys_off_external_not_fee \<longleftrightarrow>
     \<not> confirm_required (OOB_CONFIRM_SATS - 1) \<and> confirm_required OOB_CONFIRM_SATS"

definition confirm_threshold_table_ci21 :: bool where
  "confirm_threshold_table_ci21 \<longleftrightarrow>
     \<not> confirm_required 4999999 \<and> confirm_required 5000000 \<and> confirm_required 10000000"

definition preimage_matches_locked_hex :: bool where
  "preimage_matches_locked_hex \<longleftrightarrow>
     length CONFIRM_DOMAIN = CONFIRM_DOMAIN_LEN \<and> CONFIRM_DOMAIN_LEN = 19 \<and>
     confirm_preimage vector_binding = vec_preimage"

definition known_valid_compact64_verifies :: bool where
  "known_valid_compact64_verifies \<longleftrightarrow>
     (let compact = sign_compact vector_binding
      in length compact = 64 \<and> succeeds (verify_override compact vector_binding))"

definition flipped_fields_invalidate_token :: bool where
  "flipped_fields_invalidate_token \<longleftrightarrow>
     (let binding = vector_binding; compact = sign_compact binding;
          pre = (confirm_preimage binding)[length CONFIRM_DOMAIN := 2];
          uuid = binding\<lparr>cb_request_id := (cb_request_id binding)
            [0 := xor (cb_request_id binding ! 0) 1]\<rparr>;
          txid = binding\<lparr>cb_txid_display := rev (cb_txid_display binding)\<rparr>;
          amount = binding\<lparr>cb_external_amount_sats := 5000001\<rparr>;
          genesis = binding\<lparr>cb_genesis_internal := rev (cb_genesis_internal binding)\<rparr>
      in \<not> verify_ecdsa (test_lib []) pre compact (pk_inner (test_key 2)) \<and>
         fails_with ConfirmInvalid (verify_override compact uuid) \<and>
         fails_with ConfirmInvalid (verify_override compact txid) \<and>
         fails_with ConfirmInvalid (verify_override compact amount) \<and>
         fails_with ConfirmInvalid (verify_override compact genesis))"

definition txid_display_is_hex_decode_of_rpc_string :: bool where
  "txid_display_is_hex_decode_of_rpc_string \<longleftrightarrow>
     (let txid = rev vec_txid_display
      in txid_display_bytes txid = vec_txid_display \<and> txid \<noteq> txid_display_bytes txid)"

definition wrong_length_token_is_confirm_invalid :: bool where
  "wrong_length_token_is_confirm_invalid \<longleftrightarrow>
     fails_with ConfirmInvalid (verify_override (replicate 65 0) vector_binding)"

lemmas confirm_test_defs =
  confirm_keys_off_external_not_fee_def confirm_threshold_table_ci21_def confirm_required_def
  preimage_matches_locked_hex_def known_valid_compact64_verifies_def
  txid_display_is_hex_decode_of_rpc_string_def wrong_length_token_is_confirm_invalid_def
  sign_compact_def test_key_def OOB_CONFIRM_SATS_def CONFIRM_DOMAIN_LEN_def vec_txid_display_def

lemma length_test_sign: "length (test_sign digest) = 64"
  by (simp add: test_sign_def)

lemma confirm_tests:
  confirm_keys_off_external_not_fee confirm_threshold_table_ci21 preimage_matches_locked_hex
  known_valid_compact64_verifies txid_display_is_hex_decode_of_rpc_string
  wrong_length_token_is_confirm_invalid
  by (simp_all add: confirm_test_defs confirm_code length_test_sign length_confirm_domain
      confirm_message_def test_lib_def confirm_preimage_matches_vector Let_def)

lemma flipped_fields_test: flipped_fields_invalidate_token
  by (simp add: flipped_fields_invalidate_token_def sign_compact_def confirm_code
      length_test_sign confirm_message_def test_lib_def test_key_def Let_def
      test_sign_def confirm_preimage_def vector_binding_def CONFIRM_DOMAIN_def ascii_def
      CONFIRM_LAYOUT_VERSION_def to_be_bytes_def vec_request_id_def vec_txid_display_def
      vec_genesis_internal_def vec_external_sats_def drop_bit_eq_div)

section \<open>Pins and facts\<close>

text \<open>A policy compiler that keeps the policy string, with a P2WSH script of 34 bytes.\<close>

definition test_miniscript :: "(string, string, string) miniscript_lib" where
  "test_miniscript =
     \<lparr>policy_from_str = Some, policy_compile = Some,
      descriptor_new_wsh = (\<lambda>ms. Some (''wsh('' @ ms @ '')'')), descriptor_sanity_check = (\<lambda>_. True),
      descriptor_script_pubkey = (\<lambda>_. 0 # 32 # replicate 32 7),
      descriptor_explicit_script = (\<lambda>_. Some [0x52, 0xae]), descriptor_to_string = (\<lambda>d. d),
      public_key_to_string = (\<lambda>pk. map (char_of \<circ> unat) (pk_inner pk))\<rparr>"

definition provision_for_test :: "network \<Rightarrow> u32 \<Rightarrow> agent_pin policy_result" where
  "provision_for_test network csv =
     provision (test_lib []) test_miniscript network (test_key 1) (test_key 2) (test_key 3) csv"

definition provision_rejects_mainnet :: bool where
  "provision_rejects_mainnet \<longleftrightarrow> fails_with WrongNetwork (provision_for_test Bitcoin 4320)"

definition provision_builds_canonical_wsh_and_locked_constants :: bool where
  "provision_builds_canonical_wsh_and_locked_constants \<longleftrightarrow>
     (case provision_for_test Regtest 10 of
        Inr pin \<Rightarrow>
          take 13 (pin_descriptor pin) = ''wsh(thresh(2,'' \<and> pin_csv_blocks pin = 10 \<and>
          pin_safety_margin pin = SAFETY_MARGIN_BLOCKS \<and>
          pin_velocity_per_sig_sats pin = VELOCITY_PER_SIG_SATS \<and>
          pin_velocity_per_144_sats pin = VELOCITY_PER_144_SATS \<and>
          pin_confirm_threshold_sats pin = OOB_CONFIRM_SATS \<and>
          pin_wall_clock_seconds_per_block pin = WALL_CLOCK_SECONDS_PER_BLOCK \<and>
          pin_genesis_hash pin = genesis_block_hash (test_lib []) Regtest \<and>
          length (pin_script_pubkey pin) = 34 \<and> pin_witness_script pin \<noteq> [] \<and>
          succeeds (receive_address (\<lambda>script network. Some script) pin)
      | Inl _ \<Rightarrow> False)"

definition provision_rejects_zero_csv :: bool where
  "provision_rejects_zero_csv \<longleftrightarrow> fails_with DescriptorMismatch (provision_for_test Regtest 0)"

definition test_constructors_are_the_only_way_to_build_lying_views :: bool where
  "test_constructors_are_the_only_way_to_build_lying_views \<longleftrightarrow>
     (let view = view_from_test_facts (replicate 32 0) 1 0
            [fact_from_test_facts null_outpoint 1 [] 1 0 True]
      in visible_unspent (chain_prevouts view ! 0) \<and> is_ok for_test_verified \<and>
         \<not> is_ok for_test_rejected)"

lemmas pin_code =
  provision_def compile_vault_descriptor_def vault_policy_str_def receive_address_def

lemma pin_tests:
  provision_rejects_mainnet provision_builds_canonical_wsh_and_locked_constants
  provision_rejects_zero_csv test_constructors_are_the_only_way_to_build_lying_views
  by (simp_all add: provision_rejects_mainnet_def provision_rejects_zero_csv_def
      provision_builds_canonical_wsh_and_locked_constants_def provision_for_test_def
      test_constructors_are_the_only_way_to_build_lying_views_def pin_code test_miniscript_def
      test_key_def test_facts is_ok_def Let_def)

end
