(* ===== verification/Tests_Replay.thy ===== *)
theory Tests_Replay
  imports Tests_Checks Replay_Progress
begin

text \<open>
  The unit tests of \<open>replay.rs\<close>, run on the model over a disk whose calls succeed: the store that
  \<open>init\<close> creates, commits, the verdicts of preflight, and reopening.
\<close>

section \<open>Fixtures\<close>

definition replay_outpoint :: "u32 \<Rightarrow> out_point" where
  "replay_outpoint n = \<lparr>op_txid = ucast n # replicate 31 0, op_vout = n\<rparr>"

definition replay_txout :: "u64 \<Rightarrow> script \<Rightarrow> tx_out" where
  "replay_txout sats script = \<lparr>txo_value = sats, txo_script_pubkey = script\<rparr>"

text \<open>
  A hash of 32 bytes, which a stored record must have. The \<open>unwrap\<close> of \<open>outputs_commitment\<close> cannot
  panic: encoding never fails here.
\<close>

definition record_lib :: bitcoin_lib where
  "record_lib = (test_lib [])\<lparr>sha256 := (\<lambda>b. take 32 (b @ replicate 32 0))\<rparr>"

definition record_with_outputs ::
    "u8 \<Rightarrow> u8 \<Rightarrow> u32 list \<Rightarrow> tx_out list \<Rightarrow> bytes \<Rightarrow> replay_record" where
  "record_with_outputs req replay ops outputs payload =
     \<lparr>rr_request_id = req # replicate 15 0, rr_replay_id = replay # replicate 31 0,
      rr_psbt_txid = req # replicate 31 0, rr_outpoints = map replay_outpoint ops,
      rr_outputs = outputs, rr_vault_script = OP_RETURN,
      rr_outputs_commitment = (case outputs_commitment record_lib outputs of
        Inr h \<Rightarrow> h | Inl _ \<Rightarrow> []),
      rr_payload = Signed payload\<rparr>"

definition simple_record :: "u8 \<Rightarrow> u8 \<Rightarrow> u32 \<Rightarrow> u64 \<Rightarrow> bytes \<Rightarrow> replay_record" where
  "simple_record req replay op external_sats payload =
     record_with_outputs req replay [op] [replay_txout external_sats OP_TRUE] payload"

definition spend_with_change ::
    "u8 \<Rightarrow> u8 \<Rightarrow> u32 list \<Rightarrow> u64 \<Rightarrow> u64 \<Rightarrow> bytes \<Rightarrow> replay_record" where
  "spend_with_change req replay ops external change payload =
     record_with_outputs req replay ops
       (replay_txout external OP_TRUE #
        (if 0 < change then [replay_txout change OP_RETURN] else [])) payload"

lemmas replay_fixtures =
  replay_outpoint_def replay_txout_def record_with_outputs_def simple_record_def
  spend_with_change_def OP_TRUE_def OP_RETURN_def outputs_commitment_def to_be_bytes_def
  drop_bit_eq_div record_lib_def

text \<open>A freshly created store on a working disk, as every test starts with.\<close>

definition fresh_store :: "replay_store policy_result \<times> disk" where
  "fresh_store = init_store demo_codec (demo_blank (\<lambda>_. IoOk))"

definition with_store :: "(replay_store \<Rightarrow> disk \<Rightarrow> bool) \<Rightarrow> bool" where
  "with_store test = (case fresh_store of (Inr store, d) \<Rightarrow> test store d | _ \<Rightarrow> False)"

text \<open>A commit that must succeed, and what follows it.\<close>

definition commit_then ::
    "replay_store \<Rightarrow> replay_record \<Rightarrow> disk \<Rightarrow> replay_verdict \<Rightarrow>
     (replay_store \<Rightarrow> disk \<Rightarrow> bool) \<Rightarrow> bool" where
  "commit_then store r d verdict test =
     (case commit demo_codec store r d of
        (Inr v, store', d') \<Rightarrow> v = verdict \<and> test store' d'
      | _ \<Rightarrow> False)"

lemma fresh_store_run:
  obtains d where "fresh_store = (Inr \<lparr>records = []\<rparr>, d)" "io_plan d = (\<lambda>_. IoOk)"
    "sessions demo_codec \<lparr>records = []\<rparr> [] d"
proof -
  obtain d where d: "fresh_store = (Inr \<lparr>records = []\<rparr>, d)" "io_plan d = (\<lambda>_. IoOk)"
    by (simp add: fresh_store_def demo_run_defs)
  with sessions.created [OF demo_blank] that show ?thesis unfolding fresh_store_def by blast
qed

lemma with_store_run:
  assumes "\<And>d. io_plan d = (\<lambda>_. IoOk) \<Longrightarrow> test \<lparr>records = []\<rparr> d"
  shows "with_store test"
proof -
  obtain d where d: "fresh_store = (Inr \<lparr>records = []\<rparr>, d)" "io_plan d = (\<lambda>_. IoOk)"
    by (rule fresh_store_run)
  show ?thesis unfolding with_store_def d(1) using assms [OF d(2)] by simp
qed

lemma commit_then_run:
  assumes "io_plan d = (\<lambda>_. IoOk)" and "preflight st r = Inr v" and "v = Fresh \<or> v = FeeBump"
    and "rr_payload r = Signed raw"
    and "\<And>d'. io_plan d' = (\<lambda>_. IoOk) \<Longrightarrow> test (st\<lparr>records := records st @ [r]\<rparr>) d'"
  shows "commit_then st r d v test"
proof -
  have "require_signed_payload r = Inr ()" using assms(4) by (simp add: require_signed_payload_def)
  from commit_succeeds [OF demo_codec_total assms(1-3) this] obtain d' where
    run: "commit demo_codec st r d = (Inr v, st\<lparr>records := records st @ [r]\<rparr>, d')" by blast
  with commit_frame [OF run] assms(1,5) show ?thesis by (simp add: commit_then_def)
qed

section \<open>The tests\<close>

definition ci24_idempotent_retry_returns_cached_payload :: bool where
  "ci24_idempotent_retry_returns_cached_payload \<longleftrightarrow>
     (let first = simple_record 1 1 7 1000 (ascii ''signed-psbt-v1'');
          cached = Idempotent (ascii ''signed-psbt-v1'')
      in with_store (\<lambda>store d. commit_then store first d Fresh (\<lambda>store d.
           commit_then store first d cached (\<lambda>store d.
           gives cached (rbind (fst (open_store demo_codec d)) (\<lambda>store. preflight store first))))))"

definition ci24_replay_conflict_same_request_different_psbt :: bool where
  "ci24_replay_conflict_same_request_different_psbt \<longleftrightarrow>
     with_store (\<lambda>store d.
       commit_then store (simple_record 1 1 7 1000 (ascii ''a'')) d Fresh (\<lambda>store d.
       fails_with ReplayConflict
         (fst (commit demo_codec store (simple_record 1 2 8 1000 (ascii ''b'')) d))))"

definition ci24_replay_same_outpoints_different_outputs :: bool where
  "ci24_replay_same_outpoints_different_outputs \<longleftrightarrow>
     with_store (\<lambda>store d.
       commit_then store (simple_record 1 1 7 1000 (ascii ''a'')) d Fresh (\<lambda>store d.
       fails_with Replay
         (fst (commit demo_codec store (simple_record 2 9 7 2000 (ascii ''b'')) d))))"

definition commit_rejects_unsigned_payload :: bool where
  "commit_rejects_unsigned_payload \<longleftrightarrow>
     (let rec = (simple_record 1 1 7 1000 (ascii ''signed''))\<lparr>rr_payload := Unsigned\<rparr>
      in with_store (\<lambda>store d. fails_with Internal (fst (commit demo_codec store rec d))))"

definition d5_identical_outpoints_vault_change_only_is_feebump :: bool where
  "d5_identical_outpoints_vault_change_only_is_feebump \<longleftrightarrow>
     (let orig = spend_with_change 1 1 [7] 50000 20000 (ascii ''orig'');
          bump = spend_with_change 2 9 [7] 50000 15000 (ascii ''bump'');
          diverted = spend_with_change 3 3 [7] 50001 14999 (ascii ''divert'');
          raised = spend_with_change 4 4 [7] 50000 21000 (ascii ''up'')
      in with_store (\<lambda>store d. commit_then store orig d Fresh (\<lambda>store d.
           commit_then store bump d FeeBump (\<lambda>store d.
           fails_with Replay (preflight store diverted) \<and>
           fails_with Replay (preflight store raised)))))"

definition d5_added_vault_input_is_replay :: bool where
  "d5_added_vault_input_is_replay \<longleftrightarrow>
     (let orig = spend_with_change 1 1 [7] 50000 20000 (ascii ''orig'');
          added = spend_with_change 2 9 [7, 8] 50000 15000 (ascii ''extra-in'')
      in with_store (\<lambda>store d. commit_then store orig d Fresh (\<lambda>store d.
           fails_with Replay (preflight store added))))"

definition d5_dropped_vault_input_is_replay :: bool where
  "d5_dropped_vault_input_is_replay \<longleftrightarrow>
     (let orig = spend_with_change 1 1 [7, 8] 50000 20000 (ascii ''orig'');
          dropped = spend_with_change 2 9 [7] 50000 15000 (ascii ''drop-in'')
      in with_store (\<lambda>store d. commit_then store orig d Fresh (\<lambda>store d.
           fails_with Replay (preflight store dropped))))"

definition missing_store_refuses :: bool where
  "missing_store_refuses \<longleftrightarrow>
     fails_with Internal (fst (open_store demo_codec (demo_blank (\<lambda>_. IoOk))))"

text \<open>The corruption is another process writing \<open>{not json\<close> into the records file.\<close>

definition corrupt_records :: "disk \<Rightarrow> disk" where
  "corrupt_records d =
     (case entries d RECORDS_FILE of
        Some i \<Rightarrow> d\<lparr>inodes := (inodes d)(i := (inodes d i)\<lparr>cached := ascii ''{not json''\<rparr>)\<rparr>
      | None \<Rightarrow> d)"

definition corrupt_store_refuses :: "codec_lib \<Rightarrow> bool" where
  "corrupt_store_refuses C \<longleftrightarrow>
     (case init_store C (demo_blank (\<lambda>_. IoOk)) of
        (Inr store, d) \<Rightarrow> fails_with Internal (fst (open_store C (corrupt_records d)))
      | _ \<Rightarrow> False)"

definition replay_id_binds_request_txid_and_content :: bool where
  "replay_id_binds_request_txid_and_content \<longleftrightarrow>
     (let L = test_lib []; rid = replicate 16 1; txid = replicate 32 2;
          content = psbt_content_hash L (ascii ''psbt-bytes'');
          a = replay_id L rid txid content; b = replay_id L rid txid content;
          other = txid[0 := xor (txid ! 0) 1]
      in a = b \<and> a \<noteq> replay_id L rid other content \<and>
         a \<noteq> replay_id L rid txid (psbt_content_hash L (ascii ''other'')))"

section \<open>They pass\<close>

lemmas verdict_run =
  preflight_def outpoints_overlap_def outpoints_identical_def is_vault_change_only_def
  classify_outputs_def replay_fixtures test_lib_def

lemma replay_verdict_tests:
  ci24_replay_conflict_same_request_different_psbt ci24_replay_same_outpoints_different_outputs
  commit_rejects_unsigned_payload d5_identical_outpoints_vault_change_only_is_feebump
  d5_added_vault_input_is_replay d5_dropped_vault_input_is_replay
  unfolding ci24_replay_conflict_same_request_different_psbt_def
    ci24_replay_same_outpoints_different_outputs_def commit_rejects_unsigned_payload_def
    d5_identical_outpoints_vault_change_only_is_feebump_def d5_added_vault_input_is_replay_def
    d5_dropped_vault_input_is_replay_def Let_def
  by (intro with_store_run commit_then_run;
      simp add: verdict_run commit_def push_and_persist_def require_signed_payload_def)+

lemma reopened_retry:
  assumes "sessions C st acked d" and "codec_documented C" and "io_plan d = (\<lambda>_. IoOk)"
    and "r \<in> set acked" and "rr_payload r = Signed raw"
  shows "\<exists>st' d'. open_store C d = (Inr st', d') \<and> preflight st' r = Inr (Idempotent raw)"
proof -
  from sessions_inv [OF assms(1,2)] obtain a where
    a: "store_inv C (records st) a d" "set acked \<subseteq> set (take a (records st))"
    and wf: "\<forall>r\<in>set (records st). wf_record r" and log: "log_inv (records st)" by blast
  from a(1) assms(2) wf assms(3) obtain st' c k where
    o: "open_store C d = (Inr st', d\<lparr>io_clock := k\<rparr>)" "records st' = take c (records st)" "a \<le> c"
    by (rule open_succeeds)
  from a(2) assms(4) o(2,3) set_take_subset_set_take have "r \<in> set (records st')" by fastforce
  with log_retry [of st' r] log_inv_take [OF log] o assms(5) show ?thesis by auto
qed

lemma retry_test: ci24_idempotent_retry_returns_cached_payload
proof -
  let ?first = "simple_record 1 1 7 1000 (ascii ''signed-psbt-v1'')"
  let ?st = "\<lparr>records = [?first]\<rparr>" and ?raw = "ascii ''signed-psbt-v1''"
  obtain d where d: "fresh_store = (Inr \<lparr>records = []\<rparr>, d)" "io_plan d = (\<lambda>_. IoOk)"
    "sessions demo_codec \<lparr>records = []\<rparr> [] d" by (rule fresh_store_run)
  have payload: "rr_payload ?first = Signed ?raw" by (simp add: replay_fixtures)
  have fresh: "preflight \<lparr>records = []\<rparr> ?first = Inr Fresh" by (simp add: preflight_def)
  have "require_signed_payload ?first = Inr ()"
    using payload by (simp add: require_signed_payload_def)
  from commit_succeeds [OF demo_codec_total d(2) fresh _ this] obtain d1 where
    run: "commit demo_codec \<lparr>records = []\<rparr> ?first d = (Inr Fresh, ?st, d1)" by auto
  have wf: "wf_record ?first"
    by (simp add: wf_record_def replay_fixtures test_lib_def ascii_def)
  have again: "commit demo_codec ?st ?first d1 = (Inr (Idempotent ?raw), ?st, d1)"
    using payload by (simp add: commit_def preflight_def)
  from sessions.acknowledged [OF d(3) wf run] have "sessions demo_codec ?st [?first] d1" by simp
  from reopened_retry [OF this demo_codec_documented _ _ payload] commit_frame [OF run] d(2)
  obtain st' d' where "open_store demo_codec d1 = (Inr st', d')"
    "preflight st' ?first = Inr (Idempotent ?raw)" by auto
  with run again show ?thesis
    unfolding ci24_idempotent_retry_returns_cached_payload_def with_store_def d(1)
    by (simp add: commit_then_def Let_def)
qed

text \<open>A codec that fails on the bytes of the test, as the real one does.\<close>

definition checking_codec :: codec_lib where
  "checking_codec = demo_codec\<lparr>json_from_slice :=
     (\<lambda>raw. if raw = ascii ''{not json'' then None else Some (get_file raw))\<rparr>"

lemma checking_codec_simps:
  "json_to_vec checking_codec f = Some (put_file f)"
  "json_from_slice checking_codec (put_file f) = Some f"
  "json_from_slice checking_codec (ascii ''{not json'') = None"
proof -
  have "32 < length (put_file f)" by (simp add: put_file_def put_list_def)
  then have "put_file f \<noteq> ascii ''{not json''" by (auto simp: ascii_def)
  then show "json_to_vec checking_codec f = Some (put_file f)"
    "json_from_slice checking_codec (put_file f) = Some f"
    "json_from_slice checking_codec (ascii ''{not json'') = None"
    by (simp_all add: checking_codec_def)
qed

lemma refusal_tests:
  missing_store_refuses "corrupt_store_refuses checking_codec"
  by (simp_all add: missing_store_refuses_def corrupt_store_refuses_def corrupt_records_def
      checking_codec_simps demo_run_defs araise_def)

lemma replay_id_test: replay_id_binds_request_txid_and_content
proof -
  have "(replicate 32 (2 :: u8))[0 := 3] ! 0 \<noteq> replicate 32 2 ! 0" by simp
  then have "(replicate 32 (2 :: u8))[0 := 3] \<noteq> replicate 32 2" by metis
  then show ?thesis
    by (simp add: replay_id_binds_request_txid_and_content_def replay_id_def psbt_content_hash_def
        test_lib_def ascii_def Let_def)
qed

end
