(* ===== verification/Tests_Evaluate.thy ===== *)
theory Tests_Evaluate
  imports Tests_Replay
begin

text \<open>
  The unit tests of \<open>evaluate.rs\<close>, run on the model: one mature recovery spend, and every way the
  tests change it. The keys of the tests are \<open>test_key\<close>, \<open>sign_confirm\<close> is \<open>sign_compact\<close>, and
  \<open>serialize\<close> is the table given to \<open>test_lib\<close>. The destination is a script of its length, not of
  a key; the one check on the text of a message (dust) is a check of the code alone.
\<close>

section \<open>Fixtures\<close>

definition keys_pin :: agent_pin where
  "keys_pin = projr (provision_for_test Regtest 10)"

definition dest_script :: script where
  "dest_script = 0 # 20 # replicate 20 9"

definition test_outpoint :: "u8 \<Rightarrow> out_point" where
  "test_outpoint n = \<lparr>op_txid = n # replicate 31 0, op_vout = 0\<rparr>"

definition rid :: "u8 \<Rightarrow> bytes" where
  "rid n = n # replicate 15 0"

record spend_parts =
  sp_value :: u64
  sp_ops :: "out_point list"
  sp_external :: u64
  sp_change :: u64
  sp_fee :: u64

definition default_spend :: spend_parts where
  "default_spend =
     \<lparr>sp_value = 20000000, sp_ops = [test_outpoint 7], sp_external = 1000000,
      sp_change = 18999000, sp_fee = 1000\<rparr>"

definition build_psbt ::
    "agent_pin \<Rightarrow> spend_parts \<Rightarrow> u32 \<Rightarrow> lock_time \<Rightarrow> ecdsa_sighash_type option \<Rightarrow> psbt" where
  "build_psbt pin parts sequence locktime sighash =
     (let outputs = \<lparr>txo_value = sp_external parts, txo_script_pubkey = dest_script\<rparr> #
            (if 0 < sp_change parts
             then [\<lparr>txo_value = sp_change parts, txo_script_pubkey = pin_script_pubkey pin\<rparr>] else []);
          tx = \<lparr>tx_version = 2, tx_lock_time = locktime,
                tx_input = map (\<lambda>op. \<lparr>previous_output = op, script_sig = [],
                                      tx_sequence = sequence, tx_witness = []\<rparr>) (sp_ops parts),
                tx_output = outputs\<rparr>;
          psbt = from_unsigned_tx tx
      in psbt\<lparr>psbt_inputs := map (\<lambda>input. input
           \<lparr>witness_utxo := Some \<lparr>txo_value = sp_value parts,
                                  txo_script_pubkey = pin_script_pubkey pin\<rparr>,
            witness_script := Some (pin_witness_script pin),
            psbt_sighash_type := map_option (psbt_sighash_from (test_lib [])) sighash\<rparr>)
           (psbt_inputs psbt)\<rparr>)"

definition mature_chain :: "agent_pin \<Rightarrow> spend_parts \<Rightarrow> chain_view" where
  "mature_chain pin parts =
     (let need = pin_csv_blocks pin + pin_safety_margin pin; height = 1;
          tip = height + need - 1; t0 = 1700000000;
          now = t0 + ucast need * pin_wall_clock_seconds_per_block pin
      in view_from_test_facts (pin_genesis_hash pin) tip now
           (map (\<lambda>op. fact_from_test_facts op (sp_value parts) (pin_script_pubkey pin) height t0 True)
              (sp_ops parts)))"

text \<open>\<open>eval_ok\<close> and \<open>eval_err\<close>: the tests unwrap the result either way.\<close>

definition eval_request ::
    "(bytes \<times> psbt) list \<Rightarrow> bytes \<Rightarrow> bytes \<Rightarrow> u64 \<Rightarrow> chain_view \<Rightarrow> replay_store \<Rightarrow> bytes option \<Rightarrow>
     velocity_sample list \<Rightarrow> policy_outcome policy_result" where
  "eval_request serialized raw request_id claimed chain store token samples =
     evaluate (test_lib serialized) keys_pin
       \<lparr>req_request_id = request_id, req_psbt_bytes = raw, req_confirm_token = token,
        req_claimed_external_sats = claimed\<rparr> for_test_verified chain store samples"

text \<open>The recovery sequence of the pin, and the PSBT most tests build.\<close>

definition recovery_seq :: u32 where
  "recovery_seq = sequence_from_height (test_lib []) (ucast (pin_csv_blocks keys_pin))"

abbreviation recovery_spend :: "spend_parts \<Rightarrow> psbt" where
  "recovery_spend parts \<equiv>
     build_psbt keys_pin parts recovery_seq LOCK_TIME_ZERO (Some SighashAll)"

text \<open>One request to an empty store that must be refused.\<close>

definition refused :: "policy_error_code \<Rightarrow> spend_parts \<Rightarrow> psbt \<Rightarrow> chain_view \<Rightarrow> bool" where
  "refused code parts psbt chain =
     fails_with code (eval_request [([1], psbt)] [1] (rid 1) (sp_external parts) chain
       \<lparr>records = []\<rparr> None [])"

definition commit_validated ::
    "replay_store \<Rightarrow> disk \<Rightarrow> policy_outcome policy_result \<Rightarrow> bytes \<Rightarrow>
     (replay_store \<Rightarrow> disk \<Rightarrow> bool) \<Rightarrow> bool" where
  "commit_validated store d result payload test =
     (case result of
        Inr (ValidatedUnsigned verdict record amounts) \<Rightarrow>
          (case attach_signed record payload of
             Inr attached \<Rightarrow> commit_then store attached d verdict test
           | Inl _ \<Rightarrow> False)
      | _ \<Rightarrow> False)"

section \<open>Single requests\<close>

definition happy_path_fresh_spend :: bool where
  "happy_path_fresh_spend \<longleftrightarrow>
     (let parts = default_spend
      in case eval_request [([1], recovery_spend parts)] [1] (rid 1) (sp_external parts)
                (mature_chain keys_pin parts) \<lparr>records = []\<rparr> None [] of
           Inr (ValidatedUnsigned verdict record amounts) \<Rightarrow>
             verdict = Fresh \<and> rr_vault_script record = pin_script_pubkey keys_pin \<and>
             rr_payload record = Unsigned \<and> signed_bytes (rr_payload record) = None \<and>
             fails_with Internal (attach_signed record []) \<and>
             (case attach_signed record (ascii ''partial'') of
                Inr attached \<Rightarrow> rr_payload attached = Signed (ascii ''partial'') \<and>
                             signed_bytes (rr_payload attached) = Some (ascii ''partial'')
              | Inl _ \<Rightarrow> False) \<and>
             ab_external_sats amounts = sp_external parts \<and>
             ab_change_sats amounts = sp_change parts \<and> ab_fee_sats amounts = sp_fee parts
         | _ \<Rightarrow> False)"

definition auth_fails_before_parse :: bool where
  "auth_fails_before_parse \<longleftrightarrow>
     fails_with Auth
       (evaluate (test_lib []) keys_pin
          \<lparr>req_request_id = rid 1, req_psbt_bytes = ascii ''not-a-psbt'', req_confirm_token = None,
           req_claimed_external_sats = 1\<rparr> for_test_rejected
          (mature_chain keys_pin default_spend) \<lparr>records = []\<rparr> [])"

definition malformed_psbt_is_psbt_parse :: bool where
  "malformed_psbt_is_psbt_parse \<longleftrightarrow>
     fails_with PsbtParse
       (eval_request [] (ascii ''not-a-psbt'') (rid 1) 1 (mature_chain keys_pin default_spend)
          \<lparr>records = []\<rparr> None [])"

definition non_v0_psbt_is_psbt_parse :: bool where
  "non_v0_psbt_is_psbt_parse \<longleftrightarrow>
     (let parts = default_spend
      in refused PsbtParse parts ((recovery_spend parts)\<lparr>psbt_version := 2\<rparr>)
           (mature_chain keys_pin parts))"

definition sighash_missing_rejected :: bool where
  "sighash_missing_rejected \<longleftrightarrow>
     (let parts = default_spend
      in refused Sighash parts (build_psbt keys_pin parts recovery_seq LOCK_TIME_ZERO None)
           (mature_chain keys_pin parts))"

definition locktime_nonzero_rejected :: bool where
  "locktime_nonzero_rejected \<longleftrightarrow>
     (let parts = default_spend
      in refused Locktime parts (build_psbt keys_pin parts recovery_seq (Blocks 1) (Some SighashAll))
           (mature_chain keys_pin parts))"

definition sighash_not_all_rejected :: bool where
  "sighash_not_all_rejected \<longleftrightarrow>
     (let parts = default_spend
      in refused Sighash parts
           (build_psbt keys_pin parts recovery_seq LOCK_TIME_ZERO (Some SighashNone))
           (mature_chain keys_pin parts))"

text \<open>The tests change the first input of the PSBT in place.\<close>

definition with_input :: "(psbt_input \<Rightarrow> psbt_input) \<Rightarrow> psbt \<Rightarrow> psbt" where
  "with_input f psbt =
     psbt\<lparr>psbt_inputs := (psbt_inputs psbt)[0 := f (psbt_inputs psbt ! 0)]\<rparr>"

definition foreign_input_rejected :: bool where
  "foreign_input_rejected \<longleftrightarrow>
     (let parts = default_spend; foreign = dest_script;
          psbt = with_input (\<lambda>input. input\<lparr>witness_utxo :=
            map_option (\<lambda>utxo. utxo\<lparr>txo_script_pubkey := foreign\<rparr>) (witness_utxo input)\<rparr>)
            (recovery_spend parts)
      in case with_test_prevout_script (mature_chain keys_pin parts) 0 foreign of
           Some chain \<Rightarrow> refused ForeignInput parts psbt chain
         | None \<Rightarrow> False)"

definition witness_script_mismatch_is_descriptor_mismatch :: bool where
  "witness_script_mismatch_is_descriptor_mismatch \<longleftrightarrow>
     (let parts = default_spend
      in refused DescriptorMismatch parts
           (with_input (\<lambda>input. input\<lparr>witness_script := Some []\<rparr>) (recovery_spend parts))
           (mature_chain keys_pin parts))"

definition not_recovery_path_bad_sequence :: bool where
  "not_recovery_path_bad_sequence \<longleftrightarrow>
     (let parts = default_spend
      in refused NotRecoveryPath parts
           (build_psbt keys_pin parts 0xFFFFFFFD LOCK_TIME_ZERO (Some SighashAll))
           (mature_chain keys_pin parts))"

definition csv_immature_depth_from_chain_facts :: bool where
  "csv_immature_depth_from_chain_facts \<longleftrightarrow>
     (let parts = default_spend
      in refused CsvImmatureDepth parts (recovery_spend parts)
           (with_test_tip_height (mature_chain keys_pin parts) 10))"

definition vault_change_below_dust_is_rejected :: bool where
  "vault_change_below_dust_is_rejected \<longleftrightarrow>
     (let parts = default_spend\<lparr>sp_change := 1,
            sp_external := sp_value default_spend - 1 - sp_fee default_spend\<rparr>
      in refused Dust parts (recovery_spend parts) (mature_chain keys_pin parts))"

definition attach_signed_from_outside_replay_module_requires_non_empty :: bool where
  "attach_signed_from_outside_replay_module_requires_non_empty \<longleftrightarrow>
     (let parts = default_spend
      in case eval_request [([1], recovery_spend parts)] [1] (rid 1) (sp_external parts)
                (mature_chain keys_pin parts) \<lparr>records = []\<rparr> None [] of
           Inr (ValidatedUnsigned verdict record amounts) \<Rightarrow>
             rr_payload record = Unsigned \<and> fails_with Internal (attach_signed record []) \<and>
             (case attach_signed record (ascii ''agent-partial'') of
                Inr attached \<Rightarrow> rr_payload attached = Signed (ascii ''agent-partial'')
              | Inl _ \<Rightarrow> False)
         | _ \<Rightarrow> False)"

section \<open>The pin and the run\<close>

lemma keys_pin_fields:
  "pin_network keys_pin = Regtest" "pin_genesis_hash keys_pin = replicate 31 0 @ [6]"
  "pin_csv_blocks keys_pin = 10" "pin_primary_pubkey keys_pin = test_key 1"
  "pin_override_pubkey keys_pin = test_key 2" "pin_agent_pubkey keys_pin = test_key 3"
  "pin_safety_margin keys_pin = 1008" "pin_velocity_per_sig_sats keys_pin = 10000000"
  "pin_velocity_per_144_sats keys_pin = 50000000"
  "pin_confirm_threshold_sats keys_pin = 5000000"
  "pin_wall_clock_seconds_per_block keys_pin = 600"
  "pin_script_pubkey keys_pin = 0 # 32 # replicate 32 7"
  "pin_witness_script keys_pin = [0x52, 0xae]"
  by (simp_all add: keys_pin_def provision_for_test_def pin_code test_miniscript_def test_lib_def
      policy_constants OOB_CONFIRM_SATS_def)

lemmas evaluate_run =
  policy_code keys_pin_fields dest_script_def test_outpoint_def rid_def default_spend_def
  build_psbt_def mature_chain_def eval_request_def recovery_seq_def refused_def
  test_crates test_facts test_key_def to_be_bytes_def drop_bit_eq_div

lemma single_request_tests:
  happy_path_fresh_spend auth_fails_before_parse malformed_psbt_is_psbt_parse
  non_v0_psbt_is_psbt_parse sighash_missing_rejected locktime_nonzero_rejected
  sighash_not_all_rejected foreign_input_rejected
  witness_script_mismatch_is_descriptor_mismatch not_recovery_path_bad_sequence
  csv_immature_depth_from_chain_facts vault_change_below_dust_is_rejected
  attach_signed_from_outside_replay_module_requires_non_empty
  by (simp_all add: happy_path_fresh_spend_def auth_fails_before_parse_def
      malformed_psbt_is_psbt_parse_def non_v0_psbt_is_psbt_parse_def
      sighash_missing_rejected_def locktime_nonzero_rejected_def sighash_not_all_rejected_def
      foreign_input_rejected_def witness_script_mismatch_is_descriptor_mismatch_def with_input_def
      not_recovery_path_bad_sequence_def csv_immature_depth_from_chain_facts_def
      vault_change_below_dust_is_rejected_def attach_signed_def
      attach_signed_from_outside_replay_module_requires_non_empty_def ascii_def evaluate_run)

section \<open>Several requests to one store\<close>

text \<open>
  The tests sign the confirmation of a request with the override key: the request, the txid of the
  PSBT and the external amount, on the network of the pin.
\<close>

definition confirm_token_of :: "bytes \<Rightarrow> psbt \<Rightarrow> u64 \<Rightarrow> bytes" where
  "confirm_token_of request_id psbt external =
     sign_compact
       \<lparr>cb_request_id = request_id,
        cb_txid_display = txid_display_bytes (compute_txid (test_lib []) (unsigned_tx psbt)),
        cb_external_amount_sats = external,
        cb_genesis_internal = genesis_internal_bytes (pin_genesis_hash keys_pin)\<rparr>"

text \<open>One of the tests' requests: \<open>n\<close> names the request and stands for the serialized PSBT.\<close>

definition submit ::
    "u8 \<Rightarrow> spend_parts \<Rightarrow> psbt \<Rightarrow> chain_view \<Rightarrow> replay_store \<Rightarrow> bytes option \<Rightarrow>
     velocity_sample list \<Rightarrow> policy_outcome policy_result" where
  "submit n parts psbt chain store token samples =
     eval_request [([n], psbt)] [n] (rid n) (sp_external parts) chain store token samples"

definition validates_as :: "replay_verdict \<Rightarrow> policy_outcome policy_result \<Rightarrow> bool" where
  "validates_as verdict result \<longleftrightarrow>
     (case result of Inr (ValidatedUnsigned v _ _) \<Rightarrow> v = verdict | _ \<Rightarrow> False)"

definition large_spend :: spend_parts where
  "large_spend = default_spend\<lparr>sp_external := 5000000, sp_change := 14999000\<rparr>"

definition bump_of :: "spend_parts \<Rightarrow> spend_parts" where
  "bump_of parts = parts\<lparr>sp_change := sp_change parts - 500, sp_fee := sp_fee parts + 500\<rparr>"

definition counted_sample :: "chain_view \<Rightarrow> spend_parts \<Rightarrow> velocity_sample" where
  "counted_sample chain parts =
     \<lparr>sample_tip_height = chain_tip_height chain, sample_external_sats = sp_external parts\<rparr>"

definition confirm_external_only_and_rebound_txid :: bool where
  "confirm_external_only_and_rebound_txid \<longleftrightarrow>
     (let parts = large_spend; psbt = recovery_spend parts; chain = mature_chain keys_pin parts;
          small = default_spend\<lparr>sp_ops := [test_outpoint 8], sp_external := 4999999,
                                sp_change := 15000001 - 1000\<rparr>
      in with_store (\<lambda>store d.
           fails_with ConfirmRequired (submit 1 parts psbt chain store None []) \<and>
           commit_validated store d
             (submit 1 parts psbt chain store
                (Some (confirm_token_of (rid 1) psbt (sp_external parts))) [])
             (ascii ''signed-1'') (\<lambda>store d.
           succeeds (submit 2 small (recovery_spend small) (mature_chain keys_pin small)
             store None []))))"

definition d5_vault_change_only_is_feebump_and_runs_full_policy :: bool where
  "d5_vault_change_only_is_feebump_and_runs_full_policy \<longleftrightarrow>
     (let parts = default_spend; chain = mature_chain keys_pin parts; bump = bump_of parts
      in with_store (\<lambda>store d.
           commit_validated store d (submit 1 parts (recovery_spend parts) chain store None [])
             (ascii ''orig'') (\<lambda>store d.
           let result = submit 2 bump (recovery_spend bump) chain store None
                 [counted_sample chain parts]
           in (case result of
                 Inr (ValidatedUnsigned verdict _ amounts) \<Rightarrow>
                   verdict = FeeBump \<and> ab_external_sats amounts = sp_external parts \<and>
                   sp_fee parts < ab_fee_sats amounts
               | _ \<Rightarrow> False) \<and>
              commit_validated store d result (ascii ''bump'') (\<lambda>_ _. True))))"

definition d5_added_or_dropped_input_is_replay :: bool where
  "d5_added_or_dropped_input_is_replay \<longleftrightarrow>
     (let parts = default_spend\<lparr>sp_ops := [test_outpoint 7, test_outpoint 8],
            sp_value := 10000000, sp_change := 18999000\<rparr>;
          dropped = parts\<lparr>sp_ops := [test_outpoint 7], sp_change := 8999000\<rparr>;
          added = parts\<lparr>sp_ops := [test_outpoint 7, test_outpoint 8, test_outpoint 9],
            sp_change := 28999000\<rparr>
      in with_store (\<lambda>store d.
           commit_validated store d
             (submit 1 parts (recovery_spend parts) (mature_chain keys_pin parts) store None [])
             (ascii ''orig'') (\<lambda>store d.
           fails_with Replay (submit 2 dropped (recovery_spend dropped)
             (mature_chain keys_pin dropped) store None []) \<and>
           fails_with Replay (submit 3 added (recovery_spend added)
             (mature_chain keys_pin added) store None []))))"

definition d5_external_diversion_or_e_increase_or_change_increase_is_replay :: bool where
  "d5_external_diversion_or_e_increase_or_change_increase_is_replay \<longleftrightarrow>
     (let parts = default_spend; chain = mature_chain keys_pin parts;
          more_e = parts\<lparr>sp_external := sp_external parts + 1, sp_change := sp_change parts - 1\<rparr>;
          more_c = parts\<lparr>sp_change := sp_change parts + 1, sp_fee := sp_fee parts - 1\<rparr>;
          tx = unsigned_tx (recovery_spend parts);
          out = tx_output tx ! 0;
          diverted = (recovery_spend parts)\<lparr>unsigned_tx := tx\<lparr>tx_output :=
            (tx_output tx)[0 := out\<lparr>txo_script_pubkey := 0 # 0x14 # replicate 20 0xcd\<rparr>]\<rparr>\<rparr>
      in with_store (\<lambda>store d.
           commit_validated store d (submit 1 parts (recovery_spend parts) chain store None [])
             (ascii ''orig'') (\<lambda>store d.
           fails_with Replay (submit 2 more_e (recovery_spend more_e) chain store None []) \<and>
           fails_with Replay (submit 3 more_c (recovery_spend more_c) chain store None []) \<and>
           fails_with Replay (submit 4 parts diverted chain store None []))))"

definition d5_confirm_token_must_rebind_new_request_and_txid :: bool where
  "d5_confirm_token_must_rebind_new_request_and_txid \<longleftrightarrow>
     (let parts = large_spend; psbt = recovery_spend parts; chain = mature_chain keys_pin parts;
          token1 = confirm_token_of (rid 1) psbt (sp_external parts);
          bump = bump_of parts; bump_psbt = recovery_spend bump;
          token2 = confirm_token_of (rid 2) bump_psbt (sp_external bump)
      in with_store (\<lambda>store d.
           commit_validated store d (submit 1 parts psbt chain store (Some token1) [])
             (ascii ''orig'') (\<lambda>store d.
           fails_with ConfirmInvalid (submit 2 bump bump_psbt chain store (Some token1) []) \<and>
           validates_as FeeBump (submit 2 bump bump_psbt chain store (Some token2)
             [counted_sample chain parts]))))"

lemma commit_validated_run:
  assumes "io_plan d = (\<lambda>_. IoOk)" and "payload \<noteq> []"
    and "case result of
           Inr (ValidatedUnsigned v r amounts) \<Rightarrow>
             (v = Fresh \<or> v = FeeBump) \<and> preflight st (r\<lparr>rr_payload := Signed payload\<rparr>) = Inr v \<and>
             (\<forall>d'. io_plan d' = (\<lambda>_. IoOk) \<longrightarrow>
               test (st\<lparr>records := records st @ [r\<lparr>rr_payload := Signed payload\<rparr>]\<rparr>) d')
         | _ \<Rightarrow> False"
  shows "commit_validated st d result payload test"
  using assms(2,3) commit_then_run [OF assms(1)]
  by (simp add: commit_validated_def attach_signed_def split: sum.splits policy_outcome.splits)

lemmas store_run =
  evaluate_run verdict_run submit_def large_spend_def bump_of_def counted_sample_def
  confirm_token_of_def sign_compact_def ascii_def confirm_message_def length_test_sign
  test_sign_def confirm_preimage_def CONFIRM_DOMAIN_def CONFIRM_LAYOUT_VERSION_def
  genesis_internal_bytes_def txid_display_bytes_def validates_as_def enforce_fee_bump_policy_def
  first_external_sats_def saturating_sub_def

lemma replicate_numeral: "replicate (numeral k) x = x # replicate (pred_numeral k) x"
  by (simp add: numeral_eq_Suc)

lemma confirm_threshold_test: confirm_external_only_and_rebound_txid
  unfolding confirm_external_only_and_rebound_txid_def Let_def
  by (rule with_store_run, rule conjI, simp add: store_run,
      rule commit_validated_run, assumption, simp add: ascii_def, simp add: store_run)

lemma fee_bump_test: d5_vault_change_only_is_feebump_and_runs_full_policy
  unfolding d5_vault_change_only_is_feebump_and_runs_full_policy_def Let_def
  by (rule with_store_run, rule commit_validated_run, assumption, simp add: ascii_def,
      simp add: store_run, intro allI impI,
      simp add: commit_validated_run ascii_def verdict_run)

lemma changed_inputs_test: d5_added_or_dropped_input_is_replay
  unfolding d5_added_or_dropped_input_is_replay_def Let_def
  by (rule with_store_run, rule commit_validated_run, assumption, simp add: ascii_def,
      simp add: store_run)

lemma changed_outputs_test: d5_external_diversion_or_e_increase_or_change_increase_is_replay
  unfolding d5_external_diversion_or_e_increase_or_change_increase_is_replay_def Let_def
  by (rule with_store_run, rule commit_validated_run, assumption, simp add: ascii_def,
      simp add: store_run)

lemma rebound_token_test: d5_confirm_token_must_rebind_new_request_and_txid
  unfolding d5_confirm_token_must_rebind_new_request_and_txid_def Let_def
  by (rule with_store_run, rule commit_validated_run, assumption, simp add: ascii_def,
      simp add: store_run, simp add: replicate_numeral)

end
