(* ===== verification/Tests_Spend.thy ===== *)
theory Tests_Spend
  imports Tests_Vault Tests_Checks Spend_Correct
begin

text \<open>
  The unit tests of \<open>spend.rs\<close>, run on the model. A key is its seed; the transaction text is decoded
  to the transaction that was signed, as the code's serialisation does.
\<close>

definition test_vault_key :: "key_role \<Rightarrow> u8 \<Rightarrow> vault_key" where
  "test_vault_key role seed = \<lparr>vk_role = role, vk_inner = [seed]\<rparr>"

text \<open>The vault of three seeds, as all tests build it.\<close>

definition vault_for_test :: "u8 \<Rightarrow> u8 \<Rightarrow> u8 \<Rightarrow> vault_descriptor vault_result" where
  "vault_for_test a b c = build_for_test a b c Regtest"

definition lib_of :: "u8 \<Rightarrow> u8 \<Rightarrow> u8 \<Rightarrow> transaction option \<Rightarrow> (string, string \<times> bytes) vault_lib" where
  "lib_of a b c = wallet_lib (toy_key a, toy_key b, toy_key c)"

definition utxo_for_test ::
    "(string, string \<times> bytes) vault_lib \<Rightarrow> vault_descriptor \<Rightarrow> u64 \<Rightarrow> u32 \<Rightarrow> bool \<Rightarrow>
     vault_utxo vault_result" where
  "utxo_for_test V vault sats conf mature =
     rbind (address wsh_miniscript V vault) (\<lambda>addr.
     Inr \<lparr>vu_outpoint = \<lparr>op_txid = replicate 32 0, op_vout = 0xFFFFFFFF\<rparr>,
          vu_txout = \<lparr>txo_value = sats, txo_script_pubkey = address_script_pubkey V addr\<rparr>,
          vu_confirmations = conf, vu_spendable_primary = True, vu_spendable_recovery = mature\<rparr>)"

definition dest_for_test :: "u8 \<Rightarrow> string" where
  "dest_for_test seed = shown_address (hrp Regtest, 0 # 20 # replicate 20 seed)"

text \<open>Build and sign, then validate what was built with the decoder of the signed transaction.\<close>

definition sign_then ::
    "(transaction option \<Rightarrow> (string, string \<times> bytes) vault_lib) \<Rightarrow> vault_descriptor \<Rightarrow>
     vault_utxo list \<Rightarrow> spend_request \<Rightarrow> vault_key list \<Rightarrow>
     ((string, string \<times> bytes) vault_lib \<Rightarrow> built_spend \<Rightarrow> transaction \<Rightarrow> bool) \<Rightarrow> bool" where
  "sign_then lib vault utxos req keys test =
     (case build_signed (test_lib []) wsh_miniscript (lib None) vault Regtest utxos req keys of
        Inr (change, tx) \<Rightarrow>
          (case build_and_sign (test_lib []) wsh_miniscript (lib (Some tx)) vault Regtest utxos req
              keys of
             Inr built \<Rightarrow> test (lib (Some tx)) built tx
           | Inl _ \<Rightarrow> False)
      | Inl _ \<Rightarrow> False)"

definition primary_path_signs :: bool where
  "primary_path_signs \<longleftrightarrow>
     (let keys = [test_vault_key PrimaryKey 1, test_vault_key OverrideKey 2];
          req = \<lparr>sq_destination = dest_for_test 99, sq_amount_sats = 100000, sq_fee_sats = 1000,
                 sq_path = Primary\<rparr>
      in case vault_for_test 1 2 3 of
           Inr vault \<Rightarrow>
             (case utxo_for_test (lib_of 1 2 3 None) vault 200000 1 False of
                Inr utxo \<Rightarrow> sign_then (lib_of 1 2 3) vault [utxo] req keys (\<lambda>V built tx.
                  bs_tx_hex built \<noteq> [] \<and>
                  fine (validate_built_spend (test_lib []) wsh_miniscript V built vault Regtest
                    [utxo] req) \<and>
                  \<not> fine (validate_built_spend (test_lib []) wsh_miniscript V
                    (built\<lparr>bs_txid := ''00''\<rparr>) vault Regtest [utxo] req))
              | Inl _ \<Rightarrow> False)
         | Inl _ \<Rightarrow> False)"

definition recovery_path_signs_with_primary_and_agent :: bool where
  "recovery_path_signs_with_primary_and_agent \<longleftrightarrow>
     (let keys = [test_vault_key PrimaryKey 11, test_vault_key AgentKey 13];
          req = \<lparr>sq_destination = dest_for_test 77, sq_amount_sats = 100000, sq_fee_sats = 1000,
                 sq_path = Recovery\<rparr>
      in case vault_for_test 11 12 13 of
           Inr vault \<Rightarrow>
             (case utxo_for_test (lib_of 11 12 13 None) vault 250000 20 True of
                Inr utxo \<Rightarrow> sign_then (lib_of 11 12 13) vault [utxo] req keys (\<lambda>V built tx.
                  tx_sequence (tx_input tx ! 0) = sequence_from_height (test_lib []) 10 \<and>
                  3 \<le> length (tx_witness (tx_input tx ! 0)) \<and>
                  fine (validate_built_spend (test_lib []) wsh_miniscript V built vault Regtest
                    [utxo] req))
              | Inl _ \<Rightarrow> False)
         | Inl _ \<Rightarrow> False)"

definition recovery_with_one_key_fails_instead_of_returning_partial_tx :: bool where
  "recovery_with_one_key_fails_instead_of_returning_partial_tx \<longleftrightarrow>
     (let V = lib_of 31 32 33 None
      in case vault_for_test 31 32 33 of
           Inr vault \<Rightarrow>
             (case utxo_for_test V vault 250000 20 True of
                Inr utxo \<Rightarrow>
                  build_and_sign (test_lib []) wsh_miniscript V vault Regtest [utxo]
                    \<lparr>sq_destination = vd_receive_address vault, sq_amount_sats = 100000,
                     sq_fee_sats = 1000, sq_path = Recovery\<rparr> [test_vault_key PrimaryKey 31] =
                  build_err CouldNotSatisfy
              | Inl _ \<Rightarrow> False)
         | Inl _ \<Rightarrow> False)"

definition rejects_arithmetic_overflow_before_coin_selection :: bool where
  "rejects_arithmetic_overflow_before_coin_selection \<longleftrightarrow>
     (case vault_for_test 21 22 23 of
        Inr vault \<Rightarrow>
          build_and_sign (test_lib []) wsh_miniscript (lib_of 21 22 23 None) vault Regtest []
            \<lparr>sq_destination = vd_receive_address vault, sq_amount_sats = 0xFFFFFFFFFFFFFFFF, sq_fee_sats = 1,
             sq_path = Primary\<rparr>
            [test_vault_key PrimaryKey 21, test_vault_key OverrideKey 22] =
          build_err TargetOverflow
      | Inl _ \<Rightarrow> False)"

section \<open>They pass\<close>

lemma vault_run: "vault_for_test a b c = Inr (wsh_vault a b c)"
  by (simp add: vault_for_test_def build_for_test_def build_run)

lemma wsh_vault_address:
  "address wsh_miniscript (wallet_lib keys decoded) (wsh_vault a b c) =
     Inr (''bcrt1'', [text_sum (wsh_text a b c)])"
  by (simp add: address_def wsh_vault_validates wsh_vault_network parsed_def)
    (simp add: wallet_lib_def hrp_def wsh_vault_def)

lemma wsh_vault_parsed: "parsed (wallet_lib keys decoded) (wsh_vault a b c) = Inr (wsh_text a b c)"
  by (simp add: parsed_def wallet_lib_def wsh_vault_def)

lemma read_shown: "read_address (shown_address (''bcrt1'', script)) = Some (''bcrt1'', script)"
  by (simp add: read_address_def shown_address_def comp_def)

lemma wsh_vault_fields:
  "vd_csv_blocks (wsh_vault a b c) = 10"
  "vd_receive_address (wsh_vault a b c) =
     shown_address (''bcrt1'', [text_sum (wsh_text a b c)])"
  by (simp_all add: wsh_vault_def shown_address_def)

lemma wallet_lib_fields:
  "address_from_str (wallet_lib keys decoded) = read_address"
  "address_require_network (wallet_lib keys decoded) =
     (\<lambda>a net. if fst a = hrp net then Some a else None)"
  "address_script_pubkey (wallet_lib keys decoded) = snd"
  "desc_satisfaction (wallet_lib keys decoded) = (\<lambda>_. test_satisfaction keys)"
  "p2wsh_sighash (wallet_lib keys decoded) =
     (\<lambda>_ vin ws sats _. Some (ws @ [of_nat vin, ucast sats]))"
  "sign_ecdsa (wallet_lib keys decoded) = (\<lambda>m k. m @ k)"
  "public_of_private (wallet_lib keys decoded) =
     (\<lambda>k. \<lparr>pk_compressed = True, pk_inner = k\<rparr>)"
  "tx_vsize (wallet_lib keys decoded) = (\<lambda>_. 200)"
  "tx_serialize (wallet_lib keys decoded) = (\<lambda>_. [7])"
  "tx_deserialize (wallet_lib keys decoded) = (\<lambda>_. decoded)"
  "bytes_to_hex (wallet_lib keys decoded) = map (\<lambda>b. char_of (unat b))"
  "hex_to_bytes (wallet_lib keys decoded) =
     (\<lambda>s. Some (map (\<lambda>c. of_nat (of_char c)) s))"
  "txid_to_string (wallet_lib keys decoded) = map (\<lambda>b. char_of (unat b))"
  "descriptor_explicit_script wsh_miniscript = (\<lambda>_. Some [83])"
  by (simp_all add: wallet_lib_def wsh_miniscript_def toy_miniscript_def)
lemmas spend_test_run =
  vault_run wsh_vault_address wsh_vault_required wsh_vault_parsed wsh_vault_fields
  wallet_lib_fields read_shown lib_of_def utxo_for_test_def dest_for_test_def test_vault_key_def
  hrp_def build_and_sign_def build_signed_def assemble_def select_coins_def
  sorted_candidates_def spendable_on_def checked_add_def checked_sub_def checked_mul_def
  MAX_SELECTED_INPUTS_def MAX_FEE_SATS_def MAX_FEE_RATE_SAT_PER_VB_def maximum_fee_def
  test_lib_def path_sequence_def LOCK_TIME_ZERO_def sign_inputs_def sign_step_def
  key_signatures_def public_key_of_def test_satisfaction_def map_filter_simps toy_key_def
  set_witness_def Let_def

lemmas validator_run =
  validate_built_spend_def check_outputs_def check_input_def available_coin_def
  ENABLE_RBF_NO_LOCKTIME_def to_be_bytes_def

lemma refused_spend_tests:
  recovery_with_one_key_fails_instead_of_returning_partial_tx
  rejects_arithmetic_overflow_before_coin_selection
  by (simp_all add: recovery_with_one_key_fails_instead_of_returning_partial_tx_def
      rejects_arithmetic_overflow_before_coin_selection_def spend_test_run)

lemma signed_spend_tests: recovery_path_signs_with_primary_and_agent primary_path_signs
  by (simp_all add: recovery_path_signs_with_primary_and_agent_def primary_path_signs_def
      sign_then_def spend_test_run)
    (simp_all add: spend_test_run validator_run)

end
