(* ===== verification/Spec2Isabelle.thy ===== *)
theory Spec2Isabelle
  imports Agent_Runs Policy_Agreement Cli_Correct Cli_Files Cli_Vault Tests_Evaluate Tests_Spend
begin

text \<open>
  Tesaurus is a research vault for Bitcoin: a 2-of-3 multisig (primary, override, agent) that after
  \<open>csv_blocks\<close> blocks can also be spent by primary and agent together (recovery). The repository has
  a command line tool (\<open>src/\<close>), the policy that a co-signing agent would have to enforce
  (\<open>tesaurus-policy/\<close>), and a disabled agent (\<open>tesaurus-agent/\<close>). This development models all three.

  \<^bold>\<open>Shared vocabulary.\<close> \<open>Prelude\<close>: Rust integers are words, a \<open>Result\<close> is a sum with the error on
  the left, \<open>?\<close> is \<open>rbind\<close>, checked arithmetic is \<open>checked_add\<close> and the like, and a loop that stops
  at the first error is \<open>try_each\<close>. Its locale \<open>gate\<close> is the contract of a check: it passes exactly
  on what its predicate allows and fails with its codes; every check over a list of inputs is
  reasoned about through it. \<open>Actions\<close>: the same over a state (disk, files, the world of a command).
  \<open>Text\<close>: UTF-8 strings, trimming and paths. \<open>Bitcoin_Types\<close>: transactions, PSBTs and the functions
  of the \<open>bitcoin\<close> and \<open>miniscript\<close> crates, which are fields of parameter records. What is assumed of
  them is always a named predicate (\<open>vault_documented\<close>, \<open>key_documented\<close>, \<open>state_json_documented\<close>,
  \<open>bip68_documented\<close>, ...), and each has an instance in the theory that uses it.

  \<^bold>\<open>The policy\<close> (\<open>tesaurus-policy/src\<close>, one theory per file).
  \<open>Errors\<close> (\<open>error.rs\<close>, \<open>constants.rs\<close>), \<open>Facts\<close>, \<open>Csv\<close>, \<open>Velocity\<close>, \<open>Structure\<close>, \<open>Confirm\<close> and \<open>Pin\<close>
  each hold the functions of their file and the exact set of inputs each accepts, over unbounded
  numbers, with the code of every rejection; \<open>Velocity\<close> adds the bound over any run of signatures
  with growing heights. \<open>Evaluate\<close> is the state machine of \<open>evaluate.rs\<close>, stage by stage;
  \<open>Evaluate_Stages\<close> characterises the stages, \<open>Evaluate_Spec\<close> states the policy declaratively and
  proves the two equivalent, \<open>Evaluate_Safety\<close> derives that no arithmetic panics, that a signature
  takes at most the external value plus a bounded fee, counted in the chain facts, that a large spend
  carries a token for its own message (nothing is assumed of ECDSA or SHA-256), and the rest.

  \<^bold>\<open>The replay store\<close> (\<open>replay.rs\<close>). \<open>Replay\<close> is the log in memory with \<open>preflight\<close>; \<open>Replay_Disk\<close>
  its stored form and \<open>init\<close>, \<open>open\<close>, \<open>commit\<close> over the file system of \<open>Disk\<close>, where a plan decides
  which system call fails. A power loss keeps, of the entries that were not synced, any combination
  (a rename alone never leaves a file under both names), and not even the store directory is sure to
  be found: \<open>init\<close> syncs the directory and never its parent. \<open>Path::exists\<close> and \<open>Path::is_dir\<close> are calls
  like any other, and read as \<open>false\<close> when they fail;
  \<open>Replay_Codec\<close> is an executable codec with the documented behaviour, on which all concrete runs
  are computed. \<open>Replay_Crash\<close> proves the invariant of a commit that fails anywhere;
  \<open>Replay_Sessions\<close> takes the histories of a store (an inductive relation of commits, restarts and
  power losses) and proves that acknowledged records survive in every store that opens, that a store
  opens after a power loss if its directory is found, what happens if it is not, and what \<open>init\<close>
  does to a store that is there; \<open>Replay_Service\<close> states what a caller
  relies on as a locale, proves the client properties in it once and interprets it for \<open>commit\<close>;
  \<open>Replay_Progress\<close> proves that a commit that was interrupted can be completed afterwards, again if
  the directory is found.

  \<^bold>\<open>Policy and store together.\<close> \<open>Evaluate_Records\<close> shows that what \<open>evaluate\<close> validates is
  committed once it is signed, and never before, and is read back. \<open>Agent_Runs\<close> is an agent around both: a step relation of
  requests that are evaluated, signed, committed and answered, of commits that fail, of cached
  replies and of restarts after a power loss. Over any such run what the agent releases stays within
  the caps if it counts every signature it tried to store; if it counts only the acknowledged ones,
  every commit that fails lets a retry release a signature that nothing counts.

  \<^bold>\<open>The command line tool\<close> (\<open>src/\<close>). \<open>Vault_Errors\<close> (\<open>error.rs\<close>), \<open>Descriptor\<close>, \<open>Wallet\<close>, \<open>Config\<close>,
  \<open>Rpc\<close> and \<open>Keys\<close> follow their files; \<open>State_Files\<close> has the state and configuration files of
  \<open>wallet.rs\<close>, \<open>config.rs\<close> and the binary; \<open>Coin_Selection\<close> and \<open>Spend\<close> are \<open>spend.rs\<close>. The file system
  of the tool (\<open>Files\<close>) has directories, links, modes, a umask and failing calls; \<open>File_Frames\<close> has a
  locale for statements of the form "whatever fails, files change only so", with the modes that
  directories may get, interpreted for new private files (\<open>Keys_Correct\<close>) and for rewriting the file
  of a path (\<open>State_Correct\<close>). \<open>Spend_Correct\<close>
  shows what a validated spend pays and that the validator accepts what the builder makes. \<open>Cli\<close> is
  \<open>bin/tesaurus.rs\<close>: every command, as a program over files, node, sent calls and output;
  \<open>Cli_Steps\<close> has the laws of its steps, \<open>Cli_Correct\<close> proves that nothing but the requested payment
  is ever sent, \<open>Cli_Files\<close> which files each command may write and that they are private, \<open>Cli_Vault\<close>
  that the vault that was initialised is the vault in use.

  \<^bold>\<open>The two together.\<close> \<open>Policy_Agreement\<close> puts a recovery spend of the tool before the policy of the
  agent and determines what the policy asks for beyond the tool's own checks.

  \<^bold>\<open>The unit tests.\<close> \<open>Tests_Checks\<close>, \<open>Tests_Replay\<close> and \<open>Tests_Evaluate\<close> (policy), \<open>Tests_Vault\<close> and
  \<open>Tests_Spend\<close> (tool and agent) hold the tests of the repository, each a boolean with the name of
  its function that runs the model on the test's input, with simple functions for the crates; that
  all of them pass is proved by evaluation. They are evidence that the definitions are the code's,
  beside the theorems.

  \<^bold>\<open>Bounds.\<close> Every Rust loop is over a list, so all functions are total and need no fuel, except for
  following symbolic links, where 40 links is the limit of Linux (\<open>MAX_LINKS\<close>). Statements about
  failures quantify over all plans, hence over every call at which a run can stop.

  \<^bold>\<open>Not modelled.\<close> The wording of error messages (an error is its reason with its data), argument
  parsing, the layout of printed lines, \<open>lib.rs\<close> (declarations and re-exports), erasing memory when
  keys are dropped, the branches for systems other than Unix, concurrent processes, and in paths the
  parts \<open>..\<close> and links in the directory part. Of the tests, those that search the crates' sources for
  file names, the one for unknown TOML fields and the one for the byte order of the genesis hash,
  which are about the sources and the crates, and checks on the text of messages.
\<close>

end
